(* ===== verification/Prelude.thy ===== *)
theory Prelude
  imports Main "HOL-Library.Word" "HOL-Library.Multiset" "HOL-Library.Sublist" "HOL-Library.List_Lexorder"
    "HOL-Library.Char_ord" "HOL-Library.Monad_Syntax"
begin

text \<open>
  What every component of the model shares: the parts of Go's \<open>strings\<close>, \<open>strconv\<close>,
  \<open>sort\<close> and \<open>fmt\<close> packages the operator calls, as executable functions on byte strings,
  and the generic lemmas on lists and strings that carry the component proofs.

  A Go string is a sequence of bytes and so is \<open>string\<close> (a list of 8-bit characters).
  Functions that Go defines on Unicode letters or spaces (\<open>ToUpper\<close>, \<open>ToLower\<close>,
  \<open>EqualFold\<close>, \<open>TrimSpace\<close>, \<open>Fields\<close>) are modelled on their ASCII part; bytes from
  128 upwards are left alone.  A Go pointer is an \<open>option\<close> whose \<open>None\<close> is nil; where the code
  dereferences a pointer without a check, the model's result is an \<open>option\<close> whose
  \<open>None\<close> is the run-time panic.  A Go \<open>error\<close> is an \<open>option\<close> of its message.
\<close>

named_theorems go_simps "unfoldings of the model's small operations"

type_synonym error = "string option"
type_synonym strmap = "(string \<times> string) list"
type_synonym int32 = "32 word"

subsection \<open>Bytes\<close>

definition is_upper :: "char \<Rightarrow> bool" where
  "is_upper c \<longleftrightarrow> 65 \<le> (of_char c :: nat) \<and> (of_char c :: nat) \<le> 90"

definition is_lower :: "char \<Rightarrow> bool" where
  "is_lower c \<longleftrightarrow> 97 \<le> (of_char c :: nat) \<and> (of_char c :: nat) \<le> 122"

definition is_digit :: "char \<Rightarrow> bool" where
  "is_digit c \<longleftrightarrow> 48 \<le> (of_char c :: nat) \<and> (of_char c :: nat) \<le> 57"

text \<open>\<open>unicode.IsSpace\<close> on ASCII: tab, newline, vertical tab, form feed, return, space.\<close>

definition is_space :: "char \<Rightarrow> bool" where
  "is_space c \<longleftrightarrow> (of_char c :: nat) \<in> {9, 10, 11, 12, 13, 32}"

definition lower_char :: "char \<Rightarrow> char" where
  "lower_char c = (if is_upper c then char_of (of_char c + (32 :: nat)) else c)"

definition upper_char :: "char \<Rightarrow> char" where
  "upper_char c = (if is_lower c then char_of (of_char c - (32 :: nat)) else c)"

subsection \<open>Package strings\<close>

definition strings_HasPrefix :: "string \<Rightarrow> string \<Rightarrow> bool" where
  [go_simps]: "strings_HasPrefix s p = prefix p s"

definition strings_HasSuffix :: "string \<Rightarrow> string \<Rightarrow> bool" where
  [go_simps]: "strings_HasSuffix s p = suffix p s"

definition strings_Contains :: "string \<Rightarrow> string \<Rightarrow> bool" where
  [go_simps]: "strings_Contains s sub = sublist sub s"

text \<open>The first, and the last, position of a substring; \<open>-1\<close> when there is none.\<close>

fun strings_Index :: "string \<Rightarrow> string \<Rightarrow> int" where
  "strings_Index [] sub = (if sub = [] then 0 else -1)"
| "strings_Index (c # cs) sub =
     (if prefix sub (c # cs) then 0
      else let i = strings_Index cs sub in if i = -1 then -1 else i + 1)"

fun strings_LastIndex :: "string \<Rightarrow> string \<Rightarrow> int" where
  "strings_LastIndex [] sub = (if sub = [] then 0 else -1)"
| "strings_LastIndex (c # cs) sub =
     (let i = strings_LastIndex cs sub
      in if i \<noteq> -1 then i + 1 else if prefix sub (c # cs) then 0 else -1)"

fun strings_Join :: "string list \<Rightarrow> string \<Rightarrow> string" where
  "strings_Join [] sep = ''''"
| "strings_Join [x] sep = x"
| "strings_Join (x # y # ys) sep = x @ sep @ strings_Join (y # ys) sep"

definition strings_ToLower :: "string \<Rightarrow> string" where
  "strings_ToLower s = map lower_char s"

definition strings_ToUpper :: "string \<Rightarrow> string" where
  "strings_ToUpper s = map upper_char s"

definition strings_EqualFold :: "string \<Rightarrow> string \<Rightarrow> bool" where
  "strings_EqualFold s t \<longleftrightarrow> strings_ToLower s = strings_ToLower t"

definition strings_TrimLeft :: "string \<Rightarrow> char set \<Rightarrow> string" where
  "strings_TrimLeft s cs = dropWhile (\<lambda>c. c \<in> cs) s"

definition strings_TrimRight :: "string \<Rightarrow> char set \<Rightarrow> string" where
  "strings_TrimRight s cs = rev (dropWhile (\<lambda>c. c \<in> cs) (rev s))"

definition strings_TrimSpace :: "string \<Rightarrow> string" where
  "strings_TrimSpace s = rev (dropWhile is_space (rev (dropWhile is_space s)))"

definition strings_ContainsAny :: "string \<Rightarrow> string \<Rightarrow> bool" where
  "strings_ContainsAny s chars \<longleftrightarrow> list_ex (\<lambda>c. c \<in> set chars) s"

definition strings_CutPrefix :: "string \<Rightarrow> string \<Rightarrow> string \<times> bool" where
  "strings_CutPrefix s p = (if prefix p s then (drop (length p) s, True) else (s, False))"

lemma length_dropWhile_less: "t \<noteq> [] \<Longrightarrow> P (hd t) \<Longrightarrow> length (dropWhile P t) < length t"
  by (cases t) (auto intro: le_imp_less_Suc length_dropWhile_le)

function strings_Fields :: "string \<Rightarrow> string list" where
  "strings_Fields s =
     (let t = dropWhile is_space s
      in if t = [] then []
         else takeWhile (\<lambda>c. \<not> is_space c) t # strings_Fields (dropWhile (\<lambda>c. \<not> is_space c) t))"
  by pat_completeness auto
termination
proof (relation "measure length", goal_cases)
  case 1
  show ?case by simp
next
  case (2 s t)
  from 2 have "\<not> is_space (hd t)" using hd_dropWhile by metis
  with 2 have "length (dropWhile (\<lambda>c. \<not> is_space c) t) < length t"
    by (intro length_dropWhile_less)
  also have "length t \<le> length s" using 2 by (simp add: length_dropWhile_le)
  finally show ?case by simp
qed

declare strings_Fields.simps [simp del]

text \<open>\<open>strings.ReplaceAll\<close> for a non-empty pattern, which is all the operator uses.\<close>

function strings_ReplaceAll :: "string \<Rightarrow> string \<Rightarrow> string \<Rightarrow> string" where
  "strings_ReplaceAll s old new =
     (case s of [] \<Rightarrow> []
      | c # cs \<Rightarrow> if old \<noteq> [] \<and> prefix old s
                  then new @ strings_ReplaceAll (drop (length old) s) old new
                  else c # strings_ReplaceAll cs old new)"
  by pat_completeness auto
termination
  by (relation "measure (\<lambda>(s, old, new). length s)") auto

declare strings_ReplaceAll.simps [simp del]

subsection \<open>Packages sort, strconv and fmt\<close>

text \<open>\<open>sort.Strings\<close>: increasing in the byte-wise lexicographic order.\<close>

definition sort_Strings :: "string list \<Rightarrow> string list" where
  "sort_Strings xs = sort xs"

lemma mset_sort_Strings [simp]: "mset (sort_Strings xs) = mset xs"
  by (simp add: sort_Strings_def)

lemma set_sort_Strings [simp]: "set (sort_Strings xs) = set xs"
  by (simp add: sort_Strings_def)

lemma sort_Strings_Nil [simp]: "sort_Strings xs = [] \<longleftrightarrow> xs = []"
  by (metis mset_sort_Strings mset_zero_iff)

lemma sorted_sort_Strings [simp]: "sorted (sort_Strings xs)"
  by (simp add: sort_Strings_def)

lemma sort_Strings_perm: "mset xs = mset ys \<Longrightarrow> sort_Strings xs = sort_Strings ys"
  unfolding sort_Strings_def by (rule properties_for_sort) (simp_all)

fun nat_digits :: "nat \<Rightarrow> string" where
  "nat_digits n = (if n < 10 then [char_of (48 + n)]
                   else nat_digits (n div 10) @ [char_of (48 + n mod 10)])"

declare nat_digits.simps [simp del]

definition itoa :: "int \<Rightarrow> string" where
  "itoa i = (if i < 0 then ''-'' @ nat_digits (nat (- i)) else nat_digits (nat i))"

text \<open>The value of a string of decimal digits, and \<open>strconv.Atoi\<close> on such a string: the value
  saturates at the largest 64-bit integer, as \<open>strconv.ParseInt\<close> returns it with a range error
  that the callers here drop.\<close>

definition digits_value :: "string \<Rightarrow> nat" where
  "digits_value s = foldl (\<lambda>n c. 10 * n + (of_char c - 48)) 0 s"

definition max_int64 :: int where
  "max_int64 = 2 ^ 63 - 1"

definition atoi_digits :: "string \<Rightarrow> int" where
  "atoi_digits s = min (int (digits_value s)) max_int64"

text \<open>The verb \<open>%q\<close> on ASCII strings.\<close>

definition hex_digit :: "nat \<Rightarrow> char" where
  "hex_digit n = (if n < 10 then char_of (48 + n) else char_of (87 + n))"

definition quote_char :: "char \<Rightarrow> string" where
  "quote_char c =
     (let n = (of_char c :: nat) in
      if n = 34 \<or> n = 92 then [CHR 0x5C, c]
      else if n = 7 then [CHR 0x5C, CHR ''a'']
      else if n = 8 then [CHR 0x5C, CHR ''b'']
      else if n = 12 then [CHR 0x5C, CHR ''f'']
      else if n = 10 then [CHR 0x5C, CHR ''n'']
      else if n = 13 then [CHR 0x5C, CHR ''r'']
      else if n = 9 then [CHR 0x5C, CHR ''t'']
      else if n = 11 then [CHR 0x5C, CHR ''v'']
      else if n < 32 \<or> n = 127 then [CHR 0x5C, CHR ''x'', hex_digit (n div 16), hex_digit (n mod 16)]
      else [c])"

definition quote :: "string \<Rightarrow> string" where
  "quote s = [CHR 0x22] @ concat (map quote_char s) @ [CHR 0x22]"

subsection \<open>Lemmas on searching and on decimal numerals\<close>

lemma strings_Index_ge: "strings_Index s sub \<ge> -1"
  by (induction s) (auto simp: Let_def)

lemma strings_LastIndex_ge: "strings_LastIndex s sub \<ge> -1"
  by (induction s) (auto simp: Let_def)

lemma strings_Index_absent [simp]: "strings_Index s [c] = -1 \<longleftrightarrow> c \<notin> set s"
proof (induction s)
  case (Cons x s)
  then show ?case using strings_Index_ge [of s "[c]"] by (auto simp: Let_def)
qed simp

lemma strings_LastIndex_absent [simp]: "strings_LastIndex s [c] = -1 \<longleftrightarrow> c \<notin> set s"
proof (induction s)
  case (Cons x s)
  then show ?case using strings_LastIndex_ge [of s "[c]"] by (auto simp: Let_def)
qed simp

lemma strings_Index_split [simp]: "c \<notin> set xs \<Longrightarrow> strings_Index (xs @ c # ys) [c] = int (length xs)"
  by (induction xs) (auto simp: Let_def)

lemma strings_LastIndex_append_absent:
  "c \<notin> set ys \<Longrightarrow> strings_LastIndex (xs @ ys) [c] = strings_LastIndex xs [c]"
proof (induction xs)
  case Nil
  then show ?case by simp
next
  case (Cons x xs)
  then show ?case by (auto simp: Let_def)
qed

lemma strings_LastIndex_split [simp]:
  "c \<notin> set ys \<Longrightarrow> strings_LastIndex (xs @ c # ys) [c] = int (length xs)"
  by (induction xs) (auto simp: Let_def)

lemma strings_LastIndex_less: "strings_LastIndex s [c] < int (length s)"
  by (induction s) (auto simp: Let_def split: if_splits)

lemma nat_digits_digits: "list_all is_digit (nat_digits n)"
proof (induction n rule: nat_digits.induct)
  case (1 n)
  have "is_digit (char_of (48 + n mod 10 :: nat))" by (simp add: is_digit_def)
  moreover have "n < 10 \<Longrightarrow> is_digit (char_of (48 + n :: nat))" by (simp add: is_digit_def)
  ultimately show ?case using 1 by (subst nat_digits.simps) simp
qed

lemma nat_digits_nonempty [simp]: "nat_digits n \<noteq> []"
  by (subst nat_digits.simps) simp

lemma digits_value_snoc: "digits_value (s @ [c]) = 10 * digits_value s + (of_char c - 48)"
  by (simp add: digits_value_def)

lemma digits_value_nat_digits [simp]: "digits_value (nat_digits n) = n"
proof (induction n rule: nat_digits.induct)
  case (1 n)
  show ?case
  proof (cases "n < 10")
    case True
    then show ?thesis by (subst nat_digits.simps) (simp add: digits_value_def)
  next
    case False
    with 1 show ?thesis
      by (subst nat_digits.simps) (simp add: digits_value_snoc)
  qed
qed

lemma atoi_nat_digits: "int n \<le> max_int64 \<Longrightarrow> atoi_digits (nat_digits n) = int n"
  by (simp add: atoi_digits_def)

text \<open>Cutting a string at the first occurrence of a byte, the way Go code writes it.\<close>

lemma cut_at_Index:
  "(if strings_Index s [c] \<noteq> -1 then take (nat (strings_Index s [c])) s else s) = takeWhile (\<lambda>x. x \<noteq> c) s"
proof (cases "c \<in> set s")
  case True
  then obtain xs ys where s: "s = xs @ c # ys" "c \<notin> set xs" by (meson split_list_first)
  then have "takeWhile (\<lambda>x. x \<noteq> c) xs = xs" by (auto simp: takeWhile_eq_all_conv)
  with s show ?thesis by (simp add: takeWhile_append)
next
  case False
  then have "takeWhile (\<lambda>x. x \<noteq> c) s = s" by (auto simp: takeWhile_eq_all_conv)
  with False show ?thesis by (simp only: strings_Index_absent) simp
qed

lemma last_split_unique:
  assumes "xs @ c # ys = xs' @ c # ys'" "c \<notin> set ys" "c \<notin> set ys'"
  shows "xs = xs' \<and> ys = ys'"
proof -
  have "takeWhile (\<lambda>x. x \<noteq> c) (rev (zs @ c # us)) = rev us" if "c \<notin> set us" for zs us
    using that by (subst rev_append, simp, subst takeWhile_append2) auto
  from this [OF assms(2), of xs] this [OF assms(3), of xs'] assms(1) show ?thesis by simp
qed

end
