(* ===== verification/K8sTypes.thy ===== *)
theory K8sTypes
  imports Prelude
begin

text \<open>
  The Kubernetes API types the operator reads and writes (packages \<open>corev1\<close>, \<open>appsv1\<close>,
  \<open>batchv1\<close>, \<open>networkingv1\<close>, \<open>metav1\<close>), cut down to the fields the operator's code names.
  A label or annotation map that the code only looks up or extends is a partial function, so
  that two maps with the same entries are equal; nil and the empty map behave alike in the code
  and are both \<open>Map.empty\<close>.  A quantity is its canonical string.
\<close>

type_synonym time = int
type_synonym gomap = "string \<rightharpoonup> string"

record OwnerReference =
  or_Kind :: string
  or_Name :: string
  or_UID :: string

record ObjectMeta =
  om_Name :: string
  om_Namespace :: string
  om_UID :: string
  om_Labels :: gomap
  om_Annotations :: gomap
  om_OwnerReferences :: "OwnerReference list"
  om_ResourceVersion :: string

definition new_meta :: "string \<Rightarrow> string \<Rightarrow> gomap \<Rightarrow> gomap \<Rightarrow> ObjectMeta" where
  "new_meta name ns labels annotations =
     \<lparr>om_Name = name, om_Namespace = ns, om_UID = '''', om_Labels = labels,
      om_Annotations = annotations, om_OwnerReferences = [], om_ResourceVersion = ''''\<rparr>"

record Condition =
  c_Type :: string
  c_Status :: string
  c_Reason :: string
  c_Message :: string
  c_LastTransitionTime :: time

definition ConditionTrue :: string where "ConditionTrue = ''True''"
definition ConditionFalse :: string where "ConditionFalse = ''False''"

lemma ConditionTrue_neq_False [simp]: "ConditionTrue \<noteq> ConditionFalse" "ConditionFalse \<noteq> ConditionTrue"
  by (simp_all add: ConditionTrue_def ConditionFalse_def)

subsection \<open>Volumes and containers\<close>

record KeyToPath =
  ktp_Key :: string
  ktp_Path :: string

record ConfigMapVolumeSource =
  cmvs_Name :: string
  cmvs_Items :: "KeyToPath list"
  cmvs_DefaultMode :: "int32 option"

record SecretVolumeSource =
  svs_SecretName :: string

record PersistentVolumeClaimVolumeSource =
  pvcvs_ClaimName :: string

record CoreVolumeSource =
  cvs_ConfigMap :: "ConfigMapVolumeSource option"
  cvs_Secret :: "SecretVolumeSource option"
  cvs_PersistentVolumeClaim :: "PersistentVolumeClaimVolumeSource option"

record Volume =
  vol_Name :: string
  vol_Source :: CoreVolumeSource

record VolumeMount =
  vm_Name :: string
  vm_MountPath :: string
  vm_SubPath :: string
  vm_ReadOnly :: bool

record EnvVar =
  ev_Name :: string
  ev_Value :: string

record ContainerPort =
  cp_Name :: string
  cp_ContainerPort :: int32

record Container =
  ct_Name :: string
  ct_Image :: string
  ct_Command :: "string list"
  ct_Args :: "string list"
  ct_Env :: "EnvVar list"
  ct_Ports :: "ContainerPort list"
  ct_VolumeMounts :: "VolumeMount list"
  ct_ImagePullPolicy :: string
  ct_RunAs :: "(int \<times> int) option"

record NodeSelectorRequirement =
  nsr_Key :: string
  nsr_Operator :: string
  nsr_Values :: "string list"

text \<open>An affinity is the list of node selector terms of
  \<open>NodeAffinity.RequiredDuringSchedulingIgnoredDuringExecution\<close>, the only part the operator sets.\<close>

record Affinity =
  aff_RequiredTerms :: "NodeSelectorRequirement list list"

record PodSpec =
  ps_Containers :: "Container list"
  ps_Volumes :: "Volume list"
  ps_Affinity :: "Affinity option"
  ps_ServiceAccountName :: string
  ps_RestartPolicy :: string
  ps_Sysctls :: "(string \<times> string) list"

subsection \<open>Objects\<close>

record PersistentVolumeClaim =
  pvc_Meta :: ObjectMeta
  pvc_AccessModes :: "string list"
  pvc_StorageRequest :: "string option"
  pvc_StorageClassName :: "string option"
  pvc_VolumeAttributesClassName :: "string option"
  pvc_Phase :: string
  pvc_StorageCapacity :: "string option"

record StatefulSet =
  sts_Meta :: ObjectMeta
  sts_ServiceName :: string
  sts_Replicas :: "int32 option"
  sts_Selector :: gomap
  sts_TemplateLabels :: gomap
  sts_PodSpec :: PodSpec
  sts_VolumeClaimTemplates :: "PersistentVolumeClaim list"
  sts_ReadyReplicas :: int32
  sts_CurrentRevision :: string
  sts_UpdateRevision :: string

record ServicePort =
  sp_Name :: string
  sp_Port :: int32
  sp_Protocol :: string

record Service =
  svc_Meta :: ObjectMeta
  svc_Selector :: gomap
  svc_Ports :: "ServicePort list"
  svc_Type :: string
  svc_ExternalTrafficPolicy :: string
  svc_LoadBalancerIP :: string
  svc_ClusterIP :: string
  svc_LoadBalancerIngress :: "string list"

record IngressBackend =
  ib_ServiceName :: string
  ib_ServicePort :: int32

record HTTPIngressPath =
  hip_Path :: string
  hip_PathType :: string
  hip_Backend :: IngressBackend

record IngressRule =
  ir_Host :: string
  ir_Paths :: "HTTPIngressPath list"

record Ingress =
  ing_Meta :: ObjectMeta
  ing_IngressClassName :: "string option"
  ing_Rules :: "IngressRule list"
  ing_LoadBalancerIngress :: "string list"

record Job =
  job_Meta :: ObjectMeta
  job_BackoffLimit :: "int32 option"
  job_TemplateLabels :: gomap
  job_PodSpec :: PodSpec
  job_Active :: int32
  job_Succeeded :: int32
  job_Failed :: int32

record PodCondition =
  pc_Type :: string
  pc_Status :: string

record Pod =
  pod_Meta :: ObjectMeta
  pod_Volumes :: "Volume list"
  pod_Phase :: string
  pod_Conditions :: "PodCondition list"
  pod_RestartCounts :: "int32 list"

text \<open>The data of a secret is the list of its entries in the order the run-time ranges over them.\<close>

record Secret =
  sec_Meta :: ObjectMeta
  sec_Type :: string
  sec_Data :: "(string \<times> string) list"

record ConfigMap =
  cm_Meta :: ObjectMeta
  cm_Data :: gomap

text \<open>The object kinds that actors apply (\<open>client.Object\<close>).\<close>

datatype Object =
    ObjStatefulSet StatefulSet
  | ObjService Service
  | ObjIngress Ingress
  | ObjJob Job
  | ObjConfigMap ConfigMap

text \<open>Errors of the API server, as \<open>kerrors.IsNotFound\<close> and \<open>kerrors.IsConflict\<close> tell them apart.\<close>

datatype kerr = NotFound string | Conflict string | OtherErr string

primrec kerr_msg :: "kerr \<Rightarrow> string" where
  "kerr_msg (NotFound m) = m"
| "kerr_msg (Conflict m) = m"
| "kerr_msg (OtherErr m) = m"

primrec IsNotFound :: "kerr \<Rightarrow> bool" where
  "IsNotFound (NotFound m) = True"
| "IsNotFound (Conflict m) = False"
| "IsNotFound (OtherErr m) = False"

primrec IsConflict :: "kerr \<Rightarrow> bool" where
  "IsConflict (NotFound m) = False"
| "IsConflict (Conflict m) = True"
| "IsConflict (OtherErr m) = False"

end
