(* ===== verification/ApiTypes.thy ===== *)
theory ApiTypes
  imports K8sTypes
begin

text \<open>
  The custom resource of the operator, \<open>RavenDBCluster\<close> (\<open>api/v1/cluster_types.go\<close>,
  \<open>cluster_spec.go\<close>, \<open>node_types.go\<close>, \<open>storage_types.go\<close>, \<open>external_access_types.go\<close>,
  \<open>constants.go\<close>), and the getters through which the admission webhook reads it
  (\<open>getters_webhook.go\<close>).  Go's string-typed enumerations stay strings: the values come from the
  API server and the code's \<open>switch\<close> statements have a default branch.  \<open>Spec.Env\<close> and
  \<open>AdditionalAnnotations\<close> are lists of entries in the order in which the run-time ranges over
  the Go map.
\<close>

subsection \<open>Constants\<close>

definition ModeLetsEncrypt :: string where "ModeLetsEncrypt = ''LetsEncrypt''"
definition ModeNone :: string where "ModeNone = ''None''"

lemma mode_distinct [simp]: "ModeLetsEncrypt \<noteq> ModeNone" "ModeNone \<noteq> ModeLetsEncrypt"
  by (simp_all add: ModeLetsEncrypt_def ModeNone_def)

definition ExternalAccessTypeAWS :: string where "ExternalAccessTypeAWS = ''aws-nlb''"
definition ExternalAccessTypeAzure :: string where "ExternalAccessTypeAzure = ''azure-lb''"
definition ExternalAccessTypeIngressController :: string where
  "ExternalAccessTypeIngressController = ''ingress-controller''"

lemma ea_type_distinct [simp]:
  "ExternalAccessTypeAWS \<noteq> ExternalAccessTypeAzure" "ExternalAccessTypeAzure \<noteq> ExternalAccessTypeAWS"
  "ExternalAccessTypeAWS \<noteq> ExternalAccessTypeIngressController"
  "ExternalAccessTypeIngressController \<noteq> ExternalAccessTypeAWS"
  "ExternalAccessTypeAzure \<noteq> ExternalAccessTypeIngressController"
  "ExternalAccessTypeIngressController \<noteq> ExternalAccessTypeAzure"
  by (simp_all add: ExternalAccessTypeAWS_def ExternalAccessTypeAzure_def
      ExternalAccessTypeIngressController_def)

definition PhaseDeploying :: string where "PhaseDeploying = ''Deploying''"
definition PhaseRunning :: string where "PhaseRunning = ''Running''"
definition PhaseError :: string where "PhaseError = ''Error''"

lemma phase_distinct [simp]:
  "PhaseDeploying \<noteq> PhaseRunning" "PhaseRunning \<noteq> PhaseDeploying" "PhaseDeploying \<noteq> PhaseError"
  "PhaseError \<noteq> PhaseDeploying" "PhaseRunning \<noteq> PhaseError" "PhaseError \<noteq> PhaseRunning"
  by (simp_all add: PhaseDeploying_def PhaseRunning_def PhaseError_def)

definition ConditionReady :: string where "ConditionReady = ''Ready''"
definition ConditionProgressing :: string where "ConditionProgressing = ''Progressing''"
definition ConditionDegraded :: string where "ConditionDegraded = ''Degraded''"
definition ConditionCertificatesReady :: string where "ConditionCertificatesReady = ''CertificatesReady''"
definition ConditionLicensesValid :: string where "ConditionLicensesValid = ''LicensesValid''"
definition ConditionStorageReady :: string where "ConditionStorageReady = ''StorageReady''"
definition ConditionExternalAccessReady :: string where "ConditionExternalAccessReady = ''ExternalAccessReady''"
definition ConditionNodesHealthy :: string where "ConditionNodesHealthy = ''NodesHealthy''"
definition ConditionBootstrapCompleted :: string where "ConditionBootstrapCompleted = ''BootstrapCompleted''"

lemmas condition_type_defs =
  ConditionReady_def ConditionProgressing_def ConditionDegraded_def ConditionCertificatesReady_def
  ConditionLicensesValid_def ConditionStorageReady_def ConditionExternalAccessReady_def
  ConditionNodesHealthy_def ConditionBootstrapCompleted_def

lemma condition_types_neq [simp]:
  "ConditionReady \<noteq> ConditionProgressing" "ConditionReady \<noteq> ConditionDegraded"
  "ConditionReady \<noteq> ConditionCertificatesReady"
  "ConditionReady \<noteq> ConditionLicensesValid" "ConditionReady \<noteq> ConditionStorageReady"
  "ConditionReady \<noteq> ConditionExternalAccessReady"
  "ConditionReady \<noteq> ConditionNodesHealthy"
  "ConditionReady \<noteq> ConditionBootstrapCompleted"
  "ConditionProgressing \<noteq> ConditionReady" "ConditionProgressing \<noteq> ConditionDegraded"
  "ConditionProgressing \<noteq> ConditionCertificatesReady"
  "ConditionProgressing \<noteq> ConditionLicensesValid"
  "ConditionProgressing \<noteq> ConditionStorageReady"
  "ConditionProgressing \<noteq> ConditionExternalAccessReady"
  "ConditionProgressing \<noteq> ConditionNodesHealthy"
  "ConditionProgressing \<noteq> ConditionBootstrapCompleted"
  "ConditionDegraded \<noteq> ConditionReady" "ConditionDegraded \<noteq> ConditionProgressing"
  "ConditionDegraded \<noteq> ConditionCertificatesReady"
  "ConditionDegraded \<noteq> ConditionLicensesValid"
  "ConditionDegraded \<noteq> ConditionStorageReady"
  "ConditionDegraded \<noteq> ConditionExternalAccessReady"
  "ConditionDegraded \<noteq> ConditionNodesHealthy"
  "ConditionDegraded \<noteq> ConditionBootstrapCompleted"
  "ConditionCertificatesReady \<noteq> ConditionReady"
  "ConditionCertificatesReady \<noteq> ConditionProgressing"
  "ConditionCertificatesReady \<noteq> ConditionDegraded"
  "ConditionCertificatesReady \<noteq> ConditionLicensesValid"
  "ConditionCertificatesReady \<noteq> ConditionStorageReady"
  "ConditionCertificatesReady \<noteq> ConditionExternalAccessReady"
  "ConditionCertificatesReady \<noteq> ConditionNodesHealthy"
  "ConditionCertificatesReady \<noteq> ConditionBootstrapCompleted"
  "ConditionLicensesValid \<noteq> ConditionReady"
  "ConditionLicensesValid \<noteq> ConditionProgressing"
  "ConditionLicensesValid \<noteq> ConditionDegraded"
  "ConditionLicensesValid \<noteq> ConditionCertificatesReady"
  "ConditionLicensesValid \<noteq> ConditionStorageReady"
  "ConditionLicensesValid \<noteq> ConditionExternalAccessReady"
  "ConditionLicensesValid \<noteq> ConditionNodesHealthy"
  "ConditionLicensesValid \<noteq> ConditionBootstrapCompleted"
  "ConditionStorageReady \<noteq> ConditionReady"
  "ConditionStorageReady \<noteq> ConditionProgressing"
  "ConditionStorageReady \<noteq> ConditionDegraded"
  "ConditionStorageReady \<noteq> ConditionCertificatesReady"
  "ConditionStorageReady \<noteq> ConditionLicensesValid"
  "ConditionStorageReady \<noteq> ConditionExternalAccessReady"
  "ConditionStorageReady \<noteq> ConditionNodesHealthy"
  "ConditionStorageReady \<noteq> ConditionBootstrapCompleted"
  "ConditionExternalAccessReady \<noteq> ConditionReady"
  "ConditionExternalAccessReady \<noteq> ConditionProgressing"
  "ConditionExternalAccessReady \<noteq> ConditionDegraded"
  "ConditionExternalAccessReady \<noteq> ConditionCertificatesReady"
  "ConditionExternalAccessReady \<noteq> ConditionLicensesValid"
  "ConditionExternalAccessReady \<noteq> ConditionStorageReady"
  "ConditionExternalAccessReady \<noteq> ConditionNodesHealthy"
  "ConditionExternalAccessReady \<noteq> ConditionBootstrapCompleted"
  "ConditionNodesHealthy \<noteq> ConditionReady"
  "ConditionNodesHealthy \<noteq> ConditionProgressing"
  "ConditionNodesHealthy \<noteq> ConditionDegraded"
  "ConditionNodesHealthy \<noteq> ConditionCertificatesReady"
  "ConditionNodesHealthy \<noteq> ConditionLicensesValid"
  "ConditionNodesHealthy \<noteq> ConditionStorageReady"
  "ConditionNodesHealthy \<noteq> ConditionExternalAccessReady"
  "ConditionNodesHealthy \<noteq> ConditionBootstrapCompleted"
  "ConditionBootstrapCompleted \<noteq> ConditionReady"
  "ConditionBootstrapCompleted \<noteq> ConditionProgressing"
  "ConditionBootstrapCompleted \<noteq> ConditionDegraded"
  "ConditionBootstrapCompleted \<noteq> ConditionCertificatesReady"
  "ConditionBootstrapCompleted \<noteq> ConditionLicensesValid"
  "ConditionBootstrapCompleted \<noteq> ConditionStorageReady"
  "ConditionBootstrapCompleted \<noteq> ConditionExternalAccessReady"
  "ConditionBootstrapCompleted \<noteq> ConditionNodesHealthy"
  by (simp_all add: condition_type_defs)

definition ReasonCompleted :: string where "ReasonCompleted = ''Completed''"
definition ReasonWaitingForPods :: string where "ReasonWaitingForPods = ''WaitingForPods''"
definition ReasonPodsNotReady :: string where "ReasonPodsNotReady = ''PodsNotReady''"
definition ReasonStatefulSetUpdating :: string where "ReasonStatefulSetUpdating = ''StatefulSetUpdating''"
definition ReasonIngressPendingAddress :: string where "ReasonIngressPendingAddress = ''IngressPendingAddress''"
definition ReasonLoadBalancerPending :: string where "ReasonLoadBalancerPending = ''LoadBalancerPending''"
definition ReasonCertSecretMissing :: string where "ReasonCertSecretMissing = ''CertSecretMissing''"
definition ReasonLicenseSecretMissing :: string where "ReasonLicenseSecretMissing = ''LicenseSecretMissing''"
definition ReasonBootstrapJobRunning :: string where "ReasonBootstrapJobRunning = ''BootstrapJobRunning''"
definition ReasonBootstrapFailed :: string where "ReasonBootstrapFailed = ''BootstrapFailed''"
definition ReasonPVCNotBound :: string where "ReasonPVCNotBound = ''PVCNotBound''"

lemmas reason_defs =
  ReasonCompleted_def ReasonWaitingForPods_def ReasonPodsNotReady_def ReasonStatefulSetUpdating_def
  ReasonIngressPendingAddress_def ReasonLoadBalancerPending_def ReasonCertSecretMissing_def
  ReasonLicenseSecretMissing_def ReasonBootstrapJobRunning_def ReasonBootstrapFailed_def
  ReasonPVCNotBound_def

subsection \<open>The resource\<close>

record RavenDBNode =
  n_Tag :: string
  n_PublicServerUrl :: string
  n_PublicServerUrlTcp :: string
  n_CertSecretRef :: "string option"

definition NodeStatusCreated :: string where "NodeStatusCreated = ''Created''"
definition NodeStatusFailed :: string where "NodeStatusFailed = ''Failed''"

record RavenDBNodeStatus =
  ns_Tag :: string
  ns_Status :: string
  ns_LastAttemptedImage :: string
  ns_LastError :: string
  ns_LastAttemptTime :: time

record VolumeSpec =
  v_Size :: string
  v_StorageClassName :: "string option"
  v_AccessModes :: "string list option"
  v_VolumeAttributesClassName :: "string option"

record LogSettings =
  ls_VolumeSpec :: VolumeSpec
  ls_Path :: "string option"

record LogsSpec =
  l_RavenDB :: "LogSettings option"
  l_Audit :: "LogSettings option"

record VolumeSource =
  vs_ConfigMap :: "ConfigMapVolumeSource option"
  vs_Secret :: "SecretVolumeSource option"
  vs_PersistentVolumeClaim :: "PersistentVolumeClaimVolumeSource option"

record AdditionalVolume =
  av_Name :: string
  av_MountPath :: string
  av_SubPath :: "string option"
  av_VolumeSource :: VolumeSource

record StorageSpec =
  ss_Data :: VolumeSpec
  ss_Logs :: "LogsSpec option"
  ss_AdditionalVolumes :: "AdditionalVolume list option"

record AWSNodeMapping =
  aws_Tag :: string
  aws_EIPAllocationId :: string
  aws_SubnetId :: string
  aws_AvailabilityZone :: string

record AzureNodeMapping =
  az_Tag :: string
  az_IP :: string

record IngressControllerContext =
  ic_IngressClassName :: string
  ic_AdditionalAnnotations :: strmap

type_synonym AWSExternalAccessContext = "AWSNodeMapping list"
type_synonym AzureExternalAccessContext = "AzureNodeMapping list"

record ExternalAccessConfiguration =
  ea_Type :: string
  ea_AWSExternalAccess :: "AWSExternalAccessContext option"
  ea_AzureExternalAccess :: "AzureExternalAccessContext option"
  ea_IngressControllerExternalAccess :: "IngressControllerContext option"

record RavenDBClusterSpec =
  s_Image :: string
  s_ImagePullPolicy :: string
  s_Mode :: string
  s_Email :: "string option"
  s_LicenseSecretRef :: string
  s_ClusterCertSecretRef :: "string option"
  s_Domain :: string
  s_Nodes :: "RavenDBNode list"
  s_Env :: strmap
  s_ExternalAccessConfiguration :: "ExternalAccessConfiguration option"
  s_StorageSpec :: StorageSpec
  s_ClientCertSecretRef :: string
  s_CACertSecretRef :: "string option"

record RavenDBClusterStatus =
  st_Phase :: string
  st_Message :: string
  st_ObservedGeneration :: int
  st_Nodes :: "RavenDBNodeStatus list"
  st_Conditions :: "Condition list"

record RavenDBCluster =
  Name :: string
  Namespace :: string
  UID :: string
  Generation :: int
  Annotations :: gomap
  Spec :: RavenDBClusterSpec
  Status :: RavenDBClusterStatus

end
