(* ===== verification/Getters.thy ===== *)
theory Getters
  imports ApiTypes
begin

text \<open>
  The getters of \<open>api/v1/getters_webhook.go\<close>, which implement the \<open>ClusterAdapter\<close> interface
  (\<open>pkg/webhook/adapter/adapter.go\<close>) through which validators and mutators see a resource.
\<close>

definition GetImage :: "RavenDBCluster \<Rightarrow> string" where "GetImage r = s_Image (Spec r)"

definition GetIpp :: "RavenDBCluster \<Rightarrow> string" where "GetIpp r = s_ImagePullPolicy (Spec r)"

definition SetIpp :: "RavenDBCluster \<Rightarrow> string \<Rightarrow> RavenDBCluster" where
  "SetIpp r val = r\<lparr>Spec := (Spec r)\<lparr>s_ImagePullPolicy := val\<rparr>\<rparr>"

definition GetMode :: "RavenDBCluster \<Rightarrow> string" where "GetMode r = s_Mode (Spec r)"

definition GetEmail :: "RavenDBCluster \<Rightarrow> string" where
  "GetEmail r = (case s_Email (Spec r) of None \<Rightarrow> '''' | Some e \<Rightarrow> e)"

definition GetDomain :: "RavenDBCluster \<Rightarrow> string" where "GetDomain r = s_Domain (Spec r)"

definition GetClusterCertsSecretRef :: "RavenDBCluster \<Rightarrow> string" where
  "GetClusterCertsSecretRef r = (case s_ClusterCertSecretRef (Spec r) of None \<Rightarrow> '''' | Some s \<Rightarrow> s)"

definition GetEnv :: "RavenDBCluster \<Rightarrow> strmap" where "GetEnv r = s_Env (Spec r)"

definition GetLicenseSecretRef :: "RavenDBCluster \<Rightarrow> string" where
  "GetLicenseSecretRef r = s_LicenseSecretRef (Spec r)"

definition mapNodes :: "RavenDBCluster \<Rightarrow> (RavenDBNode \<Rightarrow> 'a) \<Rightarrow> 'a list" where
  "mapNodes r f = map f (s_Nodes (Spec r))"

definition GetNodeTags :: "RavenDBCluster \<Rightarrow> string list" where
  "GetNodeTags r = mapNodes r n_Tag"

definition GetNodePublicUrls :: "RavenDBCluster \<Rightarrow> string list" where
  "GetNodePublicUrls r = mapNodes r n_PublicServerUrl"

definition GetNodeTcpUrls :: "RavenDBCluster \<Rightarrow> string list" where
  "GetNodeTcpUrls r = mapNodes r n_PublicServerUrlTcp"

definition GetNodeCertSecretRefs :: "RavenDBCluster \<Rightarrow> string option list" where
  "GetNodeCertSecretRefs r = mapNodes r n_CertSecretRef"

definition IsExternalAccessSet :: "RavenDBCluster \<Rightarrow> bool" where
  "IsExternalAccessSet r \<longleftrightarrow> s_ExternalAccessConfiguration (Spec r) \<noteq> None"

definition GetExternalAccessType :: "RavenDBCluster \<Rightarrow> string" where
  "GetExternalAccessType r =
     (case s_ExternalAccessConfiguration (Spec r) of None \<Rightarrow> '''' | Some ea \<Rightarrow> ea_Type ea)"

definition GetIngressClassName :: "RavenDBCluster \<Rightarrow> string" where
  "GetIngressClassName r =
     (case s_ExternalAccessConfiguration (Spec r) of None \<Rightarrow> ''''
      | Some ea \<Rightarrow> (case ea_IngressControllerExternalAccess ea of None \<Rightarrow> '''' | Some ctx \<Rightarrow> ic_IngressClassName ctx))"

definition GetIngressAnnotations :: "RavenDBCluster \<Rightarrow> strmap" where
  "GetIngressAnnotations r =
     (case s_ExternalAccessConfiguration (Spec r) of None \<Rightarrow> []
      | Some ea \<Rightarrow> (case ea_IngressControllerExternalAccess ea of None \<Rightarrow> [] | Some ctx \<Rightarrow> ic_AdditionalAnnotations ctx))"

definition ea_has :: "RavenDBCluster \<Rightarrow> (ExternalAccessConfiguration \<Rightarrow> 'a option) \<Rightarrow> bool" where
  "ea_has r f = (case s_ExternalAccessConfiguration (Spec r) of None \<Rightarrow> False | Some ea \<Rightarrow> f ea \<noteq> None)"

definition IsIngressContextSet :: "RavenDBCluster \<Rightarrow> bool" where
  "IsIngressContextSet r = ea_has r ea_IngressControllerExternalAccess"

definition IsAWSContextSet :: "RavenDBCluster \<Rightarrow> bool" where
  "IsAWSContextSet r = ea_has r ea_AWSExternalAccess"

definition IsAzureContextSet :: "RavenDBCluster \<Rightarrow> bool" where
  "IsAzureContextSet r = ea_has r ea_AzureExternalAccess"

abbreviation Storage :: "RavenDBCluster \<Rightarrow> StorageSpec" where
  "Storage r \<equiv> s_StorageSpec (Spec r)"

definition GetStorageDataStorageClassName :: "RavenDBCluster \<Rightarrow> string option" where
  "GetStorageDataStorageClassName r = v_StorageClassName (ss_Data (Storage r))"

definition GetStorageDataAccessModes :: "RavenDBCluster \<Rightarrow> string list" where
  "GetStorageDataAccessModes r = (case v_AccessModes (ss_Data (Storage r)) of None \<Rightarrow> [] | Some ms \<Rightarrow> ms)"

definition GetStorageDataVAC :: "RavenDBCluster \<Rightarrow> string option" where
  "GetStorageDataVAC r = v_VolumeAttributesClassName (ss_Data (Storage r))"

definition logs_raven :: "RavenDBCluster \<Rightarrow> LogSettings option" where
  "logs_raven r = Option.bind (ss_Logs (Storage r)) l_RavenDB"

definition logs_audit :: "RavenDBCluster \<Rightarrow> LogSettings option" where
  "logs_audit r = Option.bind (ss_Logs (Storage r)) l_Audit"

definition GetLogsRavenStorageClassName :: "RavenDBCluster \<Rightarrow> string option" where
  "GetLogsRavenStorageClassName r = Option.bind (logs_raven r) (\<lambda>l. v_StorageClassName (ls_VolumeSpec l))"

definition GetLogsRavenAccessModes :: "RavenDBCluster \<Rightarrow> string list" where
  "GetLogsRavenAccessModes r =
     (case Option.bind (logs_raven r) (\<lambda>l. v_AccessModes (ls_VolumeSpec l)) of None \<Rightarrow> [] | Some ms \<Rightarrow> ms)"

definition GetLogsRavenVAC :: "RavenDBCluster \<Rightarrow> string option" where
  "GetLogsRavenVAC r = Option.bind (logs_raven r) (\<lambda>l. v_VolumeAttributesClassName (ls_VolumeSpec l))"

definition GetLogsRavenPath :: "RavenDBCluster \<Rightarrow> string option" where
  "GetLogsRavenPath r = Option.bind (logs_raven r) ls_Path"

definition GetLogsAuditStorageClassName :: "RavenDBCluster \<Rightarrow> string option" where
  "GetLogsAuditStorageClassName r = Option.bind (logs_audit r) (\<lambda>l. v_StorageClassName (ls_VolumeSpec l))"

definition GetLogsAuditAccessModes :: "RavenDBCluster \<Rightarrow> string list" where
  "GetLogsAuditAccessModes r =
     (case Option.bind (logs_audit r) (\<lambda>l. v_AccessModes (ls_VolumeSpec l)) of None \<Rightarrow> [] | Some ms \<Rightarrow> ms)"

definition GetLogsAuditVAC :: "RavenDBCluster \<Rightarrow> string option" where
  "GetLogsAuditVAC r = Option.bind (logs_audit r) (\<lambda>l. v_VolumeAttributesClassName (ls_VolumeSpec l))"

definition GetLogsAuditPath :: "RavenDBCluster \<Rightarrow> string option" where
  "GetLogsAuditPath r = Option.bind (logs_audit r) ls_Path"

abbreviation additional_volumes :: "RavenDBCluster \<Rightarrow> AdditionalVolume list" where
  "additional_volumes r \<equiv> (case ss_AdditionalVolumes (Storage r) of None \<Rightarrow> [] | Some vs \<Rightarrow> vs)"

definition GetAdditionalVolumeNames :: "RavenDBCluster \<Rightarrow> string list" where
  "GetAdditionalVolumeNames r = map av_Name (additional_volumes r)"

definition GetAdditionalVolumeMountPaths :: "RavenDBCluster \<Rightarrow> string option list" where
  "GetAdditionalVolumeMountPaths r = map (\<lambda>v. Some (av_MountPath v)) (additional_volumes r)"

definition GetAdditionalVolumeSubPaths :: "RavenDBCluster \<Rightarrow> string option list" where
  "GetAdditionalVolumeSubPaths r = map av_SubPath (additional_volumes r)"

text \<open>Each entry is the set of keys of the Go map, in the order they are inserted.\<close>

definition GetAdditionalVolumeSources :: "RavenDBCluster \<Rightarrow> string list list" where
  "GetAdditionalVolumeSources r = map (\<lambda>v.
     (if vs_ConfigMap (av_VolumeSource v) \<noteq> None then [''configMap''] else []) @
     (if vs_Secret (av_VolumeSource v) \<noteq> None then [''secret''] else []) @
     (if vs_PersistentVolumeClaim (av_VolumeSource v) \<noteq> None then [''persistentVolumeClaim''] else []))
     (additional_volumes r)"

definition GetClientCertSecretRef :: "RavenDBCluster \<Rightarrow> string" where
  "GetClientCertSecretRef r = s_ClientCertSecretRef (Spec r)"

definition GetCACertSecretRef :: "RavenDBCluster \<Rightarrow> string option" where
  "GetCACertSecretRef r = s_CACertSecretRef (Spec r)"

lemmas getter_defs =
  GetImage_def GetIpp_def GetMode_def GetEmail_def GetDomain_def GetClusterCertsSecretRef_def GetEnv_def
  GetLicenseSecretRef_def mapNodes_def GetNodeTags_def GetNodePublicUrls_def GetNodeTcpUrls_def
  GetNodeCertSecretRefs_def IsExternalAccessSet_def GetExternalAccessType_def GetIngressClassName_def
  GetIngressAnnotations_def ea_has_def IsIngressContextSet_def IsAWSContextSet_def IsAzureContextSet_def
  GetClientCertSecretRef_def GetCACertSecretRef_def

end
