(* ===== verification/SampleCluster.thy ===== *)
theory SampleCluster
  imports Getters
begin

text \<open>
  A concrete cluster, on which the witnesses evaluate the model: the Let's Encrypt sample of
  \<open>config/samples\<close> with two nodes and a pinned image, and variants of it.  Nothing here models code.
\<close>

definition sample_node :: "string \<Rightarrow> RavenDBNode" where
  "sample_node tag = \<lparr>n_Tag = tag,
     n_PublicServerUrl = ''https://'' @ tag @ ''.domain.development.run:443'',
     n_PublicServerUrlTcp = ''tcp://'' @ tag @ ''-tcp.domain.development.run:443'',
     n_CertSecretRef = Some (''ravendb-certs-'' @ tag)\<rparr>"

definition sample_volume :: VolumeSpec where
  "sample_volume = \<lparr>v_Size = ''10Gi'', v_StorageClassName = Some ''local-path'', v_AccessModes = None,
     v_VolumeAttributesClassName = None\<rparr>"

definition sample_ingress_access :: ExternalAccessConfiguration where
  "sample_ingress_access = \<lparr>ea_Type = ExternalAccessTypeIngressController, ea_AWSExternalAccess = None,
     ea_AzureExternalAccess = None, ea_IngressControllerExternalAccess =
       Some \<lparr>ic_IngressClassName = ''nginx'', ic_AdditionalAnnotations = []\<rparr>\<rparr>"

definition sample_spec :: "string \<Rightarrow> RavenDBClusterSpec" where
  "sample_spec img = \<lparr>s_Image = img, s_ImagePullPolicy = ''IfNotPresent'', s_Mode = ModeLetsEncrypt,
     s_Email = Some ''user@ravendb.net'', s_LicenseSecretRef = ''ravendb-license'',
     s_ClusterCertSecretRef = None, s_Domain = ''domain.development.run'',
     s_Nodes = [sample_node ''a'', sample_node ''b''], s_Env = [],
     s_ExternalAccessConfiguration = Some sample_ingress_access,
     s_StorageSpec = \<lparr>ss_Data = sample_volume, ss_Logs = None, ss_AdditionalVolumes = None\<rparr>,
     s_ClientCertSecretRef = ''ravendb-client-cert'', s_CACertSecretRef = None\<rparr>"

definition empty_status :: RavenDBClusterStatus where
  "empty_status = \<lparr>st_Phase = '''', st_Message = '''', st_ObservedGeneration = 0, st_Nodes = [],
     st_Conditions = []\<rparr>"

definition sample_cluster :: "string \<Rightarrow> RavenDBCluster" where
  "sample_cluster img = \<lparr>Name = ''ravendbcluster-sample'', Namespace = ''ravendb'', UID = ''uid-1'',
     Generation = 1, Annotations = Map.empty, Spec = sample_spec img, Status = empty_status\<rparr>"

lemmas sample_defs = sample_node_def sample_volume_def sample_ingress_access_def sample_spec_def
  empty_status_def sample_cluster_def

end
