(* ===== verification/GoNet.thy ===== *)
theory GoNet
  imports Prelude
begin

text \<open>
  The parts of Go's \<open>net/url\<close>, \<open>net\<close> and \<open>path/filepath\<close> that the admission validators call,
  as executable functions on byte strings: \<open>url.Parse\<close> (Go 1.24) with the fields \<open>Scheme\<close>, \<open>Host\<close>,
  \<open>Path\<close>, \<open>RawQuery\<close> and \<open>Fragment\<close> that the callers read, \<open>URL.Hostname\<close>, \<open>net.SplitHostPort\<close>,
  \<open>net.ParseIP\<close> (as the test whether it returns an address) and \<open>filepath.IsAbs\<close> on Unix.
\<close>

subsection \<open>Small scanners\<close>

definition cut_at :: "char \<Rightarrow> string \<Rightarrow> string \<times> string" where
  "cut_at c s = (takeWhile (\<lambda>x. x \<noteq> c) s, drop 1 (dropWhile (\<lambda>x. x \<noteq> c) s))"

definition is_alpha :: "char \<Rightarrow> bool" where
  "is_alpha c \<longleftrightarrow> is_upper c \<or> is_lower c"

definition is_hex :: "char \<Rightarrow> bool" where
  "is_hex c \<longleftrightarrow> is_digit c \<or> (let n = (of_char c :: nat) in 97 \<le> n \<and> n \<le> 102 \<or> 65 \<le> n \<and> n \<le> 70)"

definition unhex :: "char \<Rightarrow> nat" where
  "unhex c = (let n = of_char c in if n \<le> 57 then n - 48 else if 97 \<le> n then n - 87 else n - 55)"

definition is_ctl :: "char \<Rightarrow> bool" where
  "is_ctl c \<longleftrightarrow> (let n = (of_char c :: nat) in n < 32 \<or> n = 127)"

subsection \<open>Package url\<close>

text \<open>Percent-decoding.  In a host, an escape may only stand for a byte from 128 upwards (or be
  \<open>%25\<close>), and a plain ASCII byte must be one that a host may contain; in a zone the escape must be
  of a byte a host may contain, or of a space.\<close>

datatype encoding = encodeHost | encodeZone | encodeOther

definition host_char :: "char \<Rightarrow> bool" where
  "host_char c \<longleftrightarrow> is_alpha c \<or> is_digit c \<or> c \<in> set ''-_.~!$&()*+,;=:[]<>'' \<or> c = CHR 0x27 \<or> c = CHR 0x22"

fun unescape :: "encoding \<Rightarrow> string \<Rightarrow> string option" where
  "unescape mode [] = Some []"
| "unescape mode (c # cs) =
     (if c = CHR ''%'' then
        (case cs of
           h # l # rest \<Rightarrow>
             if \<not> (is_hex h \<and> is_hex l) then None
             else let v = char_of (16 * unhex h + unhex l); is25 = (h = CHR ''2'' \<and> l = CHR ''5'')
                  in if mode = encodeHost \<and> unhex h < 8 \<and> \<not> is25 then None
                     else if mode = encodeZone \<and> \<not> is25 \<and> v \<noteq> CHR '' '' \<and>
                             \<not> host_char v then None
                     else map_option (Cons v) (unescape mode rest)
         | _ \<Rightarrow> None)
      else if mode \<noteq> encodeOther \<and> (of_char c :: nat) < 128 \<and> \<not> host_char c then None
      else map_option (Cons c) (unescape mode cs))"

fun scheme_scan :: "nat \<Rightarrow> string \<Rightarrow> string \<Rightarrow> string \<Rightarrow> (string \<times> string) option" where
  "scheme_scan i acc raw [] = Some ('''', raw)"
| "scheme_scan i acc raw (c # cs) =
     (if is_alpha c then scheme_scan (Suc i) (acc @ [c]) raw cs
      else if is_digit c \<or> c \<in> set ''+-.''
      then (if i = 0 then Some ('''', raw) else scheme_scan (Suc i) (acc @ [c]) raw cs)
      else if c = CHR '':'' then (if i = 0 then None else Some (acc, cs))
      else Some ('''', raw))"

definition getScheme :: "string \<Rightarrow> (string \<times> string) option" where
  "getScheme raw = scheme_scan 0 '''' raw raw"

definition validOptionalPort :: "string \<Rightarrow> bool" where
  "validOptionalPort port =
     (case port of [] \<Rightarrow> True | c # cs \<Rightarrow> c = CHR '':'' \<and> list_all is_digit cs)"

definition parseHost :: "string \<Rightarrow> string option" where
  "parseHost host =
     (if prefix ''['' host then
        (let i = strings_LastIndex host '']'' in
         if i < 0 then None
         else if \<not> validOptionalPort (drop (nat i + 1) host) then None
         else let zone = strings_Index (take (nat i) host) ''%25'' in
              if zone \<ge> 0 then
                do { h1 \<leftarrow> unescape encodeHost (take (nat zone) host);
                     h2 \<leftarrow> unescape encodeZone (drop (nat zone) (take (nat i) host));
                     h3 \<leftarrow> unescape encodeHost (drop (nat i) host);
                     Some (h1 @ h2 @ h3) }
              else unescape encodeHost host)
      else let i = strings_LastIndex host '':'' in
           if i \<noteq> -1 \<and> \<not> validOptionalPort (drop (nat i) host) then None
           else unescape encodeHost host)"

definition validUserinfo :: "string \<Rightarrow> bool" where
  "validUserinfo s = list_all (\<lambda>c. is_alpha c \<or> is_digit c \<or> c \<in> set ''-._:~!$&()*+,;=%@'' \<or> c = CHR 0x27) s"

definition parseAuthority :: "string \<Rightarrow> string option" where
  "parseAuthority authority =
     (let i = strings_LastIndex authority ''@'' in
      if i < 0 then parseHost authority
      else do { host \<leftarrow> parseHost (drop (nat i + 1) authority);
                (let userinfo = take (nat i) authority in
                 if \<not> validUserinfo userinfo then None
                 else do { _ \<leftarrow> unescape encodeOther userinfo; Some host }) })"

record URL =
  Scheme :: string
  Host :: string
  Path :: string
  RawQuery :: string
  Fragment :: string

definition empty_url :: URL where
  "empty_url = \<lparr>Scheme = '''', Host = '''', Path = '''', RawQuery = '''', Fragment = ''''\<rparr>"

text \<open>The path of a URL after its authority; an opaque URL (a scheme, then no slash) has no host and
  no path.\<close>

definition parse_rest :: "string \<Rightarrow> string \<Rightarrow> string \<Rightarrow> URL option" where
  "parse_rest scheme query rest =
     (let u = empty_url\<lparr>Scheme := scheme, RawQuery := query\<rparr> in
      if \<not> prefix ''/'' rest \<and> scheme \<noteq> '''' then Some u
      else if \<not> prefix ''/'' rest \<and> CHR '':'' \<in> set (fst (cut_at CHR ''/'' rest)) then None
      else if (scheme \<noteq> '''' \<or> \<not> prefix ''///'' rest) \<and> prefix ''//'' rest then
        (let authority = takeWhile (\<lambda>c. c \<noteq> CHR ''/'') (drop 2 rest);
             path = dropWhile (\<lambda>c. c \<noteq> CHR ''/'') (drop 2 rest)
         in do { host \<leftarrow> parseAuthority authority;
                 p \<leftarrow> unescape encodeOther path;
                 Some (u\<lparr>Host := host, Path := p\<rparr>) })
      else do { p \<leftarrow> unescape encodeOther rest; Some (u\<lparr>Path := p\<rparr>) })"

definition url_parse_nofrag :: "string \<Rightarrow> URL option" where
  "url_parse_nofrag raw =
     (if list_ex is_ctl raw then None
      else if raw = ''*'' then Some (empty_url\<lparr>Path := ''*''\<rparr>)
      else case getScheme raw of
        None \<Rightarrow> None
      | Some (sch, rest) \<Rightarrow>
          let scheme = strings_ToLower sch in
          if suffix ''?'' rest \<and> count_list rest CHR ''?'' = 1
          then parse_rest scheme '''' (butlast rest)
          else parse_rest scheme (snd (cut_at CHR ''?'' rest)) (fst (cut_at CHR ''?'' rest)))"

definition url_Parse :: "string \<Rightarrow> URL option" where
  "url_Parse raw =
     (let (u, frag) = cut_at CHR ''#'' raw in
      case url_parse_nofrag u of
        None \<Rightarrow> None
      | Some url \<Rightarrow>
          if frag = '''' then Some url
          else map_option (\<lambda>f. url\<lparr>Fragment := f\<rparr>) (unescape encodeOther frag))"

definition Hostname :: "URL \<Rightarrow> string" where
  "Hostname u =
     (let h = Host u; colon = strings_LastIndex h '':'';
          host = (if colon \<noteq> -1 \<and> validOptionalPort (drop (nat colon) h) then take (nat colon) h else h)
      in if prefix ''['' host \<and> suffix '']'' host \<and> length host \<ge> 2 then butlast (tl host) else host)"

subsection \<open>Package net\<close>

text \<open>\<open>net.SplitHostPort\<close>: \<open>None\<close> is the address error.\<close>

definition SplitHostPort :: "string \<Rightarrow> (string \<times> string) option" where
  "SplitHostPort hostport =
     (let i = strings_LastIndex hostport '':'' in
      if i < 0 then None
      else if prefix ''['' hostport then
        (let e = strings_Index hostport '']'' in
         if e < 0 \<or> e + 1 \<noteq> i then None
         else if CHR ''['' \<in> set (drop 1 hostport) \<or> CHR '']'' \<in> set (drop (nat e + 1) hostport) then None
         else Some (take (nat e - 1) (drop 1 hostport), drop (nat i + 1) hostport))
      else
        (let host = take (nat i) hostport in
         if CHR '':'' \<in> set host then None
         else if CHR ''['' \<in> set hostport \<or> CHR '']'' \<in> set hostport then None
         else Some (host, drop (nat i + 1) hostport)))"

text \<open>A valid dotted quad: four decimal octets without leading zeros.\<close>

fun split_on :: "char \<Rightarrow> string \<Rightarrow> string list" where
  "split_on c [] = [[]]"
| "split_on c (x # xs) =
     (if x = c then [] # split_on c xs
      else (case split_on c xs of [] \<Rightarrow> [[x]] | y # ys \<Rightarrow> (x # y) # ys))"

definition valid_octet :: "string \<Rightarrow> bool" where
  "valid_octet s \<longleftrightarrow> s \<noteq> [] \<and> list_all is_digit s \<and> (hd s = CHR ''0'' \<longrightarrow> length s = 1) \<and>
     length s \<le> 3 \<and> digits_value s \<le> 255"

definition valid_ipv4 :: "string \<Rightarrow> bool" where
  "valid_ipv4 s = (let fs = split_on CHR ''.'' s in length fs = 4 \<and> list_all valid_octet fs)"

text \<open>The loop of \<open>netip.parseIPv6\<close>: \<open>i\<close> bytes have been read, \<open>ell\<close> tells whether an ellipsis
  was seen.  Each round consumes at least one character.\<close>

function ipv6_loop :: "nat \<Rightarrow> bool \<Rightarrow> string \<Rightarrow> bool" where
  "ipv6_loop i ell s =
     (if i \<ge> 16 then s = [] \<and> \<not> ell
      else let digs = takeWhile is_hex s; rest = dropWhile is_hex s in
        if digs = [] \<or> length digs > 4 then False
        else if prefix ''.'' rest then
          (ell \<or> i = 12) \<and> i + 4 \<le> 16 \<and> valid_ipv4 s \<and> (if i + 4 < 16 then ell else \<not> ell)
        else if rest = [] then (if i + 2 < 16 then ell else \<not> ell)
        else if \<not> prefix '':'' rest \<or> length rest = 1 then False
        else let s' = tl rest in
          if prefix '':'' s' then
            (if ell then False
             else if tl s' = [] then i + 2 < 16
             else ipv6_loop (i + 2) True (tl s'))
          else ipv6_loop (i + 2) ell s')"
  by pat_completeness auto
termination
  by (relation "measure (\<lambda>(i, ell, s). 16 - i)") auto

declare ipv6_loop.simps [simp del]

definition valid_ipv6 :: "string \<Rightarrow> bool" where
  "valid_ipv6 s =
     (if prefix ''::'' s then (if length s = 2 then True else ipv6_loop 0 True (drop 2 s))
      else ipv6_loop 0 False s)"

text \<open>Whether \<open>net.ParseIP\<close> returns an address: the first of dot, colon and percent sign decides the
  family, and an address with a zone is refused.\<close>

definition is_ip :: "string \<Rightarrow> bool" where
  "is_ip s =
     (case dropWhile (\<lambda>c. c \<notin> set ''.:%'') s of
        [] \<Rightarrow> False
      | c # _ \<Rightarrow> if c = CHR ''.'' then valid_ipv4 s
                else if c = CHR '':'' then CHR ''%'' \<notin> set s \<and> valid_ipv6 s
                else False)"

subsection \<open>Package filepath\<close>

definition filepath_IsAbs :: "string \<Rightarrow> bool" where
  "filepath_IsAbs p = prefix ''/'' p"

end
