(* ===== verification/Validators.thy ===== *)
theory Validators
  imports SampleCluster GoNet
begin

text \<open>
  The validator framework (\<open>pkg/webhook/validator/validator.go\<close>) and what the validators share:
  the read-only API client, which is a parameter, the shape of a validator, and the locale
  \<open>revalidating\<close>, the contract of a validator whose update check includes its creation check.

  A validator returns an optional error message; the outer \<open>option\<close> is \<open>None\<close> where the code
  panics.  The aggregate of \<open>RunCreate\<close> and \<open>RunUpdate\<close> is the list of its errors; the nil
  aggregate is the empty list.
\<close>

text \<open>\<open>client.Reader.Get\<close> on a secret (namespace, name) and on a volume attributes class (name).\<close>

record Reader =
  GetSecretObj :: "string \<Rightarrow> string \<Rightarrow> kerr + Secret"
  GetVACObj :: "string \<Rightarrow> kerr + unit"

type_synonym verdict = "error option"

abbreviation Accept :: verdict where "Accept \<equiv> Some None"
abbreviation Reject :: "string \<Rightarrow> verdict" where "Reject msg \<equiv> Some (Some msg)"
abbreviation Panic :: "'a option" where "Panic \<equiv> None"

record Validator =
  va_Name :: string
  va_ValidateCreate :: "Reader \<Rightarrow> RavenDBCluster \<Rightarrow> verdict"
  va_ValidateUpdate :: "Reader \<Rightarrow> RavenDBCluster \<Rightarrow> RavenDBCluster \<Rightarrow> verdict"

text \<open>A string between single quotes, as the message formats write it.\<close>

definition sq :: "string \<Rightarrow> string" where
  "sq s = [CHR 0x27] @ s @ [CHR 0x27]"

text \<open>\<open>fmt.Errorf("%s", strings.Join(errs, "\n"))\<close> where \<open>errs\<close> is not empty, nil otherwise.\<close>

definition newline :: string where "newline = [CHR 0x0A]"

definition join_errors :: "string list \<Rightarrow> error" where
  "join_errors errs = (if length errs > 0 then Some (strings_Join errs newline) else None)"

lemma join_errors_None [simp]: "join_errors errs = None \<longleftrightarrow> errs = []"
  by (simp add: join_errors_def)

fun run_all :: "(Validator \<Rightarrow> verdict) \<Rightarrow> Validator list \<Rightarrow> string list option" where
  "run_all call [] = Some []"
| "run_all call (v # vs) =
     do { err \<leftarrow> call v;
          errs \<leftarrow> run_all call vs;
          Some ((case err of None \<Rightarrow> [] | Some e \<Rightarrow> [newline @ ''['' @ va_Name v @ ''] '' @ e]) @ errs) }"

definition RunCreate :: "Validator list \<Rightarrow> Reader \<Rightarrow> RavenDBCluster \<Rightarrow> string list option" where
  "RunCreate vs rd cluster = run_all (\<lambda>v. va_ValidateCreate v rd cluster) vs"

definition RunUpdate ::
  "Validator list \<Rightarrow> Reader \<Rightarrow> RavenDBCluster \<Rightarrow> RavenDBCluster \<Rightarrow> string list option" where
  "RunUpdate vs rd oldCluster newCluster = run_all (\<lambda>v. va_ValidateUpdate v rd oldCluster newCluster) vs"

lemma run_all_accepts: "run_all call vs = Some [] \<longleftrightarrow> (\<forall>v \<in> set vs. call v = Accept)"
  by (induction vs) (auto simp: bind_eq_Some_conv split: option.splits)

locale revalidating =
  fixes create :: "Reader \<Rightarrow> RavenDBCluster \<Rightarrow> verdict"
    and update :: "Reader \<Rightarrow> RavenDBCluster \<Rightarrow> RavenDBCluster \<Rightarrow> verdict"
  assumes update_includes_create: "update rd old new = Accept \<Longrightarrow> create rd new = Accept"
begin

text \<open>After any accepted sequence of updates the latest version satisfies the creation check, if the
  first one did.\<close>

fun accepted_chain :: "Reader \<Rightarrow> RavenDBCluster \<Rightarrow> RavenDBCluster list \<Rightarrow> bool" where
  "accepted_chain rd c [] = True"
| "accepted_chain rd c (d # ds) = (update rd c d = Accept \<and> accepted_chain rd d ds)"

lemma chain_keeps_create:
  "create rd c = Accept \<Longrightarrow> accepted_chain rd c ds \<Longrightarrow> create rd (last (c # ds)) = Accept"
  by (induction ds arbitrary: c) (auto dest: update_includes_create)

end

text \<open>Secrets are looked up in the namespace \<open>ravendb\<close>.\<close>

definition getSecret :: "Reader \<Rightarrow> string \<Rightarrow> string + Secret" where
  "getSecret rd name =
     (case GetSecretObj rd ''ravendb'' name of
        Inl _ \<Rightarrow> Inl (''secret '' @ sq name @ '' not found'')
      | Inr secret \<Rightarrow> Inr secret)"

text \<open>A secret as every validator wants it: present, with a single key of the given suffix.\<close>

definition single_key_secret :: "Reader \<Rightarrow> string \<Rightarrow> string \<Rightarrow> bool" where
  "single_key_secret rd name ext \<longleftrightarrow>
     (\<exists>s k v. GetSecretObj rd ''ravendb'' name = Inr s \<and> sec_Data s = [(k, v)] \<and> suffix ext k)"

text \<open>The check that every secret validator ends with: the secret must exist and hold exactly one entry,
  whose key has the given suffix.  The three messages differ from caller to caller.\<close>

definition secret_errors ::
  "string + Secret \<Rightarrow> string \<Rightarrow> (string \<Rightarrow> string) \<Rightarrow> string \<Rightarrow> (string \<Rightarrow> string) \<Rightarrow> string list" where
  "secret_errors r ext notFound notOne badKey =
     (case r of
        Inl err \<Rightarrow> [notFound err]
      | Inr secret \<Rightarrow>
          if length (sec_Data secret) \<noteq> 1 then [notOne]
          else let key = fst (hd (sec_Data secret))
               in if \<not> strings_HasSuffix key ext then [badKey key] else [])"

lemma length_eq_1: "length xs = Suc 0 \<longleftrightarrow> (\<exists>x. xs = [x])"
  by (cases xs) auto

lemma secret_errors_Nil [simp]:
  "secret_errors (getSecret rd name) ext notFound notOne badKey = [] \<longleftrightarrow> single_key_secret rd name ext"
  by (auto simp: secret_errors_def getSecret_def single_key_secret_def strings_HasSuffix_def length_eq_1
      split: sum.splits if_splits)

end
