(* ===== verification/ImageValidator.thy ===== *)
theory ImageValidator
  imports Validators
begin

text \<open>
  The image validator (\<open>pkg/webhook/validator/image_validator.go\<close>): which image references are
  accepted, how the tag and the version are read out of them, and the rule that an update never
  lowers the version.  Versions are ordered as the code compares them, by an instance of
  \<open>linorder\<close>.
\<close>

subsection \<open>Definitions\<close>

definition isRavenRepo :: "string \<Rightarrow> bool" where
  "isRavenRepo img = strings_HasPrefix img ''ravendb/''"

definition hasDigest :: "string \<Rightarrow> bool" where
  "hasDigest img = strings_Contains img ''@sha256:''"

definition extractTag :: "string \<Rightarrow> string \<times> bool" where
  "extractTag img =
     (let i = strings_Index img ''@'';
          img = (if i \<noteq> -1 then take (nat i) img else img);
          lastSlash = strings_LastIndex img ''/'';
          lastColon = strings_LastIndex img '':''
      in if lastColon = -1 \<or> lastColon < lastSlash then ('''', False)
         else let tag = drop (nat lastColon + 1) img
              in if tag = '''' then ('''', False) else (tag, True))"

definition isFloatingTag :: "string \<Rightarrow> bool" where
  "isFloatingTag tag = strings_Contains tag ''latest''"

definition isUbuntuTag :: "string \<Rightarrow> bool" where
  "isUbuntuTag tag = strings_Contains tag ''ubuntu.''"

definition validateImage :: "string \<Rightarrow> error" where
  "validateImage img =
     (if \<not> isRavenRepo img
      then Some (''image must be under the '' @ sq ''ravendb/'' @
                 '' registry namespace (e.g., ravendb/ravendb:<version>)'')
      else if hasDigest img
      then Some (''digest references are not allowed. use a concrete tag (e.g., '' @
                 sq '':7.1.3-ubuntu.22.04-x64'' @ '')'')
      else let (tag, ok) = extractTag img in
        if \<not> ok \<or> tag = ''''
        then Some (''image must specify a tag; implicit '' @ sq '':latest'' @ '' is not allowed'')
        else if isFloatingTag tag
        then Some (''floating tag '' @ quote tag @ '' is not allowed. use a concrete, pinned tag (e.g., '' @
                   sq '':7.1.3-ubuntu.22.04-x64'' @ '')'')
        else if \<not> isUbuntuTag tag
        then Some (''non-ubuntu images are not supported. use an ubuntu-tagged image (e.g., '' @
                   sq '':7.1.3-ubuntu.22.04-x64'' @ '')'')
        else None)"

datatype semver = Semver (major: int) (minor: int) (patch: int)

text \<open>The regular expression \<open>^(\d+)\.(\d+)(?:\.(\d+))?\<close> and its three submatches.\<close>

definition leadingSemverRE :: "string \<Rightarrow> (string \<times> string \<times> string) option" where
  "leadingSemverRE s =
     (let d1 = takeWhile is_digit s; r1 = dropWhile is_digit s in
      if d1 = [] \<or> \<not> prefix ''.'' r1 then None
      else let d2 = takeWhile is_digit (tl r1); r2 = dropWhile is_digit (tl r1) in
           if d2 = [] then None
           else Some (d1, d2, if prefix ''.'' r2 then takeWhile is_digit (tl r2) else []))"

definition parseRavenVersion :: "string \<Rightarrow> string + semver" where
  "parseRavenVersion tag =
     (case leadingSemverRE tag of
        None \<Rightarrow> Inl (''no leading semver in tag '' @ quote tag)
      | Some (m1, m2, m3) \<Rightarrow>
          Inr (Semver (atoi_digits m1) (atoi_digits m2) (if m3 \<noteq> '''' then atoi_digits m3 else 0)))"

definition compareSemver :: "semver \<Rightarrow> semver \<Rightarrow> int" where
  "compareSemver a b =
     (if major a \<noteq> major b then (if major a > major b then 1 else -1)
      else if minor a \<noteq> minor b then (if minor a > minor b then 1 else -1)
      else if patch a \<noteq> patch b then (if patch a > patch b then 1 else -1)
      else 0)"

definition show_err :: "string + 'a \<Rightarrow> string" where
  "show_err r = (case r of Inl e \<Rightarrow> e | Inr _ \<Rightarrow> ''<nil>'')"

definition show_version :: "semver \<Rightarrow> string" where
  "show_version v = ''(v'' @ itoa (major v) @ ''.'' @ itoa (minor v) @ ''.'' @ itoa (patch v) @ '')''"

definition compareTagsDowngrade :: "string \<Rightarrow> string \<Rightarrow> error" where
  "compareTagsDowngrade oldTag newTag =
     (let old = parseRavenVersion oldTag; new = parseRavenVersion newTag in
      case (old, new) of
        (Inr oldVer, Inr newVer) \<Rightarrow>
          if compareSemver oldVer newVer = 1
          then Some (''downgrade is not allowed: '' @ oldTag @ '' '' @ show_version oldVer @ '' -> '' @
                     newTag @ '' '' @ show_version newVer)
          else None
      | _ \<Rightarrow> Some (''unable to parse RavenDB versions from tags (old='' @ quote oldTag @ '' err='' @
                   show_err old @ '', new='' @ quote newTag @ '' err='' @ show_err new @ ''). '' @
                   ''Use tags that start with '' @ sq ''<major>.<minor>.<patch>...''))"

definition image_ValidateCreate :: "Reader \<Rightarrow> RavenDBCluster \<Rightarrow> verdict" where
  "image_ValidateCreate rd c = Some (validateImage (GetImage c))"

definition image_ValidateUpdate :: "Reader \<Rightarrow> RavenDBCluster \<Rightarrow> RavenDBCluster \<Rightarrow> verdict" where
  "image_ValidateUpdate rd oldC newC =
     (case image_ValidateCreate rd newC of
        Panic \<Rightarrow> Panic
      | Reject err \<Rightarrow> Reject err
      | Accept \<Rightarrow>
          let oldTag = fst (extractTag (GetImage oldC)); newTag = fst (extractTag (GetImage newC))
          in Some (compareTagsDowngrade oldTag newTag))"

definition imageValidator :: Validator where
  "imageValidator = \<lparr>va_Name = ''image-validator'', va_ValidateCreate = image_ValidateCreate,
     va_ValidateUpdate = image_ValidateUpdate\<rparr>"

subsection \<open>Versions are totally ordered\<close>

text \<open>The order of versions is the lexicographic order of their three numbers; it does not refer to the comparison of the code.\<close>

instantiation semver :: linorder
begin

definition less_eq_semver :: "semver \<Rightarrow> semver \<Rightarrow> bool" where
  "a \<le> b \<longleftrightarrow> major a < major b \<or>
     (major a = major b \<and> (minor a < minor b \<or> (minor a = minor b \<and> patch a \<le> patch b)))"

definition less_semver :: "semver \<Rightarrow> semver \<Rightarrow> bool" where
  "a < b \<longleftrightarrow> major a < major b \<or>
     (major a = major b \<and> (minor a < minor b \<or> (minor a = minor b \<and> patch a < patch b)))"

instance
proof
  fix a b c :: semver
  show "a < b \<longleftrightarrow> a \<le> b \<and> \<not> b \<le> a" by (auto simp: less_eq_semver_def less_semver_def)
  show "a \<le> a" by (simp add: less_eq_semver_def)
  show "a \<le> b \<Longrightarrow> b \<le> c \<Longrightarrow> a \<le> c" by (auto simp: less_eq_semver_def)
  show "a \<le> b \<Longrightarrow> b \<le> a \<Longrightarrow> a = b" by (cases a, cases b) (auto simp: less_eq_semver_def)
  show "a \<le> b \<or> b \<le> a" by (auto simp: less_eq_semver_def)
qed

end

text \<open>The three-way comparison of the code is that order.\<close>

lemma compareSemver_order: "compareSemver a b = (if a < b then -1 else if a = b then 0 else 1)"
  by (cases a, cases b) (auto simp: compareSemver_def less_semver_def)

lemma compareSemver_greater: "compareSemver a b = 1 \<longleftrightarrow> \<not> a \<le> b"
  by (auto simp: compareSemver_order not_le)

interpretation image_reval: revalidating image_ValidateCreate image_ValidateUpdate
  by unfold_locales
    (auto simp: image_ValidateUpdate_def image_ValidateCreate_def split: option.splits)

lemma compareTagsDowngrade_None:
  "compareTagsDowngrade oldTag newTag = None \<longleftrightarrow>
     (\<exists>ov nv. parseRavenVersion oldTag = Inr ov \<and> parseRavenVersion newTag = Inr nv \<and> ov \<le> nv)"
  by (auto simp: compareTagsDowngrade_def Let_def compareSemver_greater split: sum.splits if_splits)

definition image_version :: "RavenDBCluster \<Rightarrow> string + semver" where
  "image_version c = parseRavenVersion (fst (extractTag (GetImage c)))"

lemma image_update_iff:
  "image_ValidateUpdate rd old new = Accept \<longleftrightarrow>
   validateImage (GetImage new) = None \<and>
   (\<exists>ov nv. image_version old = Inr ov \<and> image_version new = Inr nv \<and> ov \<le> nv)"
  by (auto simp: image_ValidateUpdate_def image_ValidateCreate_def image_version_def Let_def
      compareTagsDowngrade_None split: option.splits)

subsection \<open>The tag of an image reference\<close>

text \<open>A tag is what may stand between the last colon of a reference and a digest.\<close>

definition is_tag :: "string \<Rightarrow> bool" where
  "is_tag tag \<longleftrightarrow> tag \<noteq> '''' \<and> set tag \<inter> {CHR ''@'', CHR ''/'', CHR '':''} = {}"

lemma extractTag_takeWhile: "extractTag img = extractTag (takeWhile (\<lambda>c. c \<noteq> CHR ''@'') img)"
proof -
  let ?i = "takeWhile (\<lambda>c. c \<noteq> CHR ''@'') img"
  have "takeWhile (\<lambda>c. c \<noteq> CHR ''@'') ?i = ?i" by (auto simp: takeWhile_eq_all_conv dest: set_takeWhileD)
  then show ?thesis unfolding extractTag_def Let_def cut_at_Index by simp
qed

lemma last_colon_before_slash:
  assumes "CHR '':'' \<notin> set t"
  shows "strings_LastIndex (repo @ CHR '':'' # t) '':'' < strings_LastIndex (repo @ CHR '':'' # t) ''/'' \<longleftrightarrow>
         CHR ''/'' \<in> set t"
proof (cases "CHR ''/'' \<in> set t")
  case True
  then obtain a b where t: "t = a @ CHR ''/'' # b" "CHR ''/'' \<notin> set b" by (meson split_list_last)
  then have "strings_LastIndex ((repo @ CHR '':'' # a) @ CHR ''/'' # b) ''/'' = int (length (repo @ CHR '':'' # a))"
    by (intro strings_LastIndex_split)
  with t True assms show ?thesis by simp
next
  case False
  then have "strings_LastIndex (repo @ CHR '':'' # t) ''/'' = strings_LastIndex repo ''/''"
    by (intro strings_LastIndex_append_absent) simp
  with False assms show ?thesis using strings_LastIndex_less [of repo "CHR ''/''"] by simp
qed

lemma extractTag_no_at:
  assumes "CHR ''@'' \<notin> set img"
  shows "extractTag img = (tag, True) \<longleftrightarrow> is_tag tag \<and> (\<exists>repo. img = repo @ '':'' @ tag)"
proof (cases "CHR '':'' \<in> set img")
  case True
  then obtain repo t where img: "img = repo @ CHR '':'' # t" "CHR '':'' \<notin> set t" by (meson split_list_last)
  then have "extractTag img = (if CHR ''/'' \<in> set t \<or> t = '''' then ('''', False) else (t, True))"
    using assms last_colon_before_slash [of t repo] by (simp add: extractTag_def nat_add_distrib)
  moreover have "repo @ CHR '':'' # t = r @ CHR '':'' # tag \<Longrightarrow> CHR '':'' \<notin> set tag \<Longrightarrow> r = repo \<and> tag = t" for r
    using last_split_unique [of repo "CHR '':''" t r tag] img(2) by blast
  ultimately show ?thesis using img assms by (auto simp: is_tag_def)
qed (use assms in \<open>auto simp: extractTag_def Let_def\<close>)

lemma extractTag_iff:
  "extractTag img = (tag, True) \<longleftrightarrow>
   is_tag tag \<and> (\<exists>repo rest. img = repo @ '':'' @ tag @ rest \<and> CHR ''@'' \<notin> set repo \<and> (rest = '''' \<or> prefix ''@'' rest))"
  (is "_ \<longleftrightarrow> is_tag tag \<and> ?split")
proof -
  let ?P = "\<lambda>c. c \<noteq> CHR ''@''"
  have "is_tag tag \<Longrightarrow> (\<exists>repo. takeWhile ?P img = repo @ '':'' @ tag) \<longleftrightarrow> ?split"
  proof
    assume "is_tag tag" "\<exists>repo. takeWhile ?P img = repo @ '':'' @ tag"
    then obtain repo where r: "takeWhile ?P img = repo @ '':'' @ tag" by blast
    then have "img = repo @ '':'' @ tag @ dropWhile ?P img" by (metis append_assoc takeWhile_dropWhile_id)
    moreover have "CHR ''@'' \<notin> set repo" by (metis r UnCI set_append set_takeWhileD)
    moreover have "dropWhile ?P img = '''' \<or> prefix ''@'' (dropWhile ?P img)"
      by (cases "dropWhile ?P img") (use hd_dropWhile [of ?P img] in auto)
    ultimately show ?split by blast
  next
    assume tag: "is_tag tag" and ?split
    then obtain repo rest where img: "img = repo @ '':'' @ tag @ rest" "CHR ''@'' \<notin> set repo"
      "rest = '''' \<or> prefix ''@'' rest" by blast
    have "takeWhile ?P ((repo @ '':'' @ tag) @ rest) = (repo @ '':'' @ tag) @ takeWhile ?P rest"
      by (rule takeWhile_append2) (use tag img in \<open>auto simp: is_tag_def\<close>)
    with img show "\<exists>repo. takeWhile ?P img = repo @ '':'' @ tag" by (auto simp: prefix_def)
  qed
  moreover have "CHR ''@'' \<notin> set (takeWhile ?P img)" by (auto dest: set_takeWhileD)
  ultimately show ?thesis
    by (subst extractTag_takeWhile) (auto simp: extractTag_no_at)
qed

lemma extractTag_fails: "snd (extractTag img) = False \<Longrightarrow> fst (extractTag img) = ''''"
  by (auto simp: extractTag_def Let_def split: if_splits)

subsection \<open>Properties\<close>

lemma validateImage_None:
  "validateImage img = None \<longleftrightarrow> isRavenRepo img \<and> \<not> hasDigest img \<and>
     (\<exists>tag. extractTag img = (tag, True) \<and> isUbuntuTag tag \<and> \<not> isFloatingTag tag)"
proof (cases "extractTag img")
  case (Pair tag ok)
  have "extractTag img = (tag, True) \<Longrightarrow> tag \<noteq> ''''" by (simp add: extractTag_iff is_tag_def)
  with Pair show ?thesis by (auto simp: validateImage_def)
qed

text \<open>C32. The image check accepts exactly the references \<open>ravendb/...:tag\<close>, possibly followed by an
  \<open>@\<close> suffix that is no sha256 digest, whose tag (the text after the last colon, free of slashes) names an ubuntu
  build and no floating \<open>latest\<close>.\<close>

theorem validateImage_accepts_iff:
  "validateImage img = None \<longleftrightarrow>
   prefix ''ravendb/'' img \<and> \<not> sublist ''@sha256:'' img \<and>
   (\<exists>repo tag rest. img = repo @ '':'' @ tag @ rest \<and> CHR ''@'' \<notin> set repo \<and> is_tag tag \<and>
      (rest = '''' \<or> prefix ''@'' rest) \<and> sublist ''ubuntu.'' tag \<and> \<not> sublist ''latest'' tag)"
  unfolding validateImage_None extractTag_iff isRavenRepo_def hasDigest_def isFloatingTag_def isUbuntuTag_def
    strings_HasPrefix_def strings_Contains_def by blast

text \<open>C33. Reading a version back: a tag that begins with the decimal rendering of three numbers that
  fit a 64-bit integer, and does not go on with a digit, parses to those three numbers.\<close>

theorem parseRavenVersion_roundtrip:
  assumes "int a \<le> max_int64" "int b \<le> max_int64" "int c \<le> max_int64"
    and "rest = '''' \<or> \<not> is_digit (hd rest)"
  shows "parseRavenVersion (nat_digits a @ ''.'' @ nat_digits b @ ''.'' @ nat_digits c @ rest) =
         Inr (Semver (int a) (int b) (int c))"
proof -
  have digits: "takeWhile is_digit (nat_digits n @ r) = nat_digits n" "dropWhile is_digit (nat_digits n @ r) = r"
    if "r = '''' \<or> \<not> is_digit (hd r)" for n r
    using that nat_digits_digits [of n] by (cases r; auto simp: list_all_iff takeWhile_append dropWhile_append)+
  have dot: "\<not> is_digit CHR ''.''" by (simp add: is_digit_def)
  show ?thesis
    using assms dot by (simp add: parseRavenVersion_def leadingSemverRE_def digits atoi_nat_digits)
qed

theorem parseRavenVersion_roundtrip_witness:
  "parseRavenVersion (nat_digits 7 @ ''.'' @ nat_digits 1 @ ''.'' @ nat_digits 3 @ ''-ubuntu.22.04-x64'') =
     Inr (Semver 7 1 3)"
  using parseRavenVersion_roundtrip [of 7 1 3 "''-ubuntu.22.04-x64''"] by (simp add: max_int64_def is_digit_def)

text \<open>C16. Which sequences of updates the image validator accepts: along a sequence of two or more cluster
  specifications every step is accepted exactly when all images after the first are valid references, every image has a version, and the
  versions never decrease, in the lexicographic order of their major, minor and patch numbers.\<close>

theorem image_updates_monotone:
  assumes "length cs \<ge> 2"
  shows "successively (\<lambda>old new. image_ValidateUpdate rd old new = Accept) cs \<longleftrightarrow>
    list_all (\<lambda>c. validateImage (GetImage c) = None) (tl cs) \<and>
    (\<exists>vs. map image_version cs = map Inr vs \<and>
       sorted_wrt (\<lambda>v w. major v < major w \<or>
         (major v = major w \<and> (minor v < minor w \<or> (minor v = minor w \<and> patch v \<le> patch w)))) vs)"
proof -
  have "successively (\<lambda>old new. image_ValidateUpdate rd old new = Accept) cs \<longleftrightarrow>
    list_all (\<lambda>c. validateImage (GetImage c) = None) (tl cs) \<and> (\<exists>vs. map image_version cs = map Inr vs \<and> sorted vs)"
    using assms
  proof (induction cs rule: induct_list012)
    case (3 x y zs)
    show ?case
    proof (cases zs)
      case Nil
      then show ?thesis by (auto simp: image_update_iff Cons_eq_map_conv)
    next
      case (Cons z zs')
      with 3(2) have IH: "successively (\<lambda>old new. image_ValidateUpdate rd old new = Accept) (y # zs) \<longleftrightarrow>
        list_all (\<lambda>c. validateImage (GetImage c) = None) zs \<and> (\<exists>vs. map image_version (y # zs) = map Inr vs \<and> sorted vs)"
        by simp
      have versions: "(\<exists>vs. map image_version (x # y # zs) = map Inr vs \<and> sorted vs) \<longleftrightarrow>
        (\<exists>ov nv. image_version x = Inr ov \<and> image_version y = Inr nv \<and> ov \<le> nv) \<and>
        (\<exists>vs. map image_version (y # zs) = map Inr vs \<and> sorted vs)" (is "?l \<longleftrightarrow> ?r")
      proof
        show "?l \<Longrightarrow> ?r" by (fastforce simp: Cons_eq_map_conv)
        assume ?r
        then obtain ov nv vs where v: "image_version x = Inr ov" "image_version y = Inr nv" "ov \<le> nv"
          "map image_version (y # zs) = map Inr vs" "sorted vs" by blast
        then obtain vs' where "vs = nv # vs'" by (cases vs) auto
        with v show ?l by (intro exI [of _ "ov # vs"]) auto
      qed
      show ?thesis
        unfolding successively.simps(3) IH versions image_update_iff [of rd x y] list.sel list.pred_inject
        by (simp only: conj_ac)
    qed
  qed auto
  then show ?thesis unfolding less_eq_semver_def [abs_def] .
qed

theorem image_updates_monotone_witness:
  "\<exists>vs. map image_version [sample_cluster ''ravendb/ravendb:6.2.9-ubuntu.22.04-x64'',
       sample_cluster ''ravendb/ravendb:7.0.10-ubuntu.22.04-x64'',
       sample_cluster ''ravendb/ravendb:7.1.3-ubuntu.22.04-x64''] = map Inr vs \<and>
     sorted_wrt (\<lambda>v w. major v < major w \<or>
         (major v = major w \<and> (minor v < minor w \<or> (minor v = minor w \<and> patch v \<le> patch w)))) vs"
proof -
  let ?rd = "\<lparr>GetSecretObj = \<lambda>_ _. Inl (NotFound ''none''), GetVACObj = \<lambda>_. Inl (NotFound ''none'')\<rparr>"
  let ?cs = "[sample_cluster ''ravendb/ravendb:6.2.9-ubuntu.22.04-x64'',
       sample_cluster ''ravendb/ravendb:7.0.10-ubuntu.22.04-x64'',
       sample_cluster ''ravendb/ravendb:7.1.3-ubuntu.22.04-x64'']"
  have "successively (\<lambda>old new. image_ValidateUpdate ?rd old new = Accept) ?cs" by code_simp
  with image_updates_monotone [of ?cs ?rd] show ?thesis by simp
qed

end
