(* ===== verification/GeneralValidator.thy ===== *)
theory GeneralValidator
  imports Validators
begin

text \<open>
  The general validator (\<open>pkg/webhook/validator/general_validator.go\<close>): mode, e-mail, license,
  certificates and domain at creation, and the fields that must not change afterwards.
  \<open>ValidateCACertSecret\<close> dereferences its pointer argument for every mode but the two known ones,
  so its model may panic.
\<close>

definition ValidateEmail :: "string \<Rightarrow> string \<Rightarrow> string list" where
  "ValidateEmail mode email =
     (if mode = ''LetsEncrypt'' \<and> email = '''' then [''spec.email is required when mode is LetsEncrypt''] else []) @
     (if mode = ''None'' \<and> email \<noteq> '''' then [''spec.email must not be set when mode is None''] else [])"

definition ValidateLicenseSecret :: "Reader \<Rightarrow> string \<Rightarrow> string list" where
  "ValidateLicenseSecret rd license =
     secret_errors (getSecret rd license) ''.json''
       (\<lambda>err. ''spec.licenseSecretRef: '' @ err)
       (''spec.licenseSecretRef: secret '' @ sq license @ '' must contain exactly one '' @ sq ''.json'' @ '' file'')
       (\<lambda>key. ''spec.licenseSecretRef: secret '' @ sq license @ '' must contain a file ending with '' @
              sq ''.json'' @ '', got '' @ sq key @ '' instead'')"

definition ValidateClusterCertSecret :: "Reader \<Rightarrow> string \<Rightarrow> string \<Rightarrow> string list" where
  "ValidateClusterCertSecret rd mode clusterCert =
     (if mode = ''LetsEncrypt''
      then (if clusterCert \<noteq> '''' then [''spec.clusterCertSecretRef must not be set when mode is LetsEncrypt''] else [])
      else if mode = ''None'' \<and> clusterCert = ''''
      then [''spec.clusterCertSecretRef is required when mode is None'']
      else secret_errors (getSecret rd clusterCert) ''.pfx''
        (\<lambda>err. ''spec.clusterCertSecretRef: '' @ err)
        (''spec.clusterCertSecretRef: secret '' @ sq clusterCert @ '' must contain exactly one '' @ sq ''.pfx'' @ '' file'')
        (\<lambda>key. ''spec.clusterCertSecretRef: secret '' @ sq clusterCert @ '' must contain a file ending with '' @
               [CHR 0x27] @ ''.pfx , got '' @ sq key @ '' instead''))"

definition isValidFQDN :: "string \<Rightarrow> bool" where
  "isValidFQDN s = (if strings_Contains s ''_'' \<or> s = ''localhost'' then False else \<not> is_ip s)"

definition ValidateDomain :: "string \<Rightarrow> string list" where
  "ValidateDomain domain =
     (if \<not> isValidFQDN domain then [''spec.domain '' @ sq domain @ '' must be a valid FQDN''] else [])"

text \<open>The loop of \<open>ValidateEnv\<close> over the keys of the map, with the names seen so far.\<close>

fun validate_env_loop :: "string list \<Rightarrow> string set \<Rightarrow> string list" where
  "validate_env_loop [] duplicateEvars = []"
| "validate_env_loop (name # names) duplicateEvars =
     (if name \<in> duplicateEvars then [''spec.env: duplicate environment variable '' @ sq name] else []) @
     validate_env_loop names (insert name duplicateEvars)"

definition ValidateEnv :: "strmap \<Rightarrow> string list" where
  "ValidateEnv envVars = validate_env_loop (map fst envVars) {}"

definition ValidateClientCertSecret :: "Reader \<Rightarrow> string \<Rightarrow> string list" where
  "ValidateClientCertSecret rd clientCert =
     secret_errors (getSecret rd clientCert) ''.pfx''
       (\<lambda>err. ''spec.clientCertSecretRef: '' @ err)
       (''spec.clientCertSecretRef: secret '' @ sq clientCert @ '' must contain exactly one '' @ sq ''.pfx'' @ '' file'')
       (\<lambda>key. ''spec.clientCertSecretRef: secret '' @ sq clientCert @ '' must contain a file ending with '' @
              sq ''.pfx'' @ '', got '' @ sq key @ '' instead'')"

definition ValidateCACertSecret :: "Reader \<Rightarrow> string \<Rightarrow> string option \<Rightarrow> string list option" where
  "ValidateCACertSecret rd mode caCert =
     (if mode = ''LetsEncrypt''
      then Some (if caCert \<noteq> None then [''spec.caCertSecretRef must not be set when mode is LetsEncrypt''] else [])
      else if mode = ''None'' \<and> caCert = None
      then Some [''spec.caCertSecretRef is required when mode is None'']
      else case caCert of
        None \<Rightarrow> Panic
      | Some ca \<Rightarrow> Some (secret_errors (getSecret rd ca) ''.crt''
          (\<lambda>err. ''spec.caCertSecretRef: '' @ err)
          (''spec.caCertSecretRef: secret '' @ sq ca @ '' must contain exactly one '' @ sq ''.crt'' @ '' file'')
          (\<lambda>key. ''spec.caCertSecretRef: secret '' @ sq ca @ '' must contain a file ending with '' @
                 sq ''.crt'' @ '', got '' @ sq key @ '' instead'')))"

definition ValidateImmutableOnceCreated :: "RavenDBCluster \<Rightarrow> RavenDBCluster \<Rightarrow> string list" where
  "ValidateImmutableOnceCreated oldC newC =
     (if GetMode oldC \<noteq> GetMode newC then [''spec.mode is immutable after creation''] else []) @
     (if GetDomain oldC \<noteq> GetDomain newC then [''spec.domain is immutable after creation''] else []) @
     (if strings_Join (GetNodeTags oldC) ''|'' \<noteq> strings_Join (GetNodeTags newC) ''|''
      then [''spec.nodes[].tag is immutable after creation''] else []) @
     (if strings_Join (GetNodePublicUrls oldC) ''|'' \<noteq> strings_Join (GetNodePublicUrls newC) ''|''
      then [''spec.nodes[].publicServerUrl is immutable after creation''] else []) @
     (if strings_Join (GetNodeTcpUrls oldC) ''|'' \<noteq> strings_Join (GetNodeTcpUrls newC) ''|''
      then [''spec.nodes[].publicServerUrlTcp is immutable after creation''] else [])"

definition general_ValidateCreate :: "Reader \<Rightarrow> RavenDBCluster \<Rightarrow> verdict" where
  "general_ValidateCreate rd c =
     do { caErrs \<leftarrow> ValidateCACertSecret rd (GetMode c) (GetCACertSecretRef c);
          Some (join_errors
            (ValidateEmail (GetMode c) (GetEmail c) @
             ValidateLicenseSecret rd (GetLicenseSecretRef c) @
             ValidateClusterCertSecret rd (GetMode c) (GetClusterCertsSecretRef c) @
             ValidateDomain (GetDomain c) @
             ValidateEnv (GetEnv c) @
             ValidateClientCertSecret rd (GetClientCertSecretRef c) @
             caErrs)) }"

definition general_ValidateUpdate :: "Reader \<Rightarrow> RavenDBCluster \<Rightarrow> RavenDBCluster \<Rightarrow> verdict" where
  "general_ValidateUpdate rd oldC newC = Some (join_errors (ValidateImmutableOnceCreated oldC newC))"

definition generalValidator :: Validator where
  "generalValidator = \<lparr>va_Name = ''general-validator'', va_ValidateCreate = general_ValidateCreate,
     va_ValidateUpdate = general_ValidateUpdate\<rparr>"

subsection \<open>Lemmas\<close>

lemma validate_env_loop_Nil:
  "validate_env_loop names seen = [] \<longleftrightarrow> distinct names \<and> set names \<inter> seen = {}"
  by (induction names arbitrary: seen) auto

text \<open>The keys of a Go map are distinct, so the duplicate check cannot fire.\<close>

lemma ValidateEnv_dead: "distinct (map fst env) \<Longrightarrow> ValidateEnv env = []"
  by (simp add: ValidateEnv_def validate_env_loop_Nil)

text \<open>Joining with a separator is injective on non-empty lists of strings that do not contain it.\<close>

lemma split_at_sep:
  "c \<notin> set x \<Longrightarrow> c \<notin> set x' \<Longrightarrow> x @ c # r = x' @ c # r' \<longleftrightarrow> x = x' \<and> r = r'"
proof (induction x arbitrary: x')
  case Nil
  then show ?case by (cases x') auto
next
  case (Cons a x)
  then show ?case by (cases x') auto
qed

lemma strings_Join_Cons:
  "strings_Join (x # xs) [c] = x @ (if xs = [] then [] else c # strings_Join xs [c])"
  by (cases xs) auto

lemma strings_Join_inj:
  "xs \<noteq> [] \<Longrightarrow> ys \<noteq> [] \<Longrightarrow> \<forall>x \<in> set xs \<union> set ys. c \<notin> set x \<Longrightarrow>
   strings_Join xs [c] = strings_Join ys [c] \<longleftrightarrow> xs = ys"
proof (induction xs arbitrary: ys)
  case (Cons x xs)
  then obtain y ys' where ys: "ys = y # ys'" by (cases ys) auto
  consider "xs = []" | "ys' = []" | "xs \<noteq> []" "ys' \<noteq> []" by blast
  then show ?case
    using Cons ys by cases (auto simp: strings_Join_Cons split_at_sep simp del: strings_Join.simps)
qed simp

subsection \<open>Properties\<close>

definition sample_reader :: Reader where
  "sample_reader = \<lparr>GetSecretObj = (\<lambda>ns name.
       if ns = ''ravendb'' \<and> name = ''ravendb-license''
       then Inr \<lparr>sec_Meta = new_meta name ns Map.empty Map.empty, sec_Type = ''Opaque'',
                 sec_Data = [(''license.json'', ''data'')]\<rparr>
       else if ns = ''ravendb'' \<and> name \<in> {''ravendb-client-cert'', ''ravendb-certs-a'', ''ravendb-certs-b''}
       then Inr \<lparr>sec_Meta = new_meta name ns Map.empty Map.empty, sec_Type = ''Opaque'',
                 sec_Data = [(''server.pfx'', ''data'')]\<rparr>
       else Inl (NotFound name)), GetVACObj = (\<lambda>name. Inl (NotFound name))\<rparr>"

text \<open>What a cluster must satisfy to be created, as far as this validator is concerned.\<close>

definition general_ok :: "Reader \<Rightarrow> RavenDBCluster \<Rightarrow> bool" where
  "general_ok rd c \<longleftrightarrow>
     single_key_secret rd (GetLicenseSecretRef c) ''.json'' \<and>
     single_key_secret rd (GetClientCertSecretRef c) ''.pfx'' \<and>
     isValidFQDN (GetDomain c) \<and>
     (if GetMode c = ModeLetsEncrypt
      then GetEmail c \<noteq> '''' \<and> GetClusterCertsSecretRef c = '''' \<and> GetCACertSecretRef c = None
      else (GetMode c = ModeNone \<longrightarrow> GetEmail c = '''' \<and> GetClusterCertsSecretRef c \<noteq> '''') \<and>
           single_key_secret rd (GetClusterCertsSecretRef c) ''.pfx'' \<and>
           (\<exists>ca. GetCACertSecretRef c = Some ca \<and> single_key_secret rd ca ''.crt''))"

lemma general_accept:
  assumes "distinct (map fst (GetEnv c))"
  shows "general_ValidateCreate rd c = Accept \<longleftrightarrow> general_ok rd c"
  using ValidateEnv_dead [OF assms]
  by (cases "GetCACertSecretRef c")
    (auto simp: general_ValidateCreate_def general_ok_def ValidateCACertSecret_def ValidateEmail_def
      ValidateLicenseSecret_def ValidateClusterCertSecret_def ValidateDomain_def ValidateClientCertSecret_def
      ModeLetsEncrypt_def ModeNone_def)

lemma general_panic:
  "general_ValidateCreate rd c = Panic \<longleftrightarrow>
     GetMode c \<notin> {ModeLetsEncrypt, ModeNone} \<and> GetCACertSecretRef c = None"
  by (cases "GetCACertSecretRef c")
    (auto simp: general_ValidateCreate_def ValidateCACertSecret_def ModeLetsEncrypt_def ModeNone_def)

text \<open>The creation check of the general validator accepts exactly the clusters whose secrets exist
  with one entry of the right kind, whose domain is acceptable, and whose e-mail and certificate fields fit the mode;
  the environment cannot make it fail, since the keys of a map are distinct.  It panics exactly when the mode is
  neither of the two known ones and no CA certificate is given.\<close>

theorem general_ValidateCreate_iff:
  assumes "distinct (map fst (GetEnv c))"
  shows "(general_ValidateCreate rd c = Accept \<longleftrightarrow> general_ok rd c) \<and>
         (general_ValidateCreate rd c = Panic \<longleftrightarrow>
            GetMode c \<notin> {ModeLetsEncrypt, ModeNone} \<and> GetCACertSecretRef c = None)"
  using general_accept [OF assms] general_panic by blast

theorem general_ValidateCreate_iff_witness:
  "general_ok sample_reader (sample_cluster ''ravendb/ravendb:7.1.3-ubuntu.22.04-x64'')"
proof -
  let ?c = "sample_cluster ''ravendb/ravendb:7.1.3-ubuntu.22.04-x64''"
  have "general_ValidateCreate sample_reader ?c = Accept" by code_simp
  moreover have "distinct (map fst (GetEnv ?c))" by (simp add: GetEnv_def sample_defs)
  ultimately show ?thesis using general_ValidateCreate_iff [of ?c sample_reader] by blast
qed

end
