(* ===== verification/NodeValidator.thy ===== *)
theory NodeValidator
  imports GeneralValidator
begin

text \<open>
  The node validator (\<open>pkg/webhook/validator/node_validator.go\<close>): tags and URLs are unique, every URL
  has the scheme, host, domain and port it must have, ports agree where an ingress controller serves
  them, and node certificates fit the mode.
\<close>

record nodeInput =
  ni_Index :: nat
  ni_Tag :: string
  ni_PublicUrl :: string
  ni_TcpUrl :: string
  ni_CertSecret :: string

definition ValidateNodesNotEmpty :: "string list \<Rightarrow> string list" where
  "ValidateNodesNotEmpty tags =
     (if length tags = 0 then [''spec.nodes must contain at least one node''] else [])"

fun unique_tags_loop :: "string list \<Rightarrow> string set \<Rightarrow> string list" where
  "unique_tags_loop [] seen = []"
| "unique_tags_loop (tag # tags) seen =
     (if tag \<in> seen then [''spec.nodes: duplicate tag '' @ sq tag] else []) @
     unique_tags_loop tags (insert tag seen)"

definition ValidateUniqueTags :: "string list \<Rightarrow> string list" where
  "ValidateUniqueTags tags = unique_tags_loop tags {}"

text \<open>One of the two loops of \<open>ValidateUniqueUrls\<close>: it returns its errors and the URLs seen with their labels.\<close>

fun unique_urls_loop ::
  "string \<Rightarrow> nat \<Rightarrow> string list \<Rightarrow> (string \<rightharpoonup> string) \<Rightarrow> string list \<times> (string \<rightharpoonup> string)" where
  "unique_urls_loop field i [] seen = ([], seen)"
| "unique_urls_loop field i (url # urls) seen =
     (let label = ''spec.nodes['' @ nat_digits i @ ''].'' @ field in
      case seen url of
        Some stored \<Rightarrow>
          (let (errs, seen') = unique_urls_loop field (Suc i) urls seen
           in ((label @ '' duplicates URL already used in '' @ stored) # errs, seen'))
      | None \<Rightarrow> unique_urls_loop field (Suc i) urls (seen(url \<mapsto> label)))"

definition ValidateUniqueUrls :: "string list \<Rightarrow> string list \<Rightarrow> string list" where
  "ValidateUniqueUrls publicUrls tcpUrls =
     (let (errs1, seen) = unique_urls_loop ''publicServerUrl'' 0 publicUrls Map.empty;
          (errs2, _) = unique_urls_loop ''publicServerUrlTcp'' 0 tcpUrls seen
      in errs1 @ errs2)"

definition extractPort :: "string \<Rightarrow> string" where
  "extractPort raw =
     (case url_Parse raw of
        None \<Rightarrow> ''''
      | Some u \<Rightarrow>
          if \<not> strings_Contains (Host u) '':'' then ''''
          else (case SplitHostPort (Host u) of None \<Rightarrow> '''' | Some (_, port) \<Rightarrow> port))"

text \<open>The loop of \<open>ValidatePortsConsistency\<close> over the pairs of URLs; \<open>expected\<close> is \<open>None\<close> in the
  first round.  Indexing a shorter list of TCP URLs panics.\<close>

fun ports_loop :: "string option \<Rightarrow> string list \<Rightarrow> string list \<Rightarrow> string list option" where
  "ports_loop expected [] tcpUrls = Some []"
| "ports_loop expected (pub # pubs) [] = Panic"
| "ports_loop expected (pub # pubs) (tcp # tcps) =
     (let pubPort = extractPort pub; tcpPort = extractPort tcp in
      if pubPort \<noteq> tcpPort
      then Some [''spec.nodes: publicServerUrl and publicServerUrlTcp ports must match'']
      else case expected of
        None \<Rightarrow> ports_loop (Some pubPort) pubs tcps
      | Some expectedPort \<Rightarrow>
          if pubPort \<noteq> expectedPort
          then Some [''spec.nodes: ports must be consistent across all nodes'']
          else ports_loop expected pubs tcps)"

definition ValidatePortsConsistency :: "string list \<Rightarrow> string list \<Rightarrow> string \<Rightarrow> string list option" where
  "ValidatePortsConsistency publicUrls tcpUrls extAccType =
     (if extAccType \<noteq> ''ingress-controller'' then Some []
      else ports_loop None publicUrls tcpUrls)"

definition ValidateNodeUrl ::
  "string \<Rightarrow> string \<Rightarrow> string \<Rightarrow> string \<Rightarrow> string \<Rightarrow> string \<Rightarrow> string list" where
  "ValidateNodeUrl tag rawUrl domain expectedScheme labelPrefix expectedHostPrefix =
     (let label = ''spec.nodes['' @ tag @ ''].'' @ labelPrefix in
      case url_Parse rawUrl of
        None \<Rightarrow> [label @ '': invalid URL format'']
      | Some u \<Rightarrow>
         (if Scheme u \<noteq> expectedScheme then [label @ '': scheme must be '' @ sq expectedScheme] else []) @
         (if \<not> strings_HasPrefix (Hostname u) expectedHostPrefix
          then [label @ '': hostname must start with '' @ sq expectedHostPrefix] else []) @
         (if \<not> strings_HasSuffix (Hostname u) domain
          then [label @ '': hostname must be subdomain of '' @ sq domain] else []) @
         (case SplitHostPort (Host u) of
            None \<Rightarrow> [label @ '': must include a port'']
          | Some (_, port) \<Rightarrow> if port = '''' then [label @ '': must include a port''] else []) @
         (if Path u \<noteq> '''' \<and> Path u \<noteq> ''/'' then [label @ '': must not contain path''] else []) @
         (if RawQuery u \<noteq> '''' then [label @ '': must not contain query''] else []) @
         (if Fragment u \<noteq> '''' then [label @ '': must not contain fragment''] else []))"

definition ValidateNodeCertSecret :: "Reader \<Rightarrow> string \<Rightarrow> string \<Rightarrow> string \<Rightarrow> string list" where
  "ValidateNodeCertSecret rd mode tag secretName =
     (let label = ''spec.nodes[tag='' @ tag @ ''].certsSecretRef'';
          errs = (if mode = ''LetsEncrypt'' \<and> secretName = ''''
                  then [label @ '' is required when mode is LetsEncrypt''] else []) @
                 (if mode = ''None'' \<and> secretName \<noteq> ''''
                  then [label @ '' must not be set when mode is None''] else [])
      in if secretName = '''' then errs
         else errs @ secret_errors (getSecret rd secretName) ''.pfx''
           (\<lambda>err. label @ '': '' @ err)
           (label @ '': must contain exactly one .pfx file'')
           (\<lambda>key. label @ '': file '' @ sq key @ '' must end with .pfx''))"

text \<open>The first loop of \<open>ValidateCreate\<close>, which indexes the four lists by the position of a tag.\<close>

definition node_inputs :: "RavenDBCluster \<Rightarrow> nodeInput list" where
  "node_inputs c = map (\<lambda>i. \<lparr>ni_Index = i, ni_Tag = GetNodeTags c ! i, ni_PublicUrl = GetNodePublicUrls c ! i,
       ni_TcpUrl = GetNodeTcpUrls c ! i,
       ni_CertSecret = (case GetNodeCertSecretRefs c ! i of None \<Rightarrow> '''' | Some cert \<Rightarrow> cert)\<rparr>)
     [0 ..< length (GetNodeTags c)]"

definition node_ValidateCreate :: "Reader \<Rightarrow> RavenDBCluster \<Rightarrow> verdict" where
  "node_ValidateCreate rd c =
     do { portErrs \<leftarrow> ValidatePortsConsistency (GetNodePublicUrls c) (GetNodeTcpUrls c) (GetExternalAccessType c);
          Some (join_errors
            (ValidateNodesNotEmpty (GetNodeTags c) @
             ValidateUniqueTags (GetNodeTags c) @
             ValidateUniqueUrls (GetNodePublicUrls c) (GetNodeTcpUrls c) @
             portErrs @
             concat (map (\<lambda>n.
               ValidateNodeUrl (ni_Tag n) (ni_PublicUrl n) (GetDomain c) ''https'' ''publicServerUrl'' (ni_Tag n @ ''.'') @
               ValidateNodeUrl (ni_Tag n) (ni_TcpUrl n) (GetDomain c) ''tcp'' ''publicServerUrlTcp'' (ni_Tag n @ ''-tcp.'') @
               ValidateNodeCertSecret rd (GetMode c) (ni_Tag n) (ni_CertSecret n)) (node_inputs c)))) }"

definition node_ValidateUpdate :: "Reader \<Rightarrow> RavenDBCluster \<Rightarrow> RavenDBCluster \<Rightarrow> verdict" where
  "node_ValidateUpdate rd oldC newC = node_ValidateCreate rd newC"

definition nodeValidator :: Validator where
  "nodeValidator = \<lparr>va_Name = ''node-validator'', va_ValidateCreate = node_ValidateCreate,
     va_ValidateUpdate = node_ValidateUpdate\<rparr>"

interpretation node_reval: revalidating node_ValidateCreate node_ValidateUpdate
  by unfold_locales (simp add: node_ValidateUpdate_def)

subsection \<open>Lemmas\<close>

lemma unique_tags_loop_Nil: "unique_tags_loop tags seen = [] \<longleftrightarrow> distinct tags \<and> set tags \<inter> seen = {}"
  by (induction tags arbitrary: seen) auto

lemma unique_urls_loop_seen: "dom (snd (unique_urls_loop field i urls seen)) = dom seen \<union> set urls"
proof (induction urls arbitrary: i seen)
  case (Cons url urls)
  then show ?case
    by (cases "seen url") (auto simp: Let_def case_prod_beta insert_absorb domI simp flip: domIff)
qed simp

lemma unique_urls_loop_Nil:
  "fst (unique_urls_loop field i urls seen) = [] \<longleftrightarrow> distinct urls \<and> set urls \<inter> dom seen = {}"
proof (induction urls arbitrary: i seen)
  case (Cons url urls)
  then show ?case by (cases "seen url") (auto simp: Let_def case_prod_beta domI split: if_splits)
qed simp

lemma ValidateUniqueUrls_Nil: "ValidateUniqueUrls pubs tcps = [] \<longleftrightarrow> distinct (pubs @ tcps)"
  using unique_urls_loop_Nil [of "''publicServerUrl''" 0 pubs Map.empty]
    unique_urls_loop_Nil [of "''publicServerUrlTcp''" 0 tcps "snd (unique_urls_loop ''publicServerUrl'' 0 pubs Map.empty)"]
    unique_urls_loop_seen [of "''publicServerUrl''" 0 pubs Map.empty]
  by (auto simp: ValidateUniqueUrls_def split: prod.splits)

lemma ports_loop_Some:
  "length pubs = length tcps \<Longrightarrow>
   ports_loop (Some p) pubs tcps = Some [] \<longleftrightarrow> (\<forall>u \<in> set pubs \<union> set tcps. extractPort u = p)"
  by (induction pubs tcps rule: list_induct2) (auto simp: Let_def)

lemma ports_loop_None:
  "length pubs = length tcps \<Longrightarrow>
   ports_loop None pubs tcps = Some [] \<longleftrightarrow> (\<exists>p. \<forall>u \<in> set pubs \<union> set tcps. extractPort u = p)"
  by (cases pubs; cases tcps) (auto simp: Let_def ports_loop_Some)

lemma ports_loop_total: "length pubs = length tcps \<Longrightarrow> ports_loop e pubs tcps \<noteq> Panic"
  by (induction pubs tcps arbitrary: e rule: list_induct2) (auto simp: Let_def split: option.splits)

lemma node_inputs_eq:
  "node_inputs c = map (\<lambda>i. let n = s_Nodes (Spec c) ! i in
     \<lparr>ni_Index = i, ni_Tag = n_Tag n, ni_PublicUrl = n_PublicServerUrl n, ni_TcpUrl = n_PublicServerUrlTcp n,
      ni_CertSecret = (case n_CertSecretRef n of None \<Rightarrow> '''' | Some cert \<Rightarrow> cert)\<rparr>)
     [0 ..< length (s_Nodes (Spec c))]"
  by (simp add: node_inputs_def GetNodeTags_def GetNodePublicUrls_def GetNodeTcpUrls_def
      GetNodeCertSecretRefs_def mapNodes_def Let_def)

lemma ball_nth: "(\<forall>i \<in> {0 ..< length xs}. P (xs ! i)) \<longleftrightarrow> (\<forall>x \<in> set xs. P x)"
  by (auto simp: all_set_conv_all_nth)

subsection \<open>Properties\<close>

text \<open>An acceptable URL of a node, and an acceptable certificate reference.\<close>

definition node_url_ok :: "string \<Rightarrow> string \<Rightarrow> string \<Rightarrow> string \<Rightarrow> bool" where
  "node_url_ok raw domain scheme hostPrefix \<longleftrightarrow>
     (\<exists>u h p. url_Parse raw = Some u \<and> Scheme u = scheme \<and> prefix hostPrefix (Hostname u) \<and>
        suffix domain (Hostname u) \<and> SplitHostPort (Host u) = Some (h, p) \<and> p \<noteq> '''' \<and>
        Path u \<in> {'''', ''/''} \<and> RawQuery u = '''' \<and> Fragment u = '''')"

definition node_cert_ok :: "Reader \<Rightarrow> string \<Rightarrow> string option \<Rightarrow> bool" where
  "node_cert_ok rd mode ref \<longleftrightarrow>
     (case ref of
        None \<Rightarrow> mode \<noteq> ModeLetsEncrypt
      | Some name \<Rightarrow> if name = '''' then mode \<noteq> ModeLetsEncrypt
                     else mode \<noteq> ModeNone \<and> single_key_secret rd name ''.pfx'')"

definition node_ok :: "Reader \<Rightarrow> RavenDBCluster \<Rightarrow> bool" where
  "node_ok rd c \<longleftrightarrow>
     s_Nodes (Spec c) \<noteq> [] \<and> distinct (GetNodeTags c) \<and> distinct (GetNodePublicUrls c @ GetNodeTcpUrls c) \<and>
     (GetExternalAccessType c = ExternalAccessTypeIngressController \<longrightarrow>
        (\<exists>p. \<forall>u \<in> set (GetNodePublicUrls c) \<union> set (GetNodeTcpUrls c). extractPort u = p)) \<and>
     (\<forall>n \<in> set (s_Nodes (Spec c)).
        node_url_ok (n_PublicServerUrl n) (GetDomain c) ''https'' (n_Tag n @ ''.'') \<and>
        node_url_ok (n_PublicServerUrlTcp n) (GetDomain c) ''tcp'' (n_Tag n @ ''-tcp.'') \<and>
        node_cert_ok rd (GetMode c) (n_CertSecretRef n))"

lemma ValidateNodeUrl_Nil:
  "ValidateNodeUrl tag raw domain scheme lp hp = [] \<longleftrightarrow> node_url_ok raw domain scheme hp"
  by (auto simp: ValidateNodeUrl_def node_url_ok_def Let_def go_simps split: option.splits if_splits)

lemma ValidateNodeCertSecret_Nil:
  "ValidateNodeCertSecret rd mode tag (case ref of None \<Rightarrow> '''' | Some cert \<Rightarrow> cert) = [] \<longleftrightarrow>
   node_cert_ok rd mode ref"
  by (auto simp: ValidateNodeCertSecret_def node_cert_ok_def Let_def ModeLetsEncrypt_def ModeNone_def
      split: option.splits)

lemma ValidatePortsConsistency_Nil:
  "(ValidatePortsConsistency (GetNodePublicUrls c) (GetNodeTcpUrls c) (GetExternalAccessType c) = Some [] \<longleftrightarrow>
     (GetExternalAccessType c = ExternalAccessTypeIngressController \<longrightarrow>
        (\<exists>p. \<forall>u \<in> set (GetNodePublicUrls c) \<union> set (GetNodeTcpUrls c). extractPort u = p))) \<and>
   ValidatePortsConsistency (GetNodePublicUrls c) (GetNodeTcpUrls c) (GetExternalAccessType c) \<noteq> Panic"
proof -
  have "length (GetNodePublicUrls c) = length (GetNodeTcpUrls c)" by (simp add: getter_defs)
  then show ?thesis
    by (simp add: ValidatePortsConsistency_def ports_loop_None ports_loop_total ExternalAccessTypeIngressController_def
        del: not_None_eq)
qed

lemma node_accept:
  "(node_ValidateCreate rd c = Accept \<longleftrightarrow> node_ok rd c) \<and> node_ValidateCreate rd c \<noteq> Panic"
proof -
  obtain es where es: "ValidatePortsConsistency (GetNodePublicUrls c) (GetNodeTcpUrls c) (GetExternalAccessType c) = Some es"
    using ValidatePortsConsistency_Nil [of c] by blast
  then have "node_ValidateCreate rd c = Accept \<longleftrightarrow>
      s_Nodes (Spec c) \<noteq> [] \<and> distinct (GetNodeTags c) \<and> distinct (GetNodePublicUrls c @ GetNodeTcpUrls c) \<and> es = [] \<and>
      (\<forall>i \<in> {0 ..< length (s_Nodes (Spec c))}.
        node_url_ok (n_PublicServerUrl (s_Nodes (Spec c) ! i)) (GetDomain c) ''https'' (n_Tag (s_Nodes (Spec c) ! i) @ ''.'') \<and>
        node_url_ok (n_PublicServerUrlTcp (s_Nodes (Spec c) ! i)) (GetDomain c) ''tcp'' (n_Tag (s_Nodes (Spec c) ! i) @ ''-tcp.'') \<and>
        node_cert_ok rd (GetMode c) (n_CertSecretRef (s_Nodes (Spec c) ! i)))"
    by (auto simp: node_ValidateCreate_def node_inputs_eq Let_def ValidateNodesNotEmpty_def ValidateUniqueTags_def
        unique_tags_loop_Nil ValidateUniqueUrls_Nil ValidateNodeUrl_Nil ValidateNodeCertSecret_Nil GetNodeTags_def mapNodes_def)
  then show ?thesis
    using es ValidatePortsConsistency_Nil [of c]
    unfolding ball_nth [of "s_Nodes (Spec c)" "\<lambda>n. node_url_ok (n_PublicServerUrl n) (GetDomain c) ''https'' (n_Tag n @ ''.'') \<and>
        node_url_ok (n_PublicServerUrlTcp n) (GetDomain c) ''tcp'' (n_Tag n @ ''-tcp.'') \<and> node_cert_ok rd (GetMode c) (n_CertSecretRef n)"]
    by (simp add: node_ok_def node_ValidateCreate_def)
qed

text \<open>The node validator accepts exactly the clusters that have at least one node, pairwise different
  tags, pairwise different URLs, ports that agree when an ingress controller serves them, and for every node URLs with the right
  scheme, host prefix, domain suffix and a port and a certificate reference that fits the mode.  It never panics.\<close>

theorem node_ValidateCreate_iff:
  "(node_ValidateCreate rd c = Accept \<longleftrightarrow> node_ok rd c) \<and> node_ValidateCreate rd c \<noteq> Panic"
  by (rule node_accept)

end
