(* ===== verification/NodeUrls.thy ===== *)
theory NodeUrls
  imports NodeValidator
begin

text \<open>
  Which bytes an accepted node URL may contain.  The immutability check of the general validator compares lists of
  tags and of URLs after joining them with a bar, so it is exact only if none of them contains a bar.  The
  lemmas here show that whatever the node validator accepts is free of bars: \<open>url.Parse\<close> refuses them in the user
  information and in the host, and the validator leaves no other place for them.
\<close>

abbreviation bar :: char where "bar \<equiv> CHR ''|''"

lemma bar_not_allowed [simp]: "\<not> host_char bar" "\<not> is_hex bar" "\<not> is_digit bar" "\<not> is_alpha bar"
  by (simp_all add: host_char_def is_hex_def is_alpha_def is_digit_def is_upper_def is_lower_def)

lemma unhex_less: "is_hex c \<Longrightarrow> unhex c < 16"
  by (auto simp: is_hex_def is_digit_def unhex_def Let_def)

lemma escape_of_bar:
  assumes "is_hex h" "is_hex l" "char_of (16 * unhex h + unhex l) = bar"
  shows "unhex h = 7"
proof -
  from assms(3) have "(of_char (char_of (16 * unhex h + unhex l) :: char) :: nat) = of_char bar" by (rule arg_cong)
  then have "(16 * unhex h + unhex l) mod 256 = 124" by simp
  then show ?thesis using unhex_less [OF assms(1)] unhex_less [OF assms(2)] by simp
qed

text \<open>One step of percent-decoding: an escape, or a byte that is kept.\<close>

lemma unescape_Cons_cases:
  assumes "unescape mode (c # cs) = Some t"
  obtains (escape) h l rest t' where "c = CHR ''%''" "cs = h # l # rest" "is_hex h" "is_hex l"
      "unescape mode rest = Some t'" "t = char_of (16 * unhex h + unhex l) # t'"
      "mode = encodeHost \<Longrightarrow> 8 \<le> unhex h \<or> h = CHR ''2''"
      "mode = encodeZone \<Longrightarrow> h = CHR ''2'' \<or> char_of (16 * unhex h + unhex l) = CHR '' '' \<or>
         host_char (char_of (16 * unhex h + unhex l))"
  | (keep) t' where "c \<noteq> CHR ''%''" "unescape mode cs = Some t'" "t = c # t'"
      "mode \<noteq> encodeOther \<Longrightarrow> 128 \<le> (of_char c :: nat) \<or> host_char c"
proof (cases "c = CHR ''%''")
  case True
  with assms obtain h l rest where cs: "cs = h # l # rest" by (auto split: list.splits)
  then show thesis
    using assms True escape [of h l rest] by (auto simp: Let_def not_less split: if_splits)
next
  case False
  then show thesis using assms keep by (auto simp: not_less split: if_splits)
qed

lemma unhex_two [simp]: "unhex CHR ''2'' = 2"
  by (simp add: unhex_def)

lemma unescape_no_bar:
  "unescape mode s = Some t \<Longrightarrow> mode \<noteq> encodeOther \<Longrightarrow> bar \<notin> set s \<and> bar \<notin> set t"
proof (induction s arbitrary: t rule: length_induct)
  case (1 s)
  show ?case
  proof (cases s)
    case Nil
    with 1 show ?thesis by simp
  next
    case (Cons c cs)
    with 1(2) have "unescape mode (c # cs) = Some t" by simp
    then show ?thesis
    proof (cases rule: unescape_Cons_cases)
      case (escape h l rest t')
      have "char_of (16 * unhex h + unhex l) \<noteq> bar"
      proof
        assume v: "char_of (16 * unhex h + unhex l) = bar"
        with escape have "unhex h = 7" by (intro escape_of_bar)
        with v escape(7,8) 1(3) show False by (cases mode) auto
      qed
      moreover have "bar \<notin> set rest \<and> bar \<notin> set t'"
        using 1(1) [rule_format, of rest t'] 1(3) escape Cons by simp
      moreover have "h \<noteq> bar" "l \<noteq> bar" using escape by auto
      ultimately show ?thesis using escape Cons by auto
    next
      case (keep t')
      moreover from keep have "bar \<notin> set cs \<and> bar \<notin> set t'"
        using 1(1) [rule_format, of cs t'] 1(3) Cons by simp
      moreover from keep 1(3) have "c \<noteq> bar" by auto
      ultimately show ?thesis using Cons by auto
    qed
  qed
qed

lemma unescape_other_bar: "unescape encodeOther s = Some t \<Longrightarrow> bar \<notin> set t \<Longrightarrow> bar \<notin> set s"
proof (induction s arbitrary: t rule: length_induct)
  case (1 s)
  show ?case
  proof (cases s)
    case (Cons c cs)
    with 1(2) have "unescape encodeOther (c # cs) = Some t" by simp
    then show ?thesis
      by (cases rule: unescape_Cons_cases) (use Cons 1 in auto)
  qed simp
qed

lemma unescape_Nil: "unescape encodeOther s = Some [] \<Longrightarrow> s = []"
  by (cases s) (auto elim!: unescape_Cons_cases simp del: unescape.simps)

subsection \<open>Hosts and authorities\<close>

lemma set_three_parts: "set xs \<subseteq> set (take z xs) \<union> set (drop z (take i xs)) \<union> set (drop i xs)"
proof -
  have "set xs = set (take i xs) \<union> set (drop i xs)" by (metis append_take_drop_id set_append)
  moreover have "set (take i xs) = set (take z (take i xs)) \<union> set (drop z (take i xs))"
    by (metis append_take_drop_id set_append)
  moreover have "set (take z (take i xs)) \<subseteq> set (take z xs)"
    by (simp add: set_take_subset_set_take)
  ultimately show ?thesis by blast
qed

lemma parseHost_no_bar:
  assumes "parseHost host = Some h"
  shows "bar \<notin> set host \<and> bar \<notin> set h"
proof -
  let ?i = "nat (strings_LastIndex host '']'')"
  let ?z = "nat (strings_Index (take ?i host) ''%25'')"
  note parts = set_three_parts [of host ?z ?i]
  show ?thesis
    using assms parts unescape_no_bar
    by (auto simp: parseHost_def Let_def bind_eq_Some_conv split: if_splits)
qed

lemma parseAuthority_no_bar:
  assumes "parseAuthority a = Some h"
  shows "bar \<notin> set a \<and> bar \<notin> set h"
proof (cases "strings_LastIndex a ''@'' < 0")
  case True
  with assms parseHost_no_bar show ?thesis by (simp add: parseAuthority_def)
next
  case False
  then have "strings_LastIndex a ''@'' \<noteq> -1" by linarith
  then obtain user host where a: "a = user @ CHR ''@'' # host" "CHR ''@'' \<notin> set host"
    using split_list_last by fastforce
  then have "validUserinfo user" "parseHost host = Some h"
    using assms by (auto simp: parseAuthority_def Let_def bind_eq_Some_conv nat_add_distrib split: if_splits)
  moreover have "validUserinfo s \<Longrightarrow> bar \<notin> set s" for s
    by (auto simp: validUserinfo_def list_all_iff)
  ultimately show ?thesis using parseHost_no_bar a by auto
qed

subsection \<open>Whole URLs\<close>

lemma parse_rest_no_bar:
  assumes "parse_rest scheme q rest = Some u" "Host u \<noteq> ''''" "bar \<notin> set (Path u)"
  shows "bar \<notin> set rest \<and> bar \<notin> set (Host u) \<and> RawQuery u = q \<and> Fragment u = ''''"
proof -
  let ?P = "\<lambda>c. c \<noteq> CHR ''/''"
  from assms(1,2) have slashes: "prefix ''//'' rest"
    and parsed: "\<exists>host p. parseAuthority (takeWhile ?P (drop 2 rest)) = Some host \<and>
      unescape encodeOther (dropWhile ?P (drop 2 rest)) = Some p \<and>
      u = empty_url\<lparr>Scheme := scheme, RawQuery := q, Host := host, Path := p\<rparr>"
    by (auto simp: parse_rest_def Let_def empty_url_def bind_eq_Some_conv split: if_splits)
  from slashes have "rest = ''//'' @ takeWhile ?P (drop 2 rest) @ dropWhile ?P (drop 2 rest)"
    by (auto simp: prefix_def)
  then have "set rest = {CHR ''/''} \<union> set (takeWhile ?P (drop 2 rest)) \<union> set (dropWhile ?P (drop 2 rest))"
    by (metis Un_assoc empty_set insert_absorb2 list.simps(15) set_append)
  with parsed assms(3) parseAuthority_no_bar unescape_other_bar show ?thesis
    by (auto simp: empty_url_def)
qed

lemma scheme_scan_split:
  "scheme_scan i acc raw s = Some (sch, rest) \<Longrightarrow> bar \<notin> set acc \<Longrightarrow> raw = acc @ s \<Longrightarrow>
   bar \<notin> set rest \<Longrightarrow> bar \<notin> set raw"
proof (induction s arbitrary: i acc)
  case (Cons c s)
  show ?case
  proof (cases "is_alpha c \<or> is_digit c \<or> c \<in> set ''+-.'' \<or> c = CHR '':''")
    case True
    then have "c \<noteq> bar" by auto
    with Cons.prems(2) have "bar \<notin> set (acc @ [c])" by simp
    from Cons.IH [OF _ this] Cons.prems \<open>c \<noteq> bar\<close> show ?thesis by (auto split: if_splits)
  qed (use Cons in auto)
qed simp

lemma cut_at_bar: "cut_at c s = (a, '''') \<Longrightarrow> bar \<notin> set a \<Longrightarrow> c \<noteq> bar \<Longrightarrow> bar \<notin> set s"
proof -
  assume a: "cut_at c s = (a, '''')" "bar \<notin> set a" "c \<noteq> bar"
  have "s = takeWhile (\<lambda>x. x \<noteq> c) s @ dropWhile (\<lambda>x. x \<noteq> c) s" by simp
  moreover have "dropWhile (\<lambda>x. x \<noteq> c) s = [] \<or> hd (dropWhile (\<lambda>x. x \<noteq> c) s) = c"
    using hd_dropWhile [of "\<lambda>x. x \<noteq> c" s] by blast
  ultimately show "bar \<notin> set s"
    using a by (cases "dropWhile (\<lambda>x. x \<noteq> c) s") (auto simp: cut_at_def)
qed

lemma url_parse_nofrag_no_bar:
  assumes "url_parse_nofrag raw = Some u" "Host u \<noteq> ''''" "bar \<notin> set (Path u)" "RawQuery u = ''''"
  shows "bar \<notin> set raw \<and> bar \<notin> set (Host u) \<and> Fragment u = ''''"
proof -
  from assms(1,2) obtain sch rest where g: "getScheme raw = Some (sch, rest)"
    by (auto simp: url_parse_nofrag_def empty_url_def split: if_splits option.splits)
  have "bar \<notin> set rest \<and> bar \<notin> set (Host u) \<and> Fragment u = ''''"
  proof (cases "suffix ''?'' rest \<and> count_list rest CHR ''?'' = 1")
    case True
    then obtain r where r: "rest = r @ ''?''" by (auto simp: suffix_def)
    with True g assms(1) have "parse_rest (strings_ToLower sch) '''' r = Some u"
      by (auto simp: url_parse_nofrag_def Let_def empty_url_def split: if_splits) (use assms in \<open>auto simp: empty_url_def\<close>)
    with parse_rest_no_bar assms r show ?thesis by auto
  next
    case False
    obtain r q where c: "cut_at CHR ''?'' rest = (r, q)" by (cases "cut_at CHR ''?'' rest")
    with False g assms(1,2) have "parse_rest (strings_ToLower sch) q r = Some u"
      by (auto simp: url_parse_nofrag_def Let_def empty_url_def split: if_splits)
    with parse_rest_no_bar assms c show ?thesis by (auto dest: cut_at_bar)
  qed
  with g scheme_scan_split [of 0 "''''" raw raw sch rest] show ?thesis by (simp add: getScheme_def)
qed

lemma url_Parse_no_bar:
  assumes "url_Parse raw = Some u" "Host u \<noteq> ''''" "bar \<notin> set (Path u)" "RawQuery u = ''''" "Fragment u = ''''"
  shows "bar \<notin> set raw \<and> bar \<notin> set (Host u)"
proof -
  obtain r frag where c: "cut_at CHR ''#'' raw = (r, frag)" by (cases "cut_at CHR ''#'' raw")
  with assms(1,5) have "url_parse_nofrag r = Some u \<and> frag = ''''"
    by (auto simp: url_Parse_def split: option.splits if_splits dest: unescape_Nil)
  with url_parse_nofrag_no_bar assms c show ?thesis by (auto dest: cut_at_bar)
qed

lemma Hostname_subset: "set (Hostname u) \<subseteq> set (Host u)"
proof -
  have "set (butlast (tl xs)) \<subseteq> set xs" for xs :: string
    by (cases xs) (auto dest: in_set_butlastD)
  then show ?thesis
    by (auto simp: Hostname_def Let_def split: if_splits) (meson in_mono in_set_takeD)+
qed

lemma node_url_ok_no_bar:
  assumes "node_url_ok raw domain scheme hp" "hp \<noteq> ''''"
  shows "bar \<notin> set raw \<and> bar \<notin> set hp"
proof -
  from assms(1) obtain u where u: "url_Parse raw = Some u" "prefix hp (Hostname u)" "Path u \<in> {'''', ''/''}"
    "RawQuery u = ''''" "Fragment u = ''''" by (auto simp: node_url_ok_def)
  from u(2) assms(2) have "set hp \<subseteq> set (Host u)" "Host u \<noteq> ''''"
    using Hostname_subset [of u] set_mono_prefix [OF u(2)] by (auto simp: Hostname_def Let_def)
  with u url_Parse_no_bar [of raw u] show ?thesis by auto
qed

end
