(* ===== verification/EaStorageValidators.thy ===== *)
theory EaStorageValidators
  imports Validators
begin

text \<open>
  The external access validator and the storage validator
  (\<open>pkg/webhook/validator/ea_validator.go\<close> and \<open>storage_validator.go\<close>).
\<close>

subsection \<open>External access\<close>

definition nginxKey :: string where "nginxKey = ''nginx.ingress.kubernetes.io/ssl-passthrough''"
definition haproxyKey :: string where "haproxyKey = ''haproxy.org/ssl-passthrough''"

definition validateIngressAnnotations :: "strmap \<Rightarrow> string list" where
  "validateIngressAnnotations annotations =
     concat (map (\<lambda>(k, v).
       if k = nginxKey \<or> k = haproxyKey then
         (if v = ''false''
          then [''spec.externalAccessConfiguration.ingressControllerContext.additionalAnnotations must not contain '' @
                sq (k @ '': '' @ [CHR 0x22] @ ''false'' @ [CHR 0x22])]
          else [])
       else []) annotations)"

definition ctx_required :: "string \<Rightarrow> string \<Rightarrow> string" where
  "ctx_required ctx typ = ''spec.externalAccessConfiguration.'' @ ctx @ '' is required when type is '' @ sq typ"

definition ctx_forbidden :: "string \<Rightarrow> string \<Rightarrow> string" where
  "ctx_forbidden ctx typ = ''spec.externalAccessConfiguration.'' @ ctx @ '' must not be set when type is '' @ sq typ"

definition ea_ValidateCreate :: "Reader \<Rightarrow> RavenDBCluster \<Rightarrow> verdict" where
  "ea_ValidateCreate rd c =
     (if \<not> IsExternalAccessSet c then Accept
      else let typeVal = GetExternalAccessType c; ingressSet = IsIngressContextSet c; awsSet = IsAWSContextSet c;
               azureSet = IsAzureContextSet c; annotations = GetIngressAnnotations c
      in Some (join_errors
        (if typeVal = ''aws-nlb'' then
           (if \<not> awsSet then [ctx_required ''awsExternalAccessContext'' typeVal] else []) @
           (if ingressSet then [ctx_forbidden ''ingressControllerContext'' typeVal] else []) @
           (if azureSet then [ctx_forbidden ''azureExternalAccessContext'' typeVal] else [])
         else if typeVal = ''azure-lb'' then
           (if \<not> azureSet then [ctx_required ''azureExternalAccessContext'' typeVal] else []) @
           (if ingressSet then [ctx_forbidden ''ingressControllerContext'' typeVal] else []) @
           (if awsSet then [ctx_forbidden ''awsExternalAccessContext'' typeVal] else [])
         else if typeVal = ''ingress-controller'' then
           (if \<not> ingressSet then [ctx_required ''ingressControllerContext'' typeVal] else []) @
           (if awsSet then [ctx_forbidden ''awsExternalAccessContext'' typeVal] else []) @
           (if azureSet then [ctx_forbidden ''azureExternalAccessContext'' typeVal] else []) @
           validateIngressAnnotations annotations
         else [''spec.externalAccessConfiguration.type has invalid value: '' @ sq typeVal])))"

definition ea_ValidateUpdate :: "Reader \<Rightarrow> RavenDBCluster \<Rightarrow> RavenDBCluster \<Rightarrow> verdict" where
  "ea_ValidateUpdate rd oldC newC = ea_ValidateCreate rd newC"

definition eaValidator :: Validator where
  "eaValidator = \<lparr>va_Name = ''externalAccess-validator'', va_ValidateCreate = ea_ValidateCreate,
     va_ValidateUpdate = ea_ValidateUpdate\<rparr>"

interpretation ea_reval: revalidating ea_ValidateCreate ea_ValidateUpdate
  by unfold_locales (simp add: ea_ValidateUpdate_def)

subsection \<open>Storage\<close>

definition ValidateAbsolutePath :: "string \<Rightarrow> string option \<Rightarrow> string list" where
  "ValidateAbsolutePath fieldPath pathPtr =
     (case pathPtr of
        None \<Rightarrow> []
      | Some p \<Rightarrow> if \<not> filepath_IsAbs p then [fieldPath @ '' must be an absolute path''] else [])"

definition ValidateVAC :: "Reader \<Rightarrow> string \<Rightarrow> error" where
  "ValidateVAC rd name =
     (case GetVACObj rd name of
        Inl _ \<Rightarrow> Some (''referenced VAC '' @ sq name @ '' not found'')
      | Inr _ \<Rightarrow> None)"

definition ValidateVolumeSpec ::
  "Reader \<Rightarrow> string \<Rightarrow> string option \<Rightarrow> string list \<Rightarrow> string option \<Rightarrow> string list" where
  "ValidateVolumeSpec rd path storageClass accessModes vac =
     (case vac of
        None \<Rightarrow> []
      | Some name \<Rightarrow>
          (case ValidateVAC rd name of
             None \<Rightarrow> []
           | Some err \<Rightarrow> [path @ ''.volumeAttributesClassName '' @ sq name @
                          '' does not reference a valid VolumeAttributesClass: '' @ err]))"

text \<open>The dash of the messages is the UTF-8 encoding of U+2014.\<close>

definition em_dash :: string where "em_dash = [CHR 0xE2, CHR 0x80, CHR 0x94]"

text \<open>The loop of \<open>ValidateAdditionalVolumes\<close>; the four slices have one entry per volume and are
  walked together.\<close>

fun additional_volumes_loop ::
  "string \<Rightarrow> nat \<Rightarrow> string set \<Rightarrow> (string \<times> string option \<times> string option \<times> string list) list \<Rightarrow> string list" where
  "additional_volumes_loop path i seenNames [] = []"
| "additional_volumes_loop path i seenNames ((name, mnt, subpath, source) # vols) =
     (let p = path @ ''['' @ nat_digits i @ '']'' in
      (if name \<in> seenNames
       then [p @ ''.name must be unique '' @ em_dash @ '' '' @ sq name @ '' is used more than once''] else []) @
      ValidateAbsolutePath (p @ ''.mountPath'') mnt @
      (case subpath of
         None \<Rightarrow> []
       | Some sp \<Rightarrow> if strings_ContainsAny sp [CHR ''/'', CHR 0x5C]
                    then [p @ ''.subPath must be a file name only (no path separators)''] else []) @
      (if length source \<noteq> 1
       then [p @ ''.volumeSource must have exactly one source (configMap, secret, or persistentVolumeClaim)'']
       else concat (map (\<lambda>key.
         if key \<noteq> ''configMap'' \<and> key \<noteq> ''secret'' \<and> key \<noteq> ''persistentVolumeClaim''
         then [p @ ''.volumeSource contains invalid type: '' @ sq key @ '' '' @ em_dash @
               '' must be one of: configMap, secret, persistentVolumeClaim''] else []) source)) @
      additional_volumes_loop path (Suc i) (insert name seenNames) vols)"

definition ValidateAdditionalVolumes ::
  "string \<Rightarrow> string list \<Rightarrow> string option list \<Rightarrow> string option list \<Rightarrow> string list list \<Rightarrow> string list" where
  "ValidateAdditionalVolumes path names mounts subpaths sources =
     additional_volumes_loop path 0 {} (zip names (zip mounts (zip subpaths sources)))"

definition storage_ValidateCreate :: "Reader \<Rightarrow> RavenDBCluster \<Rightarrow> verdict" where
  "storage_ValidateCreate rd c = Some (join_errors
     (ValidateVolumeSpec rd ''spec.storage.data'' (GetStorageDataStorageClassName c) (GetStorageDataAccessModes c)
        (GetStorageDataVAC c) @
      ValidateVolumeSpec rd ''spec.storage.logs.ravendb'' (GetLogsRavenStorageClassName c) (GetLogsRavenAccessModes c)
        (GetLogsRavenVAC c) @
      ValidateAbsolutePath ''spec.storage.logs.ravendb.path'' (GetLogsRavenPath c) @
      ValidateVolumeSpec rd ''spec.storage.logs.audit'' (GetLogsAuditStorageClassName c) (GetLogsAuditAccessModes c)
        (GetLogsAuditVAC c) @
      ValidateAbsolutePath ''spec.storage.logs.audit.path'' (GetLogsAuditPath c) @
      ValidateAdditionalVolumes ''spec.storage.additionalVolumes'' (GetAdditionalVolumeNames c)
        (GetAdditionalVolumeMountPaths c) (GetAdditionalVolumeSubPaths c) (GetAdditionalVolumeSources c)))"

definition storage_ValidateUpdate :: "Reader \<Rightarrow> RavenDBCluster \<Rightarrow> RavenDBCluster \<Rightarrow> verdict" where
  "storage_ValidateUpdate rd oldC newC = storage_ValidateCreate rd newC"

definition storageValidator :: Validator where
  "storageValidator = \<lparr>va_Name = ''storage-validator'', va_ValidateCreate = storage_ValidateCreate,
     va_ValidateUpdate = storage_ValidateUpdate\<rparr>"

interpretation storage_reval: revalidating storage_ValidateCreate storage_ValidateUpdate
  by unfold_locales (simp add: storage_ValidateUpdate_def)

subsection \<open>Properties\<close>

text \<open>What external access must look like: the context of its own type is set and no other.\<close>

definition ea_ok :: "RavenDBCluster \<Rightarrow> bool" where
  "ea_ok c \<longleftrightarrow>
     (case s_ExternalAccessConfiguration (Spec c) of
        None \<Rightarrow> True
      | Some ea \<Rightarrow>
          (ea_Type ea = ExternalAccessTypeAWS \<and> ea_AWSExternalAccess ea \<noteq> None \<and>
             ea_AzureExternalAccess ea = None \<and> ea_IngressControllerExternalAccess ea = None) \<or>
          (ea_Type ea = ExternalAccessTypeAzure \<and> ea_AzureExternalAccess ea \<noteq> None \<and>
             ea_AWSExternalAccess ea = None \<and> ea_IngressControllerExternalAccess ea = None) \<or>
          (ea_Type ea = ExternalAccessTypeIngressController \<and> ea_AWSExternalAccess ea = None \<and>
             ea_AzureExternalAccess ea = None \<and>
             (\<exists>ctx. ea_IngressControllerExternalAccess ea = Some ctx \<and>
                set (ic_AdditionalAnnotations ctx) \<inter> {(nginxKey, ''false''), (haproxyKey, ''false'')} = {})))"

lemma validateIngressAnnotations_Nil:
  "validateIngressAnnotations as = [] \<longleftrightarrow> set as \<inter> {(nginxKey, ''false''), (haproxyKey, ''false'')} = {}"
  by (auto simp: validateIngressAnnotations_def split: if_splits)

lemma ea_accept: "ea_ValidateCreate rd c = Accept \<longleftrightarrow> ea_ok c"
proof (cases "s_ExternalAccessConfiguration (Spec c)")
  case None
  then show ?thesis by (simp add: ea_ValidateCreate_def ea_ok_def IsExternalAccessSet_def)
next
  case (Some ea)
  then show ?thesis
    by (auto simp: ea_ValidateCreate_def ea_ok_def Let_def getter_defs validateIngressAnnotations_Nil
        ExternalAccessTypeAWS_def ExternalAccessTypeAzure_def ExternalAccessTypeIngressController_def)
qed

text \<open>The external access validator accepts exactly the clusters without external access and those
  whose configuration carries the context of its own type, no other context, and, for an ingress controller, no annotation
  that turns TLS pass-through off.\<close>

theorem ea_ValidateCreate_iff: "ea_ValidateCreate rd c = Accept \<longleftrightarrow> ea_ok c"
  by (rule ea_accept)

text \<open>What storage must look like.\<close>

definition one_source :: "VolumeSource \<Rightarrow> bool" where
  "one_source v \<longleftrightarrow>
     (vs_ConfigMap v \<noteq> None \<and> vs_Secret v = None \<and> vs_PersistentVolumeClaim v = None) \<or>
     (vs_ConfigMap v = None \<and> vs_Secret v \<noteq> None \<and> vs_PersistentVolumeClaim v = None) \<or>
     (vs_ConfigMap v = None \<and> vs_Secret v = None \<and> vs_PersistentVolumeClaim v \<noteq> None)"

definition vac_ok :: "Reader \<Rightarrow> string option \<Rightarrow> bool" where
  "vac_ok rd vac \<longleftrightarrow> (\<forall>name. vac = Some name \<longrightarrow> isl (GetVACObj rd name) = False)"

definition abs_ok :: "string option \<Rightarrow> bool" where
  "abs_ok p \<longleftrightarrow> (case p of None \<Rightarrow> True | Some s \<Rightarrow> prefix ''/'' s)"

definition storage_spec_ok :: "Reader \<Rightarrow> RavenDBCluster \<Rightarrow> bool" where
  "storage_spec_ok rd c \<longleftrightarrow>
     vac_ok rd (GetStorageDataVAC c) \<and> vac_ok rd (GetLogsRavenVAC c) \<and> vac_ok rd (GetLogsAuditVAC c) \<and>
     abs_ok (GetLogsRavenPath c) \<and> abs_ok (GetLogsAuditPath c) \<and>
     distinct (GetAdditionalVolumeNames c) \<and>
     (\<forall>v \<in> set (additional_volumes c).
        prefix ''/'' (av_MountPath v) \<and>
        (case av_SubPath v of None \<Rightarrow> True | Some sp \<Rightarrow> CHR ''/'' \<notin> set sp \<and> CHR 0x5C \<notin> set sp) \<and>
        one_source (av_VolumeSource v))"

lemma ValidateAbsolutePath_Nil [simp]: "ValidateAbsolutePath f p = [] \<longleftrightarrow> abs_ok p"
  by (auto simp: ValidateAbsolutePath_def abs_ok_def filepath_IsAbs_def split: option.splits)

lemma ValidateVolumeSpec_Nil [simp]: "ValidateVolumeSpec rd path sc am vac = [] \<longleftrightarrow> vac_ok rd vac"
  by (auto simp: ValidateVolumeSpec_def vac_ok_def ValidateVAC_def split: option.splits sum.splits)

definition source_keys :: "VolumeSource \<Rightarrow> string list" where
  "source_keys v = (if vs_ConfigMap v \<noteq> None then [''configMap''] else []) @
     (if vs_Secret v \<noteq> None then [''secret''] else []) @
     (if vs_PersistentVolumeClaim v \<noteq> None then [''persistentVolumeClaim''] else [])"

lemma source_keys_one: "length (source_keys v) = Suc 0 \<longleftrightarrow> one_source v"
  by (auto simp: source_keys_def one_source_def)

lemma source_keys_known: "set (source_keys v) \<subseteq> {''configMap'', ''secret'', ''persistentVolumeClaim''}"
  by (auto simp: source_keys_def)

lemma additional_volumes_loop_Nil:
  "additional_volumes_loop path i seen
     (map (\<lambda>v. (av_Name v, Some (av_MountPath v), av_SubPath v, source_keys (av_VolumeSource v))) vols) = [] \<longleftrightarrow>
   distinct (map av_Name vols) \<and> set (map av_Name vols) \<inter> seen = {} \<and>
   (\<forall>v \<in> set vols. prefix ''/'' (av_MountPath v) \<and>
      (case av_SubPath v of None \<Rightarrow> True | Some sp \<Rightarrow> CHR ''/'' \<notin> set sp \<and> CHR 0x5C \<notin> set sp) \<and>
      one_source (av_VolumeSource v))"
proof (induction vols arbitrary: i seen)
  case (Cons v vols)
  have "\<forall>k \<in> set (source_keys (av_VolumeSource v)). k = ''configMap'' \<or> k = ''secret'' \<or> k = ''persistentVolumeClaim''"
    using source_keys_known by fastforce
  with Cons show ?case
    by (auto simp: Let_def abs_ok_def strings_ContainsAny_def list_ex_iff source_keys_one split: option.splits if_splits)
qed simp

lemma zip_maps: "zip (map f xs) (zip (map g xs) (zip (map h xs) (map k xs))) = map (\<lambda>x. (f x, g x, h x, k x)) xs"
  by (induction xs) auto

lemma storage_accept: "storage_ValidateCreate rd c = Accept \<longleftrightarrow> storage_spec_ok rd c"
proof -
  have "ValidateAdditionalVolumes path (GetAdditionalVolumeNames c) (GetAdditionalVolumeMountPaths c)
          (GetAdditionalVolumeSubPaths c) (GetAdditionalVolumeSources c) =
        additional_volumes_loop path 0 {}
          (map (\<lambda>v. (av_Name v, Some (av_MountPath v), av_SubPath v, source_keys (av_VolumeSource v))) (additional_volumes c))"
    for path
    unfolding ValidateAdditionalVolumes_def GetAdditionalVolumeNames_def GetAdditionalVolumeMountPaths_def
      GetAdditionalVolumeSubPaths_def GetAdditionalVolumeSources_def source_keys_def zip_maps ..
  then show ?thesis
    by (simp add: storage_ValidateCreate_def storage_spec_ok_def additional_volumes_loop_Nil GetAdditionalVolumeNames_def)
      blast
qed

text \<open>The storage validator accepts exactly the clusters whose volume attribute classes exist, whose log paths and
  mount paths are absolute, whose additional volumes have different names, sub paths without separators and exactly one
  source each.\<close>

theorem storage_ValidateCreate_iff: "storage_ValidateCreate rd c = Accept \<longleftrightarrow> storage_spec_ok rd c"
  by (rule storage_accept)

end
