(* ===== verification/Webhook.thy ===== *)
theory Webhook
  imports ImageValidator NodeUrls EaStorageValidators
begin

text \<open>
  The admission webhook as a whole: the registry of validators, the mutator pipeline, the dispatcher
  (\<open>pkg/webhook/dispatcher.go\<close>, \<open>validator.go\<close>, \<open>mutator.go\<close>) and the entry points of
  \<open>api/v1/webhook.go\<close>.  The stored versions of a cluster form a step relation: it is created once and
  then updated, every step admitted by the webhook.
\<close>

subsection \<open>Registries\<close>

definition Register :: "Validator list \<Rightarrow> Validator \<Rightarrow> Validator list" where
  "Register validators v = validators @ [v]"

text \<open>The \<open>init\<close> function of the image validator runs when the package is loaded, before
  \<open>SetupWebhookWithManager\<close> registers the five validators.\<close>

definition validators_init :: "Validator list" where
  "validators_init = Register [] imageValidator"

definition SetupWebhookWithManager :: "Validator list \<Rightarrow> Validator list" where
  "SetupWebhookWithManager vs =
     Register (Register (Register (Register (Register vs imageValidator) generalValidator) nodeValidator) eaValidator)
       storageValidator"

definition validators :: "Validator list" where
  "validators = SetupWebhookWithManager validators_init"

record MutationResult =
  mr_Err :: error
  mr_Warning :: string

record Mutator =
  mu_Name :: string
  mu_Mutate :: "RavenDBCluster \<Rightarrow> RavenDBCluster \<times> MutationResult"

fun mutator_Run :: "Mutator list \<Rightarrow> RavenDBCluster \<Rightarrow> RavenDBCluster \<times> string list \<times> string list" where
  "mutator_Run [] cluster = (cluster, [], [])"
| "mutator_Run (m # ms) cluster =
     (let (cluster1, res) = mu_Mutate m cluster;
          (cluster2, warnings, errs) = mutator_Run ms cluster1
      in (cluster2,
          (if mr_Warning res \<noteq> '''' then [''['' @ mu_Name m @ ''] '' @ mr_Warning res] else []) @ warnings,
          (case mr_Err res of Some e \<Rightarrow> [''['' @ mu_Name m @ ''] '' @ e] | None \<Rightarrow> []) @ errs))"

definition mutators :: "Mutator list" where "mutators = []"

text \<open>The dispatcher.  \<open>Default\<close> prints the warnings and returns the errors, next to the mutated resource.\<close>

definition webhook_Default :: "RavenDBCluster \<Rightarrow> RavenDBCluster \<times> string list" where
  "webhook_Default cluster = (let (cluster, warnings, errs) = mutator_Run mutators cluster in (cluster, errs))"

definition webhook_ValidateCreate :: "Reader \<Rightarrow> RavenDBCluster \<Rightarrow> string list option" where
  "webhook_ValidateCreate rd r = RunCreate validators rd r"

definition webhook_ValidateUpdate :: "Reader \<Rightarrow> RavenDBCluster \<Rightarrow> RavenDBCluster \<Rightarrow> string list option" where
  "webhook_ValidateUpdate rd r old = RunUpdate validators rd old r"

text \<open>The entry points, methods of the resource: each returns its warnings, always none, and its errors.  An update is
  given the old version as an object of any type; only its type is known of another one.  \<open>Default\<close> logs the errors.\<close>

datatype runtime_Object = ClusterObject RavenDBCluster | OtherObject string

definition RavenDBCluster_ValidateCreate :: "Reader \<Rightarrow> RavenDBCluster \<Rightarrow> (string list \<times> string list) option" where
  "RavenDBCluster_ValidateCreate rd r = do { errs \<leftarrow> webhook_ValidateCreate rd r; Some ([], errs) }"

definition RavenDBCluster_ValidateUpdate :: "Reader \<Rightarrow> RavenDBCluster \<Rightarrow> runtime_Object \<Rightarrow> (string list \<times> string list) option" where
  "RavenDBCluster_ValidateUpdate rd r old =
     (case old of
        ClusterObject oldCluster \<Rightarrow> do { errs \<leftarrow> webhook_ValidateUpdate rd r oldCluster; Some ([], errs) }
      | OtherObject type \<Rightarrow> Some ([], [''expected *RavenDBCluster but got '' @ type]))"

definition RavenDBCluster_ValidateDelete :: "RavenDBCluster \<Rightarrow> string list \<times> string list" where
  "RavenDBCluster_ValidateDelete r = ([], [])"

definition RavenDBCluster_Default :: "RavenDBCluster \<Rightarrow> RavenDBCluster" where
  "RavenDBCluster_Default r = (let (r, err) = webhook_Default r in r)"

text \<open>Defaulting changes nothing, and the entry points accept what the dispatcher accepts.\<close>

lemma Default_id [simp]: "RavenDBCluster_Default r = r"
  by (simp add: RavenDBCluster_Default_def webhook_Default_def mutators_def)

lemma entry_accepts:
  "RavenDBCluster_ValidateCreate rd r = Some ([], []) \<longleftrightarrow> webhook_ValidateCreate rd r = Some []"
  "RavenDBCluster_ValidateUpdate rd r (ClusterObject c) = Some ([], []) \<longleftrightarrow> webhook_ValidateUpdate rd r c = Some []"
  "RavenDBCluster_ValidateUpdate rd r (OtherObject type) \<noteq> Some ([], [])"
  by (auto simp: RavenDBCluster_ValidateCreate_def RavenDBCluster_ValidateUpdate_def bind_eq_Some_conv)

subsection \<open>Admission histories\<close>

text \<open>\<open>admitted R first c\<close>: the webhook created \<open>first\<close> and a sequence of updates it accepted leads to
  \<open>c\<close>.  Every request may see other secrets and volume attribute classes: it is answered from some reader in \<open>R\<close>.
  The keys of the environment map are distinct in every version.\<close>

inductive admitted :: "Reader set \<Rightarrow> RavenDBCluster \<Rightarrow> RavenDBCluster \<Rightarrow> bool" for R where
  created: "RavenDBCluster_ValidateCreate rd (RavenDBCluster_Default c) = Some ([], []) \<Longrightarrow> rd \<in> R \<Longrightarrow>
            distinct (map fst (GetEnv c)) \<Longrightarrow> admitted R (RavenDBCluster_Default c) (RavenDBCluster_Default c)"
| updated: "admitted R first c \<Longrightarrow> RavenDBCluster_ValidateUpdate rd (RavenDBCluster_Default c') (ClusterObject c) = Some ([], []) \<Longrightarrow>
            rd \<in> R \<Longrightarrow> distinct (map fst (GetEnv c')) \<Longrightarrow> admitted R first (RavenDBCluster_Default c')"

lemmas admitted_created = admitted.created [unfolded Default_id entry_accepts(1)]

lemmas admitted_updated = admitted.updated [unfolded Default_id entry_accepts(2)]

lemmas admitted_induct [consumes 1, case_names created updated] = admitted.induct [unfolded Default_id entry_accepts(1,2)]

inductive_cases admittedE: "admitted R first c"

lemmas registry_defs = validators_def SetupWebhookWithManager_def validators_init_def Register_def
  imageValidator_def generalValidator_def nodeValidator_def eaValidator_def storageValidator_def

lemma webhook_create_parts:
  "webhook_ValidateCreate rd c = Some [] \<longleftrightarrow>
     image_ValidateCreate rd c = Accept \<and> general_ValidateCreate rd c = Accept \<and> node_ValidateCreate rd c = Accept \<and>
     ea_ValidateCreate rd c = Accept \<and> storage_ValidateCreate rd c = Accept"
  unfolding webhook_ValidateCreate_def RunCreate_def run_all_accepts by (auto simp: registry_defs)

lemma webhook_update_parts:
  "webhook_ValidateUpdate rd c' c = Some [] \<longleftrightarrow>
     image_ValidateUpdate rd c c' = Accept \<and> general_ValidateUpdate rd c c' = Accept \<and>
     node_ValidateUpdate rd c c' = Accept \<and> ea_ValidateUpdate rd c c' = Accept \<and> storage_ValidateUpdate rd c c' = Accept"
  unfolding webhook_ValidateUpdate_def RunUpdate_def run_all_accepts by (auto simp: registry_defs)

text \<open>The four validators that check an update like a creation, as one.\<close>

definition rechecked_create :: "Reader \<Rightarrow> RavenDBCluster \<Rightarrow> verdict" where
  "rechecked_create rd c =
     (if image_ValidateCreate rd c = Accept \<and> node_ValidateCreate rd c = Accept \<and>
         ea_ValidateCreate rd c = Accept \<and> storage_ValidateCreate rd c = Accept then Accept else Reject ''rejected'')"

definition rechecked_update :: "Reader \<Rightarrow> RavenDBCluster \<Rightarrow> RavenDBCluster \<Rightarrow> verdict" where
  "rechecked_update rd old new =
     (if webhook_ValidateUpdate rd new old = Some [] then Accept else Reject ''rejected'')"

interpretation webhook_reval: revalidating rechecked_create rechecked_update
  by unfold_locales
    (auto simp: rechecked_update_def rechecked_create_def webhook_update_parts
      dest: image_reval.update_includes_create node_reval.update_includes_create
        ea_reval.update_includes_create storage_reval.update_includes_create split: if_splits)

lemma admitted_rechecked: "admitted R first c \<Longrightarrow> \<exists>rd \<in> R. rechecked_create rd c = Accept"
proof (induction rule: admitted_induct)
  case (created rd c)
  then show ?case by (auto simp: rechecked_create_def webhook_create_parts)
next
  case (updated first c rd c')
  then show ?case
    using webhook_reval.update_includes_create [of rd c c'] by (auto simp: rechecked_update_def)
qed

lemma admitted_parts:
  assumes "admitted R first c"
  shows "\<exists>rd \<in> R. validateImage (GetImage c) = None \<and> node_ok rd c \<and> ea_ok c \<and> storage_spec_ok rd c"
  using admitted_rechecked [OF assms]
  by (auto simp: rechecked_create_def image_ValidateCreate_def node_accept ea_accept storage_accept split: if_splits)

lemma admitted_distinct_env: "admitted R first c \<Longrightarrow> distinct (map fst (GetEnv c))"
  by (erule admittedE) auto

text \<open>The immutability check is exact between two clusters the node validator accepts.\<close>

lemma node_ok_no_bar:
  assumes "node_ok rd c"
  shows "\<forall>s \<in> set (GetNodeTags c) \<union> set (GetNodePublicUrls c) \<union> set (GetNodeTcpUrls c). bar \<notin> set s"
proof -
  have "bar \<notin> set (n_Tag n) \<and> bar \<notin> set (n_PublicServerUrl n) \<and> bar \<notin> set (n_PublicServerUrlTcp n)"
    if "n \<in> set (s_Nodes (Spec c))" for n
  proof -
    from assms that have "node_url_ok (n_PublicServerUrl n) (GetDomain c) ''https'' (n_Tag n @ ''.'')"
      "node_url_ok (n_PublicServerUrlTcp n) (GetDomain c) ''tcp'' (n_Tag n @ ''-tcp.'')" by (auto simp: node_ok_def)
    from this [THEN node_url_ok_no_bar] show ?thesis by auto
  qed
  then show ?thesis by (auto simp: GetNodeTags_def GetNodePublicUrls_def GetNodeTcpUrls_def mapNodes_def)
qed

definition same_identity :: "RavenDBCluster \<Rightarrow> RavenDBCluster \<Rightarrow> bool" where
  "same_identity c d \<longleftrightarrow> GetMode c = GetMode d \<and> GetDomain c = GetDomain d \<and> GetNodeTags c = GetNodeTags d \<and>
     GetNodePublicUrls c = GetNodePublicUrls d \<and> GetNodeTcpUrls c = GetNodeTcpUrls d"

lemma general_update_exact:
  assumes "node_ok rd c" "node_ok rd' d"
  shows "general_ValidateUpdate rd'' c d = Accept \<longleftrightarrow> same_identity c d"
proof -
  have ne: "s_Nodes (Spec c) \<noteq> []" "s_Nodes (Spec d) \<noteq> []" using assms by (auto simp: node_ok_def)
  have "strings_Join (mapNodes c f) ''|'' = strings_Join (mapNodes d f) ''|'' \<longleftrightarrow> mapNodes c f = mapNodes d f"
    if "f \<in> {n_Tag, n_PublicServerUrl, n_PublicServerUrlTcp}" for f
    using node_ok_no_bar [OF assms(1)] node_ok_no_bar [OF assms(2)] ne that
    by (intro strings_Join_inj) (auto simp: GetNodeTags_def GetNodePublicUrls_def GetNodeTcpUrls_def mapNodes_def)
  then show ?thesis
    by (simp add: general_ValidateUpdate_def ValidateImmutableOnceCreated_def same_identity_def GetNodeTags_def
        GetNodePublicUrls_def GetNodeTcpUrls_def)
qed

lemma admitted_identity: "admitted R first c \<Longrightarrow> same_identity first c"
proof (induction rule: admitted_induct)
  case (created rd c)
  then show ?case by (simp add: same_identity_def)
next
  case (updated first c rd c')
  then have "admitted R first c'" by (blast intro: admitted_updated)
  with updated(1) obtain rd1 rd2 where "node_ok rd1 c" "node_ok rd2 c'" by (blast dest: admitted_parts)
  moreover have "general_ValidateUpdate rd c c' = Accept" using updated by (simp add: webhook_update_parts)
  ultimately have "same_identity c c'" by (simp add: general_update_exact)
  with updated.IH show ?case by (simp add: same_identity_def)
qed

subsection \<open>Properties\<close>

text \<open>C22. The webhook admits a new cluster exactly when the image check, the general check, the node check, the
  external access check and the storage check all hold; that the image validator is registered twice makes no difference to
  the verdict.\<close>

theorem webhook_ValidateCreate_iff:
  assumes "distinct (map fst (GetEnv c))"
  shows "webhook_ValidateCreate rd c = Some [] \<longleftrightarrow>
         validateImage (GetImage c) = None \<and> general_ok rd c \<and> node_ok rd c \<and> ea_ok c \<and> storage_spec_ok rd c"
  by (simp add: webhook_create_parts image_ValidateCreate_def general_accept [OF assms] node_accept ea_accept
      storage_accept)

text \<open>C8. Safety of admission: in every version of a cluster that a sequence of admitted requests can produce, whatever secrets
  and volume attribute classes each request finds, the image is valid, the nodes, the external access and the storage are well formed (as
  far as they refer to secrets or classes: with respect to what one of the requests found), and the mode, the domain, the node tags
  and both lists of node URLs are those of the created cluster.  The comparison of joined lists in the code is therefore exact.\<close>

theorem admitted_invariant:
  assumes "admitted R first c"
  shows "(\<exists>rd \<in> R. validateImage (GetImage c) = None \<and> node_ok rd c \<and> ea_ok c \<and> storage_spec_ok rd c) \<and>
         same_identity first c"
  using admitted_parts [OF assms] admitted_identity [OF assms] by simp

subsection \<open>Witnesses\<close>

abbreviation image_713 :: string where "image_713 \<equiv> ''ravendb/ravendb:7.1.3-ubuntu.22.04-x64''"
abbreviation image_714 :: string where "image_714 \<equiv> ''ravendb/ravendb:7.1.4-ubuntu.22.04-x64''"

lemma sample_created: "webhook_ValidateCreate sample_reader (sample_cluster image_713) = Some []"
  by code_simp

lemma sample_updated:
  "webhook_ValidateUpdate sample_reader (sample_cluster image_714) (sample_cluster image_713) = Some []"
  by code_simp

lemma sample_env: "distinct (map fst (GetEnv (sample_cluster img)))"
  by (simp add: GetEnv_def sample_defs)

lemma sample_admitted: "admitted {sample_reader} (sample_cluster image_713) (sample_cluster image_714)"
  by (rule admitted_updated [OF admitted_created [OF sample_created _ sample_env] sample_updated _ sample_env]) simp_all

theorem webhook_ValidateCreate_iff_witness:
  "validateImage (GetImage (sample_cluster image_713)) = None \<and> general_ok sample_reader (sample_cluster image_713) \<and>
   node_ok sample_reader (sample_cluster image_713)"
  using webhook_ValidateCreate_iff [OF sample_env, of sample_reader image_713] sample_created by blast

theorem admitted_invariant_witness:
  "node_ok sample_reader (sample_cluster image_714) \<and> ea_ok (sample_cluster image_714) \<and>
   same_identity (sample_cluster image_713) (sample_cluster image_714)"
  using admitted_invariant [OF sample_admitted] by blast

end
