(* ===== verification/StatusConditions.thy ===== *)
theory StatusConditions
  imports ApiTypes
begin

text \<open>
  The status helpers of the resource (\<open>api/v1/status_helpers.go\<close>): the list of conditions as a
  keyed store (\<open>GetCondition\<close>, \<open>setCondition\<close>), the roll-up of the required conditions into
  \<open>Ready\<close> (\<open>ComputeReady\<close>) and of \<open>Ready\<close>, \<open>Degraded\<close> and \<open>Progressing\<close> into a phase
  (\<open>UpdatePhaseFromConditions\<close>).  The locale \<open>condition_store\<close> states what the evaluator relies
  on; it is interpreted on the two functions of the code.
\<close>

subsection \<open>Definitions\<close>

abbreviation conds :: "RavenDBCluster \<Rightarrow> Condition list" where
  "conds r \<equiv> st_Conditions (Status r)"

definition set_status :: "RavenDBCluster \<Rightarrow> (RavenDBClusterStatus \<Rightarrow> RavenDBClusterStatus) \<Rightarrow> RavenDBCluster" where
  [go_simps]: "set_status r f = r\<lparr>Status := f (Status r)\<rparr>"

fun find_condition :: "Condition list \<Rightarrow> string \<Rightarrow> Condition option" where
  "find_condition [] t = None"
| "find_condition (c # cs) t = (if c_Type c = t then Some c else find_condition cs t)"

definition GetCondition :: "RavenDBCluster \<Rightarrow> string \<Rightarrow> Condition option" where
  "GetCondition r t = find_condition (conds r) t"

definition HasConditionTrue :: "RavenDBCluster \<Rightarrow> string \<Rightarrow> bool" where
  "HasConditionTrue r t =
     (case GetCondition r t of None \<Rightarrow> False | Some c \<Rightarrow> c_Status c = ConditionTrue)"

definition IsBootstrapped :: "RavenDBCluster \<Rightarrow> bool" where
  "IsBootstrapped r = HasConditionTrue r ConditionBootstrapCompleted"

definition reasonsanitize :: "string \<Rightarrow> string" where
  "reasonsanitize reason = (if reason = '''' then ReasonCompleted else reason)"

text \<open>\<open>GetCondition\<close> returns a pointer into the slice, through which \<open>setCondition\<close> writes: the
  write reaches the first entry of that type.\<close>

fun write_first :: "string \<Rightarrow> (Condition \<Rightarrow> Condition) \<Rightarrow> Condition list \<Rightarrow> Condition list" where
  "write_first t f [] = []"
| "write_first t f (c # cs) = (if c_Type c = t then f c # cs else c # write_first t f cs)"

definition overwrite :: "string \<Rightarrow> string \<Rightarrow> string \<Rightarrow> time \<Rightarrow> Condition \<Rightarrow> Condition" where
  "overwrite status reason msg now c =
     (let c = (if c_Status c \<noteq> status then c\<lparr>c_LastTransitionTime := now\<rparr> else c)
      in c\<lparr>c_Status := status, c_Reason := reasonsanitize reason, c_Message := msg\<rparr>)"

definition setCondition ::
  "RavenDBCluster \<Rightarrow> string \<Rightarrow> string \<Rightarrow> string \<Rightarrow> string \<Rightarrow> time \<Rightarrow> RavenDBCluster" where
  "setCondition r t status reason msg now =
     (case GetCondition r t of
        Some _ \<Rightarrow> set_status r (\<lambda>s. s\<lparr>st_Conditions :=
                    write_first t (overwrite status reason msg now) (st_Conditions s)\<rparr>)
      | None \<Rightarrow> set_status r (\<lambda>s. s\<lparr>st_Conditions := st_Conditions s @
                    [\<lparr>c_Type = t, c_Status = status, c_Reason = reasonsanitize reason,
                      c_Message = msg, c_LastTransitionTime = now\<rparr>]\<rparr>))"

definition SetConditionTrue :: "RavenDBCluster \<Rightarrow> string \<Rightarrow> string \<Rightarrow> string \<Rightarrow> time \<Rightarrow> RavenDBCluster" where
  "SetConditionTrue r t reason msg now = setCondition r t ConditionTrue reason msg now"

definition SetConditionFalse :: "RavenDBCluster \<Rightarrow> string \<Rightarrow> string \<Rightarrow> string \<Rightarrow> time \<Rightarrow> RavenDBCluster" where
  "SetConditionFalse r t reason msg now = setCondition r t ConditionFalse reason msg now"

definition SetObservedGeneration :: "RavenDBCluster \<Rightarrow> int \<Rightarrow> RavenDBCluster" where
  "SetObservedGeneration r gen = set_status r (\<lambda>s. s\<lparr>st_ObservedGeneration := gen\<rparr>)"

definition SetBootstrapped :: "RavenDBCluster \<Rightarrow> time \<Rightarrow> RavenDBCluster" where
  "SetBootstrapped r now =
     SetConditionTrue r ConditionBootstrapCompleted ReasonCompleted ''Bootstrap job succeeded'' now"

definition set_message :: "RavenDBCluster \<Rightarrow> string \<Rightarrow> RavenDBCluster" where
  [go_simps]: "set_message r msg = set_status r (\<lambda>s. s\<lparr>st_Message := msg\<rparr>)"

definition required_conditions :: "RavenDBCluster \<Rightarrow> string list" where
  "required_conditions r =
     [ConditionCertificatesReady, ConditionLicensesValid, ConditionStorageReady,
      ConditionNodesHealthy, ConditionBootstrapCompleted] @
     (if s_ExternalAccessConfiguration (Spec r) \<noteq> None then [ConditionExternalAccessReady] else [])"

fun compute_ready_loop :: "RavenDBCluster \<Rightarrow> string list \<Rightarrow> time \<Rightarrow> RavenDBCluster" where
  "compute_ready_loop r [] now =
     set_message (setCondition r ConditionReady ConditionTrue ReasonCompleted ''Cluster is ready'' now)
       ''Cluster is ready''"
| "compute_ready_loop r (t # ts) now =
     (case GetCondition r t of
        None \<Rightarrow> set_message (setCondition r ConditionReady ConditionFalse t '''' now) (t @ '' not satisfied'')
      | Some c \<Rightarrow>
          if c_Status c \<noteq> ConditionTrue
          then set_message (setCondition r ConditionReady ConditionFalse t (c_Message c) now)
                 (if c_Reason c \<noteq> '''' then c_Reason c @ '': '' @ c_Message c else t @ '' not satisfied'')
          else compute_ready_loop r ts now)"

definition ComputeReady :: "RavenDBCluster \<Rightarrow> time \<Rightarrow> RavenDBCluster" where
  "ComputeReady r now = compute_ready_loop r (required_conditions r) now"

definition UpdatePhaseFromConditions :: "RavenDBCluster \<Rightarrow> RavenDBCluster" where
  "UpdatePhaseFromConditions r = set_status r (\<lambda>s. s\<lparr>st_Phase :=
     (if HasConditionTrue r ConditionReady then PhaseRunning
      else if HasConditionTrue r ConditionDegraded then PhaseError
      else if HasConditionTrue r ConditionProgressing then PhaseDeploying
      else PhaseDeploying)\<rparr>)"

subsection \<open>The condition store\<close>

locale condition_store =
  fixes get :: "'s \<Rightarrow> string \<Rightarrow> Condition option"
    and put :: "'s \<Rightarrow> string \<Rightarrow> string \<Rightarrow> string \<Rightarrow> string \<Rightarrow> time \<Rightarrow> 's"
  assumes get_put_same:
      "get (put s t status reason msg now) t =
        Some \<lparr>c_Type = t, c_Status = status, c_Reason = reasonsanitize reason, c_Message = msg,
              c_LastTransitionTime =
                (case get s t of
                   Some c \<Rightarrow> if c_Status c = status then c_LastTransitionTime c else now
                 | None \<Rightarrow> now)\<rparr>"
    and get_put_other: "t \<noteq> t' \<Longrightarrow> get (put s t status reason msg now) t' = get s t'"
    and put_present:
      "get s t = Some c \<Longrightarrow> c_Status c = status \<Longrightarrow> c_Reason c = reasonsanitize reason \<Longrightarrow>
       c_Message c = msg \<Longrightarrow> put s t status reason msg now = s"
begin

lemma put_twice:
  "put (put s t status reason msg now) t status reason msg now' = put s t status reason msg now"
  by (rule put_present [OF get_put_same]) simp_all

lemma transition_time_kept:
  assumes "get s t = Some c" and "c_Status c = status"
  shows "\<exists>c'. get (put s t status reason msg now) t = Some c' \<and>
              c_LastTransitionTime c' = c_LastTransitionTime c"
  using assms by (simp add: get_put_same)

lemma transition_time_set:
  assumes "\<And>c. get s t = Some c \<Longrightarrow> c_Status c \<noteq> status"
  shows "\<exists>c'. get (put s t status reason msg now) t = Some c' \<and> c_LastTransitionTime c' = now"
  using assms by (auto simp: get_put_same split: option.split)

end

lemma reasonsanitize_id [simp]: "reason \<noteq> '''' \<Longrightarrow> reasonsanitize reason = reason"
  by (simp add: reasonsanitize_def)

lemma reasonsanitize_idem [simp]: "reasonsanitize (reasonsanitize reason) = reasonsanitize reason"
  by (simp add: reasonsanitize_def)

lemma reasonsanitize_nonempty [simp]: "reasonsanitize reason \<noteq> ''''"
  by (simp add: reasonsanitize_def ReasonCompleted_def)

lemma overwrite_type [simp]: "c_Type (overwrite status reason msg now c) = c_Type c"
  by (simp add: overwrite_def Let_def)

lemma find_condition_type: "find_condition cs t = Some c \<Longrightarrow> c_Type c = t"
  by (induction cs) (auto split: if_splits)

lemma find_condition_None: "find_condition cs t = None \<longleftrightarrow> t \<notin> c_Type ` set cs"
  by (induction cs) auto

lemma find_condition_append:
  "find_condition (cs @ ds) t = (case find_condition cs t of None \<Rightarrow> find_condition ds t | Some c \<Rightarrow> Some c)"
  by (induction cs) auto

lemma find_write_first:
  assumes "\<And>c. c_Type (f c) = c_Type c"
  shows "find_condition (write_first t f cs) t' =
     (if t = t' then map_option f (find_condition cs t) else find_condition cs t')"
  using assms by (induction cs) auto

lemma write_first_id: "find_condition cs t = Some c \<Longrightarrow> f c = c \<Longrightarrow> write_first t f cs = cs"
  by (induction cs) (auto split: if_splits)

lemma write_first_types: "(\<And>c. c_Type (f c) = c_Type c) \<Longrightarrow> map c_Type (write_first t f cs) = map c_Type cs"
  by (induction cs) auto

lemma overwrite_id:
  "c_Status c = status \<Longrightarrow> c_Reason c = reasonsanitize reason \<Longrightarrow> c_Message c = msg \<Longrightarrow>
   overwrite status reason msg now c = c"
  by (simp add: overwrite_def)

lemma overwrite_eq:
  "overwrite status reason msg now c =
     \<lparr>c_Type = c_Type c, c_Status = status, c_Reason = reasonsanitize reason, c_Message = msg,
      c_LastTransitionTime = (if c_Status c = status then c_LastTransitionTime c else now)\<rparr>"
  by (cases c) (simp add: overwrite_def Let_def)

interpretation cstore: condition_store GetCondition setCondition
proof (unfold_locales, goal_cases)
  case (1 s t status reason msg now)
  then show ?case
    by (cases "GetCondition s t")
      (auto simp: setCondition_def GetCondition_def go_simps find_condition_append find_write_first
        overwrite_eq dest: find_condition_type)
next
  case (2 t t' s status reason msg now)
  then show ?case
    by (cases "GetCondition s t")
      (auto simp: setCondition_def GetCondition_def go_simps find_condition_append find_write_first
        split: option.splits)
next
  case (3 s t c status reason msg now)
  then show ?case
    by (simp add: setCondition_def GetCondition_def go_simps write_first_id overwrite_id)
qed

subsection \<open>Frames and the well-formedness invariant\<close>

lemma frame_setCondition [simp]:
  "Spec (setCondition r t status reason msg now) = Spec r"
  "Name (setCondition r t status reason msg now) = Name r"
  "Namespace (setCondition r t status reason msg now) = Namespace r"
  "Generation (setCondition r t status reason msg now) = Generation r"
  "st_Nodes (Status (setCondition r t status reason msg now)) = st_Nodes (Status r)"
  "st_Phase (Status (setCondition r t status reason msg now)) = st_Phase (Status r)"
  "st_Message (Status (setCondition r t status reason msg now)) = st_Message (Status r)"
  by (simp_all add: setCondition_def go_simps split: option.split)

lemma GetCondition_cong: "conds r = conds r' \<Longrightarrow> GetCondition r t = GetCondition r' t"
  by (simp add: GetCondition_def)

lemma GetCondition_frames [simp]:
  "GetCondition (set_message r msg) t = GetCondition r t"
  "GetCondition (SetObservedGeneration r gen) t = GetCondition r t"
  "GetCondition (UpdatePhaseFromConditions r) t = GetCondition r t"
  by (rule GetCondition_cong, simp add: go_simps SetObservedGeneration_def UpdatePhaseFromConditions_def)+

lemma Spec_frames [simp]:
  "Spec (set_message r msg) = Spec r"
  "Spec (SetObservedGeneration r gen) = Spec r"
  "Spec (UpdatePhaseFromConditions r) = Spec r"
  by (simp_all add: go_simps SetObservedGeneration_def UpdatePhaseFromConditions_def)

lemma HasConditionTrue_frames [simp]:
  "HasConditionTrue (set_message r msg) t = HasConditionTrue r t"
  "HasConditionTrue (SetObservedGeneration r gen) t = HasConditionTrue r t"
  "HasConditionTrue (UpdatePhaseFromConditions r) t = HasConditionTrue r t"
  by (simp_all add: HasConditionTrue_def)

lemma HasConditionTrue_set [simp]:
  "HasConditionTrue (setCondition r t status reason msg now) t' =
     (if t = t' then status = ConditionTrue else HasConditionTrue r t')"
  by (auto simp: HasConditionTrue_def cstore.get_put_same cstore.get_put_other)

definition conditions_wf :: "RavenDBCluster \<Rightarrow> bool" where
  "conditions_wf r \<longleftrightarrow> distinct (map c_Type (conds r)) \<and> (\<forall>c \<in> set (conds r). c_Reason c \<noteq> '''')"

lemma write_first_reasons:
  "\<forall>c \<in> set cs. P c \<Longrightarrow> (\<And>c. P (f c)) \<Longrightarrow> \<forall>c \<in> set (write_first t f cs). P c"
  by (induction cs) auto

lemma conditions_wf_set: "conditions_wf r \<Longrightarrow> conditions_wf (setCondition r t status reason msg now)"
proof (cases "GetCondition r t")
  case None
  assume "conditions_wf r"
  moreover from None have "t \<notin> c_Type ` set (conds r)"
    by (simp add: GetCondition_def find_condition_None)
  ultimately show ?thesis
    using None by (auto simp: conditions_wf_def setCondition_def go_simps)
next
  case (Some c)
  assume "conditions_wf r"
  with Some show ?thesis
    by (auto simp: conditions_wf_def setCondition_def go_simps write_first_types overwrite_eq
        dest: write_first_reasons [THEN bspec, rotated 2])
qed

lemma conditions_wf_message [simp]: "conditions_wf (set_message r msg) = conditions_wf r"
  by (simp add: conditions_wf_def go_simps)

lemma conditions_wf_compute_ready_loop: "conditions_wf r \<Longrightarrow> conditions_wf (compute_ready_loop r ts now)"
  by (induction ts) (auto simp: conditions_wf_set split: option.split)

subsection \<open>The roll-up\<close>

definition unmet :: "RavenDBCluster \<Rightarrow> string list \<Rightarrow> string list" where
  "unmet r ts = filter (\<lambda>t. \<not> HasConditionTrue r t) ts"

lemma unmet_Nil [simp]: "unmet r [] = []"
  by (simp add: unmet_def)

lemma unmet_Cons [simp]: "unmet r (t # ts) = (if HasConditionTrue r t then unmet r ts else t # unmet r ts)"
  by (simp add: unmet_def)

lemma compute_ready_loop_step:
  "HasConditionTrue r t \<Longrightarrow> compute_ready_loop r (t # ts) now = compute_ready_loop r ts now"
  by (auto simp: HasConditionTrue_def split: option.splits)

lemma compute_ready_loop_stop:
  assumes "\<not> HasConditionTrue r t" and "t \<noteq> ''''"
  shows "\<exists>c. GetCondition (compute_ready_loop r (t # ts) now) ConditionReady = Some c \<and>
             c_Status c = ConditionFalse \<and> c_Reason c = t"
  using assms
  by (auto simp: HasConditionTrue_def cstore.get_put_same split: option.splits)

lemma compute_ready_loop_other:
  "t \<noteq> ConditionReady \<Longrightarrow> GetCondition (compute_ready_loop r ts now) t = GetCondition r t"
  by (induction ts) (auto simp: cstore.get_put_other split: option.split)

lemma compute_ready_loop_spec [simp]: "Spec (compute_ready_loop r ts now) = Spec r"
  by (induction ts) (auto split: option.split)

lemma compute_ready_loop_ready:
  "HasConditionTrue (compute_ready_loop r ts now) ConditionReady \<longleftrightarrow> unmet r ts = []"
proof (induction ts)
  case (Cons t ts)
  show ?case
  proof (cases "HasConditionTrue r t")
    case True
    with Cons show ?thesis by (simp add: compute_ready_loop_step del: compute_ready_loop.simps)
  next
    case False
    then show ?thesis by (auto simp: HasConditionTrue_def [of r t] split: option.split)
  qed
qed simp

lemma compute_ready_loop_unmet:
  assumes "unmet r ts = t # us" and "'''' \<notin> set ts"
  shows "\<exists>c. GetCondition (compute_ready_loop r ts now) ConditionReady = Some c \<and>
             c_Status c = ConditionFalse \<and> c_Reason c = t"
  using assms
proof (induction ts)
  case (Cons x ts)
  show ?case
  proof (cases "HasConditionTrue r x")
    case True
    with Cons show ?thesis by (simp add: compute_ready_loop_step del: compute_ready_loop.simps)
  next
    case False
    with Cons.prems compute_ready_loop_stop [OF False, of ts now] show ?thesis
      by (auto simp del: compute_ready_loop.simps)
  qed
qed simp

lemma compute_ready_loop_message:
  "unmet r ts = [] \<Longrightarrow> st_Message (Status (compute_ready_loop r ts now)) = ''Cluster is ready''"
proof (induction ts)
  case (Cons t ts)
  then show ?case by (simp add: compute_ready_loop_step del: compute_ready_loop.simps split: if_splits)
qed (simp add: go_simps)

lemma required_nonempty: "'''' \<notin> set (required_conditions r)"
  by (simp add: required_conditions_def condition_type_defs)

lemma GetCondition_ComputeReady:
  "t = ConditionReady \<or> GetCondition (ComputeReady r now) t = GetCondition r t"
  by (auto simp: ComputeReady_def dest: compute_ready_loop_other)

lemma HasConditionTrue_ComputeReady:
  "HasConditionTrue (ComputeReady r now) t =
     (if t = ConditionReady then unmet r (required_conditions r) = [] else HasConditionTrue r t)"
  by (cases "t = ConditionReady")
    (auto simp: ComputeReady_def compute_ready_loop_ready HasConditionTrue_def [of _ t] compute_ready_loop_other)

subsection \<open>Properties\<close>

text \<open>C23. Reading a condition back after \<open>setCondition\<close>: the entry carries the status, the message
  and the sanitised reason; its transition time is the given time exactly when the condition was
  absent or had another status, and the old time otherwise.  Every condition of another type is
  unchanged, and so are the specification and the node statuses.
\<close>

theorem setCondition_get:
  "GetCondition (setCondition r t status reason msg now) t' =
     (if t' = t
      then Some \<lparr>c_Type = t, c_Status = status, c_Reason = reasonsanitize reason, c_Message = msg,
                 c_LastTransitionTime =
                   (case GetCondition r t of
                      Some c \<Rightarrow> if c_Status c = status then c_LastTransitionTime c else now
                    | None \<Rightarrow> now)\<rparr>
      else GetCondition r t')
   \<and> Spec (setCondition r t status reason msg now) = Spec r
   \<and> st_Nodes (Status (setCondition r t status reason msg now)) = st_Nodes (Status r)"
  by (auto simp: cstore.get_put_same cstore.get_put_other)

text \<open>\<open>ComputeReady\<close> is the conjunction of the required conditions, in their order: \<open>Ready\<close> becomes
  true exactly when every required condition is present and true (external access only counts when
  it is configured); otherwise it becomes false and its reason is the first required type that is
  not satisfied.  No other condition changes.
\<close>

theorem ComputeReady_spec:
  "(case unmet r (required_conditions r) of
      [] \<Rightarrow> HasConditionTrue (ComputeReady r now) ConditionReady \<and>
            st_Message (Status (ComputeReady r now)) = ''Cluster is ready''
    | t # _ \<Rightarrow> (\<exists>c. GetCondition (ComputeReady r now) ConditionReady = Some c \<and>
                  c_Status c = ConditionFalse \<and> c_Reason c = t))
   \<and> (t' = ConditionReady \<or> GetCondition (ComputeReady r now) t' = GetCondition r t')"
proof (cases "unmet r (required_conditions r)")
  case Nil
  then have "st_Message (Status (ComputeReady r now)) = ''Cluster is ready''"
    unfolding ComputeReady_def by (rule compute_ready_loop_message)
  with Nil GetCondition_ComputeReady show ?thesis by (simp add: HasConditionTrue_ComputeReady)
next
  case (Cons t us)
  then have "\<exists>c. GetCondition (ComputeReady r now) ConditionReady = Some c \<and>
    c_Status c = ConditionFalse \<and> c_Reason c = t"
    unfolding ComputeReady_def by (rule compute_ready_loop_unmet) (rule required_nonempty)
  with Cons GetCondition_ComputeReady show ?thesis by simp
qed

text \<open>
  The phase after a roll-up: \<open>Running\<close> exactly when all required conditions hold; otherwise
  \<open>Error\<close> exactly when the cluster is degraded; otherwise \<open>Deploying\<close>.
\<close>

lemma phase_after_rollup:
  "st_Phase (Status (UpdatePhaseFromConditions (ComputeReady r now))) =
     (if unmet r (required_conditions r) = [] then PhaseRunning
      else if HasConditionTrue r ConditionDegraded then PhaseError else PhaseDeploying)"
  by (simp add: UpdatePhaseFromConditions_def go_simps HasConditionTrue_ComputeReady)

end
