(* ===== verification/Collector.thy ===== *)
theory Collector
  imports ApiTypes
begin

text \<open>
  The health facts (\<open>pkg/health/collector.go\<close>) and the collector that translates live Kubernetes
  objects into them (\<open>pkg/health/resource_collector.go\<close>).  The API server is a parameter: a
  record of the answers of \<open>client.List\<close> for each kind, each an error or a list of objects.
  A Go set (\<open>map[string]struct{}\<close>) is the list of its keys.
\<close>

subsection \<open>Facts\<close>

record StatefulSetFact =
  ssf_Name :: string
  ssf_Namespace :: string
  ssf_Replicas :: int32
  ssf_ReadyReplicas :: int32
  ssf_CurrentRevision :: string
  ssf_UpdateRevision :: string
  ssf_Updating :: bool

record PodFact =
  pf_Name :: string
  pf_Namespace :: string
  pf_Phase :: string
  pf_Ready :: bool
  pf_Restarts :: int32

record PVCFact =
  pvf_Name :: string
  pvf_Namespace :: string
  pvf_Bound :: bool
  pvf_Phase :: string
  pvf_RequestedSize :: string
  pvf_ActualSize :: string

record ServiceFact =
  sf_Name :: string
  sf_Namespace :: string
  sf_Type :: string
  sf_HasClusterIP :: bool
  sf_LBReady :: bool

record IngressFact =
  if_Name :: string
  if_Namespace :: string
  if_LBReady :: bool

record JobFact =
  jf_Name :: string
  jf_Namespace :: string
  jf_Succeeded :: bool
  jf_Active :: int32
  jf_Failed :: int32
  jf_Completed :: bool

record SecretFact =
  sef_Name :: string
  sef_Namespace :: string
  sef_Type :: string

record ResourceFacts =
  rf_StatefulSets :: "StatefulSetFact list"
  rf_Pods :: "PodFact list"
  rf_PVCs :: "PVCFact list"
  rf_Services :: "ServiceFact list"
  rf_Ingresses :: "IngressFact list"
  rf_Jobs :: "JobFact list"
  rf_Secrets :: "SecretFact list"

subsection \<open>The client's list operations\<close>

record Lister =
  ListStatefulSets :: "string \<Rightarrow> kerr + StatefulSet list"
  ListJobs :: "string \<Rightarrow> kerr + Job list"
  ListPods :: "string \<Rightarrow> kerr + Pod list"
  ListPVCs :: "string \<Rightarrow> kerr + PersistentVolumeClaim list"
  ListServices :: "string \<Rightarrow> kerr + Service list"
  ListIngresses :: "string \<Rightarrow> kerr + Ingress list"
  ListSecrets :: "string \<Rightarrow> kerr + Secret list"

subsection \<open>Translation\<close>

definition isOwnedByCluster :: "OwnerReference list \<Rightarrow> RavenDBCluster \<Rightarrow> bool" where
  "isOwnedByCluster owners cluster =
     list_ex (\<lambda>ow. or_Kind ow = ''RavenDBCluster'' \<and> or_UID ow = UID cluster) owners"

definition isOwnedByAny :: "OwnerReference list \<Rightarrow> string list \<Rightarrow> bool" where
  "isOwnedByAny owners allowedUIDs = list_ex (\<lambda>ow. or_UID ow \<in> set allowedUIDs) owners"

definition isPodReady :: "Pod \<Rightarrow> bool" where
  "isPodReady p = list_ex (\<lambda>c. pc_Type c = ''Ready'' \<and> pc_Status c = ConditionTrue) (pod_Conditions p)"

definition getPodsContainersTotalRestarts :: "Pod \<Rightarrow> int32" where
  "getPodsContainersTotalRestarts p = foldl (+) 0 (pod_RestartCounts p)"

definition sts_fact :: "StatefulSet \<Rightarrow> StatefulSetFact" where
  "sts_fact ss = \<lparr>ssf_Name = om_Name (sts_Meta ss), ssf_Namespace = om_Namespace (sts_Meta ss),
     ssf_Replicas = (case sts_Replicas ss of Some n \<Rightarrow> n | None \<Rightarrow> 1),
     ssf_ReadyReplicas = sts_ReadyReplicas ss,
     ssf_CurrentRevision = sts_CurrentRevision ss, ssf_UpdateRevision = sts_UpdateRevision ss,
     ssf_Updating = (sts_CurrentRevision ss \<noteq> '''' \<and> sts_UpdateRevision ss \<noteq> '''' \<and>
                     sts_CurrentRevision ss \<noteq> sts_UpdateRevision ss)\<rparr>"

definition collectStatefulSets ::
  "Lister \<Rightarrow> string \<Rightarrow> RavenDBCluster \<Rightarrow> kerr + (StatefulSetFact list \<times> string list)" where
  "collectStatefulSets cli ns cluster =
     (case ListStatefulSets cli ns of
        Inl e \<Rightarrow> Inl e
      | Inr items \<Rightarrow>
          let mine = filter (\<lambda>ss. isOwnedByCluster (om_OwnerReferences (sts_Meta ss)) cluster) items
          in Inr (map sts_fact mine, map (\<lambda>ss. om_UID (sts_Meta ss)) mine))"

definition job_fact :: "Job \<Rightarrow> JobFact" where
  "job_fact j = (let jobSucceeded = 1 <=s job_Succeeded j in
     \<lparr>jf_Name = om_Name (job_Meta j), jf_Namespace = om_Namespace (job_Meta j),
      jf_Succeeded = jobSucceeded, jf_Active = job_Active j, jf_Failed = job_Failed j,
      jf_Completed = jobSucceeded\<rparr>)"

definition collectJobs :: "Lister \<Rightarrow> string \<Rightarrow> RavenDBCluster \<Rightarrow> kerr + JobFact list" where
  "collectJobs cli ns cluster =
     (case ListJobs cli ns of
        Inl e \<Rightarrow> Inl e
      | Inr items \<Rightarrow>
          Inr (map job_fact (filter (\<lambda>j. isOwnedByCluster (om_OwnerReferences (job_Meta j)) cluster) items)))"

definition pod_fact :: "Pod \<Rightarrow> PodFact" where
  "pod_fact p = \<lparr>pf_Name = om_Name (pod_Meta p), pf_Namespace = om_Namespace (pod_Meta p),
     pf_Phase = pod_Phase p, pf_Ready = isPodReady p, pf_Restarts = getPodsContainersTotalRestarts p\<rparr>"

definition pod_claims :: "Pod \<Rightarrow> string list" where
  "pod_claims p = concat (map (\<lambda>v.
     case cvs_PersistentVolumeClaim (vol_Source v) of
       None \<Rightarrow> []
     | Some r \<Rightarrow> if pvcvs_ClaimName r = '''' then [] else [pvcvs_ClaimName r]) (pod_Volumes p))"

definition collectPodsAndPVCRefs ::
  "Lister \<Rightarrow> string \<Rightarrow> string list \<Rightarrow> kerr + (PodFact list \<times> string list \<times> string list)" where
  "collectPodsAndPVCRefs cli ns ownedSSUIDs =
     (case ListPods cli ns of
        Inl e \<Rightarrow> Inl e
      | Inr items \<Rightarrow>
          let mine = filter (\<lambda>p. isOwnedByAny (om_OwnerReferences (pod_Meta p)) ownedSSUIDs) items
          in Inr (map pod_fact mine, map (\<lambda>p. om_UID (pod_Meta p)) mine, concat (map pod_claims mine)))"

definition pvc_fact :: "PersistentVolumeClaim \<Rightarrow> PVCFact" where
  "pvc_fact pvc = \<lparr>pvf_Name = om_Name (pvc_Meta pvc), pvf_Namespace = om_Namespace (pvc_Meta pvc),
     pvf_Bound = (pvc_Phase pvc = ''Bound''), pvf_Phase = pvc_Phase pvc,
     pvf_RequestedSize = (case pvc_StorageRequest pvc of Some q \<Rightarrow> q | None \<Rightarrow> ''''),
     pvf_ActualSize = (case pvc_StorageCapacity pvc of Some q \<Rightarrow> q | None \<Rightarrow> '''')\<rparr>"

definition pvc_is_ours :: "string list \<Rightarrow> string list \<Rightarrow> string list \<Rightarrow> PersistentVolumeClaim \<Rightarrow> bool" where
  "pvc_is_ours ownedSSUIDs ownedPodUIDs claimedPVCNames pvc \<longleftrightarrow>
     isOwnedByAny (om_OwnerReferences (pvc_Meta pvc)) ownedSSUIDs \<or>
     isOwnedByAny (om_OwnerReferences (pvc_Meta pvc)) ownedPodUIDs \<or>
     om_Name (pvc_Meta pvc) \<in> set claimedPVCNames"

definition collectPVCs ::
  "Lister \<Rightarrow> string \<Rightarrow> string list \<Rightarrow> string list \<Rightarrow> string list \<Rightarrow> kerr + PVCFact list" where
  "collectPVCs cli ns ownedSSUIDs ownedPodUIDs claimedPVCNames =
     (case ListPVCs cli ns of
        Inl e \<Rightarrow> Inl e
      | Inr items \<Rightarrow> Inr (map pvc_fact (filter (pvc_is_ours ownedSSUIDs ownedPodUIDs claimedPVCNames) items)))"

definition service_fact :: "Service \<Rightarrow> ServiceFact" where
  "service_fact svc = \<lparr>sf_Name = om_Name (svc_Meta svc), sf_Namespace = om_Namespace (svc_Meta svc),
     sf_Type = svc_Type svc,
     sf_HasClusterIP = (svc_ClusterIP svc \<noteq> '''' \<and> svc_ClusterIP svc \<noteq> ''None''),
     sf_LBReady = (length (svc_LoadBalancerIngress svc) > 0)\<rparr>"

definition collectServices :: "Lister \<Rightarrow> string \<Rightarrow> RavenDBCluster \<Rightarrow> kerr + ServiceFact list" where
  "collectServices cli ns cluster =
     (case ListServices cli ns of
        Inl e \<Rightarrow> Inl e
      | Inr items \<Rightarrow>
          Inr (map service_fact (filter (\<lambda>s. isOwnedByCluster (om_OwnerReferences (svc_Meta s)) cluster) items)))"

definition ingress_fact :: "Ingress \<Rightarrow> IngressFact" where
  "ingress_fact ing = \<lparr>if_Name = om_Name (ing_Meta ing), if_Namespace = om_Namespace (ing_Meta ing),
     if_LBReady = (length (ing_LoadBalancerIngress ing) > 0)\<rparr>"

definition collectIngresses :: "Lister \<Rightarrow> string \<Rightarrow> RavenDBCluster \<Rightarrow> kerr + IngressFact list" where
  "collectIngresses cli ns cluster =
     (case ListIngresses cli ns of
        Inl e \<Rightarrow> Inl e
      | Inr items \<Rightarrow>
          Inr (map ingress_fact (filter (\<lambda>i. isOwnedByCluster (om_OwnerReferences (ing_Meta i)) cluster) items)))"

definition secret_fact :: "Secret \<Rightarrow> SecretFact" where
  "secret_fact s = \<lparr>sef_Name = om_Name (sec_Meta s), sef_Namespace = om_Namespace (sec_Meta s),
     sef_Type = sec_Type s\<rparr>"

definition collectSecrets :: "Lister \<Rightarrow> string \<Rightarrow> kerr + SecretFact list" where
  "collectSecrets cli ns =
     (case ListSecrets cli ns of Inl e \<Rightarrow> Inl e | Inr items \<Rightarrow> Inr (map secret_fact items))"

definition empty_facts :: ResourceFacts where
  "empty_facts = \<lparr>rf_StatefulSets = [], rf_Pods = [], rf_PVCs = [], rf_Services = [],
     rf_Ingresses = [], rf_Jobs = [], rf_Secrets = []\<rparr>"

text \<open>\<open>Collect\<close> stops at the first list that fails and returns the facts gathered so far together
  with the error.\<close>

definition Collect :: "Lister \<Rightarrow> RavenDBCluster \<Rightarrow> ResourceFacts \<times> kerr option" where
  "Collect cli cluster =
     (let ns = Namespace cluster; facts = empty_facts in
      case collectStatefulSets cli ns cluster of Inl e \<Rightarrow> (facts, Some e) | Inr (ssFacts, ownedSSUIDs) \<Rightarrow>
      let facts = facts\<lparr>rf_StatefulSets := ssFacts\<rparr> in
      case collectJobs cli ns cluster of Inl e \<Rightarrow> (facts, Some e) | Inr jobFacts \<Rightarrow>
      let facts = facts\<lparr>rf_Jobs := jobFacts\<rparr> in
      case collectPodsAndPVCRefs cli ns ownedSSUIDs of
        Inl e \<Rightarrow> (facts, Some e) | Inr (podFacts, ownedPodUIDs, claimedPVCNames) \<Rightarrow>
      let facts = facts\<lparr>rf_Pods := podFacts\<rparr> in
      case collectPVCs cli ns ownedSSUIDs ownedPodUIDs claimedPVCNames of
        Inl e \<Rightarrow> (facts, Some e) | Inr pvcFacts \<Rightarrow>
      let facts = facts\<lparr>rf_PVCs := pvcFacts\<rparr> in
      case collectServices cli ns cluster of Inl e \<Rightarrow> (facts, Some e) | Inr svcFacts \<Rightarrow>
      let facts = facts\<lparr>rf_Services := svcFacts\<rparr> in
      case collectIngresses cli ns cluster of Inl e \<Rightarrow> (facts, Some e) | Inr ingFacts \<Rightarrow>
      let facts = facts\<lparr>rf_Ingresses := ingFacts\<rparr> in
      case collectSecrets cli ns of Inl e \<Rightarrow> (facts, Some e) | Inr secFacts \<Rightarrow>
      (facts\<lparr>rf_Secrets := secFacts\<rparr>, None))"

end
