(* ===== verification/Evaluator.thy ===== *)
theory Evaluator
  imports StatusConditions Collector
begin

text \<open>
  The health evaluator (\<open>pkg/health/evaluator.go\<close>): each condition is computed from the
  collected facts and applied to the resource, then \<open>Ready\<close> and the phase are rolled up.  The
  facts are a nil-able pointer in the code and an \<open>option\<close> here.
\<close>

subsection \<open>Definitions\<close>

record conditionResult =
  cr_status :: string
  cr_reason :: string
  cr_message :: string
  cr_skip :: bool

definition result_of :: "string \<Rightarrow> string \<Rightarrow> string \<Rightarrow> conditionResult" where
  [go_simps]: "result_of status reason message =
     \<lparr>cr_status = status, cr_reason = reason, cr_message = message, cr_skip = False\<rparr>"

definition joinNames :: "string list \<Rightarrow> string" where
  "joinNames names = (if length names = 0 then '''' else strings_Join names '', '')"

definition apply_result :: "RavenDBCluster \<Rightarrow> string \<Rightarrow> conditionResult \<Rightarrow> time \<Rightarrow> RavenDBCluster" where
  "apply_result cluster condType r now =
     (if cr_skip r then cluster
      else if cr_status r = ConditionTrue
      then SetConditionTrue cluster condType (cr_reason r) (cr_message r) now
      else SetConditionFalse cluster condType (cr_reason r) (cr_message r) now)"

definition evalStorage :: "RavenDBCluster \<Rightarrow> ResourceFacts option \<Rightarrow> conditionResult" where
  "evalStorage cluster res =
     (case res of
        None \<Rightarrow> result_of ConditionFalse ReasonPVCNotBound ''waiting for PVCs to be created/bound''
      | Some f \<Rightarrow>
          if length (rf_PVCs f) = 0
          then result_of ConditionFalse ReasonPVCNotBound ''waiting for PVCs to be created/bound''
          else let notBound = map (\<lambda>p. pvf_Namespace p @ ''/'' @ pvf_Name p)
                                (filter (\<lambda>p. \<not> pvf_Bound p) (rf_PVCs f))
               in if length notBound > 0
                  then result_of ConditionFalse ReasonPVCNotBound (''PVCs not bound: '' @ joinNames notBound)
                  else result_of ConditionTrue ReasonCompleted ''all PVCs bound'')"

definition evalBootstrap :: "RavenDBCluster \<Rightarrow> ResourceFacts option \<Rightarrow> conditionResult" where
  "evalBootstrap cluster res =
     (case res of
        None \<Rightarrow> result_of ConditionFalse ReasonBootstrapJobRunning ''bootstrap job not observed yet''
      | Some f \<Rightarrow>
          if length (rf_Jobs f) = 0
          then result_of ConditionFalse ReasonBootstrapJobRunning ''bootstrap job not observed yet''
          else if list_ex jf_Completed (rf_Jobs f)
          then result_of ConditionTrue ReasonCompleted ''bootstrap job succeeded''
          else if list_ex (\<lambda>j. 0 <s jf_Failed j) (rf_Jobs f)
          then result_of ConditionFalse ReasonBootstrapFailed ''bootstrap job failed''
          else result_of ConditionFalse ReasonBootstrapJobRunning ''bootstrap job still running'')"

definition getExpectedSecretNames :: "RavenDBCluster \<Rightarrow> string list" where
  "getExpectedSecretNames cluster =
     (let sp = Spec cluster;
          client = (if s_ClientCertSecretRef sp \<noteq> '''' then [s_ClientCertSecretRef sp] else [])
      in if s_Mode sp = ModeLetsEncrypt
         then client @ concat (map (\<lambda>n. case n_CertSecretRef n of None \<Rightarrow> [] | Some s \<Rightarrow> [s]) (s_Nodes sp))
         else if s_Mode sp = ModeNone
         then client @ (case s_ClusterCertSecretRef sp of None \<Rightarrow> [] | Some s \<Rightarrow> [s])
                     @ (case s_CACertSecretRef sp of None \<Rightarrow> [] | Some s \<Rightarrow> [s])
         else [])"

definition getSecretNamesSet :: "SecretFact list \<Rightarrow> string set" where
  "getSecretNamesSet secrets = set (map sef_Name secrets)"

definition getMissingSecrets :: "string \<Rightarrow> string list \<Rightarrow> string set \<Rightarrow> string list" where
  "getMissingSecrets namespace expected observedSecrets =
     (let secretsArr = map (\<lambda>name. namespace @ ''/'' @ name) (filter (\<lambda>name. name \<notin> observedSecrets) expected)
      in if length secretsArr > 1 then sort_Strings secretsArr else secretsArr)"

definition evalCertificates :: "RavenDBCluster \<Rightarrow> ResourceFacts option \<Rightarrow> conditionResult" where
  "evalCertificates cluster res =
     (case res of
        None \<Rightarrow> result_of ConditionFalse ReasonCertSecretMissing ''waiting for certificate secrets to be observed''
      | Some f \<Rightarrow>
          let expectedSecrets = getExpectedSecretNames cluster
          in if length expectedSecrets = 0
             then result_of ConditionTrue ReasonCompleted ''no certificate secrets required''
             else let observedSecrets = getSecretNamesSet (rf_Secrets f);
                      missingSecrets = getMissingSecrets (Namespace cluster) expectedSecrets observedSecrets
                  in if length missingSecrets > 0
                     then result_of ConditionFalse ReasonCertSecretMissing
                            (''missing certificate secrets: '' @ joinNames missingSecrets)
                     else result_of ConditionTrue ReasonCompleted ''all certificate secrets present'')"

text \<open>The buckets in the order the code returns them: pending, failed, unknown, not ready.\<close>

definition pods_in_phase :: "string \<Rightarrow> PodFact list \<Rightarrow> string list" where
  "pods_in_phase ph pods =
     map (\<lambda>p. pf_Namespace p @ ''/'' @ pf_Name p) (filter (\<lambda>p. pf_Phase p = ph) pods)"

definition bucketizePodsByState ::
  "PodFact list \<Rightarrow> string list \<times> string list \<times> string list \<times> string list" where
  "bucketizePodsByState pods =
     (pods_in_phase ''Pending'' pods, pods_in_phase ''Failed'' pods, pods_in_phase ''Unknown'' pods,
      pods_in_phase ''Running'' (filter (\<lambda>p. \<not> pf_Ready p) pods))"

definition evalNodesHealthy :: "RavenDBCluster \<Rightarrow> ResourceFacts option \<Rightarrow> conditionResult" where
  "evalNodesHealthy cluster res =
     (case res of
        None \<Rightarrow> result_of ConditionFalse ReasonWaitingForPods ''waiting for pods to be created/scheduled''
      | Some f \<Rightarrow>
          if length (rf_Pods f) = 0
          then result_of ConditionFalse ReasonWaitingForPods ''waiting for pods to be created/scheduled''
          else
            (let (pending, failed, unknown, notReady) = bucketizePodsByState (rf_Pods f)
             in if length pending > 0
                then result_of ConditionFalse ReasonWaitingForPods (''pods pending: '' @ joinNames pending)
                else if length failed > 0 \<or> length unknown > 0
                then let msg = (if length failed > 0 then ''pods failed: '' @ joinNames failed else '''');
                         msg = (if length unknown > 0
                                then (if msg \<noteq> '''' then msg @ ''; '' else msg)
                                       @ ''pods unknown: '' @ joinNames unknown
                                else msg)
                     in result_of ConditionFalse ReasonPodsNotReady msg
                else if length notReady > 0
                then result_of ConditionFalse ReasonPodsNotReady (''pods not ready: '' @ joinNames notReady)
                else result_of ConditionTrue ReasonCompleted ''all node pods ready''))"

definition evalLicense :: "RavenDBCluster \<Rightarrow> ResourceFacts option \<Rightarrow> conditionResult" where
  "evalLicense cluster res =
     (let license = s_LicenseSecretRef (Spec cluster)
      in if license = '''' then result_of ConditionTrue ReasonCompleted ''no license ref in spec''
         else case res of
           None \<Rightarrow> result_of ConditionFalse ReasonLicenseSecretMissing ''waiting for secrets to be observed''
         | Some f \<Rightarrow>
             if list_ex (\<lambda>s. sef_Name s = license) (rf_Secrets f)
             then result_of ConditionTrue ReasonCompleted ''license secret present''
             else result_of ConditionFalse ReasonLicenseSecretMissing
                    (''missing license secret: '' @ Namespace cluster @ ''/'' @ license))"

definition getIngressesStatus :: "IngressFact list \<Rightarrow> bool \<times> bool" where
  "getIngressesStatus ing = (ing \<noteq> [], list_ex if_LBReady ing)"

definition getLbServicesStatus :: "ServiceFact list \<Rightarrow> bool \<times> bool" where
  "getLbServicesStatus svcs =
     (let lbs = filter (\<lambda>s. sf_Type s = ''LoadBalancer'') svcs in (lbs \<noteq> [], list_ex sf_LBReady lbs))"

definition evalExternalAccessReady :: "RavenDBCluster \<Rightarrow> ResourceFacts option \<Rightarrow> conditionResult" where
  "evalExternalAccessReady cluster res =
     (if s_ExternalAccessConfiguration (Spec cluster) = None
      then \<lparr>cr_status = '''', cr_reason = '''', cr_message = '''', cr_skip = True\<rparr>
      else case res of
        None \<Rightarrow> result_of ConditionFalse ReasonLoadBalancerPending ''waiting for ingress/load balancer to be observed''
      | Some f \<Rightarrow>
          (let (ingressObserved, ingressReady) = getIngressesStatus (rf_Ingresses f)
           in if ingressReady
              then result_of ConditionTrue ReasonCompleted ''ingress load balancer address allocated''
              else if ingressObserved
              then result_of ConditionFalse ReasonIngressPendingAddress ''waiting for ingress load balancer address''
              else
                (let (svcObserved, svcReady) = getLbServicesStatus (rf_Services f)
                 in if svcReady
                    then result_of ConditionTrue ReasonCompleted ''service load balancer address allocated''
                    else if svcObserved
                    then result_of ConditionFalse ReasonLoadBalancerPending ''waiting for service load balancer address''
                    else result_of ConditionFalse ReasonLoadBalancerPending
                           ''no ingress/load balancer service observed'')))"

definition evalProgressingCase :: "RavenDBCluster \<Rightarrow> ResourceFacts option \<Rightarrow> conditionResult" where
  "evalProgressingCase cluster res =
     (case res of
        None \<Rightarrow> result_of ConditionFalse ReasonCompleted ''no active rollouts''
      | Some f \<Rightarrow>
          if list_ex ssf_Updating (rf_StatefulSets f)
          then result_of ConditionTrue ReasonStatefulSetUpdating ''rollout in progress''
          else if list_ex (\<lambda>j. 0 <s jf_Active j) (rf_Jobs f)
          then result_of ConditionTrue ReasonStatefulSetUpdating ''rollout in progress''
          else result_of ConditionFalse ReasonCompleted ''no active rollouts'')"

definition restartThreshold :: int32 where "restartThreshold = 5"

definition evalDegradingCase :: "RavenDBCluster \<Rightarrow> ResourceFacts option \<Rightarrow> conditionResult" where
  "evalDegradingCase cluster res =
     (if (case GetCondition cluster ConditionBootstrapCompleted of
            Some c \<Rightarrow> c_Status c = ConditionFalse \<and> c_Reason c = ReasonBootstrapFailed
          | None \<Rightarrow> False)
      then result_of ConditionTrue ReasonBootstrapFailed ''bootstrap job failed''
      else case res of
        None \<Rightarrow> result_of ConditionFalse ReasonCompleted ''no degradation detected''
      | Some f \<Rightarrow>
          let offendersPods = map (\<lambda>p. pf_Namespace p @ ''/'' @ pf_Name p)
                (filter (\<lambda>p. restartThreshold <=s pf_Restarts p) (rf_Pods f))
          in if length offendersPods > 0
             then result_of ConditionTrue ReasonPodsNotReady (''high restart count: '' @ joinNames offendersPods)
             else result_of ConditionFalse ReasonCompleted ''no degradation detected'')"

definition apply_conditions :: "RavenDBCluster \<Rightarrow> ResourceFacts option \<Rightarrow> time \<Rightarrow> RavenDBCluster" where
  "apply_conditions cluster res now =
     (let cluster = apply_result cluster ConditionStorageReady (evalStorage cluster res) now;
          cluster = apply_result cluster ConditionCertificatesReady (evalCertificates cluster res) now;
          cluster = apply_result cluster ConditionLicensesValid (evalLicense cluster res) now;
          cluster = apply_result cluster ConditionNodesHealthy (evalNodesHealthy cluster res) now;
          cluster = apply_result cluster ConditionExternalAccessReady (evalExternalAccessReady cluster res) now;
          cluster = apply_result cluster ConditionBootstrapCompleted (evalBootstrap cluster res) now;
          cluster = apply_result cluster ConditionProgressing (evalProgressingCase cluster res) now
      in apply_result cluster ConditionDegraded (evalDegradingCase cluster res) now)"

definition Evaluate :: "RavenDBCluster \<Rightarrow> ResourceFacts option \<Rightarrow> time \<Rightarrow> RavenDBCluster" where
  "Evaluate cluster res now =
     (let cluster = apply_conditions cluster res now;
          cluster = SetObservedGeneration cluster (Generation cluster);
          cluster = ComputeReady cluster now
      in UpdatePhaseFromConditions cluster)"

subsection \<open>Applying a result\<close>

definition normal_status :: "conditionResult \<Rightarrow> string" where
  "normal_status r = (if cr_status r = ConditionTrue then ConditionTrue else ConditionFalse)"

lemma apply_result_eq:
  "apply_result c t r now =
     (if cr_skip r then c else setCondition c t (normal_status r) (cr_reason r) (cr_message r) now)"
  by (simp add: apply_result_def SetConditionTrue_def SetConditionFalse_def normal_status_def)

lemma apply_result_frame [simp]:
  "Spec (apply_result c t r now) = Spec c"
  "Namespace (apply_result c t r now) = Namespace c"
  "Generation (apply_result c t r now) = Generation c"
  by (simp_all add: apply_result_eq)

lemma HasConditionTrue_apply [simp]:
  "HasConditionTrue (apply_result c t r now) t' =
     (if t' = t \<and> \<not> cr_skip r then cr_status r = ConditionTrue else HasConditionTrue c t')"
  by (auto simp: apply_result_eq normal_status_def)

lemma GetCondition_apply_other [simp]:
  "t \<noteq> t' \<Longrightarrow> GetCondition (apply_result c t r now) t' = GetCondition c t'"
  by (simp add: apply_result_eq cstore.get_put_other)

lemma conditions_wf_apply: "conditions_wf c \<Longrightarrow> conditions_wf (apply_result c t r now)"
  by (simp add: apply_result_eq conditions_wf_set)

text \<open>A result is settled when the resource already shows it; applying it then changes nothing.\<close>

definition settled :: "RavenDBCluster \<Rightarrow> string \<Rightarrow> conditionResult \<Rightarrow> bool" where
  "settled c t r \<longleftrightarrow> cr_skip r \<or>
     (\<exists>d. GetCondition c t = Some d \<and> c_Status d = normal_status r \<and>
          c_Reason d = reasonsanitize (cr_reason r) \<and> c_Message d = cr_message r)"

lemma apply_settled: "settled c t r \<Longrightarrow> apply_result c t r now = c"
  by (auto simp: settled_def apply_result_eq intro: cstore.put_present)

lemma settled_apply_same [simp]: "settled (apply_result c t r now) t r"
  by (auto simp: settled_def apply_result_eq cstore.get_put_same)

lemma settled_apply_other [simp]: "t \<noteq> t' \<Longrightarrow> settled (apply_result c t r now) t' r' = settled c t' r'"
  by (simp add: settled_def)

lemma settled_frames [simp]:
  "settled (set_message c msg) t r = settled c t r"
  "settled (SetObservedGeneration c gen) t r = settled c t r"
  "settled (UpdatePhaseFromConditions c) t r = settled c t r"
  by (simp_all add: settled_def)

lemma settled_ComputeReady [simp]: "t \<noteq> ConditionReady \<Longrightarrow> settled (ComputeReady c now) t r = settled c t r"
  using GetCondition_ComputeReady [of t c now] by (simp add: settled_def)

text \<open>The evaluation functions read the specification, the namespace and the facts; the degraded
  case also reads the bootstrap condition.\<close>

lemma eval_cong:
  assumes "Spec c = Spec c'" and "Namespace c = Namespace c'"
  shows "evalStorage c res = evalStorage c' res"
    and "evalCertificates c res = evalCertificates c' res"
    and "evalLicense c res = evalLicense c' res"
    and "evalNodesHealthy c res = evalNodesHealthy c' res"
    and "evalExternalAccessReady c res = evalExternalAccessReady c' res"
    and "evalBootstrap c res = evalBootstrap c' res"
    and "evalProgressingCase c res = evalProgressingCase c' res"
  using assms
  by (simp_all add: evalStorage_def evalCertificates_def evalLicense_def evalNodesHealthy_def
      evalExternalAccessReady_def evalBootstrap_def evalProgressingCase_def getExpectedSecretNames_def Let_def
      split: option.split)

lemma evalDegradingCase_cong:
  "GetCondition c ConditionBootstrapCompleted = GetCondition c' ConditionBootstrapCompleted \<Longrightarrow>
   evalDegradingCase c res = evalDegradingCase c' res"
  by (simp add: evalDegradingCase_def)

subsection \<open>What the facts have to show\<close>

text \<open>The abstract specification of a healthy, and of a degraded, cluster.\<close>

definition storage_ok :: "ResourceFacts \<Rightarrow> bool" where
  "storage_ok f \<longleftrightarrow> rf_PVCs f \<noteq> [] \<and> (\<forall>p \<in> set (rf_PVCs f). pvf_Bound p)"

definition certificates_ok :: "RavenDBCluster \<Rightarrow> ResourceFacts \<Rightarrow> bool" where
  "certificates_ok c f \<longleftrightarrow> set (getExpectedSecretNames c) \<subseteq> sef_Name ` set (rf_Secrets f)"

definition license_ok :: "RavenDBCluster \<Rightarrow> ResourceFacts \<Rightarrow> bool" where
  "license_ok c f \<longleftrightarrow> s_LicenseSecretRef (Spec c) = '''' \<or>
     (\<exists>s \<in> set (rf_Secrets f). sef_Name s = s_LicenseSecretRef (Spec c))"

definition nodes_ok :: "ResourceFacts \<Rightarrow> bool" where
  "nodes_ok f \<longleftrightarrow> rf_Pods f \<noteq> [] \<and>
     (\<forall>p \<in> set (rf_Pods f). pf_Phase p \<notin> {''Pending'', ''Failed'', ''Unknown''} \<and>
        (pf_Phase p = ''Running'' \<longrightarrow> pf_Ready p))"

definition bootstrap_ok :: "ResourceFacts \<Rightarrow> bool" where
  "bootstrap_ok f \<longleftrightarrow> (\<exists>j \<in> set (rf_Jobs f). jf_Completed j)"

definition external_ok :: "RavenDBCluster \<Rightarrow> ResourceFacts \<Rightarrow> bool" where
  "external_ok c f \<longleftrightarrow> s_ExternalAccessConfiguration (Spec c) = None \<or>
     (\<exists>i \<in> set (rf_Ingresses f). if_LBReady i) \<or>
     (rf_Ingresses f = [] \<and> (\<exists>s \<in> set (rf_Services f). sf_Type s = ''LoadBalancer'' \<and> sf_LBReady s))"

definition healthy :: "RavenDBCluster \<Rightarrow> ResourceFacts \<Rightarrow> bool" where
  "healthy c f \<longleftrightarrow> storage_ok f \<and> certificates_ok c f \<and> license_ok c f \<and> nodes_ok f \<and>
     bootstrap_ok f \<and> external_ok c f"

definition degraded :: "ResourceFacts \<Rightarrow> bool" where
  "degraded f \<longleftrightarrow> (\<not> bootstrap_ok f \<and> (\<exists>j \<in> set (rf_Jobs f). 0 <s jf_Failed j)) \<or>
     (\<exists>p \<in> set (rf_Pods f). 5 <=s pf_Restarts p)"

lemmas facts_defs = storage_ok_def certificates_ok_def license_ok_def nodes_ok_def bootstrap_ok_def
  external_ok_def healthy_def degraded_def

lemma storage_true: "cr_status (evalStorage c (Some f)) = ConditionTrue \<longleftrightarrow> storage_ok f"
  by (auto simp: evalStorage_def storage_ok_def go_simps filter_empty_conv)

lemma license_true: "cr_status (evalLicense c (Some f)) = ConditionTrue \<longleftrightarrow> license_ok c f"
  by (auto simp: evalLicense_def license_ok_def go_simps Let_def list_ex_iff)

lemma getMissingSecrets_Nil:
  "getMissingSecrets ns expected observed = [] \<longleftrightarrow> set expected \<subseteq> observed"
  by (auto simp: getMissingSecrets_def Let_def filter_empty_conv)

lemma certificates_true: "cr_status (evalCertificates c (Some f)) = ConditionTrue \<longleftrightarrow> certificates_ok c f"
  by (auto simp: evalCertificates_def certificates_ok_def go_simps Let_def getSecretNamesSet_def
      getMissingSecrets_Nil)

lemma nodes_true: "cr_status (evalNodesHealthy c (Some f)) = ConditionTrue \<longleftrightarrow> nodes_ok f"
  by (auto simp: evalNodesHealthy_def nodes_ok_def go_simps Let_def bucketizePodsByState_def
      pods_in_phase_def filter_empty_conv)

lemma bootstrap_true: "cr_status (evalBootstrap c (Some f)) = ConditionTrue \<longleftrightarrow> bootstrap_ok f"
  by (auto simp: evalBootstrap_def bootstrap_ok_def go_simps list_ex_iff)

lemma bootstrap_failed:
  "cr_reason (evalBootstrap c (Some f)) = ReasonBootstrapFailed \<longleftrightarrow>
     \<not> bootstrap_ok f \<and> (\<exists>j \<in> set (rf_Jobs f). 0 <s jf_Failed j)"
  by (auto simp: evalBootstrap_def bootstrap_ok_def go_simps list_ex_iff reason_defs)

lemma external_true:
  "s_ExternalAccessConfiguration (Spec c) \<noteq> None \<Longrightarrow>
   cr_status (evalExternalAccessReady c (Some f)) = ConditionTrue \<longleftrightarrow> external_ok c f"
  by (auto simp: evalExternalAccessReady_def external_ok_def go_simps Let_def getIngressesStatus_def
      getLbServicesStatus_def list_ex_iff)

lemma external_skip:
  "cr_skip (evalExternalAccessReady c res) \<longleftrightarrow> s_ExternalAccessConfiguration (Spec c) = None"
  by (auto simp: evalExternalAccessReady_def go_simps Let_def split: option.split prod.split)

lemma eval_no_skip [simp]:
  "\<not> cr_skip (evalStorage c res)" "\<not> cr_skip (evalCertificates c res)" "\<not> cr_skip (evalLicense c res)"
  "\<not> cr_skip (evalNodesHealthy c res)" "\<not> cr_skip (evalBootstrap c res)"
  "\<not> cr_skip (evalProgressingCase c res)" "\<not> cr_skip (evalDegradingCase c res)"
  by (auto simp: evalStorage_def evalCertificates_def evalLicense_def evalNodesHealthy_def evalBootstrap_def
      evalProgressingCase_def evalDegradingCase_def go_simps Let_def split: option.split prod.split)

subsection \<open>One evaluation\<close>

lemma apply_conditions_frame [simp]:
  "Spec (apply_conditions c res now) = Spec c"
  "Namespace (apply_conditions c res now) = Namespace c"
  "Generation (apply_conditions c res now) = Generation c"
  by (simp_all add: apply_conditions_def Let_def)

text \<open>All evaluation functions see the same specification, so the sequence of applications can be
  read with every result computed from the original resource; only the degraded case looks at the
  bootstrap condition that was just written.\<close>

lemma apply_conditions_eq:
  "apply_conditions c res now =
     (let c5 = apply_result (apply_result (apply_result (apply_result (apply_result c
                 ConditionStorageReady (evalStorage c res) now)
                 ConditionCertificatesReady (evalCertificates c res) now)
                 ConditionLicensesValid (evalLicense c res) now)
                 ConditionNodesHealthy (evalNodesHealthy c res) now)
                 ConditionExternalAccessReady (evalExternalAccessReady c res) now;
          c7 = apply_result (apply_result c5 ConditionBootstrapCompleted (evalBootstrap c res) now)
                 ConditionProgressing (evalProgressingCase c res) now
      in apply_result c7 ConditionDegraded (evalDegradingCase c7 res) now)"
  unfolding apply_conditions_def Let_def
  by (simp add: eval_cong [of "apply_result _ _ _ _" c])

lemma HasConditionTrue_conditions:
  "HasConditionTrue (apply_conditions c (Some f) now) ConditionStorageReady = storage_ok f"
  "HasConditionTrue (apply_conditions c (Some f) now) ConditionCertificatesReady = certificates_ok c f"
  "HasConditionTrue (apply_conditions c (Some f) now) ConditionLicensesValid = license_ok c f"
  "HasConditionTrue (apply_conditions c (Some f) now) ConditionNodesHealthy = nodes_ok f"
  "HasConditionTrue (apply_conditions c (Some f) now) ConditionBootstrapCompleted = bootstrap_ok f"
  by (simp_all add: apply_conditions_eq Let_def storage_true certificates_true license_true nodes_true
      bootstrap_true)

lemma HasConditionTrue_external:
  "s_ExternalAccessConfiguration (Spec c) \<noteq> None \<Longrightarrow>
   HasConditionTrue (apply_conditions c (Some f) now) ConditionExternalAccessReady = external_ok c f"
  by (simp add: apply_conditions_eq Let_def external_true external_skip)

lemma degrading_true:
  assumes "GetCondition c ConditionBootstrapCompleted =
             Some \<lparr>c_Type = t, c_Status = normal_status (evalBootstrap c' (Some f)),
                   c_Reason = reasonsanitize (cr_reason (evalBootstrap c' (Some f))),
                   c_Message = m, c_LastTransitionTime = tt\<rparr>"
  shows "cr_status (evalDegradingCase c (Some f)) = ConditionTrue \<longleftrightarrow> degraded f"
proof -
  have nonempty: "cr_reason (evalBootstrap c' (Some f)) \<noteq> ''''"
    by (simp add: evalBootstrap_def go_simps reason_defs)
  have "normal_status (evalBootstrap c' (Some f)) = ConditionFalse \<longleftrightarrow> \<not> bootstrap_ok f"
    by (simp add: normal_status_def bootstrap_true)
  with assms nonempty bootstrap_failed [of c' f] show ?thesis
    by (auto simp: evalDegradingCase_def degraded_def restartThreshold_def go_simps Let_def
        filter_empty_conv)
qed

lemma HasConditionTrue_degraded:
  "HasConditionTrue (apply_conditions c (Some f) now) ConditionDegraded = degraded f"
  by (simp add: apply_conditions_eq Let_def)
    (rule degrading_true [where c' = c], simp add: apply_result_eq cstore.get_put_same cstore.get_put_other)

lemma unmet_iff_healthy:
  "unmet (apply_conditions c (Some f) now) (required_conditions (apply_conditions c (Some f) now)) = [] \<longleftrightarrow>
   healthy c f"
  by (cases "s_ExternalAccessConfiguration (Spec c)")
    (auto simp: required_conditions_def HasConditionTrue_conditions HasConditionTrue_external healthy_def
      external_ok_def)

lemma required_conditions_cong: "Spec r = Spec r' \<Longrightarrow> required_conditions r = required_conditions r'"
  by (simp add: required_conditions_def)

lemma unmet_frame [simp]: "unmet (SetObservedGeneration c gen) ts = unmet c ts"
  by (simp add: unmet_def)

subsection \<open>Properties\<close>

text \<open>C9. The evaluator implements the abstract specification of health: for any collected facts,
  whatever the status showed before, the phase after \<open>Evaluate\<close> is \<open>Running\<close> exactly when the
  cluster is healthy (all claims bound, the certificate and license secrets present, no pod pending,
  failed, unknown or running but not ready, the bootstrap job completed, and, where external access
  is configured, an address allocated); otherwise it is \<open>Error\<close> when the bootstrap job failed or a pod
  restarted five times or more, and \<open>Deploying\<close> in all other cases.
\<close>

theorem Evaluate_phase:
  "st_Phase (Status (Evaluate c (Some f) now)) =
     (if healthy c f then PhaseRunning else if degraded f then PhaseError else PhaseDeploying)"
  by (simp add: Evaluate_def Let_def phase_after_rollup required_conditions_cong
      [of "SetObservedGeneration _ _" "apply_conditions c (Some f) now"] unmet_iff_healthy
      HasConditionTrue_degraded)

subsection \<open>Stability\<close>

lemma set_message_id: "st_Message (Status r) = msg \<Longrightarrow> set_message r msg = r"
  by (simp add: go_simps)

lemma set_ready_id:
  assumes "GetCondition r' ConditionReady = GetCondition (set_message (setCondition r ConditionReady s reason m t1) msg) ConditionReady"
    and "st_Message (Status r') = msg"
  shows "set_message (setCondition r' ConditionReady s reason m t2) msg = r'"
proof -
  have "setCondition r' ConditionReady s reason m t2 = r'"
    using assms(1) by (intro cstore.put_present) (auto simp: cstore.get_put_same)
  with assms(2) show ?thesis by (simp add: set_message_id)
qed

lemma compute_ready_loop_fixed:
  assumes "\<And>t. t \<in> set ts \<Longrightarrow> GetCondition r' t = GetCondition r t"
    and "GetCondition r' ConditionReady = GetCondition (compute_ready_loop r ts t1) ConditionReady"
    and "st_Message (Status r') = st_Message (Status (compute_ready_loop r ts t1))"
  shows "compute_ready_loop r' ts t2 = r'"
  using assms
proof (induction ts)
  case Nil
  then show ?case by (simp del: GetCondition_frames) (rule set_ready_id, assumption, simp add: go_simps)
next
  case (Cons t ts)
  have same: "GetCondition r' t = GetCondition r t" using Cons.prems(1) by simp
  show ?case
  proof (cases "HasConditionTrue r t")
    case True
    moreover from this same have "HasConditionTrue r' t" by (simp add: HasConditionTrue_def)
    ultimately show ?thesis
      using Cons by (simp add: compute_ready_loop_step del: compute_ready_loop.simps)
  next
    case False
    then show ?thesis
      using same Cons.prems(2,3)
      by (auto simp: HasConditionTrue_def simp del: GetCondition_frames split: option.splits
          intro!: set_ready_id) (auto simp: go_simps)
  qed
qed

lemma Evaluate_GetCondition:
  "t \<noteq> ConditionReady \<Longrightarrow> GetCondition (Evaluate c res now) t = GetCondition (apply_conditions c res now) t"
  using GetCondition_ComputeReady [of t "SetObservedGeneration (apply_conditions c res now) (Generation c)" now]
  by (simp add: Evaluate_def Let_def)

lemma ComputeReady_frame [simp]: "Spec (ComputeReady r now) = Spec r"
  by (simp add: ComputeReady_def)

lemma frame_loop [simp]:
  "Namespace (compute_ready_loop r ts now) = Namespace r"
  "Generation (compute_ready_loop r ts now) = Generation r"
  by (induction ts) (auto simp: go_simps split: option.split)

lemma Evaluate_frame [simp]:
  "Spec (Evaluate c res now) = Spec c"
  "Namespace (Evaluate c res now) = Namespace c"
  "Generation (Evaluate c res now) = Generation c"
  by (simp_all add: Evaluate_def Let_def UpdatePhaseFromConditions_def SetObservedGeneration_def
      ComputeReady_def go_simps)

lemma Evaluate_settled:
  "settled (Evaluate c res now) ConditionStorageReady (evalStorage c res)"
  "settled (Evaluate c res now) ConditionCertificatesReady (evalCertificates c res)"
  "settled (Evaluate c res now) ConditionLicensesValid (evalLicense c res)"
  "settled (Evaluate c res now) ConditionNodesHealthy (evalNodesHealthy c res)"
  "settled (Evaluate c res now) ConditionExternalAccessReady (evalExternalAccessReady c res)"
  "settled (Evaluate c res now) ConditionBootstrapCompleted (evalBootstrap c res)"
  "settled (Evaluate c res now) ConditionProgressing (evalProgressingCase c res)"
  by (simp_all add: Evaluate_def Let_def apply_conditions_eq)

lemma Evaluate_settled_degraded:
  "settled (Evaluate c res now) ConditionDegraded (evalDegradingCase (Evaluate c res now) res)"
proof -
  let ?r = "Evaluate c res now"
  have "GetCondition ?r ConditionBootstrapCompleted =
      GetCondition (apply_conditions c res now) ConditionBootstrapCompleted"
    by (simp add: Evaluate_GetCondition)
  then have "evalDegradingCase ?r res = evalDegradingCase (apply_conditions c res now) res"
    by (rule evalDegradingCase_cong)
  moreover have "settled (apply_conditions c res now) ConditionDegraded
      (evalDegradingCase (apply_conditions c res now) res)"
    unfolding apply_conditions_eq Let_def
    by (subst (2) evalDegradingCase_cong [OF GetCondition_apply_other]) simp_all
  ultimately show ?thesis by (simp add: settled_def Evaluate_GetCondition)
qed

lemma apply_conditions_Evaluate: "apply_conditions (Evaluate c res t1) res t2 = Evaluate c res t1"
  using Evaluate_settled [of c res t1] Evaluate_settled_degraded [of c res t1]
  by (simp add: apply_conditions_eq Let_def apply_settled eval_cong [of "Evaluate c res t1" c])

lemma Evaluate_generation [simp]: "st_ObservedGeneration (Status (Evaluate c res now)) = Generation c"
proof -
  have "st_ObservedGeneration (Status (compute_ready_loop r ts now)) = st_ObservedGeneration (Status r)" for r ts
    by (induction ts) (auto simp: go_simps setCondition_def split: option.split)
  then show ?thesis
    by (simp add: Evaluate_def Let_def UpdatePhaseFromConditions_def SetObservedGeneration_def
        ComputeReady_def go_simps)
qed

lemma ComputeReady_Evaluate: "ComputeReady (Evaluate c res t1) t2 = Evaluate c res t1"
proof -
  let ?r = "SetObservedGeneration (apply_conditions c res t1) (Generation c)"
  have req: "required_conditions (Evaluate c res t1) = required_conditions ?r"
    by (rule required_conditions_cong) simp
  have "ConditionReady \<notin> set (required_conditions ?r)"
    by (simp add: required_conditions_def)
  then have "GetCondition (Evaluate c res t1) t = GetCondition ?r t" if "t \<in> set (required_conditions ?r)" for t
    using that by (cases "t = ConditionReady") (simp_all add: Evaluate_GetCondition)
  moreover have ev: "Evaluate c res t1 =
      UpdatePhaseFromConditions (compute_ready_loop ?r (required_conditions ?r) t1)"
    by (simp add: Evaluate_def Let_def ComputeReady_def)
  moreover have "st_Message (Status (UpdatePhaseFromConditions r)) = st_Message (Status r)" for r
    by (simp add: UpdatePhaseFromConditions_def go_simps)
  ultimately show ?thesis
    unfolding ComputeReady_def [of "Evaluate c res t1"] req
    by (intro compute_ready_loop_fixed [where r = ?r and ?t1.0 = t1]) (simp_all only: ev GetCondition_frames)
qed

lemma Evaluate_again: "Evaluate (Evaluate c res t1) res t2 = Evaluate c res t1"
proof -
  let ?e = "Evaluate c res t1"
  have "SetObservedGeneration ?e (Generation ?e) = ?e"
    by (simp add: SetObservedGeneration_def go_simps)
  then have "Evaluate ?e res t2 = UpdatePhaseFromConditions ?e"
    by (simp add: Evaluate_def [of ?e] Let_def apply_conditions_Evaluate ComputeReady_Evaluate)
  also have "UpdatePhaseFromConditions ?e = ?e"
    by (simp add: Evaluate_def [of c] Let_def)
      (simp add: UpdatePhaseFromConditions_def [of "UpdatePhaseFromConditions _"] go_simps,
       simp add: UpdatePhaseFromConditions_def go_simps)
  finally show ?thesis .
qed

text \<open>C27. Evaluation is idempotent: evaluating the same facts again, at any later time, leaves the whole
  resource as the first evaluation left it.  In particular no transition time moves, so a reconcile
  that observes nothing new compares equal and does not patch the status.
\<close>

theorem Evaluate_idempotent: "Evaluate (Evaluate c res t1) res t2 = Evaluate c res t1"
  by (rule Evaluate_again)

end
