(* ===== verification/Common.thy ===== *)
theory Common
  imports SampleCluster
begin

text \<open>
  The constants of \<open>pkg/common/constants.go\<close> and the environment variables of \<open>pkg/common/env.go\<close>.
  \<open>BuildSecureLetsEncryptEnvVars\<close> dereferences the e-mail pointer, so it may panic.  \<open>BuildAdditionalEnvVars\<close>
  ranges over a map: its argument lists the entries in the order the run-time visits them.
\<close>

subsection \<open>Constants\<close>

definition LicensePath :: string where "LicensePath = ''/ravendb/license/license.json''"
definition DataMountPath :: string where "DataMountPath = ''/var/lib/ravendb/data''"
definition CertMountPath :: string where "CertMountPath = ''/ravendb/certs''"
definition ClientCertMountPath :: string where "ClientCertMountPath = ''/ravendb/client-certs''"
definition CACertMountPath :: string where "CACertMountPath = ''/ravendb/ca-cert''"
definition LicenseMountPath :: string where "LicenseMountPath = ''/ravendb/license''"
definition LogsMountPath :: string where "LogsMountPath = ''/var/log/ravendb/logs''"
definition AuditMountPath :: string where "AuditMountPath = ''/var/log/ravendb/audit''"
definition CertSourcePath :: string where "CertSourcePath = ''ravendb/cert-source''"
definition UpdateCertScriptPath :: string where "UpdateCertScriptPath = ''/ravendb/scripts/update-cert.sh''"
definition GetCertScriptPath :: string where "GetCertScriptPath = ''/ravendb/scripts/get-server-cert.sh''"
definition InitClusterScriptPath :: string where "InitClusterScriptPath = ''/ravendb/scripts/init-cluster.sh''"
definition CheckNodesDiscoverabilityScriptPath :: string where "CheckNodesDiscoverabilityScriptPath = ''/ravendb/scripts/check-nodes-discoverability.sh''"
definition App :: string where "App = ''ravendb''"
definition Manager :: string where "Manager = ''ravendb-operator''"
definition Prefix :: string where "Prefix = ''ravendb-''"
definition HttpsPortName :: string where "HttpsPortName = ''https''"
definition TcpPortName :: string where "TcpPortName = ''tcp''"
definition CertVolumeName :: string where "CertVolumeName = ''ravendb-cert''"
definition LicenseVolumeName :: string where "LicenseVolumeName = ''ravendb-license''"
definition DataVolumeName :: string where "DataVolumeName = ''ravendb-data''"
definition LogsVolumeName :: string where "LogsVolumeName = ''ravendb-logs''"
definition AuditVolumeName :: string where "AuditVolumeName = ''ravendb-audit''"
definition ClientCertVolumeName :: string where "ClientCertVolumeName = ''ravendb-client-cert''"
definition CACertVolumeName :: string where "CACertVolumeName = ''ravendb-ca-cert''"
definition CertHookVolumeName :: string where "CertHookVolumeName = ''ravendb-cert-hook''"
definition BootstrapperHookVolumeName :: string where "BootstrapperHookVolumeName = ''ravendb-bootstrapper-hook''"
definition RavenDbNodeServiceAccount :: string where "RavenDbNodeServiceAccount = ''ravendb-ops-sa''"
definition RavenDbBootstrapperJob :: string where "RavenDbBootstrapperJob = ''ravendb-cluster-init''"
definition LabelAppName :: string where "LabelAppName = ''app.kubernetes.io/name''"
definition LabelInstance :: string where "LabelInstance = ''app.kubernetes.io/instance''"
definition LabelManagedBy :: string where "LabelManagedBy = ''app.kubernetes.io/managed-by''"
definition LabelNodeTag :: string where "LabelNodeTag = ''nodeTag''"
definition LabelApp :: string where "LabelApp = ''app''"
definition TopologyZoneLabel :: string where "TopologyZoneLabel = ''topology.kubernetes.io/zone''"
definition IngressSSLPassthroughAnnotation :: string where "IngressSSLPassthroughAnnotation = ''ingress.kubernetes.io/ssl-passthrough''"
definition NginxSSLPassthroughAnnotation :: string where "NginxSSLPassthroughAnnotation = ''nginx.ingress.kubernetes.io/ssl-passthrough''"
definition HaproxySSLPassthroughAnnotation :: string where "HaproxySSLPassthroughAnnotation = ''haproxy.org/ssl-passthrough''"
definition AWSLoadBalancerTypeAnnotation :: string where "AWSLoadBalancerTypeAnnotation = ''service.beta.kubernetes.io/aws-load-balancer-type''"
definition AWSLoadBalancerSchemeAnnotation :: string where "AWSLoadBalancerSchemeAnnotation = ''service.beta.kubernetes.io/aws-load-balancer-scheme''"
definition AWSLoadBalancerNLBTargetTypeAnnotation :: string where "AWSLoadBalancerNLBTargetTypeAnnotation = ''service.beta.kubernetes.io/aws-load-balancer-nlb-target-type''"
definition AWSLoadBalancerEIPAllocationsAnnotation :: string where "AWSLoadBalancerEIPAllocationsAnnotation = ''service.beta.kubernetes.io/aws-load-balancer-eip-allocations''"
definition AWSLoadBalancerSubnetsAnnotation :: string where "AWSLoadBalancerSubnetsAnnotation = ''service.beta.kubernetes.io/aws-load-balancer-subnets''"
definition UpgradeImageAnnotation :: string where "UpgradeImageAnnotation = ''ravendb.ravendb.io/upgrade-image''"
definition UpgradePreWaitAnnotation :: string where "UpgradePreWaitAnnotation = ''ravendb.io/upgrade-pre-wait''"
definition UpgradePostWaitAnnotation :: string where "UpgradePostWaitAnnotation = ''ravendb.io/upgrade-post-wait''"
definition UpgradePingIntervalAnnotation :: string where "UpgradePingIntervalAnnotation = ''ravendb.io/upgrade-ping-interval''"
definition UpgradeDBIntervalAnnotation :: string where "UpgradeDBIntervalAnnotation = ''ravendb.io/upgrade-db-interval''"
definition InternalHttpsPort :: int32 where "InternalHttpsPort = 443"
definition InternalTcpPort :: int32 where "InternalTcpPort = 38888"
definition IngressControllerTypeNginx :: string where "IngressControllerTypeNginx = ''nginx''"
definition IngressControllerTypeTraefik :: string where "IngressControllerTypeTraefik = ''traefik''"
definition IngressControllerTypeHaproxy :: string where "IngressControllerTypeHaproxy = ''haproxy''"
definition InternalHttpsUrl :: string where "InternalHttpsUrl = ''https://0.0.0.0:443''"
definition InternalTcpUrl :: string where "InternalTcpUrl = ''tcp://0.0.0.0:38888''"
definition NumOfReplicas :: int32 where "NumOfReplicas = 1"
definition ConfigMapExecMode :: int32 where "ConfigMapExecMode = 493"
definition CertExecTimeout :: string where "CertExecTimeout = ''60''"
definition ClusterFQDNSuffix :: string where "ClusterFQDNSuffix = ''.ravendb.svc.cluster.local''"
definition ProtocolTcp :: string where "ProtocolTcp = ''tcp://''"
definition UpdateCertHookKey :: string where "UpdateCertHookKey = ''update-cert.sh''"
definition GetCertHookKey :: string where "GetCertHookKey = ''get-server-cert.sh''"
definition CertHookConfigMap :: string where "CertHookConfigMap = ''ravendb-cert-hook''"
definition InitClusterHookKey :: string where "InitClusterHookKey = ''init-cluster.sh''"
definition CheckNodesDiscoverabilityHookKey :: string where "CheckNodesDiscoverabilityHookKey = ''check-nodes-discoverability.sh''"
definition BootstrapperHookConfigMap :: string where "BootstrapperHookConfigMap = ''ravendb-bootstrapper-hook''"

lemmas common_defs = LicensePath_def DataMountPath_def CertMountPath_def ClientCertMountPath_def
   CACertMountPath_def LicenseMountPath_def LogsMountPath_def AuditMountPath_def CertSourcePath_def
   UpdateCertScriptPath_def GetCertScriptPath_def InitClusterScriptPath_def CheckNodesDiscoverabilityScriptPath_def
   App_def Manager_def Prefix_def HttpsPortName_def TcpPortName_def CertVolumeName_def LicenseVolumeName_def
   DataVolumeName_def LogsVolumeName_def AuditVolumeName_def ClientCertVolumeName_def CACertVolumeName_def
   CertHookVolumeName_def BootstrapperHookVolumeName_def RavenDbNodeServiceAccount_def RavenDbBootstrapperJob_def
   LabelAppName_def LabelInstance_def LabelManagedBy_def LabelNodeTag_def LabelApp_def TopologyZoneLabel_def
   IngressSSLPassthroughAnnotation_def NginxSSLPassthroughAnnotation_def HaproxySSLPassthroughAnnotation_def
   AWSLoadBalancerTypeAnnotation_def AWSLoadBalancerSchemeAnnotation_def AWSLoadBalancerNLBTargetTypeAnnotation_def
   AWSLoadBalancerEIPAllocationsAnnotation_def AWSLoadBalancerSubnetsAnnotation_def UpgradeImageAnnotation_def
   UpgradePreWaitAnnotation_def UpgradePostWaitAnnotation_def UpgradePingIntervalAnnotation_def
   UpgradeDBIntervalAnnotation_def InternalHttpsPort_def InternalTcpPort_def IngressControllerTypeNginx_def
   IngressControllerTypeTraefik_def IngressControllerTypeHaproxy_def InternalHttpsUrl_def InternalTcpUrl_def
   NumOfReplicas_def ConfigMapExecMode_def CertExecTimeout_def ClusterFQDNSuffix_def ProtocolTcp_def
   UpdateCertHookKey_def GetCertHookKey_def CertHookConfigMap_def InitClusterHookKey_def
   CheckNodesDiscoverabilityHookKey_def BootstrapperHookConfigMap_def

subsection \<open>Environment variables\<close>

definition env_var :: "string \<Rightarrow> string \<Rightarrow> EnvVar" where
  "env_var name val = \<lparr>ev_Name = name, ev_Value = val\<rparr>"

definition BuildCommonEnvVars :: "RavenDBCluster \<Rightarrow> RavenDBNode \<Rightarrow> EnvVar list" where
  "BuildCommonEnvVars cluster node =
     (let ravendbNodeTcpEndpoint = ProtocolTcp @ Prefix @ n_Tag node @ ClusterFQDNSuffix @ '':'' @ itoa (sint InternalTcpPort)
      in [env_var ''RAVEN_Setup_Mode'' (s_Mode (Spec cluster)),
          env_var ''RAVEN_License_Path'' LicensePath,
          env_var ''RAVEN_License_Eula_Accepted'' ''true'',
          env_var ''RAVEN_PublicServerUrl'' (n_PublicServerUrl node),
          env_var ''RAVEN_PublicTcpUrl'' (n_PublicServerUrlTcp node),
          env_var ''RAVEN_ServerUrl'' InternalHttpsUrl,
          env_var ''RAVEN_ServerUrl_Tcp'' InternalTcpUrl,
          env_var ''RAVEN_PublicServerUrl_Tcp_Cluster'' ravendbNodeTcpEndpoint,
          env_var ''NODE_TAG'' (n_Tag node)])"

definition BuildSecureEnvVars :: "RavenDBCluster \<Rightarrow> EnvVar list" where
  "BuildSecureEnvVars inst =
     [env_var ''RAVEN_Security_Certificate_Load_Exec'' GetCertScriptPath,
      env_var ''RAVEN_Security_Certificate_Change_Exec'' UpdateCertScriptPath,
      env_var ''RAVEN_Security_Certificate_Exec_TimeoutInSec'' CertExecTimeout]"

definition BuildSecureLetsEncryptEnvVars :: "RavenDBCluster \<Rightarrow> EnvVar list option" where
  "BuildSecureLetsEncryptEnvVars inst =
     (case s_Email (Spec inst) of
        None \<Rightarrow> None
      | Some email \<Rightarrow> Some
          [env_var ''RAVEN_Security_Certificate_Load_Exec'' GetCertScriptPath,
           env_var ''RAVEN_Security_Certificate_Change_Exec'' UpdateCertScriptPath,
           env_var ''RAVEN_Security_Certificate_Exec_TimeoutInSec'' CertExecTimeout,
           env_var ''RAVEN_Security_Certificate_LetsEncrypt_Email'' email])"

definition BuildAdditionalEnvVars :: "RavenDBCluster \<Rightarrow> EnvVar list" where
  "BuildAdditionalEnvVars cluster = map (\<lambda>(k, v). env_var k v) (s_Env (Spec cluster))"

definition BuildClusterBootstrapperEnvVars ::
  "string \<Rightarrow> string list \<Rightarrow> string list \<Rightarrow> string list \<Rightarrow> string list \<Rightarrow> EnvVar list" where
  "BuildClusterBootstrapperEnvVars leaderURL memberURLs allURLs allTags tcpHosts =
     [env_var ''LEADER_URL'' leaderURL,
      env_var ''MEMBER_URLS'' (strings_Join memberURLs '' ''),
      env_var ''URLS'' (strings_Join allURLs '' ''),
      env_var ''TAGS'' (strings_Join allTags '' ''),
      env_var ''TCP_HOSTS'' (strings_Join tcpHosts '' '')]"

end
