(* ===== verification/StatefulSetBuilder.thy ===== *)
theory StatefulSetBuilder
  imports Common
begin

text \<open>
  The builder of a node's StatefulSet: \<open>pkg/resource/container.go\<close>, \<open>volume.go\<close> and \<open>statefulset.go\<close>.
  A builder's result is an \<open>option\<close> whose \<open>None\<close> is a panic: a nil pointer dereferenced without a check, or
  \<open>MustParse\<close> on a malformed quantity.  The quantity parser belongs to the Kubernetes libraries and is the
  parameter \<open>parseQuantity\<close>, which returns the canonical form of a well-formed quantity.
\<close>

subsection \<open>Containers\<close>

definition empty_container :: Container where
  "empty_container = \<lparr>ct_Name = '''', ct_Image = '''', ct_Command = [], ct_Args = [], ct_Env = [], ct_Ports = [],
     ct_VolumeMounts = [], ct_ImagePullPolicy = '''', ct_RunAs = None\<rparr>"

definition BuildRavenDBContainer ::
  "string \<Rightarrow> EnvVar list \<Rightarrow> ContainerPort list \<Rightarrow> VolumeMount list \<Rightarrow> string \<Rightarrow> Container" where
  "BuildRavenDBContainer img env ports mounts ipp =
     empty_container\<lparr>ct_Name := App, ct_Image := img, ct_Env := env, ct_Ports := ports, ct_VolumeMounts := mounts,
       ct_ImagePullPolicy := ipp, ct_RunAs := Some (999, 999)\<rparr>"

definition bootstrap_args :: string where
  "bootstrap_args =
     (let nl = [CHR 0x0A]; tab = [CHR 0x09]; dq = [CHR 0x22] in
      nl @ tab @ tab @ tab @ ''echo '' @ dq @ ''>> Starting RavenDB cluster bootstrapper...'' @ dq @ nl @
      tab @ tab @ tab @ ''/ravendb/scripts/check-nodes-discoverability.sh &&'' @ nl @
      tab @ tab @ tab @ ''/ravendb/scripts/init-cluster.sh'' @ nl @ tab @ tab)"

definition BuildClusterBootstrapperContainer :: "string \<Rightarrow> VolumeMount list \<Rightarrow> EnvVar list \<Rightarrow> Container" where
  "BuildClusterBootstrapperContainer img vMounts env =
     empty_container\<lparr>ct_Name := ''ravendb-cluster-initializer'', ct_Image := img, ct_Command := [''/bin/sh'', ''-c''],
       ct_Args := [bootstrap_args], ct_VolumeMounts := vMounts, ct_Env := env\<rparr>"

subsection \<open>Volumes\<close>

definition ConvertAccessModes :: "string list \<Rightarrow> string + string list" where
  "ConvertAccessModes inp = Inr (map (\<lambda>mode. mode) inp)"

definition new_pvc :: PersistentVolumeClaim where
  "new_pvc = \<lparr>pvc_Meta = new_meta '''' '''' Map.empty Map.empty, pvc_AccessModes = [], pvc_StorageRequest = None,
     pvc_StorageClassName = None, pvc_VolumeAttributesClassName = None, pvc_Phase = '''', pvc_StorageCapacity = None\<rparr>"

definition buildPersistentVolumeClaim ::
  "(string \<Rightarrow> string option) \<Rightarrow> string \<Rightarrow> string \<Rightarrow> string option \<Rightarrow> string list option \<Rightarrow> string option \<Rightarrow>
   PersistentVolumeClaim option" where
  "buildPersistentVolumeClaim parseQuantity name sz className accessModes vaClass =
     (let accessModes = (case accessModes of None \<Rightarrow> [''ReadWriteOnce''] | Some ms \<Rightarrow> ms) in
      case ConvertAccessModes accessModes of
        Inl err \<Rightarrow> None
      | Inr modes \<Rightarrow>
          do { quantity \<leftarrow> parseQuantity sz;
               let pvc = new_pvc\<lparr>pvc_Meta := new_meta name '''' Map.empty Map.empty, pvc_AccessModes := modes,
                           pvc_StorageRequest := Some quantity\<rparr>;
                   pvc = (if className \<noteq> None then pvc\<lparr>pvc_StorageClassName := className\<rparr> else pvc);
                   pvc = (if vaClass \<noteq> None then pvc\<lparr>pvc_VolumeAttributesClassName := vaClass\<rparr> else pvc)
               in Some pvc })"

definition no_source :: CoreVolumeSource where
  "no_source = \<lparr>cvs_ConfigMap = None, cvs_Secret = None, cvs_PersistentVolumeClaim = None\<rparr>"

definition buildPVCVolume :: "string \<Rightarrow> Volume" where
  "buildPVCVolume name = \<lparr>vol_Name = name, vol_Source = no_source\<lparr>cvs_PersistentVolumeClaim :=
     Some \<lparr>pvcvs_ClaimName = name\<rparr>\<rparr>\<rparr>"

definition buildSecretVolume :: "string \<Rightarrow> string \<Rightarrow> Volume" where
  "buildSecretVolume name secretName = \<lparr>vol_Name = name, vol_Source = no_source\<lparr>cvs_Secret :=
     Some \<lparr>svs_SecretName = secretName\<rparr>\<rparr>\<rparr>"

definition buildVolumeMount :: "string \<Rightarrow> string \<Rightarrow> VolumeMount" where
  "buildVolumeMount name mountPath =
     \<lparr>vm_Name = name, vm_MountPath = mountPath, vm_SubPath = '''', vm_ReadOnly = False\<rparr>"

definition buildAdditionalVolumes :: "AdditionalVolume list \<Rightarrow> Volume list" where
  "buildAdditionalVolumes additionalVols = map (\<lambda>av.
     \<lparr>vol_Name = av_Name av, vol_Source =
        \<lparr>cvs_ConfigMap = vs_ConfigMap (av_VolumeSource av), cvs_Secret = vs_Secret (av_VolumeSource av),
         cvs_PersistentVolumeClaim = vs_PersistentVolumeClaim (av_VolumeSource av)\<rparr>\<rparr>) additionalVols"

text \<open>\<open>keyToPath\<close> lists the entries of the map in the order the run-time visits them; reading an absent
  key of a map gives the empty string.\<close>

definition buildConfigMapVolume :: "string \<Rightarrow> string \<Rightarrow> strmap \<Rightarrow> int32 \<Rightarrow> Volume" where
  "buildConfigMapVolume name cfgmName keyToPath mode =
     (let keys = sort_Strings (map fst keyToPath);
          items = map (\<lambda>k. \<lparr>ktp_Key = k, ktp_Path = (case map_of keyToPath k of None \<Rightarrow> '''' | Some p \<Rightarrow> p)\<rparr>) keys
      in \<lparr>vol_Name = name, vol_Source = no_source\<lparr>cvs_ConfigMap :=
            Some \<lparr>cmvs_Name = cfgmName, cmvs_Items = items, cmvs_DefaultMode = Some mode\<rparr>\<rparr>\<rparr>)"

subsection \<open>The StatefulSet\<close>

definition buildContainers ::
  "string \<Rightarrow> EnvVar list \<Rightarrow> ContainerPort list \<Rightarrow> VolumeMount list \<Rightarrow> string \<Rightarrow> RavenDBCluster \<Rightarrow> Container list" where
  "buildContainers img env ports mounts ipp cluster = [BuildRavenDBContainer img env ports mounts ipp]"

definition buildStatefulsetSelector :: "RavenDBNode \<Rightarrow> gomap" where
  "buildStatefulsetSelector node = [LabelNodeTag \<mapsto> n_Tag node]"

definition buildStatefulsetLabels :: "RavenDBCluster \<Rightarrow> RavenDBNode \<Rightarrow> gomap" where
  "buildStatefulsetLabels cluster node =
     [LabelAppName \<mapsto> App, LabelManagedBy \<mapsto> Manager, LabelInstance \<mapsto> Name cluster, LabelNodeTag \<mapsto> n_Tag node]"

definition buildStatefulsetAnnotations :: gomap where
  "buildStatefulsetAnnotations = [IngressSSLPassthroughAnnotation \<mapsto> ''true'']"

definition buildEnvVars :: "RavenDBCluster \<Rightarrow> RavenDBNode \<Rightarrow> EnvVar list option" where
  "buildEnvVars cluster node =
     do { secure \<leftarrow> (if s_Mode (Spec cluster) = ModeLetsEncrypt then BuildSecureLetsEncryptEnvVars cluster
                     else if s_Mode (Spec cluster) = ModeNone then Some (BuildSecureEnvVars cluster)
                     else Some []);
          Some (BuildCommonEnvVars cluster node @ secure @ BuildAdditionalEnvVars cluster) }"

definition buildPorts :: "ContainerPort list" where
  "buildPorts = [\<lparr>cp_Name = HttpsPortName, cp_ContainerPort = 443\<rparr>, \<lparr>cp_Name = TcpPortName, cp_ContainerPort = 38888\<rparr>]"

definition buildVolumes :: "RavenDBCluster \<Rightarrow> RavenDBNode \<Rightarrow> Volume list option" where
  "buildVolumes cluster node =
     (let certSecret = (if s_Mode (Spec cluster) = ModeLetsEncrypt then n_CertSecretRef node
                        else if s_Mode (Spec cluster) = ModeNone then s_ClusterCertSecretRef (Spec cluster)
                        else None) in
      do { cert \<leftarrow> certSecret;
           Some ([buildPVCVolume DataVolumeName, buildSecretVolume CertVolumeName cert,
                  buildSecretVolume LicenseVolumeName (s_LicenseSecretRef (Spec cluster)),
                  buildConfigMapVolume CertHookVolumeName CertHookConfigMap
                    [(UpdateCertHookKey, UpdateCertHookKey), (GetCertHookKey, GetCertHookKey)] ConfigMapExecMode] @
                 (case ss_Logs (Storage cluster) of
                    None \<Rightarrow> []
                  | Some logs \<Rightarrow>
                      (if l_RavenDB logs \<noteq> None then [buildPVCVolume LogsVolumeName] else []) @
                      (if l_Audit logs \<noteq> None then [buildPVCVolume AuditVolumeName] else [])) @
                 (case ss_AdditionalVolumes (Storage cluster) of
                    None \<Rightarrow> []
                  | Some avs \<Rightarrow> buildAdditionalVolumes avs)) })"

definition buildVolumeMounts :: "RavenDBCluster \<Rightarrow> VolumeMount list" where
  "buildVolumeMounts cluster =
     (let getCertScriptMount = (buildVolumeMount CertHookVolumeName GetCertScriptPath)
            \<lparr>vm_SubPath := GetCertHookKey, vm_ReadOnly := True\<rparr>;
          updateCertScriptMount = (buildVolumeMount CertHookVolumeName UpdateCertScriptPath)
            \<lparr>vm_SubPath := UpdateCertHookKey, vm_ReadOnly := True\<rparr>
      in [buildVolumeMount DataVolumeName DataMountPath, buildVolumeMount CertVolumeName CertMountPath,
          buildVolumeMount LicenseVolumeName LicenseMountPath, updateCertScriptMount, getCertScriptMount] @
         (case ss_Logs (Storage cluster) of
            None \<Rightarrow> []
          | Some logs \<Rightarrow>
              (case l_RavenDB logs of
                 None \<Rightarrow> []
               | Some ls \<Rightarrow> [buildVolumeMount LogsVolumeName (case ls_Path ls of None \<Rightarrow> LogsMountPath | Some p \<Rightarrow> p)]) @
              (case l_Audit logs of
                 None \<Rightarrow> []
               | Some ls \<Rightarrow> [buildVolumeMount AuditVolumeName (case ls_Path ls of None \<Rightarrow> AuditMountPath | Some p \<Rightarrow> p)])) @
         (case ss_AdditionalVolumes (Storage cluster) of
            None \<Rightarrow> []
          | Some avs \<Rightarrow> map (\<lambda>av. \<lparr>vm_Name = av_Name av, vm_MountPath = av_MountPath av,
               vm_SubPath = (case av_SubPath av of None \<Rightarrow> '''' | Some p \<Rightarrow> p), vm_ReadOnly = False\<rparr>) avs))"

definition BuildPVCs :: "(string \<Rightarrow> string option) \<Rightarrow> RavenDBCluster \<Rightarrow> PersistentVolumeClaim list option" where
  "BuildPVCs parseQuantity cluster =
     (let claim = \<lambda>name v. buildPersistentVolumeClaim parseQuantity name (v_Size v) (v_StorageClassName v)
                    (v_AccessModes v) (v_VolumeAttributesClassName v) in
      do { d \<leftarrow> claim DataVolumeName (ss_Data (Storage cluster));
           logs \<leftarrow> (case ss_Logs (Storage cluster) of
                     None \<Rightarrow> Some []
                   | Some logs \<Rightarrow>
                       do { r \<leftarrow> (case l_RavenDB logs of None \<Rightarrow> Some []
                                 | Some ls \<Rightarrow> map_option (\<lambda>p. [p]) (claim LogsVolumeName (ls_VolumeSpec ls)));
                            a \<leftarrow> (case l_Audit logs of None \<Rightarrow> Some []
                                 | Some ls \<Rightarrow> map_option (\<lambda>p. [p]) (claim AuditVolumeName (ls_VolumeSpec ls)));
                            Some (r @ a) });
           Some (d # logs) })"

definition buildAWSNodeAffinity :: "RavenDBCluster \<Rightarrow> string \<Rightarrow> Affinity option" where
  "buildAWSNodeAffinity cluster tag =
     (case s_ExternalAccessConfiguration (Spec cluster) of
        None \<Rightarrow> None
      | Some ea \<Rightarrow>
          if ea_Type ea \<noteq> ExternalAccessTypeAWS then None
          else case ea_AWSExternalAccess ea of
            None \<Rightarrow> None
          | Some mappings \<Rightarrow>
              (case find (\<lambda>m. aws_Tag m = tag) mappings of
                 None \<Rightarrow> None
               | Some m \<Rightarrow> Some \<lparr>aff_RequiredTerms =
                   [[\<lparr>nsr_Key = TopologyZoneLabel, nsr_Operator = ''In'', nsr_Values = [aws_AvailabilityZone m]\<rparr>]]\<rparr>))"

definition BuildStatefulSet ::
  "(string \<Rightarrow> string option) \<Rightarrow> RavenDBCluster \<Rightarrow> RavenDBNode \<Rightarrow> StatefulSet option" where
  "BuildStatefulSet parseQuantity cluster node =
     (let stsName = Prefix @ n_Tag node; labels = buildStatefulsetLabels cluster node in
      do { volumeClaims \<leftarrow> BuildPVCs parseQuantity cluster;
           volumes \<leftarrow> buildVolumes cluster node;
           envVars \<leftarrow> buildEnvVars cluster node;
           let containers = buildContainers (s_Image (Spec cluster)) envVars buildPorts (buildVolumeMounts cluster)
                 (s_ImagePullPolicy (Spec cluster)) cluster
           in Some \<lparr>sts_Meta = new_meta stsName (Namespace cluster) labels buildStatefulsetAnnotations,
                sts_ServiceName = App, sts_Replicas = Some NumOfReplicas,
                sts_Selector = buildStatefulsetSelector node, sts_TemplateLabels = labels,
                sts_PodSpec = \<lparr>ps_Containers = containers, ps_Volumes = volumes,
                   ps_Affinity = buildAWSNodeAffinity cluster (n_Tag node),
                   ps_ServiceAccountName = RavenDbNodeServiceAccount, ps_RestartPolicy = '''',
                   ps_Sysctls = [(''net.ipv4.ip_unprivileged_port_start'', ''0'')]\<rparr>,
                sts_VolumeClaimTemplates = volumeClaims, sts_ReadyReplicas = 0, sts_CurrentRevision = '''',
                sts_UpdateRevision = ''''\<rparr> })"

subsection \<open>Lemmas\<close>

lemma buildPersistentVolumeClaim_Some:
  "buildPersistentVolumeClaim pq name sz cn am va = Some p \<longleftrightarrow>
     (\<exists>q. pq sz = Some q \<and> p = new_pvc\<lparr>pvc_Meta := new_meta name '''' Map.empty Map.empty,
        pvc_AccessModes := (case am of None \<Rightarrow> [''ReadWriteOnce''] | Some ms \<Rightarrow> ms), pvc_StorageRequest := Some q,
        pvc_StorageClassName := cn, pvc_VolumeAttributesClassName := va\<rparr>)"
  by (cases am; cases cn; cases va)
    (auto simp: buildPersistentVolumeClaim_def ConvertAccessModes_def Let_def bind_eq_Some_conv new_pvc_def)

text \<open>The volume specifications of a cluster with the names of their claims.\<close>

definition claim_specs :: "RavenDBCluster \<Rightarrow> (string \<times> VolumeSpec) list" where
  "claim_specs c = (DataVolumeName, ss_Data (Storage c)) #
     (case logs_raven c of None \<Rightarrow> [] | Some ls \<Rightarrow> [(LogsVolumeName, ls_VolumeSpec ls)]) @
     (case logs_audit c of None \<Rightarrow> [] | Some ls \<Rightarrow> [(AuditVolumeName, ls_VolumeSpec ls)])"

lemma BuildPVCs_Some:
  "BuildPVCs pq c = Some ps \<Longrightarrow>
     map (om_Name \<circ> pvc_Meta) ps = map fst (claim_specs c) \<and> (\<forall>(n, v) \<in> set (claim_specs c). pq (v_Size v) \<noteq> None)"
  by (auto simp: BuildPVCs_def Let_def bind_eq_Some_conv buildPersistentVolumeClaim_Some claim_specs_def logs_raven_def
      logs_audit_def new_meta_def split: option.splits)

lemma BuildPVCs_None:
  "BuildPVCs pq c = None \<Longrightarrow> \<exists>(n, v) \<in> set (claim_specs c). pq (v_Size v) = None"
  by (auto simp: BuildPVCs_def Let_def bind_eq_None_conv buildPersistentVolumeClaim_def ConvertAccessModes_def
      claim_specs_def logs_raven_def logs_audit_def split: option.splits)

lemma BuildPVCs_total_iff:
  "BuildPVCs pq c \<noteq> None \<longleftrightarrow> (\<forall>(n, v) \<in> set (claim_specs c). pq (v_Size v) \<noteq> None)"
  using BuildPVCs_Some [of pq c] BuildPVCs_None [of pq c] by (cases "BuildPVCs pq c") fastforce+

definition cert_secret_of :: "RavenDBCluster \<Rightarrow> RavenDBNode \<Rightarrow> string option" where
  "cert_secret_of c n = (if s_Mode (Spec c) = ModeLetsEncrypt then n_CertSecretRef n
     else if s_Mode (Spec c) = ModeNone then s_ClusterCertSecretRef (Spec c) else None)"

lemma buildVolumes_total_iff: "buildVolumes c n \<noteq> None \<longleftrightarrow> cert_secret_of c n \<noteq> None"
  by (auto simp: buildVolumes_def cert_secret_of_def Let_def bind_eq_Some_conv)

lemma buildEnvVars_total_iff:
  "buildEnvVars c n \<noteq> None \<longleftrightarrow> (s_Mode (Spec c) = ModeLetsEncrypt \<longrightarrow> s_Email (Spec c) \<noteq> None)"
  by (auto simp: buildEnvVars_def BuildSecureLetsEncryptEnvVars_def split: option.splits)

lemma BuildStatefulSet_parts:
  "BuildStatefulSet pq c n = Some sts \<Longrightarrow>
   \<exists>ps vs es. BuildPVCs pq c = Some ps \<and> buildVolumes c n = Some vs \<and> buildEnvVars c n = Some es \<and>
     sts_VolumeClaimTemplates sts = ps \<and> ps_Volumes (sts_PodSpec sts) = vs \<and>
     ps_Containers (sts_PodSpec sts) =
       [BuildRavenDBContainer (s_Image (Spec c)) es buildPorts (buildVolumeMounts c) (s_ImagePullPolicy (Spec c))]"
  by (auto simp: BuildStatefulSet_def Let_def bind_eq_Some_conv buildContainers_def)

lemma BuildStatefulSet_total:
  "BuildStatefulSet pq c n \<noteq> None \<longleftrightarrow>
     (\<forall>(name, v) \<in> set (claim_specs c). pq (v_Size v) \<noteq> None) \<and>
     (s_Mode (Spec c) = ModeLetsEncrypt \<and> s_Email (Spec c) \<noteq> None \<and> n_CertSecretRef n \<noteq> None \<or>
      s_Mode (Spec c) = ModeNone \<and> s_ClusterCertSecretRef (Spec c) \<noteq> None)"
proof -
  have "BuildStatefulSet pq c n \<noteq> None \<longleftrightarrow> BuildPVCs pq c \<noteq> None \<and> buildVolumes c n \<noteq> None \<and> buildEnvVars c n \<noteq> None"
    by (auto simp: BuildStatefulSet_def Let_def bind_eq_Some_conv)
  then show ?thesis
    unfolding BuildPVCs_total_iff buildVolumes_total_iff buildEnvVars_total_iff by (auto simp: cert_secret_of_def)
qed

text \<open>The volume names a pod always has, and those of the optional log volumes.\<close>

definition reserved_volumes :: "RavenDBCluster \<Rightarrow> string list" where
  "reserved_volumes c = [DataVolumeName, CertVolumeName, LicenseVolumeName, CertHookVolumeName] @
     (if logs_raven c \<noteq> None then [LogsVolumeName] else []) @ (if logs_audit c \<noteq> None then [AuditVolumeName] else [])"

lemma reserved_distinct [simp]: "distinct (reserved_volumes c)"
  by (simp add: reserved_volumes_def common_defs)

lemma buildVolumes_names:
  "buildVolumes c n = Some vs \<Longrightarrow> map vol_Name vs = reserved_volumes c @ GetAdditionalVolumeNames c"
  by (auto simp: buildVolumes_def Let_def bind_eq_Some_conv reserved_volumes_def GetAdditionalVolumeNames_def
      buildPVCVolume_def buildSecretVolume_def buildConfigMapVolume_def buildAdditionalVolumes_def logs_raven_def
      logs_audit_def split: option.splits)

lemma buildVolumeMounts_names:
  "set (map vm_Name (buildVolumeMounts c)) = set (reserved_volumes c @ GetAdditionalVolumeNames c)"
proof -
  have split: "logs_raven c = (case ss_Logs (Storage c) of None \<Rightarrow> None | Some l \<Rightarrow> l_RavenDB l)"
    "logs_audit c = (case ss_Logs (Storage c) of None \<Rightarrow> None | Some l \<Rightarrow> l_Audit l)"
    by (auto simp: logs_raven_def logs_audit_def split: option.splits)
  note defs = buildVolumeMounts_def Let_def reserved_volumes_def GetAdditionalVolumeNames_def buildVolumeMount_def split
  show ?thesis
  proof (cases "ss_Logs (Storage c)")
    case None
    then show ?thesis by (cases "ss_AdditionalVolumes (Storage c)") (auto simp: comp_def defs)
  next
    case (Some l)
    then show ?thesis
      by (cases "l_RavenDB l"; cases "l_Audit l"; cases "ss_AdditionalVolumes (Storage c)") (auto simp: comp_def defs)
  qed
qed

subsection \<open>Properties\<close>

text \<open>C34. The StatefulSet builder panics in exactly these cases: a volume size is no quantity; the mode is neither of the
  two known ones; Let's Encrypt mode without an e-mail or without the node's certificate; or mode \<open>None\<close> without a cluster certificate.
  Otherwise it returns a StatefulSet.\<close>

theorem BuildStatefulSet_total_iff:
  "BuildStatefulSet pq c n \<noteq> None \<longleftrightarrow>
     (\<forall>(name, v) \<in> set (claim_specs c). pq (v_Size v) \<noteq> None) \<and>
     (s_Mode (Spec c) = ModeLetsEncrypt \<and> s_Email (Spec c) \<noteq> None \<and> n_CertSecretRef n \<noteq> None \<or>
      s_Mode (Spec c) = ModeNone \<and> s_ClusterCertSecretRef (Spec c) \<noteq> None)"
  by (rule BuildStatefulSet_total)

text \<open>C35. A built StatefulSet is self-consistent: its selector matches its own pod template, it has one replica of one
  container that runs the cluster's image, every volume mount of the container names a volume of the pod, and the claim templates
  are exactly those of the storage specification.\<close>

theorem BuildStatefulSet_consistent:
  assumes "BuildStatefulSet pq c n = Some sts"
  shows "sts_Selector sts \<subseteq>\<^sub>m sts_TemplateLabels sts \<and> sts_Replicas sts = Some 1 \<and>
         (\<exists>ct. ps_Containers (sts_PodSpec sts) = [ct] \<and> ct_Image ct = s_Image (Spec c) \<and>
            set (map vm_Name (ct_VolumeMounts ct)) = set (map vol_Name (ps_Volumes (sts_PodSpec sts)))) \<and>
         map (om_Name \<circ> pvc_Meta) (sts_VolumeClaimTemplates sts) = map fst (claim_specs c)"
proof -
  from BuildStatefulSet_parts [OF assms] obtain ps vs es where p: "BuildPVCs pq c = Some ps" "buildVolumes c n = Some vs"
    "sts_VolumeClaimTemplates sts = ps" "ps_Volumes (sts_PodSpec sts) = vs"
    "ps_Containers (sts_PodSpec sts) =
       [BuildRavenDBContainer (s_Image (Spec c)) es buildPorts (buildVolumeMounts c) (s_ImagePullPolicy (Spec c))]" by blast
  have "sts_Selector sts \<subseteq>\<^sub>m sts_TemplateLabels sts" "sts_Replicas sts = Some 1"
    using assms by (auto simp: BuildStatefulSet_def Let_def bind_eq_Some_conv buildStatefulsetSelector_def
        buildStatefulsetLabels_def map_le_def NumOfReplicas_def split: if_splits)
  moreover have "set (map vm_Name (buildVolumeMounts c)) = set (map vol_Name vs)"
    unfolding buildVolumeMounts_names buildVolumes_names [OF p(2)] ..
  ultimately show ?thesis
    using p BuildPVCs_Some [OF p(1)] by (simp add: BuildRavenDBContainer_def empty_container_def)
qed

text \<open>The volumes of a pod have different names exactly when the additional volumes have different names and none of them
  takes a name the operator uses itself.\<close>

theorem BuildStatefulSet_volumes_distinct:
  assumes "BuildStatefulSet pq c n = Some sts"
  shows "distinct (map vol_Name (ps_Volumes (sts_PodSpec sts))) \<longleftrightarrow>
         distinct (GetAdditionalVolumeNames c) \<and> set (GetAdditionalVolumeNames c) \<inter> set (reserved_volumes c) = {}"
  using BuildStatefulSet_parts [OF assms] by (auto simp: buildVolumes_names)

text \<open>The config map volume does not depend on the order in which the run-time visits the map of its items.\<close>

theorem buildConfigMapVolume_order:
  assumes "mset m = mset m'" "distinct (map fst m)"
  shows "buildConfigMapVolume name cfgm m mode = buildConfigMapVolume name cfgm m' mode"
proof -
  from assms(1) have "mset (map fst m) = mset (map fst m')" by simp
  then have "sort_Strings (map fst m) = sort_Strings (map fst m')" "distinct (map fst m')"
    using assms(2) mset_eq_imp_distinct_iff [of "map fst m" "map fst m'"] by (simp_all add: sort_Strings_perm)
  moreover have "map_of m = map_of m'"
    using assms calculation by (metis map_of_inject_set mset_eq_setD)
  ultimately show ?thesis by (simp add: buildConfigMapVolume_def)
qed

theorem buildConfigMapVolume_order_witness:
  "buildConfigMapVolume ''v'' ''cm'' [(''b'', ''1''), (''a'', ''2'')] 493 =
   buildConfigMapVolume ''v'' ''cm'' [(''a'', ''2''), (''b'', ''1'')] 493"
  using buildConfigMapVolume_order [of "[(''b'', ''1''), (''a'', ''2'')]" "[(''a'', ''2''), (''b'', ''1'')]"]
  by (simp add: add_mset_commute)

abbreviation sample_quantity :: "string \<Rightarrow> string option" where
  "sample_quantity s \<equiv> (if s = ''10Gi'' then Some s else None)"

lemma sample_statefulset:
  "\<exists>sts. BuildStatefulSet sample_quantity (sample_cluster img) (sample_node tag) = Some sts"
  by (simp add: BuildStatefulSet_total [THEN iffD2, simplified not_None_eq] claim_specs_def logs_raven_def
      logs_audit_def sample_defs)

theorem BuildStatefulSet_consistent_witness:
  "\<exists>sts. BuildStatefulSet sample_quantity (sample_cluster ''ravendb/ravendb:7.1.3'') (sample_node ''a'') = Some sts \<and>
     sts_Replicas sts = Some 1"
  using sample_statefulset BuildStatefulSet_consistent by blast

theorem BuildStatefulSet_volumes_distinct_witness:
  "\<exists>sts. BuildStatefulSet sample_quantity (sample_cluster ''ravendb/ravendb:7.1.3'') (sample_node ''a'') = Some sts \<and>
     distinct (map vol_Name (ps_Volumes (sts_PodSpec sts)))"
proof -
  obtain sts where sts: "BuildStatefulSet sample_quantity (sample_cluster ''ravendb/ravendb:7.1.3'') (sample_node ''a'') = Some sts"
    using sample_statefulset by blast
  have "GetAdditionalVolumeNames (sample_cluster ''ravendb/ravendb:7.1.3'') = []"
    by (simp add: GetAdditionalVolumeNames_def sample_defs)
  with sts BuildStatefulSet_volumes_distinct [OF sts] show ?thesis by simp
qed

theorem BuildStatefulSet_total_iff_witness:
  "BuildStatefulSet sample_quantity (sample_cluster ''ravendb/ravendb:7.1.3'') (sample_node ''a'') \<noteq> None"
  unfolding BuildStatefulSet_total_iff by (simp add: claim_specs_def logs_raven_def logs_audit_def sample_defs)

end
