(* ===== verification/NetworkBuilders.thy ===== *)
theory NetworkBuilders
  imports StatefulSetBuilder
begin

text \<open>
  The builders of a node's Service and of the cluster's Ingress (\<open>pkg/resource/service.go\<close>, \<open>ingress.go\<close>).
  As for the other builders, \<open>None\<close> is a panic.
\<close>

subsection \<open>Services\<close>

definition buildServiceLabels :: "RavenDBCluster \<Rightarrow> RavenDBNode \<Rightarrow> gomap" where
  "buildServiceLabels cluster node =
     [LabelAppName \<mapsto> App, LabelManagedBy \<mapsto> Manager, LabelInstance \<mapsto> Name cluster, LabelNodeTag \<mapsto> n_Tag node]"

definition buildServiceSelector :: "RavenDBNode \<Rightarrow> gomap" where
  "buildServiceSelector node = [LabelNodeTag \<mapsto> n_Tag node]"

definition buildServicePorts :: "ServicePort list" where
  "buildServicePorts =
     [\<lparr>sp_Name = HttpsPortName, sp_Port = InternalHttpsPort, sp_Protocol = ''''\<rparr>,
      \<lparr>sp_Name = TcpPortName, sp_Port = InternalTcpPort, sp_Protocol = ''TCP''\<rparr>]"

definition buildAwsNlbAnnotations :: "AWSExternalAccessContext option \<Rightarrow> string \<Rightarrow> gomap option" where
  "buildAwsNlbAnnotations cfg tag =
     do { nodeMappings \<leftarrow> cfg;
          (case find (\<lambda>m. aws_Tag m = tag) nodeMappings of
             Some m \<Rightarrow> Some [AWSLoadBalancerTypeAnnotation \<mapsto> ''external'',
                            AWSLoadBalancerNLBTargetTypeAnnotation \<mapsto> ''ip'',
                            AWSLoadBalancerSchemeAnnotation \<mapsto> ''internet-facing'',
                            AWSLoadBalancerEIPAllocationsAnnotation \<mapsto> aws_EIPAllocationId m,
                            AWSLoadBalancerSubnetsAnnotation \<mapsto> aws_SubnetId m]
           | None \<Rightarrow> Some Map.empty) }"

definition modifyServiceForExternalAccess ::
  "Service \<Rightarrow> ExternalAccessConfiguration \<Rightarrow> string \<Rightarrow> Service option" where
  "modifyServiceForExternalAccess svc access tag =
     (if ea_Type access = ExternalAccessTypeAWS then
        do { annotations \<leftarrow> buildAwsNlbAnnotations (ea_AWSExternalAccess access) tag;
             Some (svc\<lparr>svc_Type := ''LoadBalancer'', svc_ExternalTrafficPolicy := ''Cluster'',
               svc_Meta := (svc_Meta svc)\<lparr>om_Annotations := om_Annotations (svc_Meta svc) ++ annotations\<rparr>\<rparr>) }
      else if ea_Type access = ExternalAccessTypeAzure then
        (let svc1 = svc\<lparr>svc_Type := ''LoadBalancer'', svc_ExternalTrafficPolicy := ''Cluster''\<rparr> in
         case ea_AzureExternalAccess access of
           None \<Rightarrow> Some svc1
         | Some mappings \<Rightarrow>
             (case find (\<lambda>m. az_Tag m = tag) mappings of
                None \<Rightarrow> Some svc1
              | Some m \<Rightarrow> Some (svc1\<lparr>svc_LoadBalancerIP := az_IP m\<rparr>)))
      else Some svc)"

definition BuildService :: "RavenDBCluster \<Rightarrow> RavenDBNode \<Rightarrow> Service option" where
  "BuildService cluster node =
     (let svcName = Prefix @ n_Tag node;
          svc = \<lparr>svc_Meta = new_meta svcName (Namespace cluster) (buildServiceLabels cluster node) Map.empty,
                 svc_Selector = buildServiceSelector node, svc_Ports = buildServicePorts, svc_Type = '''',
                 svc_ExternalTrafficPolicy = '''', svc_LoadBalancerIP = '''', svc_ClusterIP = '''',
                 svc_LoadBalancerIngress = []\<rparr>
      in case s_ExternalAccessConfiguration (Spec cluster) of
           None \<Rightarrow> Some svc
         | Some access \<Rightarrow> modifyServiceForExternalAccess svc access (n_Tag node))"

subsection \<open>The Ingress\<close>

definition buildIngressLabels :: "RavenDBCluster \<Rightarrow> gomap" where
  "buildIngressLabels cluster =
     [LabelAppName \<mapsto> App, LabelManagedBy \<mapsto> Manager, LabelInstance \<mapsto> Name cluster]"

definition buildIngressAnnotations :: "RavenDBCluster \<Rightarrow> gomap option" where
  "buildIngressAnnotations cluster =
     do { ea \<leftarrow> s_ExternalAccessConfiguration (Spec cluster);
          let annotations = [IngressSSLPassthroughAnnotation \<mapsto> ''true''] in
          case ea_IngressControllerExternalAccess ea of
            None \<Rightarrow> Some annotations
          | Some ic \<Rightarrow>
              Some ((if ic_IngressClassName ic = IngressControllerTypeNginx
                     then annotations(NginxSSLPassthroughAnnotation \<mapsto> ''true'')
                     else if ic_IngressClassName ic = IngressControllerTypeHaproxy
                     then annotations(HaproxySSLPassthroughAnnotation \<mapsto> ''true'')
                     else annotations) ++ map_of (ic_AdditionalAnnotations ic)) }"

definition ingress_rule :: "string \<Rightarrow> string \<Rightarrow> int32 \<Rightarrow> IngressRule" where
  "ingress_rule host serviceName port =
     \<lparr>ir_Host = host, ir_Paths = [\<lparr>hip_Path = ''/'', hip_PathType = ''Prefix'',
        hip_Backend = \<lparr>ib_ServiceName = serviceName, ib_ServicePort = port\<rparr>\<rparr>]\<rparr>"

definition buildHTTPSRule :: "string \<Rightarrow> string \<Rightarrow> IngressRule" where
  "buildHTTPSRule nodeName domain =
     ingress_rule (nodeName @ ''.'' @ domain) (Prefix @ nodeName) InternalHttpsPort"

definition buildTCPRule :: "string \<Rightarrow> string \<Rightarrow> IngressRule" where
  "buildTCPRule nodeName domain =
     ingress_rule (nodeName @ ''-tcp.'' @ domain) (Prefix @ nodeName) InternalTcpPort"

definition buildIngressRules :: "RavenDBCluster \<Rightarrow> IngressRule list" where
  "buildIngressRules cluster =
     concat (map (\<lambda>node. [buildHTTPSRule (n_Tag node) (s_Domain (Spec cluster)),
                          buildTCPRule (n_Tag node) (s_Domain (Spec cluster))]) (s_Nodes (Spec cluster)))"

definition BuildIngress :: "RavenDBCluster \<Rightarrow> Ingress option" where
  "BuildIngress cluster =
     do { annotations \<leftarrow> buildIngressAnnotations cluster;
          ea \<leftarrow> s_ExternalAccessConfiguration (Spec cluster);
          ic \<leftarrow> ea_IngressControllerExternalAccess ea;
          Some \<lparr>ing_Meta = new_meta App (Namespace cluster) (buildIngressLabels cluster) annotations,
                ing_IngressClassName = Some (ic_IngressClassName ic), ing_Rules = buildIngressRules cluster,
                ing_LoadBalancerIngress = []\<rparr> }"

subsection \<open>Lemmas\<close>

lemma modifyService_keeps:
  "modifyServiceForExternalAccess svc access tag = Some svc' \<Longrightarrow>
   svc_Selector svc' = svc_Selector svc \<and> svc_Ports svc' = svc_Ports svc \<and>
   om_Name (svc_Meta svc') = om_Name (svc_Meta svc) \<and> om_Namespace (svc_Meta svc') = om_Namespace (svc_Meta svc) \<and>
   om_Labels (svc_Meta svc') = om_Labels (svc_Meta svc)"
  by (auto simp: modifyServiceForExternalAccess_def Let_def bind_eq_Some_conv split: if_splits option.splits)

lemma BuildService_fields:
  "BuildService c n = Some svc \<Longrightarrow>
   om_Name (svc_Meta svc) = Prefix @ n_Tag n \<and> om_Namespace (svc_Meta svc) = Namespace c \<and>
   svc_Selector svc = [LabelNodeTag \<mapsto> n_Tag n] \<and> svc_Ports svc = buildServicePorts"
  by (auto simp: BuildService_def Let_def new_meta_def buildServiceSelector_def split: option.splits
      dest!: modifyService_keeps)

lemma buildAwsNlbAnnotations_None: "buildAwsNlbAnnotations cfg tag = None \<longleftrightarrow> cfg = None"
  by (cases cfg) (auto simp: buildAwsNlbAnnotations_def split: option.splits)

lemma modifyService_None:
  "modifyServiceForExternalAccess svc ea tag = None \<longleftrightarrow>
   ea_Type ea = ExternalAccessTypeAWS \<and> ea_AWSExternalAccess ea = None"
  by (auto simp: modifyServiceForExternalAccess_def Let_def bind_eq_None_conv buildAwsNlbAnnotations_None
      split: option.splits)

lemma BuildService_total:
  "BuildService c n = None \<longleftrightarrow>
   (\<exists>ea. s_ExternalAccessConfiguration (Spec c) = Some ea \<and> ea_Type ea = ExternalAccessTypeAWS \<and>
      ea_AWSExternalAccess ea = None)"
  by (auto simp: BuildService_def Let_def modifyService_None split: option.splits)

lemma BuildIngress_total:
  "BuildIngress c \<noteq> None \<longleftrightarrow>
   (\<exists>ea ic. s_ExternalAccessConfiguration (Spec c) = Some ea \<and> ea_IngressControllerExternalAccess ea = Some ic)"
proof -
  have "buildIngressAnnotations c = None \<longleftrightarrow> s_ExternalAccessConfiguration (Spec c) = None"
    by (cases "s_ExternalAccessConfiguration (Spec c)") (auto simp: buildIngressAnnotations_def Let_def split: option.splits)
  then show ?thesis by (auto simp: BuildIngress_def bind_eq_None_conv bind_eq_Some_conv simp del: not_None_eq)
qed

lemma BuildIngress_fields:
  "BuildIngress c = Some ing \<Longrightarrow> ing_Rules ing = buildIngressRules c \<and> om_Namespace (ing_Meta ing) = Namespace c"
  by (auto simp: BuildIngress_def bind_eq_Some_conv new_meta_def)

text \<open>A selector matches a label map when every entry of it is there.\<close>

lemma selector_matches_iff: "[k \<mapsto> v] \<subseteq>\<^sub>m labels \<longleftrightarrow> labels k = Some v"
  by (auto simp: map_le_def)

lemma BuildStatefulSet_labels:
  "BuildStatefulSet pq c n = Some sts \<Longrightarrow> sts_TemplateLabels sts LabelNodeTag = Some (n_Tag n) \<and>
     om_Name (sts_Meta sts) = Prefix @ n_Tag n"
  by (auto simp: BuildStatefulSet_def Let_def bind_eq_Some_conv buildStatefulsetLabels_def new_meta_def)

subsection \<open>Properties\<close>

text \<open>C36. Services route to the right pods: the Service built for a node selects the pods of the StatefulSet built for another
  node (of any cluster in the namespace) exactly when the two nodes have the same tag.  So within a cluster whose tags are different, each Service
  selects the pods of its own node only.\<close>

theorem service_selects_own_pods:
  assumes "BuildService c n = Some svc" "BuildStatefulSet pq c' m = Some sts"
  shows "svc_Selector svc \<subseteq>\<^sub>m sts_TemplateLabels sts \<longleftrightarrow> n_Tag n = n_Tag m"
  using BuildService_fields [OF assms(1)] BuildStatefulSet_labels [OF assms(2)] by (auto simp: selector_matches_iff)

text \<open>C37. The Ingress of a cluster routes, for every node, the host \<open>tag.domain\<close> to port 443 and the host \<open>tag-tcp.domain\<close> to
  port 38888 of the Service built for that node, and has no other rule; each backend port is a port the Service exposes.\<close>

theorem ingress_routes_to_services:
  assumes "BuildIngress c = Some ing"
  shows "set (ing_Rules ing) =
           (\<Union>n \<in> set (s_Nodes (Spec c)).
              {ingress_rule (n_Tag n @ ''.'' @ s_Domain (Spec c)) (Prefix @ n_Tag n) 443,
               ingress_rule (n_Tag n @ ''-tcp.'' @ s_Domain (Spec c)) (Prefix @ n_Tag n) 38888}) \<and>
         (\<forall>n svc. BuildService c n = Some svc \<longrightarrow> om_Name (svc_Meta svc) = Prefix @ n_Tag n \<and>
            om_Namespace (svc_Meta svc) = om_Namespace (ing_Meta ing) \<and> {443, 38888} = sp_Port ` set (svc_Ports svc))"
proof -
  have "sp_Port ` set buildServicePorts = {443, 38888}"
    by (simp add: buildServicePorts_def InternalHttpsPort_def InternalTcpPort_def)
  with BuildIngress_fields [OF assms] BuildService_fields show ?thesis
    by (auto simp: buildIngressRules_def buildHTTPSRule_def buildTCPRule_def InternalHttpsPort_def InternalTcpPort_def)
qed

lemma sample_service: "\<exists>svc. BuildService (sample_cluster img) n = Some svc"
  using BuildService_total [of "sample_cluster img" n] by (cases "BuildService (sample_cluster img) n")
    (auto simp: sample_defs)

theorem service_selects_own_pods_witness:
  "\<exists>svc sts. BuildService (sample_cluster ''x'') (sample_node ''a'') = Some svc \<and>
     BuildStatefulSet sample_quantity (sample_cluster ''x'') (sample_node ''b'') = Some sts \<and>
     \<not> svc_Selector svc \<subseteq>\<^sub>m sts_TemplateLabels sts"
proof -
  obtain svc sts where b: "BuildService (sample_cluster ''x'') (sample_node ''a'') = Some svc"
    "BuildStatefulSet sample_quantity (sample_cluster ''x'') (sample_node ''b'') = Some sts"
    using sample_service sample_statefulset by metis
  then show ?thesis using service_selects_own_pods [OF b] by (auto simp: sample_node_def)
qed

theorem ingress_routes_to_services_witness:
  "\<exists>ing. BuildIngress (sample_cluster ''x'') = Some ing \<and>
     ingress_rule ''a.domain.development.run'' ''ravendb-a'' 443 \<in> set (ing_Rules ing)"
proof -
  obtain ing where i: "BuildIngress (sample_cluster ''x'') = Some ing"
    using BuildIngress_total [of "sample_cluster ''x''"] by (auto simp: sample_defs)
  then show ?thesis using ingress_routes_to_services [OF i] by (auto simp: sample_defs Prefix_def)
qed

end
