(* ===== verification/JobBuilder.thy ===== *)
theory JobBuilder
  imports NetworkBuilders
begin

text \<open>
  The builder of the bootstrap Job (\<open>pkg/resource/job.go\<close>).  It indexes the first node and, in Let's Encrypt mode, dereferences
  that node's certificate reference; both may panic.
\<close>

definition buildJobLabels :: "RavenDBCluster \<Rightarrow> gomap" where
  "buildJobLabels cluster =
     [LabelAppName \<mapsto> App, LabelManagedBy \<mapsto> Manager, LabelInstance \<mapsto> Name cluster]"

definition buildJobContainers :: "string \<Rightarrow> VolumeMount list \<Rightarrow> EnvVar list \<Rightarrow> Container list" where
  "buildJobContainers img vMounts env = [BuildClusterBootstrapperContainer img vMounts env]"

definition getServerCertSecretName :: "RavenDBCluster \<Rightarrow> string option" where
  "getServerCertSecretName cluster =
     (if s_Mode (Spec cluster) = ModeLetsEncrypt
      then (case s_Nodes (Spec cluster) of [] \<Rightarrow> None | n # _ \<Rightarrow> n_CertSecretRef n)
      else if s_Mode (Spec cluster) = ModeNone
      then (case s_ClusterCertSecretRef (Spec cluster) of None \<Rightarrow> Some '''' | Some s \<Rightarrow> Some s)
      else Some '''')"

definition buildJobVolumes :: "RavenDBCluster \<Rightarrow> Volume list option" where
  "buildJobVolumes cluster =
     do { serverCert \<leftarrow> getServerCertSecretName cluster;
          Some ([buildSecretVolume ClientCertVolumeName (s_ClientCertSecretRef (Spec cluster)),
                 buildSecretVolume CertVolumeName serverCert] @
                (case s_CACertSecretRef (Spec cluster) of
                   None \<Rightarrow> [] | Some ca \<Rightarrow> [buildSecretVolume CACertVolumeName ca]) @
                [buildConfigMapVolume BootstrapperHookVolumeName BootstrapperHookConfigMap
                   [(InitClusterHookKey, InitClusterHookKey),
                    (CheckNodesDiscoverabilityHookKey, CheckNodesDiscoverabilityHookKey)] ConfigMapExecMode]) }"

definition buildJobVolumeMounts :: "RavenDBCluster \<Rightarrow> VolumeMount list" where
  "buildJobVolumeMounts cluster =
     (let ro = \<lambda>m. m\<lparr>vm_ReadOnly := True\<rparr> in
      [ro (buildVolumeMount ClientCertVolumeName ClientCertMountPath), ro (buildVolumeMount CertVolumeName CertMountPath)] @
      (if s_CACertSecretRef (Spec cluster) \<noteq> None then [ro (buildVolumeMount CACertVolumeName CACertMountPath)] else []) @
      [(buildVolumeMount BootstrapperHookVolumeName InitClusterScriptPath)
         \<lparr>vm_SubPath := InitClusterHookKey, vm_ReadOnly := True\<rparr>,
       (buildVolumeMount BootstrapperHookVolumeName CheckNodesDiscoverabilityScriptPath)
         \<lparr>vm_SubPath := CheckNodesDiscoverabilityHookKey, vm_ReadOnly := True\<rparr>])"

text \<open>The loop over the nodes: \<open>first\<close> is true in the first round, which adds no member.\<close>

fun job_env_loop :: "bool \<Rightarrow> RavenDBNode list \<Rightarrow> string list \<times> string list \<times> string list" where
  "job_env_loop first [] = ([], [], [])"
| "job_env_loop first (n # ns) =
     (let (memberURLs, memberTags, tcpHosts) = job_env_loop False ns;
          (tcpHost, ok) = strings_CutPrefix (n_PublicServerUrlTcp n) ProtocolTcp
      in (if first then memberURLs else n_PublicServerUrl n # memberURLs,
          if first then memberTags else n_Tag n # memberTags,
          if ok then tcpHost # tcpHosts else tcpHosts))"

definition buildJobEnvVars :: "RavenDBCluster \<Rightarrow> EnvVar list option" where
  "buildJobEnvVars cluster =
     (case s_Nodes (Spec cluster) of
        [] \<Rightarrow> None
      | leader # _ \<Rightarrow>
          let (memberURLs, memberTags, tcpHosts) = job_env_loop True (s_Nodes (Spec cluster));
              leaderURL = n_PublicServerUrl leader
          in Some (BuildClusterBootstrapperEnvVars leaderURL memberURLs (leaderURL # memberURLs)
                     (n_Tag leader # memberTags) tcpHosts))"

definition BuildJob :: "RavenDBCluster \<Rightarrow> Job option" where
  "BuildJob cluster =
     (let labels = buildJobLabels cluster in
      do { volumes \<leftarrow> buildJobVolumes cluster;
           envVars \<leftarrow> buildJobEnvVars cluster;
           Some \<lparr>job_Meta = new_meta RavenDbBootstrapperJob (Namespace cluster) labels Map.empty,
                 job_BackoffLimit = Some 3, job_TemplateLabels = labels,
                 job_PodSpec = \<lparr>ps_Containers = buildJobContainers (s_Image (Spec cluster)) (buildJobVolumeMounts cluster) envVars,
                   ps_Volumes = volumes, ps_Affinity = None, ps_ServiceAccountName = RavenDbNodeServiceAccount,
                   ps_RestartPolicy = ''OnFailure'', ps_Sysctls = []\<rparr>,
                 job_Active = 0, job_Succeeded = 0, job_Failed = 0\<rparr> })"

definition containsTag :: "string list option \<Rightarrow> string \<Rightarrow> bool" where
  "containsTag tagsList tag = (case tagsList of None \<Rightarrow> False | Some ts \<Rightarrow> list_ex (\<lambda>w. w = tag) ts)"

subsection \<open>Lemmas\<close>

lemma job_env_loop_False:
  "job_env_loop False ns =
     (map n_PublicServerUrl ns, map n_Tag ns,
      map (\<lambda>n. drop (length ProtocolTcp) (n_PublicServerUrlTcp n))
        (filter (\<lambda>n. prefix ProtocolTcp (n_PublicServerUrlTcp n)) ns))"
  by (induction ns) (auto simp: strings_CutPrefix_def)

lemma buildJobEnvVars_eq:
  "s_Nodes (Spec c) = n # ns \<Longrightarrow>
   buildJobEnvVars c = Some (BuildClusterBootstrapperEnvVars (n_PublicServerUrl n) (map n_PublicServerUrl ns)
     (map n_PublicServerUrl (n # ns)) (map n_Tag (n # ns))
     (map (\<lambda>n. drop (length ProtocolTcp) (n_PublicServerUrlTcp n))
        (filter (\<lambda>n. prefix ProtocolTcp (n_PublicServerUrlTcp n)) (n # ns))))"
  by (simp add: buildJobEnvVars_def job_env_loop_False strings_CutPrefix_def Let_def)

lemma buildJobVolumes_names:
  "buildJobVolumes c = Some vs \<Longrightarrow> set (map vm_Name (buildJobVolumeMounts c)) = set (map vol_Name vs)"
  by (auto simp: buildJobVolumes_def buildJobVolumeMounts_def Let_def bind_eq_Some_conv buildSecretVolume_def
      buildConfigMapVolume_def buildVolumeMount_def split: option.splits)

lemma buildJobVolumes_None:
  "s_Nodes (Spec c) = n # ns \<Longrightarrow>
   buildJobVolumes c = None \<longleftrightarrow> s_Mode (Spec c) = ModeLetsEncrypt \<and> n_CertSecretRef n = None"
  by (auto simp: buildJobVolumes_def getServerCertSecretName_def bind_eq_None_conv split: option.splits)

lemma BuildJob_total:
  assumes "s_Nodes (Spec c) = n # ns"
  shows "BuildJob c = None \<longleftrightarrow> s_Mode (Spec c) = ModeLetsEncrypt \<and> n_CertSecretRef n = None"
  using buildJobVolumes_None [OF assms] buildJobEnvVars_eq [OF assms]
  by (cases "buildJobVolumes c") (simp_all add: BuildJob_def Let_def)

subsection \<open>Properties\<close>

text \<open>The bootstrap Job is built, without a panic, exactly when there is a first node and, in Let's Encrypt mode, that node
  has a certificate.  The built Job mounts only volumes it has, and its environment names the first node as leader, all other nodes as
  members, and all tags and URLs in order.\<close>

theorem BuildJob_correct:
  "case s_Nodes (Spec c) of
     [] \<Rightarrow> BuildJob c = None
   | n # ns \<Rightarrow>
       (if s_Mode (Spec c) = ModeLetsEncrypt \<and> n_CertSecretRef n = None then BuildJob c = None
        else (\<exists>job ct. BuildJob c = Some job \<and> ps_Containers (job_PodSpec job) = [ct] \<and>
                ct_Env ct ! 0 = env_var ''LEADER_URL'' (n_PublicServerUrl n) \<and>
                ct_Env ct ! 1 = env_var ''MEMBER_URLS'' (strings_Join (map n_PublicServerUrl ns) '' '') \<and>
                ct_Env ct ! 2 = env_var ''URLS'' (strings_Join (GetNodePublicUrls c) '' '') \<and>
                ct_Env ct ! 3 = env_var ''TAGS'' (strings_Join (GetNodeTags c) '' '') \<and>
                set (map vm_Name (ct_VolumeMounts ct)) = set (map vol_Name (ps_Volumes (job_PodSpec job)))))"
proof (cases "s_Nodes (Spec c)")
  case Nil
  then show ?thesis by (simp add: BuildJob_def Let_def buildJobEnvVars_def bind_eq_None_conv)
next
  case (Cons n ns)
  note vols = buildJobVolumes_None [OF Cons]
  show ?thesis
  proof (cases "buildJobVolumes c")
    case None
    with vols Cons show ?thesis by (simp add: BuildJob_def)
  next
    case (Some vs)
    with vols Cons buildJobVolumes_names [OF Some] show ?thesis
      by (simp add: BuildJob_def Let_def buildJobEnvVars_eq [OF Cons] buildJobContainers_def
          BuildClusterBootstrapperContainer_def empty_container_def BuildClusterBootstrapperEnvVars_def
          GetNodePublicUrls_def GetNodeTags_def mapNodes_def)
  qed
qed

end
