(* ===== verification/Env.thy ===== *)
theory Env
  imports Collector JobBuilder
begin

text \<open>
  The outside world.  The operator talks to the API server, to RavenDB nodes over HTTPS, to the event recorder and
  to the clock; all of that is code outside the repository and so a parameter, as are the JSON decoder, the PKCS 12
  and X.509 libraries and the embedded scripts.  A run of the operator is described by its
  \<open>history\<close>, the list of the requests it has made so far, oldest first.  An environment \<open>Env\<close> answers each request
  as a function of the history before it, so an answer may depend on everything the operator did and on nothing else; every behaviour
  of the outside world in one run is such a function.

  An effectful operation takes the history and returns its result with the extended history.  Where it may fail to return
  (a panic, or a loop that runs forever) the whole is an \<open>option\<close> and \<open>None\<close> is that.
\<close>

subsection \<open>Clients and responses\<close>

text \<open>A \<open>tls.Certificate\<close> is represented by the two PEM texts it was made from, a \<open>x509.CertPool\<close> by the PEM text
  appended to it; \<open>None\<close> is the system's pool.  A timeout of \<open>0\<close> is none.\<close>

record Certificate =
  cert_PEM :: string
  key_PEM :: string

record http_Client =
  hc_Certificates :: "Certificate list"
  hc_RootCAs :: "string option"
  hc_Timeout :: int

text \<open>How a GET may go: the request cannot be built, it fails, its body cannot be read, or it is answered.\<close>

datatype http_answer =
    RequestError string
  | DoError string
  | ReadError int string
  | Response int string

text \<open>What the gates decode from JSON (\<open>pingResponse\<close> and \<open>databasesResponse\<close>).  An entry of a topology list is a JSON object of which
  only the field \<open>NodeTag\<close> is read: it is that field if it is a string, else \<open>None\<close>.\<close>

record pingItem =
  pi_Url :: string
  pi_SetupAliveError :: string
  pi_TcpInfoError :: string

record dbStatus =
  ds_LastStatus :: string
  ds_LastError :: string

record nodesTopology =
  nt_Members :: "string option list"
  nt_Promotables :: "string option list"
  nt_Rehabs :: "string option list"
  nt_Status :: "string \<rightharpoonup> dbStatus"

record databaseInfo =
  db_Name :: string
  db_Disabled :: bool
  db_ReplicationFactor :: int
  db_NodesTopology :: nodesTopology

subsection \<open>Requests and answers\<close>

text \<open>\<open>Eventf\<close> names the object the event is about by kind and name.\<close>

datatype request =
    GetCluster string string
  | GetStatefulSet string string
  | GetSecret string string
  | ListAll string
  | Apply Object string
  | PatchStatefulSet StatefulSet StatefulSet
  | PatchStatus RavenDBCluster RavenDBCluster
  | HttpGet http_Client string
  | Eventf string string string string string
  | Sleep int
  | After int
  | Now
  | CtxErr

type_synonym history = "request list"

record Env =
  e_GetCluster :: "history \<Rightarrow> string \<Rightarrow> string \<Rightarrow> kerr + RavenDBCluster"
  e_GetStatefulSet :: "history \<Rightarrow> string \<Rightarrow> string \<Rightarrow> kerr + StatefulSet"
  e_GetSecret :: "history \<Rightarrow> string \<Rightarrow> string \<Rightarrow> kerr + Secret"
  e_Lister :: "history \<Rightarrow> Lister"
  e_Apply :: "history \<Rightarrow> Object \<Rightarrow> string \<Rightarrow> kerr option"
  e_PatchStatefulSet :: "history \<Rightarrow> StatefulSet \<Rightarrow> StatefulSet \<Rightarrow> kerr option"
  e_PatchStatus :: "history \<Rightarrow> RavenDBCluster \<Rightarrow> RavenDBCluster \<Rightarrow> kerr + RavenDBCluster"
  e_Http :: "history \<Rightarrow> http_Client \<Rightarrow> string \<Rightarrow> http_answer"
  e_Now :: "history \<Rightarrow> int"
  e_CtxErr :: "history \<Rightarrow> error"
  e_After :: "history \<Rightarrow> int \<Rightarrow> error"
  e_DecodePing :: "string \<Rightarrow> pingItem list option"
  e_DecodeDatabases :: "string \<Rightarrow> databaseInfo list option"
  e_ToPEM :: "string \<Rightarrow> string \<Rightarrow> string + (string \<times> string) list"
  e_X509KeyPair :: "string \<Rightarrow> string \<Rightarrow> error"
  e_AppendCertsFromPEM :: "string \<Rightarrow> bool"
  e_SetControllerReference :: "RavenDBCluster \<Rightarrow> ObjectMeta \<Rightarrow> string + ObjectMeta"
  e_parseQuantity :: "string \<Rightarrow> string option"
  e_initClusterScriptRaw :: string
  e_checkNodesDiscoverabilityScriptRaw :: string
  e_updateCertScriptRaw :: string
  e_getServerCertScriptRaw :: string

subsection \<open>The primitive operations\<close>

definition get_cluster :: "Env \<Rightarrow> string \<Rightarrow> string \<Rightarrow> history \<Rightarrow> (kerr + RavenDBCluster) \<times> history" where
  "get_cluster env ns name h = (e_GetCluster env h ns name, h @ [GetCluster ns name])"

definition get_sts :: "Env \<Rightarrow> string \<Rightarrow> string \<Rightarrow> history \<Rightarrow> (kerr + StatefulSet) \<times> history" where
  "get_sts env ns name h = (e_GetStatefulSet env h ns name, h @ [GetStatefulSet ns name])"

definition get_secret :: "Env \<Rightarrow> string \<Rightarrow> string \<Rightarrow> history \<Rightarrow> (kerr + Secret) \<times> history" where
  "get_secret env ns name h = (e_GetSecret env h ns name, h @ [GetSecret ns name])"

definition apply_obj :: "Env \<Rightarrow> Object \<Rightarrow> string \<Rightarrow> history \<Rightarrow> kerr option \<times> history" where
  "apply_obj env obj fieldOwner h = (e_Apply env h obj fieldOwner, h @ [Apply obj fieldOwner])"

definition patch_sts :: "Env \<Rightarrow> StatefulSet \<Rightarrow> StatefulSet \<Rightarrow> history \<Rightarrow> kerr option \<times> history" where
  "patch_sts env new old h = (e_PatchStatefulSet env h new old, h @ [PatchStatefulSet new old])"

text \<open>A patch of the status returns the object as the API server then has it.\<close>

definition patch_status :: "Env \<Rightarrow> RavenDBCluster \<Rightarrow> RavenDBCluster \<Rightarrow> history \<Rightarrow> (kerr + RavenDBCluster) \<times> history" where
  "patch_status env new old h = (e_PatchStatus env h new old, h @ [PatchStatus new old])"

text \<open>The collector's \<open>List\<close> calls are taken together: one view of the namespace.\<close>

definition list_all_kinds :: "Env \<Rightarrow> string \<Rightarrow> history \<Rightarrow> Lister \<times> history" where
  "list_all_kinds env ns h = (e_Lister env h, h @ [ListAll ns])"

definition http_get :: "Env \<Rightarrow> http_Client \<Rightarrow> string \<Rightarrow> history \<Rightarrow> http_answer \<times> history" where
  "http_get env client url h = (e_Http env h client url, h @ [HttpGet client url])"

definition time_Now :: "Env \<Rightarrow> history \<Rightarrow> int \<times> history" where
  "time_Now env h = (e_Now env h, h @ [Now])"

definition ctx_Err :: "Env \<Rightarrow> history \<Rightarrow> error \<times> history" where
  "ctx_Err env h = (e_CtxErr env h, h @ [CtxErr])"

text \<open>\<open>select\<close> over \<open>ctx.Done()\<close> and \<open>time.After(d)\<close>: the error of the context if that came first.\<close>

definition time_After :: "Env \<Rightarrow> int \<Rightarrow> history \<Rightarrow> error \<times> history" where
  "time_After env d h = (e_After env h d, h @ [After d])"

definition time_Sleep :: "int \<Rightarrow> history \<Rightarrow> history" where
  "time_Sleep d h = h @ [Sleep d]"

definition eventf :: "string \<Rightarrow> string \<Rightarrow> string \<Rightarrow> string \<Rightarrow> string \<Rightarrow> history \<Rightarrow> history" where
  "eventf kind name typ reason msg h = h @ [Eventf kind name typ reason msg]"

subsection \<open>Objects\<close>

primrec obj_meta :: "Object \<Rightarrow> ObjectMeta" where
  "obj_meta (ObjStatefulSet s) = sts_Meta s"
| "obj_meta (ObjService s) = svc_Meta s"
| "obj_meta (ObjIngress i) = ing_Meta i"
| "obj_meta (ObjJob j) = job_Meta j"
| "obj_meta (ObjConfigMap c) = cm_Meta c"

primrec set_meta :: "Object \<Rightarrow> ObjectMeta \<Rightarrow> Object" where
  "set_meta (ObjStatefulSet s) m = ObjStatefulSet (s\<lparr>sts_Meta := m\<rparr>)"
| "set_meta (ObjService s) m = ObjService (s\<lparr>svc_Meta := m\<rparr>)"
| "set_meta (ObjIngress i) m = ObjIngress (i\<lparr>ing_Meta := m\<rparr>)"
| "set_meta (ObjJob j) m = ObjJob (j\<lparr>job_Meta := m\<rparr>)"
| "set_meta (ObjConfigMap c) m = ObjConfigMap (c\<lparr>cm_Meta := m\<rparr>)"

lemma obj_meta_set_meta [simp]: "obj_meta (set_meta obj m) = m"
  by (cases obj) simp_all

primrec type_name :: "Object \<Rightarrow> string" where
  "type_name (ObjStatefulSet s) = ''*v1.StatefulSet''"
| "type_name (ObjService s) = ''*v1.Service''"
| "type_name (ObjIngress i) = ''*v1.Ingress''"
| "type_name (ObjJob j) = ''*v1.Job''"
| "type_name (ObjConfigMap c) = ''*v1.ConfigMap''"

definition set_owner :: "Env \<Rightarrow> RavenDBCluster \<Rightarrow> Object \<Rightarrow> string + Object" where
  "set_owner env cluster obj =
     (case e_SetControllerReference env cluster (obj_meta obj) of
        Inl err \<Rightarrow> Inl err
      | Inr m \<Rightarrow> Inr (set_meta obj m))"

subsection \<open>Requests that change something\<close>

text \<open>The requests that change an object (events aside).\<close>

primrec mutating :: "request \<Rightarrow> bool" where
  "mutating (GetCluster ns n) = False"
| "mutating (GetStatefulSet ns n) = False"
| "mutating (GetSecret ns n) = False"
| "mutating (ListAll ns) = False"
| "mutating (Apply obj fo) = True"
| "mutating (PatchStatefulSet new old) = True"
| "mutating (PatchStatus new old) = True"
| "mutating (HttpGet c u) = False"
| "mutating (Eventf k n t r m) = False"
| "mutating (Sleep d) = False"
| "mutating (After d) = False"
| "mutating Now = False"
| "mutating CtxErr = False"

text \<open>\<open>extends P h h'\<close>: the operation only appended requests that satisfy \<open>P\<close>.\<close>

definition extends :: "(request \<Rightarrow> bool) \<Rightarrow> history \<Rightarrow> history \<Rightarrow> bool" where
  "extends P h h' \<longleftrightarrow> (\<exists>es. h' = h @ es \<and> list_all P es)"

lemma extends_refl [simp, intro]: "extends P h h"
  by (simp add: extends_def)

lemma extends_snoc [intro]: "extends P h h' \<Longrightarrow> P e \<Longrightarrow> extends P h (h' @ [e])"
  by (auto simp: extends_def)

lemma extends_trans [trans]: "extends P h h' \<Longrightarrow> extends P h' h'' \<Longrightarrow> extends P h h''"
  by (auto simp: extends_def)

lemma extends_mono: "extends P h h' \<Longrightarrow> (\<And>e. P e \<Longrightarrow> Q e) \<Longrightarrow> extends Q h h'"
  by (auto simp: extends_def list_all_iff)

abbreviation reads_only :: "history \<Rightarrow> history \<Rightarrow> bool" where
  "reads_only \<equiv> extends (\<lambda>e. \<not> mutating e)"

lemmas env_ops = get_cluster_def patch_status_def list_all_kinds_def get_sts_def get_secret_def apply_obj_def patch_sts_def http_get_def time_Now_def ctx_Err_def
  time_After_def time_Sleep_def eventf_def

subsection \<open>A concrete environment\<close>

text \<open>An environment in which every write succeeds and StatefulSets are read from a given function.\<close>

definition sample_secret :: "string \<Rightarrow> Secret" where
  "sample_secret name = \<lparr>sec_Meta = new_meta name ''ravendb'' Map.empty Map.empty, sec_Type = ''Opaque'',
     sec_Data = [(''client.pfx'', ''pfx''), (''ca.crt'', ''crt'')]\<rparr>"

fun sample_clock :: "history \<Rightarrow> int" where
  "sample_clock [] = 0"
| "sample_clock (Sleep d # h) = max 0 d + sample_clock h"
| "sample_clock (e # h) = sample_clock h"

definition sample_env :: "(string \<Rightarrow> kerr + StatefulSet) \<Rightarrow> Env" where
  "sample_env live =
     \<lparr>e_GetCluster = (\<lambda>h ns name. Inl (NotFound name)), e_GetStatefulSet = (\<lambda>h ns name. live name),
      e_GetSecret = (\<lambda>h ns name. Inr (sample_secret name)),
      e_Lister = (\<lambda>h. \<lparr>ListStatefulSets = (\<lambda>_. Inr []), ListJobs = (\<lambda>_. Inr []), ListPods = (\<lambda>_. Inr []), ListPVCs = (\<lambda>_. Inr []),
         ListServices = (\<lambda>_. Inr []), ListIngresses = (\<lambda>_. Inr []), ListSecrets = (\<lambda>_. Inr [])\<rparr>),
      e_Apply = (\<lambda>h obj fo. None), e_PatchStatefulSet = (\<lambda>h new old. None), e_PatchStatus = (\<lambda>h new old. Inr new),
      e_Http = (\<lambda>h client url. Response 200 url), e_Now = (\<lambda>h. sample_clock h), e_CtxErr = (\<lambda>h. None),
      e_After = (\<lambda>h d. None), e_DecodePing = (\<lambda>s. Some [\<lparr>pi_Url = s, pi_SetupAliveError = '''', pi_TcpInfoError = ''''\<rparr>]),
      e_DecodeDatabases = (\<lambda>s. Some []), e_ToPEM = (\<lambda>pfx pw. Inr [(''CERTIFICATE'', pfx), (''PRIVATE KEY'', pfx)]),
      e_X509KeyPair = (\<lambda>cert key. None), e_AppendCertsFromPEM = (\<lambda>pem. True),
      e_SetControllerReference = (\<lambda>c m. Inr (m\<lparr>om_OwnerReferences :=
         [\<lparr>or_Kind = ''RavenDBCluster'', or_Name = Name c, or_UID = UID c\<rparr>]\<rparr>)),
      e_parseQuantity = sample_quantity, e_initClusterScriptRaw = '''', e_checkNodesDiscoverabilityScriptRaw = '''',
      e_updateCertScriptRaw = '''', e_getServerCertScriptRaw = ''''\<rparr>"

end
