(* ===== verification/GoTime.thy ===== *)
theory GoTime
  imports Prelude
begin

text \<open>
  The parts of Go's \<open>time\<close> package and of UTF-8 decoding that the upgrader uses.  A \<open>time.Duration\<close> is a signed 64-bit
  number of nanoseconds, here an \<open>int\<close> with the wrap-around of arithmetic written out (\<open>wrap64\<close>).  \<open>ParseDuration\<close> follows
  Go 1.24; the fraction of a number goes through two \<open>float64\<close> operations, which round to the nearest multiple of a
  power of two with a 53-bit significand, ties to even.
\<close>

subsection \<open>Durations\<close>

definition wrap64 :: "int \<Rightarrow> int" where
  "wrap64 i = (i + 2 ^ 63) mod 2 ^ 64 - 2 ^ 63"

lemma wrap64_id: "- (2 ^ 63) \<le> i \<Longrightarrow> i < 2 ^ 63 \<Longrightarrow> wrap64 i = i"
  by (simp add: wrap64_def)

lemma wrap64_range: "- (2 ^ 63) \<le> wrap64 i \<and> wrap64 i < 2 ^ 63"
  using pos_mod_bound [of "2 ^ 64 :: int" "i + 2 ^ 63"] pos_mod_sign [of "2 ^ 64 :: int" "i + 2 ^ 63"]
  by (simp add: wrap64_def)

definition Millisecond :: int where "Millisecond = 10 ^ 6"
definition Second :: int where "Second = 10 ^ 9"
definition Minute :: int where "Minute = 60 * Second"

subsection \<open>Rounding of float64\<close>

text \<open>The significand and exponent of the \<open>float64\<close> nearest to the positive rational \<open>p / q\<close> : the value is
  \<open>m * 2 ^ e\<close>.  \<open>bits\<close> is the length of a binary numeral.\<close>

fun bits :: "nat \<Rightarrow> nat" where
  "bits n = (if n = 0 then 0 else Suc (bits (n div 2)))"

declare bits.simps [simp del]

definition round_div :: "nat \<Rightarrow> nat \<Rightarrow> nat" where
  "round_div p q =
     (let d = p div q; r = p mod q in
      if 2 * r < q then d else if 2 * r > q then d + 1 else if even d then d else d + 1)"

definition f64 :: "nat \<Rightarrow> nat \<Rightarrow> nat \<times> int" where
  "f64 p q =
     (let e0 = int (bits p) - int (bits q) - 53;
          fits = \<lambda>e. if e \<ge> 0 then p < 2 ^ 53 * (q * 2 ^ nat e) else p * 2 ^ nat (- e) < 2 ^ 53 * q;
          e = (if fits e0 then e0 else e0 + 1)
      in (if e \<ge> 0 then round_div p (q * 2 ^ nat e) else round_div (p * 2 ^ nat (- e)) q, e))"

definition f64_trunc :: "nat \<times> int \<Rightarrow> nat" where
  "f64_trunc x = (case x of (m, e) \<Rightarrow> if e \<ge> 0 then m * 2 ^ nat e else m div 2 ^ nat (- e))"

text \<open>\<open>uint64(float64(f) * (float64(unit) / scale))\<close>.\<close>

definition fraction_value :: "nat \<Rightarrow> nat \<Rightarrow> nat \<Rightarrow> nat" where
  "fraction_value f unit scale =
     (let (m1, e1) = f64 f 1; (m2, e2) = f64 unit scale; e = e1 + e2
      in f64_trunc (if e \<ge> 0 then f64 (m1 * m2 * 2 ^ nat e) 1 else f64 (m1 * m2) (2 ^ nat (- e))))"

subsection \<open>ParseDuration\<close>

text \<open>\<open>leadingInt\<close>: the value of the leading digits, or \<open>None\<close> when it exceeds \<open>2 ^ 63\<close>.\<close>

fun leading_int :: "nat \<Rightarrow> string \<Rightarrow> (nat \<times> string) option" where
  "leading_int x [] = Some (x, [])"
| "leading_int x (c # cs) =
     (if \<not> is_digit c then Some (x, c # cs)
      else if x > 2 ^ 63 div 10 then None
      else let y = 10 * x + (of_char c - 48) in if y > 2 ^ 63 then None else leading_int y cs)"

text \<open>\<open>leadingFraction\<close>: further digits are dropped after an overflow.\<close>

fun leading_fraction :: "nat \<Rightarrow> nat \<Rightarrow> bool \<Rightarrow> string \<Rightarrow> nat \<times> nat \<times> string" where
  "leading_fraction x scale over [] = (x, scale, [])"
| "leading_fraction x scale over (c # cs) =
     (if \<not> is_digit c then (x, scale, c # cs)
      else if over then leading_fraction x scale over cs
      else if x > (2 ^ 63 - 1) div 10 then leading_fraction x scale True cs
      else let y = 10 * x + (of_char c - 48) in
           if y > 2 ^ 63 then leading_fraction x scale True cs else leading_fraction y (10 * scale) over cs)"

definition unit_value :: "string \<Rightarrow> nat option" where
  "unit_value u =
     (if u = ''ns'' then Some 1
      else if u = ''us'' \<or> u = [CHR 0xC2, CHR 0xB5, CHR ''s''] \<or> u = [CHR 0xCE, CHR 0xBC, CHR ''s''] then Some (10 ^ 3)
      else if u = ''ms'' then Some (10 ^ 6)
      else if u = ''s'' then Some (10 ^ 9)
      else if u = ''m'' then Some (60 * 10 ^ 9)
      else if u = ''h'' then Some (3600 * 10 ^ 9)
      else None)"

lemma leading_int_length: "leading_int x s = Some (v, r) \<Longrightarrow> length r \<le> length s"
  by (induction x s rule: leading_int.induct) (auto simp: Let_def split: if_splits)

lemma leading_fraction_length: "leading_fraction x sc ov s = (v, sc', r) \<Longrightarrow> length r \<le> length s"
proof (induction s arbitrary: x sc ov)
  case (Cons c cs)
  have "length r \<le> length cs \<or> r = c # cs"
    using Cons.prems Cons.IH unfolding leading_fraction.simps(2) Let_def by (metis (no_types, lifting) Pair_inject)
  then show ?case by auto
qed simp

text \<open>One round of the loop: a number with an optional fraction, then a unit.  \<open>duration_number\<close> returns the integer, the fraction, its
  scale and the rest of the string; \<open>duration_term\<close> the value in nanoseconds and the rest.\<close>

definition duration_fraction :: "string \<Rightarrow> nat \<times> nat \<times> string" where
  "duration_fraction s = (if prefix ''.'' s then leading_fraction 0 1 False (tl s) else (0, 1, s))"

definition duration_number :: "string \<Rightarrow> (nat \<times> nat \<times> nat \<times> string) option" where
  "duration_number s =
     (if \<not> (prefix ''.'' s \<or> (s \<noteq> [] \<and> is_digit (hd s))) then None
      else case leading_int 0 s of
        None \<Rightarrow> None
      | Some (v, s1) \<Rightarrow>
          (case duration_fraction s1 of (f, scale, s2) \<Rightarrow>
             let pre = (length s \<noteq> length s1); post = (prefix ''.'' s1 \<and> length (tl s1) \<noteq> length s2)
             in if \<not> pre \<and> \<not> post then None else Some (v, f, scale, s2)))"

definition unit_char :: "char \<Rightarrow> bool" where
  "unit_char c \<longleftrightarrow> c \<noteq> CHR ''.'' \<and> \<not> is_digit c"

definition term_value :: "nat \<Rightarrow> nat \<Rightarrow> nat \<Rightarrow> nat \<Rightarrow> nat option" where
  "term_value v f scale unit =
     (if v > 2 ^ 63 div unit then None
      else if f > 0 then (let w = v * unit + fraction_value f unit scale in if w > 2 ^ 63 then None else Some w)
      else Some (v * unit))"

definition duration_term :: "string \<Rightarrow> (nat \<times> string) option" where
  "duration_term s =
     do { (v, f, scale, s2) \<leftarrow> duration_number s;
          (let u = takeWhile unit_char s2
           in if u = [] then None
              else do { unit \<leftarrow> unit_value u;
                        w \<leftarrow> term_value v f scale unit;
                        Some (w, dropWhile unit_char s2) }) }"

lemma duration_number_length: "duration_number s = Some (v, f, scale, r) \<Longrightarrow> length r \<le> length s"
  by (auto simp: duration_number_def duration_fraction_def Let_def split: if_splits option.splits prod.splits
      dest!: leading_int_length leading_fraction_length)

lemma duration_term_shorter: "duration_term s = Some (w, r) \<Longrightarrow> length r < length s"
proof -
  assume "duration_term s = Some (w, r)"
  then obtain v f scale s2 where p: "duration_number s = Some (v, f, scale, s2)" "takeWhile unit_char s2 \<noteq> []"
    "r = dropWhile unit_char s2"
    by (auto simp: duration_term_def Let_def bind_eq_Some_conv split: if_splits)
  have "length r < length s2"
    using p(2) unfolding p(3) by (metis length_append length_greater_0_conv less_add_same_cancel2 takeWhile_dropWhile_id)
  with duration_number_length [OF p(1)] show ?thesis by simp
qed

function parse_terms :: "nat \<Rightarrow> string \<Rightarrow> nat option" where
  "parse_terms d s =
     (if s = [] then Some d
      else case duration_term s of
        None \<Rightarrow> None
      | Some (v, r) \<Rightarrow> if d + v > 2 ^ 63 then None else parse_terms (d + v) r)"
  by pat_completeness auto
termination
  by (relation "measure (\<lambda>(d, s). length s)") (auto dest: duration_term_shorter)

declare parse_terms.simps [simp del]

definition ParseDuration :: "string \<Rightarrow> int option" where
  "ParseDuration s0 =
     (let neg = prefix ''-'' s0; s = (if prefix ''-'' s0 \<or> prefix ''+'' s0 then tl s0 else s0) in
      if s = ''0'' then Some 0
      else if s = [] then None
      else case parse_terms 0 s of
        None \<Rightarrow> None
      | Some d \<Rightarrow> if neg then Some (wrap64 (- int d)) else if d > 2 ^ 63 - 1 then None else Some (int d))"

lemma ParseDuration_range: "ParseDuration s = Some d \<Longrightarrow> d < 2 ^ 63"
  using wrap64_range by (auto simp: ParseDuration_def Let_def split: if_splits option.splits)

subsection \<open>Duration.String\<close>

text \<open>\<open>fmtFrac\<close> without its buffer: the fraction of the last \<open>prec\<close> decimal digits, without trailing zeros.\<close>

fun frac_digits :: "nat \<Rightarrow> nat \<Rightarrow> string" where
  "frac_digits 0 n = []"
| "frac_digits (Suc prec) n = frac_digits prec (n div 10) @ [char_of (48 + n mod 10)]"

definition fmt_frac :: "nat \<Rightarrow> nat \<Rightarrow> string" where
  "fmt_frac prec n = (let ds = strings_TrimRight (frac_digits prec n) {CHR ''0''} in if ds = [] then [] else ''.'' @ ds)"

definition Duration_String :: "int \<Rightarrow> string" where
  "Duration_String d =
     (let u = nat \<bar>d\<bar>;
          body =
            (if u = 0 then ''0s''
             else if u < 10 ^ 3 then nat_digits u @ ''ns''
             else if u < 10 ^ 6 then nat_digits (u div 10 ^ 3) @ fmt_frac 3 u @ [CHR 0xC2, CHR 0xB5] @ ''s''
             else if u < 10 ^ 9 then nat_digits (u div 10 ^ 6) @ fmt_frac 6 u @ ''ms''
             else let secs = u div 10 ^ 9; mins = secs div 60; hours = mins div 60
                  in (if hours > 0 then nat_digits hours @ ''h'' else []) @
                     (if mins > 0 then nat_digits (mins mod 60) @ ''m'' else []) @
                     nat_digits (secs mod 60) @ fmt_frac 9 u @ ''s'')
      in if d < 0 then ''-'' @ body else body)"

subsection \<open>UTF-8\<close>

text \<open>The runes of a byte string, each as the bytes \<open>string(r)\<close> writes for it; a byte that starts no valid encoding counts
  as one rune and is written as U+FFFD.\<close>

definition replacement :: string where "replacement = [CHR 0xEF, CHR 0xBF, CHR 0xBD]"

definition cont :: "nat \<Rightarrow> nat \<Rightarrow> char \<Rightarrow> bool" where
  "cont lo hi c \<longleftrightarrow> lo \<le> of_char c \<and> of_char c \<le> hi"

definition rune_length :: "string \<Rightarrow> nat option" where
  "rune_length s =
     (case s of
        [] \<Rightarrow> None
      | c # cs \<Rightarrow>
          let n = (of_char c :: nat);
              ok = \<lambda>lo hi k. length cs \<ge> k \<and> k > 0 \<and> cont lo hi (hd cs) \<and> list_all (cont 0x80 0xBF) (take (k - 1) (tl cs))
          in if n < 0x80 then Some 1
             else if 0xC2 \<le> n \<and> n \<le> 0xDF then (if ok 0x80 0xBF 1 then Some 2 else None)
             else if n = 0xE0 then (if ok 0xA0 0xBF 2 then Some 3 else None)
             else if n = 0xED then (if ok 0x80 0x9F 2 then Some 3 else None)
             else if 0xE1 \<le> n \<and> n \<le> 0xEF then (if ok 0x80 0xBF 2 then Some 3 else None)
             else if n = 0xF0 then (if ok 0x90 0xBF 3 then Some 4 else None)
             else if n = 0xF4 then (if ok 0x80 0x8F 3 then Some 4 else None)
             else if 0xF1 \<le> n \<and> n \<le> 0xF3 then (if ok 0x80 0xBF 3 then Some 4 else None)
             else None)"

function runes :: "string \<Rightarrow> string list" where
  "runes s =
     (if s = [] then []
      else case rune_length s of
        Some k \<Rightarrow> if k = 0 then [] else take k s # runes (drop k s)
      | None \<Rightarrow> replacement # runes (tl s))"
  by pat_completeness auto
termination
  by (relation "measure length") auto

declare runes.simps [simp del]

lemma rune_length_bounds: "rune_length s = Some k \<Longrightarrow> 0 < k \<and> k \<le> 4 \<and> k \<le> length s"
  by (cases s) (auto simp: rune_length_def Let_def split: if_splits)

lemma runes_Nil [simp]: "runes [] = []"
  by (simp add: runes.simps)

lemma runes_piece:
  "p \<in> set (runes s) \<Longrightarrow> length p \<le> 4 \<and> set p \<subseteq> set s \<union> set replacement"
proof (induction s rule: runes.induct)
  case (1 s)
  show ?case
  proof (cases "rune_length s")
    case None
    with 1 show ?thesis
      by (auto simp: runes.simps [of s] replacement_def split: if_splits dest: list.set_sel(2))
  next
    case (Some k)
    with 1 rune_length_bounds [OF Some] show ?thesis
      by (auto simp: runes.simps [of s] split: if_splits dest: in_set_takeD in_set_dropD)
  qed
qed

lemma length_runes: "length s \<le> 4 * length (runes s)"
proof (induction s rule: runes.induct)
  case (1 s)
  show ?case
  proof (cases "rune_length s")
    case None
    with 1 show ?thesis by (cases "s = []") (auto simp: runes.simps [of s])
  next
    case (Some k)
    with 1 rune_length_bounds [OF Some] show ?thesis by (cases "s = []") (auto simp: runes.simps [of s])
  qed
qed

lemma length_concat_le: "(\<And>x. x \<in> set xs \<Longrightarrow> length x \<le> n) \<Longrightarrow> length (concat xs) \<le> n * length xs"
  by (induction xs) (force simp: algebra_simps)+

end
