(* ===== verification/Gates.thy ===== *)
theory Gates
  imports Env GoTime
begin

text \<open>
  The health gates of the rolling upgrade (\<open>pkg/upgrade/gates.go\<close>, \<open>http_helpers.go\<close>, \<open>gate_node_alive.go\<close>,
  \<open>gate_cluster_connectivity.go\<close>, \<open>gate_db_availability.go\<close>) and their error type (\<open>errors.go\<close>).  A gate returns the triple of the
  source: whether it passed, an explanation, and a hard error.  Decoding a JSON body is a parameter of the environment, so what is shown
  holds for whatever a response decodes to.
\<close>

type_synonym gate_result = "(bool \<times> string \<times> error) \<times> history"

subsection \<open>Phases, kinds and errors\<close>

definition GatePreStep :: string where "GatePreStep = ''pre-step''"
definition GatePostStep :: string where "GatePostStep = ''post-step''"

definition GateNodeAlive :: string where "GateNodeAlive = ''node_alive''"
definition GateClusterConnectivity :: string where "GateClusterConnectivity = ''cluster_connectivity''"
definition GateDatabasesOnline :: string where "GateDatabasesOnline = ''db_groups_available_excluding_target''"

lemma phases_distinct [simp]: "GatePreStep \<noteq> GatePostStep" "GatePostStep \<noteq> GatePreStep"
  by (simp_all add: GatePreStep_def GatePostStep_def)

record GateError =
  ge_Phase :: string
  ge_Kind :: string
  ge_Tag :: string
  ge_Info :: string

definition GateError_Error :: "GateError \<Rightarrow> string" where
  "GateError_Error e =
     (if ge_Tag e \<noteq> '''' then ge_Phase e @ '' '' @ ge_Kind e @ '' failed on '' @ ge_Tag e @ '': '' @ ge_Info e
      else ge_Phase e @ '' '' @ ge_Kind e @ '' failed: '' @ ge_Info e)"

record HealthCheckContext =
  hcc_http :: http_Client
  baseURL :: string
  byTag :: gomap

definition NewChecks :: "http_Client option \<Rightarrow> RavenDBCluster \<Rightarrow> HealthCheckContext" where
  "NewChecks httpc c =
     (let nodes = s_Nodes (Spec c);
          leader = (case nodes of [] \<Rightarrow> '''' | n # _ \<Rightarrow> n_PublicServerUrl n);
          urlByTag = foldl (\<lambda>m n. m(strings_ToUpper (n_Tag n) \<mapsto> n_PublicServerUrl n)) Map.empty nodes
      in \<lparr>hcc_http = (case httpc of None \<Rightarrow> \<lparr>hc_Certificates = [], hc_RootCAs = None, hc_Timeout = 30 * Second\<rparr> | Some cl \<Rightarrow> cl),
          baseURL = strings_TrimRight leader {CHR ''/''}, byTag = urlByTag\<rparr>)"

definition urlForTag :: "HealthCheckContext \<Rightarrow> string \<Rightarrow> string" where
  "urlForTag g tag = (case byTag g (strings_ToUpper tag) of Some u \<Rightarrow> u | None \<Rightarrow> '''')"

subsection \<open>HTTP helpers\<close>

definition httpGET :: "Env \<Rightarrow> HealthCheckContext \<Rightarrow> string \<Rightarrow> history \<Rightarrow> (int \<times> string \<times> error) \<times> history" where
  "httpGET env hcc rawURL h =
     (let (ans, h) = http_get env (hcc_http hcc) rawURL h
      in (case ans of
            RequestError e \<Rightarrow> (0, '''', Some e)
          | DoError e \<Rightarrow> (0, '''', Some e)
          | ReadError code e \<Rightarrow> (code, '''', Some e)
          | Response code body \<Rightarrow> (code, body, None), h))"

definition clusterURL :: "HealthCheckContext \<Rightarrow> string + string" where
  "clusterURL hcc = (if baseURL hcc = '''' then Inl ''baseURL is empty'' else Inr (baseURL hcc))"

definition collapseWhitespace :: "string \<Rightarrow> string" where
  "collapseWhitespace s = strings_Join (strings_Fields s) '' ''"

definition ellipsis :: string where "ellipsis = [CHR 0xE2, CHR 0x80, CHR 0xA6]"

definition summarizeError :: "string \<Rightarrow> string" where
  "summarizeError s =
     (let s = strings_TrimSpace s;
          i = strings_Index s '' ---'';
          s = (if i > 0 then take (nat i) s else s);
          s = collapseWhitespace s;
          r = runes s
      in if length r > 160 then concat (take 160 r) @ ellipsis else s)"

definition join :: "string \<Rightarrow> string \<Rightarrow> string + string" where
  "join base path =
     (if base = '''' then Inl ''empty base url''
      else Inr (strings_TrimRight base {CHR ''/''} @ ''/'' @ strings_TrimLeft path {CHR ''/''}))"

definition truncate :: "string \<Rightarrow> nat \<Rightarrow> string" where
  "truncate s n = (if length s \<le> n then s else take n s)"

subsection \<open>The three gates\<close>

definition http_code_info :: "int \<Rightarrow> string \<Rightarrow> string" where
  "http_code_info code body = ''HTTP '' @ itoa code @ '' ('' @ truncate body 200 @ '')''"

definition NodeAlive :: "Env \<Rightarrow> HealthCheckContext \<Rightarrow> string \<Rightarrow> history \<Rightarrow> gate_result" where
  "NodeAlive env hcc tag h =
     (let nodeURL = strings_TrimSpace (urlForTag hcc tag)
      in if nodeURL = '''' then ((False, ''empty node url'', Some (''no URL for tag '' @ quote tag)), h)
         else case join nodeURL ''/setup/alive'' of
           Inl err \<Rightarrow> ((False, err, None), h)
         | Inr endpoint \<Rightarrow>
             (let ((code, body, err), h) = httpGET env hcc endpoint h
              in case err of
                   Some e \<Rightarrow> ((False, e, None), h)
                 | None \<Rightarrow>
                     if code \<ge> 200 \<and> code < 300 then ((True, ''status:'' @ itoa code, None), h)
                     else ((False, http_code_info code body, None), h)))"

fun ping_loop :: "pingItem list \<Rightarrow> bool \<times> string \<times> error" where
  "ping_loop [] = (True, '''', None)"
| "ping_loop (it # its) =
     (let setupErr = summarizeError (pi_SetupAliveError it); tcpErr = summarizeError (pi_TcpInfoError it)
      in if setupErr \<noteq> '''' \<or> tcpErr \<noteq> ''''
         then (False, ''peer='' @ pi_Url it @ '' setup_err='' @ quote setupErr @ '' tcp_err='' @ quote tcpErr, None)
         else ping_loop its)"

definition ClusterConnectivity :: "Env \<Rightarrow> HealthCheckContext \<Rightarrow> history \<Rightarrow> gate_result" where
  "ClusterConnectivity env hcc h =
     (case clusterURL hcc of
        Inl err \<Rightarrow> ((False, '''', Some err), h)
      | Inr base \<Rightarrow>
          (case join base ''/admin/debug/node/ping'' of
             Inl err \<Rightarrow> ((False, '''', Some err), h)
           | Inr endpoint \<Rightarrow>
               (let ((code, body, err), h) = httpGET env hcc endpoint h
                in case err of
                     Some e \<Rightarrow> ((False, e, None), h)
                   | None \<Rightarrow>
                       if code < 200 \<or> code \<ge> 300 then ((False, http_code_info code body, None), h)
                       else case e_DecodePing env body of
                         None \<Rightarrow> ((False, ''invalid ping response: bad JSON'', None), h)
                       | Some res \<Rightarrow>
                           if res = [] then ((False, ''invalid ping response: empty result'', None), h)
                           else (ping_loop res, h))))"

definition ignoredErrSnippets :: "string list" where
  "ignoredErrSnippets = [''(status: loading)'', ''not responding'', ''connection refused'', ''serviceunavailable'', ''node in rehabilitation'']"

definition isHardLoadError :: "string \<Rightarrow> bool" where
  "isHardLoadError s = strings_Contains (strings_ToLower s) ''endofstreamexception''"

definition isIgnoredTransient :: "string \<Rightarrow> bool" where
  "isIgnoredTransient s = list_ex (\<lambda>sub. strings_Contains (strings_ToLower s) (strings_ToLower sub)) ignoredErrSnippets"

text \<open>The loop of \<open>pluckTags\<close> with its set of seen tags and its output so far.\<close>

fun pluck_loop :: "string set \<Rightarrow> string list \<Rightarrow> string option list \<Rightarrow> string list" where
  "pluck_loop seen out [] = out"
| "pluck_loop seen out (m # ms) =
     (let tag = (case m of Some t \<Rightarrow> t | None \<Rightarrow> '''')
      in if tag \<noteq> ''''
         then (let tag = strings_TrimSpace tag
               in if tag = '''' then pluck_loop seen out ms
                  else if tag \<notin> seen then pluck_loop (insert tag seen) (out @ [tag]) ms
                  else pluck_loop seen out ms)
         else pluck_loop seen out ms)"

definition pluckTags :: "string option list \<Rightarrow> string list" where
  "pluckTags arr = pluck_loop {} [] arr"

definition db_node_info :: "databaseInfo \<Rightarrow> string \<Rightarrow> dbStatus \<Rightarrow> string" where
  "db_node_info db tag status = ''db='' @ db_Name db @ '' node='' @ tag @ '' error='' @ summarizeError (ds_LastError status)"

definition db_status :: "databaseInfo \<Rightarrow> string \<Rightarrow> dbStatus" where
  "db_status db tag = (case nt_Status (db_NodesTopology db) tag of Some s \<Rightarrow> s | None \<Rightarrow> \<lparr>ds_LastStatus = '''', ds_LastError = ''''\<rparr>)"

definition status_is_ok :: "dbStatus \<Rightarrow> bool" where
  "status_is_ok status = strings_EqualFold (strings_TrimSpace (ds_LastStatus status)) ''ok''"

text \<open>The loop over the tags of one database: \<open>Inl\<close> is the early return, \<open>Inr\<close> the nodes found in order and the first error that is
  not ignored.\<close>

fun db_tags_loop :: "databaseInfo \<Rightarrow> string \<Rightarrow> string list \<Rightarrow> string \<Rightarrow> string list \<Rightarrow> string + (string list \<times> string)" where
  "db_tags_loop db excludedTag okNodes firstNonIgnored [] = Inr (okNodes, firstNonIgnored)"
| "db_tags_loop db excludedTag okNodes firstNonIgnored (tag # tags) =
     (if strings_EqualFold tag excludedTag then db_tags_loop db excludedTag okNodes firstNonIgnored tags
      else let status = db_status db tag
           in if status_is_ok status then db_tags_loop db excludedTag (okNodes @ [tag]) firstNonIgnored tags
              else if isHardLoadError (ds_LastError status) then Inl (db_node_info db tag status)
              else if ds_LastError status \<noteq> '''' \<and> \<not> isIgnoredTransient (ds_LastError status) \<and> firstNonIgnored = ''''
                   then db_tags_loop db excludedTag okNodes (db_node_info db tag status) tags
                   else db_tags_loop db excludedTag okNodes firstNonIgnored tags)"

definition db_tags :: "databaseInfo \<Rightarrow> string list" where
  "db_tags db =
     (let t = db_NodesTopology db in pluckTags (nt_Members t @ nt_Promotables t @ nt_Rehabs t))"

fun db_loop :: "string \<Rightarrow> databaseInfo list \<Rightarrow> bool \<times> string \<times> error" where
  "db_loop excludedTag [] = (True, '''', None)"
| "db_loop excludedTag (db # dbs) =
     (if db_Disabled db \<or> db_ReplicationFactor db = 1 then db_loop excludedTag dbs
      else case db_tags_loop db excludedTag [] '''' (db_tags db) of
        Inl info \<Rightarrow> (False, info, None)
      | Inr (okNodes, firstNonIgnored) \<Rightarrow>
          if length okNodes > 0 then db_loop excludedTag dbs
          else if firstNonIgnored \<noteq> '''' then (False, firstNonIgnored, None)
          else (False, ''db='' @ db_Name db @ '' reason=no usable member with LastStatus==Ok'', None))"

definition DatabasesOnline :: "Env \<Rightarrow> HealthCheckContext \<Rightarrow> string \<Rightarrow> history \<Rightarrow> gate_result" where
  "DatabasesOnline env hcc excludedTag h =
     (case clusterURL hcc of
        Inl err \<Rightarrow> ((False, '''', Some err), h)
      | Inr base \<Rightarrow>
          (case join base ''/databases'' of
             Inl err \<Rightarrow> ((False, '''', Some err), h)
           | Inr endpoint \<Rightarrow>
               (let ((code, body, err), h) = httpGET env hcc endpoint h
                in case err of
                     Some e \<Rightarrow> ((False, e, None), h)
                   | None \<Rightarrow>
                       if code < 200 \<or> code \<ge> 300 then ((False, http_code_info code body, None), h)
                       else case e_DecodeDatabases env body of
                         None \<Rightarrow> ((False, ''invalid /databases response'', None), h)
                       | Some dbs \<Rightarrow>
                           if dbs = [] then ((True, ''no databases'', None), h)
                           else (db_loop excludedTag dbs, h))))"

subsection \<open>Tags of a database\<close>

definition topology_tags :: "string option list \<Rightarrow> string list" where
  "topology_tags arr = filter (\<lambda>t. t \<noteq> '''') (map (\<lambda>m. case m of Some t \<Rightarrow> strings_TrimSpace t | None \<Rightarrow> '''') arr)"

lemma TrimSpace_Nil [simp]: "strings_TrimSpace [] = []"
  by (simp add: strings_TrimSpace_def)

lemma remdups_drop_seen: "x \<in> set zs \<Longrightarrow> remdups (ys @ x # zs) = remdups (ys @ zs)"
  by (metis remdups.simps(2) remdups_append2)

lemma pluck_loop_eq: "distinct out \<Longrightarrow> pluck_loop (set out) out ms = rev (remdups (rev (out @ topology_tags ms)))"
proof (induction ms arbitrary: out)
  case Nil
  then show ?case by (simp add: topology_tags_def distinct_remdups_id)
next
  case (Cons m ms)
  let ?t = "case m of Some t \<Rightarrow> strings_TrimSpace t | None \<Rightarrow> ''''"
  have tags: "topology_tags (m # ms) = (if ?t = '''' then [] else [?t]) @ topology_tags ms"
    by (simp add: topology_tags_def)
  show ?case
  proof (cases "?t = '''' \<or> ?t \<in> set out")
    case True
    then have "rev (remdups (rev (out @ topology_tags (m # ms)))) = rev (remdups (rev (out @ topology_tags ms)))"
      unfolding tags by (auto simp: remdups_drop_seen)
    with Cons True show ?thesis by (cases m) (auto simp: Let_def)
  next
    case False
    with Cons.IH [of "out @ [?t]"] Cons.prems show ?thesis
      by (cases m) (auto simp: Let_def topology_tags_def)
  qed
qed

text \<open>\<open>pluckTags\<close> returns the trimmed, non-empty tags, each once, in the order of first occurrence.\<close>

theorem pluckTags_spec: "pluckTags arr = rev (remdups (rev (topology_tags arr)))"
  using pluck_loop_eq [of "[]" arr] by (simp add: pluckTags_def)

subsection \<open>Which databases block\<close>

text \<open>A database lets the gate pass if it is disabled or not replicated; or if, leaving the excluded node aside, some node of
  its topology reports OK and no node that does not reports a load error.\<close>

definition counted :: "string \<Rightarrow> databaseInfo \<Rightarrow> string \<Rightarrow> bool" where
  "counted excl db t \<longleftrightarrow> t \<in> set (db_tags db) \<and> \<not> strings_EqualFold t excl"

definition db_available :: "string \<Rightarrow> databaseInfo \<Rightarrow> bool" where
  "db_available excl db \<longleftrightarrow> db_Disabled db \<or> db_ReplicationFactor db = 1 \<or>
     ((\<exists>t. counted excl db t \<and> status_is_ok (db_status db t)) \<and>
      (\<forall>t. counted excl db t \<longrightarrow> status_is_ok (db_status db t) \<or> \<not> isHardLoadError (ds_LastError (db_status db t))))"

lemma db_tags_loop_Inl:
  "(\<exists>info. db_tags_loop db excl oks first tags = Inl info) \<longleftrightarrow>
   (\<exists>t \<in> set tags. \<not> strings_EqualFold t excl \<and> \<not> status_is_ok (db_status db t) \<and> isHardLoadError (ds_LastError (db_status db t)))"
  by (induction tags arbitrary: oks first) (simp_all add: Let_def)

lemma db_tags_loop_Inr:
  "db_tags_loop db excl oks first tags = Inr (oks', first') \<Longrightarrow>
   oks' = oks @ filter (\<lambda>t. \<not> strings_EqualFold t excl \<and> status_is_ok (db_status db t)) tags"
  by (induction tags arbitrary: oks first) (auto simp: Let_def split: if_split_asm, fastforce)

lemma db_loop_verdict: "fst (db_loop excl dbs) \<longleftrightarrow> list_all (db_available excl) dbs"
proof (induction dbs)
  case (Cons db dbs)
  show ?case
  proof (cases "db_tags_loop db excl [] '''' (db_tags db)")
    case (Inl info)
    with db_tags_loop_Inl [of db excl "[]" "''''" "db_tags db"] Cons show ?thesis
      by (auto simp: db_available_def counted_def)
  next
    case (Inr r)
    then obtain oks first where r: "db_tags_loop db excl [] '''' (db_tags db) = Inr (oks, first)" by (cases r) simp
    have "\<not> (\<exists>t \<in> set (db_tags db). \<not> strings_EqualFold t excl \<and> \<not> status_is_ok (db_status db t) \<and>
        isHardLoadError (ds_LastError (db_status db t)))"
      using db_tags_loop_Inl [of db excl "[]" "''''" "db_tags db"] r by simp
    moreover have "oks \<noteq> [] \<longleftrightarrow> (\<exists>t. counted excl db t \<and> status_is_ok (db_status db t))"
      using db_tags_loop_Inr [OF r] by (auto simp: filter_empty_conv counted_def)
    ultimately show ?thesis using r Cons by (auto simp: db_available_def counted_def)
  qed
qed simp

lemma db_loop_no_error: "snd (snd (db_loop excl dbs)) = None"
  by (induction dbs) (auto split: sum.splits)

lemma db_loop_result: "db_loop excl dbs = (ok, info, err) \<Longrightarrow> (ok \<longleftrightarrow> list_all (db_available excl) dbs) \<and> err = None"
  using db_loop_verdict [of excl dbs] db_loop_no_error [of excl dbs] by simp

definition answered :: "Env \<Rightarrow> HealthCheckContext \<Rightarrow> string \<Rightarrow> history \<Rightarrow> string \<Rightarrow> bool" where
  "answered env hcc path h body \<longleftrightarrow>
     (\<exists>code. e_Http env h (hcc_http hcc) (strings_TrimRight (baseURL hcc) {CHR ''/''} @ path) = Response code body \<and>
        200 \<le> code \<and> code < 300)"

text \<open>C20. The database gate passes exactly when the leader answers \<open>/databases\<close> with a status 2xx and a list of databases each of which is
  available without the excluded node.  It reports a hard error exactly when no base URL is known, and then asks nobody; otherwise it makes
  that one request.\<close>

theorem DatabasesOnline_iff:
  "DatabasesOnline env hcc excl h = ((ok, info, err), h') \<Longrightarrow>
   (ok \<longleftrightarrow> baseURL hcc \<noteq> '''' \<and>
      (\<exists>body dbs. answered env hcc ''/databases'' h body \<and> e_DecodeDatabases env body = Some dbs \<and>
        list_all (db_available excl) dbs)) \<and>
   (err \<noteq> None \<longleftrightarrow> baseURL hcc = '''') \<and>
   h' = (if baseURL hcc = '''' then h
         else h @ [HttpGet (hcc_http hcc) (strings_TrimRight (baseURL hcc) {CHR ''/''} @ ''/databases'')])"
  by (auto simp: DatabasesOnline_def clusterURL_def join_def httpGET_def http_get_def answered_def strings_TrimLeft_def Let_def
      split: if_splits option.splits http_answer.splits dest!: db_loop_result)

subsection \<open>Summaries\<close>

lemma TrimSpace_blank: "strings_TrimSpace s = [] \<longleftrightarrow> list_all is_space s"
proof -
  have "strings_TrimSpace s = [] \<longleftrightarrow> (\<forall>c \<in> set (dropWhile is_space s). is_space c)"
    unfolding strings_TrimSpace_def by (simp only: rev_is_Nil_conv dropWhile_eq_Nil_conv set_rev)
  also have "\<dots> \<longleftrightarrow> list_all is_space s"
    by (induction s) simp_all
  finally show ?thesis .
qed

lemma hd_rev_dropWhile_rev: "rev (dropWhile P (rev xs)) \<noteq> [] \<Longrightarrow> hd (rev (dropWhile P (rev xs))) = hd xs"
proof -
  assume ne: "rev (dropWhile P (rev xs)) \<noteq> []"
  have "xs = rev (dropWhile P (rev xs)) @ rev (takeWhile P (rev xs))"
    by (metis rev_append rev_rev_ident takeWhile_dropWhile_id)
  with ne show ?thesis by (metis hd_append2)
qed

lemma TrimSpace_hd: "strings_TrimSpace s \<noteq> [] \<Longrightarrow> \<not> is_space (hd (strings_TrimSpace s))"
proof -
  assume ne: "strings_TrimSpace s \<noteq> []"
  then have "dropWhile is_space s \<noteq> []"
    by (rule contrapos_nn) (simp only: strings_TrimSpace_def rev.simps dropWhile.simps)
  then have "\<not> is_space (hd (dropWhile is_space s))" by (rule hd_dropWhile)
  with hd_rev_dropWhile_rev [of is_space "dropWhile is_space s", folded strings_TrimSpace_def, OF ne] show ?thesis by simp
qed

lemma Fields_word: "w \<in> set (strings_Fields s) \<Longrightarrow> w \<noteq> [] \<and> list_all (\<lambda>c. \<not> is_space c) w"
proof (induction s rule: strings_Fields.induct)
  case (1 s)
  let ?t = "dropWhile is_space s"
  show ?case
  proof (cases "?t = []")
    case False
    have "strings_Fields s = takeWhile (\<lambda>c. \<not> is_space c) ?t # strings_Fields (dropWhile (\<lambda>c. \<not> is_space c) ?t)"
      by (subst strings_Fields.simps) (simp only: Let_def False if_False)
    with 1(2) consider "w = takeWhile (\<lambda>c. \<not> is_space c) ?t" | "w \<in> set (strings_Fields (dropWhile (\<lambda>c. \<not> is_space c) ?t))"
      by auto
    then show ?thesis
    proof cases
      case 1
      with False hd_dropWhile [OF False] show ?thesis
        by (cases ?t) (auto simp: list_all_iff dest: set_takeWhileD)
    next
      case 2
      from 1(1) [OF refl False this] show ?thesis .
    qed
  next
    case True
    with 1(2) show ?thesis by (subst (asm) strings_Fields.simps) simp
  qed
qed

lemma Fields_start: "s \<noteq> [] \<Longrightarrow> \<not> is_space (hd s) \<Longrightarrow> strings_Fields s \<noteq> []"
  by (cases s) (simp_all add: strings_Fields.simps Let_def)

lemma Join_word: "(\<And>x. x \<in> set xs \<Longrightarrow> list_all P x) \<Longrightarrow> list_all P sep \<Longrightarrow> list_all P (strings_Join xs sep)"
  by (induction xs sep rule: strings_Join.induct) auto

lemma Join_nonempty: "xs \<noteq> [] \<Longrightarrow> (\<And>x. x \<in> set xs \<Longrightarrow> x \<noteq> []) \<Longrightarrow> strings_Join xs sep \<noteq> []"
  by (induction xs sep rule: strings_Join.induct) auto

text \<open>The text a summary is cut from: trimmed, without inner exceptions, white space collapsed.\<close>

definition outer_message :: "string \<Rightarrow> string" where
  "outer_message s = (let t = strings_TrimSpace s; i = strings_Index t '' ---'' in if i > 0 then take (nat i) t else t)"

lemma summarizeError_eq:
  "summarizeError s =
     (let t = collapseWhitespace (outer_message s) in if length (runes t) > 160 then concat (take 160 (runes t)) @ ellipsis else t)"
  by (simp add: summarizeError_def outer_message_def Let_def)

lemma outer_message_hd: "\<not> list_all is_space s \<Longrightarrow> outer_message s \<noteq> [] \<and> \<not> is_space (hd (outer_message s))"
  using TrimSpace_hd [of s] TrimSpace_blank [of s] by (auto simp: outer_message_def Let_def)

lemma collapse_nonempty: "s \<noteq> [] \<Longrightarrow> \<not> is_space (hd s) \<Longrightarrow> collapseWhitespace s \<noteq> []"
  unfolding collapseWhitespace_def using Fields_start Fields_word by (intro Join_nonempty) blast+

lemma collapse_spaces: "list_all (\<lambda>c. is_space c \<longrightarrow> c = CHR '' '') (collapseWhitespace s)"
  unfolding collapseWhitespace_def by (rule Join_word) (auto simp: list_all_iff dest!: Fields_word)

lemma summarizeError_blank: "summarizeError s = [] \<longleftrightarrow> list_all is_space s"
proof
  show "summarizeError s = []" if "list_all is_space s"
  proof -
    from that have "outer_message s = []" by (simp add: outer_message_def TrimSpace_blank Let_def)
    then show ?thesis by (simp add: summarizeError_eq collapseWhitespace_def strings_Fields.simps)
  qed
  show "list_all is_space s" if "summarizeError s = []"
    using that outer_message_hd [of s] collapse_nonempty [of "outer_message s"]
    by (auto simp: summarizeError_eq Let_def ellipsis_def split: if_splits)
qed

text \<open>A summary fits an event: it has at most 643 bytes (160 runes of at most four bytes and the ellipsis), its only white space are
  blanks, and it is empty only for a blank message.\<close>

theorem summarizeError_bounds:
  "length (summarizeError s) \<le> 643 \<and> set (filter is_space (summarizeError s)) \<subseteq> {CHR '' ''} \<and>
   (summarizeError s = '''' \<longleftrightarrow> list_all is_space s)"
proof (intro conjI summarizeError_blank)
  let ?t = "collapseWhitespace (outer_message s)"
  have "length (concat (take 160 (runes ?t))) \<le> 4 * length (take 160 (runes ?t))"
    by (rule length_concat_le) (auto dest: in_set_takeD runes_piece)
  also have "\<dots> \<le> 640" by simp
  finally show "length (summarizeError s) \<le> 643"
    using length_runes [of ?t] by (simp add: summarizeError_eq Let_def ellipsis_def)
  have "is_space c \<longrightarrow> c = CHR '' ''" if "c \<in> set p" "p \<in> set (runes ?t)" for c p
    using that runes_piece [OF that(2)] collapse_spaces [of "outer_message s"]
    by (auto simp: list_all_iff replacement_def is_space_def)
  then have pieces: "\<forall>c \<in> set (concat (take 160 (runes ?t))). is_space c \<longrightarrow> c = CHR '' ''"
    by (auto dest!: in_set_takeD)
  have "\<forall>c \<in> set ?t. is_space c \<longrightarrow> c = CHR '' ''" "\<forall>c \<in> set ellipsis. \<not> is_space c"
    using collapse_spaces [of "outer_message s"] by (simp_all add: list_all_iff ellipsis_def is_space_def)
  with pieces show "set (filter is_space (summarizeError s)) \<subseteq> {CHR '' ''}"
    unfolding summarizeError_eq Let_def by (simp del: set_concat) blast
qed

text \<open>C21. The connectivity gate passes exactly when the leader answers the ping request with a status 2xx and a non-empty list of peers, none
  of which carries an error text other than white space.\<close>

theorem ClusterConnectivity_iff:
  "fst (fst (ClusterConnectivity env hcc h)) \<longleftrightarrow> baseURL hcc \<noteq> '''' \<and>
     (\<exists>body res. answered env hcc ''/admin/debug/node/ping'' h body \<and> e_DecodePing env body = Some res \<and> res \<noteq> [] \<and>
        list_all (\<lambda>it. list_all is_space (pi_SetupAliveError it) \<and> list_all is_space (pi_TcpInfoError it)) res)"
proof -
  have loop: "fst (ping_loop res) \<longleftrightarrow>
      list_all (\<lambda>it. list_all is_space (pi_SetupAliveError it) \<and> list_all is_space (pi_TcpInfoError it)) res" for res
    by (induction res) (auto simp: Let_def summarizeError_blank)
  show ?thesis
    by (auto simp: ClusterConnectivity_def clusterURL_def join_def httpGET_def http_get_def answered_def strings_TrimLeft_def Let_def loop
        split: if_splits option.splits http_answer.splits)
qed

subsection \<open>Witness\<close>

text \<open>A leader that reports one database on three nodes, of which B fails to load and is being upgraded.\<close>

definition sample_hcc :: HealthCheckContext where
  "sample_hcc = \<lparr>hcc_http = \<lparr>hc_Certificates = [], hc_RootCAs = None, hc_Timeout = 0\<rparr>, baseURL = ''https://a'', byTag = Map.empty\<rparr>"

definition sample_db :: databaseInfo where
  "sample_db = \<lparr>db_Name = ''orders'', db_Disabled = False, db_ReplicationFactor = 3, db_NodesTopology =
     \<lparr>nt_Members = [Some ''A'', Some '' B '', None], nt_Promotables = [Some ''A''], nt_Rehabs = [Some ''C''],
      nt_Status = [''A'' \<mapsto> \<lparr>ds_LastStatus = ''Ok'', ds_LastError = ''''\<rparr>,
        ''B'' \<mapsto> \<lparr>ds_LastStatus = ''Faulted'', ds_LastError = ''EndOfStreamException''\<rparr>]\<rparr>\<rparr>"

definition sample_db_env :: Env where
  "sample_db_env = (sample_env (\<lambda>_. Inl (NotFound '''')))\<lparr>e_DecodeDatabases := \<lambda>_. Some [sample_db]\<rparr>"

theorem DatabasesOnline_iff_witness:
  "\<exists>info h'. DatabasesOnline sample_db_env sample_hcc ''b'' [] = ((True, info, None), h') \<and> list_all (db_available ''b'') [sample_db]"
proof -
  obtain ok info err h' where r: "DatabasesOnline sample_db_env sample_hcc ''b'' [] = ((ok, info, err), h')" by (metis prod.exhaust)
  have tags: "db_tags sample_db = [''A'', ''B'', ''C'']" by code_simp
  have st: "status_is_ok (db_status sample_db ''A'')" "\<not> isHardLoadError (ds_LastError (db_status sample_db ''C''))"
    "strings_EqualFold ''B'' ''b''" "\<not> strings_EqualFold ''A'' ''b''" by code_simp+
  have "counted ''b'' sample_db ''A''" using tags st(4) by (simp add: counted_def)
  with tags st have "list_all (db_available ''b'') [sample_db]" by (auto simp: db_available_def counted_def)
  moreover have "answered sample_db_env sample_hcc ''/databases'' [] ''https://a/databases''"
    by (simp add: answered_def sample_db_env_def sample_env_def sample_hcc_def strings_TrimRight_def)
  moreover have "baseURL sample_hcc \<noteq> ''''" "e_DecodeDatabases sample_db_env body = Some [sample_db]" for body
    by (simp_all add: sample_db_env_def sample_hcc_def)
  ultimately have "ok" "err = None" using DatabasesOnline_iff [OF r] by blast+
  with r \<open>list_all (db_available ''b'') [sample_db]\<close> show ?thesis by auto
qed

end
