(* ===== verification/Actors.thy ===== *)
theory Actors
  imports Env StatusConditions
begin

text \<open>
  The actors (\<open>pkg/actor\<close>), the hook scripts they publish (\<open>pkg/scripts/hooks.go\<close>) and the director that runs them
  (\<open>pkg/director/director.go\<close>).  An actor builds its object, sets the owner and applies it with server-side apply.
  Building the object may panic, which makes the whole result \<open>None\<close>.
\<close>

type_synonym act_result = "((bool \<times> error) \<times> history) option"

subsection \<open>Applying\<close>

definition applyResourceSSA :: "Env \<Rightarrow> Object \<Rightarrow> string \<Rightarrow> history \<Rightarrow> (bool \<times> error) \<times> history" where
  "applyResourceSSA env desired fieldOwner h =
     (let desired = set_meta desired ((obj_meta desired)\<lparr>om_ResourceVersion := ''''\<rparr>);
          (err, h) = apply_obj env desired fieldOwner h
      in case err of
           Some e \<Rightarrow> ((False, Some (''apply (SSA) '' @ type_name desired @ '' '' @ om_Namespace (obj_meta desired) @ ''/'' @
                        om_Name (obj_meta desired) @ '': '' @ kerr_msg e)), h)
         | None \<Rightarrow> ((False, None), h))"

subsection \<open>The StatefulSet actor\<close>

text \<open>Step (1) of \<open>Act\<close>: annotations of the live object that the desired one lacks.\<close>

definition preserve_annotations :: "StatefulSet \<Rightarrow> StatefulSet \<Rightarrow> StatefulSet" where
  "preserve_annotations existing desired =
     desired\<lparr>sts_Meta := (sts_Meta desired)\<lparr>om_Annotations :=
       (\<lambda>k. case om_Annotations (sts_Meta desired) k of Some v \<Rightarrow> Some v | None \<Rightarrow> om_Annotations (sts_Meta existing) k)\<rparr>\<rparr>"

definition set_first_image :: "string \<Rightarrow> StatefulSet \<Rightarrow> StatefulSet" where
  "set_first_image img s =
     s\<lparr>sts_PodSpec := (sts_PodSpec s)\<lparr>ps_Containers :=
       (case ps_Containers (sts_PodSpec s) of [] \<Rightarrow> [] | ct # cts \<Rightarrow> ct\<lparr>ct_Image := img\<rparr> # cts)\<rparr>\<rparr>"

text \<open>Step (2.1): freeze the image unless the live object is marked for an upgrade.\<close>

definition freeze_image :: "StatefulSet \<Rightarrow> StatefulSet \<Rightarrow> StatefulSet" where
  "freeze_image existing desired =
     (case (ps_Containers (sts_PodSpec existing), ps_Containers (sts_PodSpec desired)) of
        (cur # _, _ # _) \<Rightarrow>
          (let marked = om_Annotations (sts_Meta existing) UpgradeImageAnnotation \<noteq> None
           in if \<not> marked then set_first_image (ct_Image cur) desired else desired)
      | _ \<Rightarrow> desired)"

definition StatefulSetActor_Act :: "Env \<Rightarrow> RavenDBCluster \<Rightarrow> RavenDBNode \<Rightarrow> history \<Rightarrow> act_result" where
  "StatefulSetActor_Act env cluster node h =
     do { desired \<leftarrow> BuildStatefulSet (e_parseQuantity env) cluster node;
          (let (got, h) = get_sts env (Namespace cluster) (om_Name (sts_Meta desired)) h;
               desired = (case got of
                            Inl _ \<Rightarrow> desired
                          | Inr existing \<Rightarrow> freeze_image existing (preserve_annotations existing desired))
           in case set_owner env cluster (ObjStatefulSet desired) of
                Inl err \<Rightarrow> Some ((False, Some (''set owner ref on StatefulSet: '' @ err)), h)
              | Inr obj \<Rightarrow>
                  (let ((changed, err), h) = applyResourceSSA env obj ''ravendb-operator/statefulset'' h
                   in case err of
                        Some e \<Rightarrow> Some ((False, Some (''failed to apply StatefulSet: '' @ e)), h)
                      | None \<Rightarrow> Some ((changed, None), h))) }"

subsection \<open>The other actors\<close>

definition ServiceActor_Act :: "Env \<Rightarrow> RavenDBCluster \<Rightarrow> RavenDBNode \<Rightarrow> history \<Rightarrow> act_result" where
  "ServiceActor_Act env cluster node h =
     do { svc \<leftarrow> BuildService cluster node;
          (case set_owner env cluster (ObjService svc) of
             Inl err \<Rightarrow> Some ((False, Some (''set owner ref on Service: '' @ err)), h)
           | Inr obj \<Rightarrow>
               (let ((changed, err), h) = applyResourceSSA env obj ''ravendb-operator/service'' h
                in case err of
                     Some e \<Rightarrow> Some ((False, Some (''failed to apply Service: '' @ e)), h)
                   | None \<Rightarrow> Some ((changed, None), h))) }"

definition ingressActor_Act :: "Env \<Rightarrow> RavenDBCluster \<Rightarrow> history \<Rightarrow> act_result" where
  "ingressActor_Act env cluster h =
     do { ing \<leftarrow> BuildIngress cluster;
          (case set_owner env cluster (ObjIngress ing) of
             Inl err \<Rightarrow> Some ((False, Some (''set owner ref on Ingress: '' @ err)), h)
           | Inr obj \<Rightarrow>
               (let ((changed, err), h) = applyResourceSSA env obj ''ravendb-operator/ingress'' h
                in case err of
                     Some e \<Rightarrow> Some ((False, Some (''failed to apply Ingress: '' @ e)), h)
                   | None \<Rightarrow> Some ((changed, None), h))) }"

definition ingressActor_ShouldAct :: "RavenDBCluster \<Rightarrow> bool" where
  "ingressActor_ShouldAct cluster =
     (case s_ExternalAccessConfiguration (Spec cluster) of
        None \<Rightarrow> False
      | Some externalAccess \<Rightarrow>
          if ea_Type externalAccess \<noteq> ExternalAccessTypeIngressController then False
          else (case ea_IngressControllerExternalAccess externalAccess of
                  None \<Rightarrow> True
                | Some ingressConfig \<Rightarrow> ic_IngressClassName ingressConfig \<noteq> IngressControllerTypeTraefik))"

text \<open>The builder of this actor is the Job builder, so the object is always a Job and the second \<open>applyResourceSSA\<close> of the
  source is not reached.\<close>

definition BootstrapperActor_Act :: "Env \<Rightarrow> RavenDBCluster \<Rightarrow> history \<Rightarrow> act_result" where
  "BootstrapperActor_Act env cluster h =
     do { job \<leftarrow> BuildJob cluster;
          (case set_owner env cluster (ObjJob job) of
             Inl err \<Rightarrow> Some ((False, Some (''set owner ref on bootstrapper resource: '' @ err)), h)
           | Inr bs \<Rightarrow>
               (let ((_, err), h) = applyResourceSSA env bs ''ravendb-operator/job'' h
                in Some ((False, err), h))) }"

definition BootstrapperActor_ShouldAct :: "RavenDBCluster \<Rightarrow> bool" where
  "BootstrapperActor_ShouldAct cluster \<longleftrightarrow> \<not> IsBootstrapped cluster"

definition normalizeLF :: "string \<Rightarrow> string" where
  "normalizeLF s = strings_ReplaceAll s [CHR 0x0D, CHR 0x0A] [CHR 0x0A]"

definition hook_config_map :: "RavenDBCluster \<Rightarrow> string \<Rightarrow> gomap \<Rightarrow> Object" where
  "hook_config_map cluster name content =
     ObjConfigMap \<lparr>cm_Meta = new_meta name (Namespace cluster)
         [LabelAppName \<mapsto> App, LabelManagedBy \<mapsto> Manager, LabelInstance \<mapsto> Name cluster] Map.empty,
       cm_Data = content\<rparr>"

definition HooksActor_Act :: "Env \<Rightarrow> RavenDBCluster \<Rightarrow> history \<Rightarrow> act_result" where
  "HooksActor_Act env cluster h =
     (let bootstrapperCM = hook_config_map cluster BootstrapperHookConfigMap
            [InitClusterHookKey \<mapsto> normalizeLF (e_initClusterScriptRaw env),
             CheckNodesDiscoverabilityHookKey \<mapsto> normalizeLF (e_checkNodesDiscoverabilityScriptRaw env)] in
      case set_owner env cluster bootstrapperCM of
        Inl err \<Rightarrow> Some ((False, Some (''set owner ref on bootstrapper hook ConfigMap: '' @ err)), h)
      | Inr obj \<Rightarrow>
          (let ((_, err), h) = applyResourceSSA env obj ''ravendb-operator/hooks'' h in
           case err of
             Some e \<Rightarrow> Some ((False, Some (''apply bootstrapper hook ConfigMap: '' @ e)), h)
           | None \<Rightarrow>
               (let certHookCM = hook_config_map cluster CertHookConfigMap
                      [UpdateCertHookKey \<mapsto> normalizeLF (e_updateCertScriptRaw env),
                       GetCertHookKey \<mapsto> normalizeLF (e_getServerCertScriptRaw env)] in
                case set_owner env cluster certHookCM of
                  Inl err \<Rightarrow> Some ((False, Some (''set owner ref on cert hook ConfigMap: '' @ err)), h)
                | Inr obj \<Rightarrow>
                    (let ((_, err), h) = applyResourceSSA env obj ''ravendb-operator/hooks'' h in
                     case err of
                       Some e \<Rightarrow> Some ((False, Some (''apply cert hook ConfigMap: '' @ e)), h)
                     | None \<Rightarrow> Some ((False, None), h)))))"

definition HooksActor_ShouldAct :: "RavenDBCluster \<Rightarrow> bool" where
  "HooksActor_ShouldAct cluster = True"

subsection \<open>The director\<close>

record PerNodeActor =
  pna_Name :: string
  pna_Act :: "Env \<Rightarrow> RavenDBCluster \<Rightarrow> RavenDBNode \<Rightarrow> history \<Rightarrow> act_result"

record PerClusterActor =
  pca_Name :: string
  pca_ShouldAct :: "RavenDBCluster \<Rightarrow> bool"
  pca_Act :: "Env \<Rightarrow> RavenDBCluster \<Rightarrow> history \<Rightarrow> act_result"

record DefaultDirector =
  perNodeActors :: "PerNodeActor list"
  perClusterActors :: "PerClusterActor list"

text \<open>The constructors of the actors give them their names; the builders they are given are those of the director below.\<close>

definition NewIngressActor :: PerClusterActor where [simp]:
  "NewIngressActor = \<lparr>pca_Name = ''IngressActor'', pca_ShouldAct = ingressActor_ShouldAct, pca_Act = ingressActor_Act\<rparr>"

definition NewBootstrapperActor :: PerClusterActor where [simp]:
  "NewBootstrapperActor = \<lparr>pca_Name = ''BootstrapperActor'', pca_ShouldAct = BootstrapperActor_ShouldAct, pca_Act = BootstrapperActor_Act\<rparr>"

definition NewHooksActor :: PerClusterActor where [simp]:
  "NewHooksActor = \<lparr>pca_Name = ''HooksActor'', pca_ShouldAct = HooksActor_ShouldAct, pca_Act = HooksActor_Act\<rparr>"

definition NewStatefulSetActor :: PerNodeActor where [simp]:
  "NewStatefulSetActor = \<lparr>pna_Name = ''StatefulSetActor'', pna_Act = StatefulSetActor_Act\<rparr>"

definition NewServiceActor :: PerNodeActor where [simp]:
  "NewServiceActor = \<lparr>pna_Name = ''ServiceActor'', pna_Act = ServiceActor_Act\<rparr>"

definition NewDefaultDirector :: DefaultDirector where
  "NewDefaultDirector =
     \<lparr>perNodeActors = [NewStatefulSetActor, NewServiceActor],
      perClusterActors = [NewIngressActor, NewBootstrapperActor, NewHooksActor]\<rparr>"

fun per_cluster_loop :: "PerClusterActor list \<Rightarrow> bool \<Rightarrow> Env \<Rightarrow> RavenDBCluster \<Rightarrow> history \<Rightarrow> act_result" where
  "per_cluster_loop [] anyChanged env cluster h = Some ((anyChanged, None), h)"
| "per_cluster_loop (a # as) anyChanged env cluster h =
     (if \<not> pca_ShouldAct a cluster then per_cluster_loop as anyChanged env cluster h
      else do { ((changed, err), h) \<leftarrow> pca_Act a env cluster h;
                (case err of
                   Some e \<Rightarrow> Some ((False, Some (pca_Name a @ '' failed: '' @ e)), h)
                 | None \<Rightarrow> per_cluster_loop as (if changed then True else anyChanged) env cluster h) })"

definition ExecutePerCluster :: "DefaultDirector \<Rightarrow> Env \<Rightarrow> RavenDBCluster \<Rightarrow> history \<Rightarrow> act_result" where
  "ExecutePerCluster d env cluster h = per_cluster_loop (perClusterActors d) False env cluster h"

fun per_node_loop ::
  "PerNodeActor list \<Rightarrow> bool \<Rightarrow> Env \<Rightarrow> RavenDBCluster \<Rightarrow> RavenDBNode \<Rightarrow> history \<Rightarrow> act_result" where
  "per_node_loop [] anyChanged env cluster node h = Some ((anyChanged, None), h)"
| "per_node_loop (a # as) anyChanged env cluster node h =
     do { ((changed, err), h) \<leftarrow> pna_Act a env cluster node h;
          (case err of
             Some e \<Rightarrow> Some ((False, Some (pna_Name a @ '' failed: '' @ e)), h)
           | None \<Rightarrow> per_node_loop as (if changed then True else anyChanged) env cluster node h) }"

definition ExecutePerNode ::
  "DefaultDirector \<Rightarrow> Env \<Rightarrow> RavenDBCluster \<Rightarrow> RavenDBNode \<Rightarrow> history \<Rightarrow> act_result" where
  "ExecutePerNode d env cluster node h = per_node_loop (perNodeActors d) False env cluster node h"

subsection \<open>What an apply does to the history\<close>


lemma type_name_set_meta [simp]: "type_name (set_meta obj m) = type_name obj"
  by (cases obj) simp_all

definition ssa_object :: "Object \<Rightarrow> Object" where
  "ssa_object obj = set_meta obj ((obj_meta obj)\<lparr>om_ResourceVersion := ''''\<rparr>)"

definition ssa_error :: "Env \<Rightarrow> Object \<Rightarrow> string \<Rightarrow> history \<Rightarrow> error" where
  "ssa_error env obj fo h = snd (fst (applyResourceSSA env obj fo h))"

lemma applyResourceSSA_eq:
  "applyResourceSSA env obj fo h = ((False, ssa_error env obj fo h), h @ [Apply (ssa_object obj) fo])"
  by (auto simp: applyResourceSSA_def ssa_object_def ssa_error_def Let_def apply_obj_def split: option.splits)

lemma ssa_error_None: "ssa_error env obj fo h = None \<longleftrightarrow> e_Apply env h (ssa_object obj) fo = None"
  by (auto simp: applyResourceSSA_def ssa_object_def ssa_error_def Let_def apply_obj_def split: option.splits)

lemma ssa_object_meta [simp]:
  "om_Name (obj_meta (ssa_object obj)) = om_Name (obj_meta obj)"
  "om_Namespace (obj_meta (ssa_object obj)) = om_Namespace (obj_meta obj)"
  "om_Annotations (obj_meta (ssa_object obj)) = om_Annotations (obj_meta obj)"
  "type_name (ssa_object obj) = type_name obj"
  by (cases obj; simp add: ssa_object_def)+

text \<open>\<open>controllerutil.SetControllerReference\<close> adds an owner reference and changes nothing else of the metadata.\<close>

definition owner_ref_ok :: "Env \<Rightarrow> bool" where
  "owner_ref_ok env \<longleftrightarrow> (\<forall>c m m'. e_SetControllerReference env c m = Inr m' \<longrightarrow>
     om_Name m' = om_Name m \<and> om_Namespace m' = om_Namespace m \<and> om_Labels m' = om_Labels m \<and>
     om_Annotations m' = om_Annotations m)"

lemma set_owner_meta:
  "owner_ref_ok env \<Longrightarrow> set_owner env c obj = Inr obj' \<Longrightarrow>
   \<exists>m. obj' = set_meta obj m \<and> om_Name m = om_Name (obj_meta obj) \<and> om_Namespace m = om_Namespace (obj_meta obj) \<and>
       om_Annotations m = om_Annotations (obj_meta obj)"
  by (auto simp: set_owner_def owner_ref_ok_def split: sum.splits)

text \<open>The contract of an actor of one node: it never reports a change, and it only reads StatefulSets and applies objects
  named after the node in the cluster's namespace.\<close>

definition node_request :: "RavenDBCluster \<Rightarrow> RavenDBNode \<Rightarrow> request \<Rightarrow> bool" where
  "node_request c n e \<longleftrightarrow>
     (case e of
        GetStatefulSet ns name \<Rightarrow> ns = Namespace c \<and> name = Prefix @ n_Tag n
      | Apply obj fo \<Rightarrow> om_Namespace (obj_meta obj) = Namespace c \<and> om_Name (obj_meta obj) = Prefix @ n_Tag n \<and>
          type_name obj \<in> {''*v1.StatefulSet'', ''*v1.Service''}
      | _ \<Rightarrow> False)"

locale node_actor =
  fixes act :: "Env \<Rightarrow> RavenDBCluster \<Rightarrow> RavenDBNode \<Rightarrow> history \<Rightarrow> act_result"
  assumes never_changed: "act env c n h = Some ((ch, err), h') \<Longrightarrow> \<not> ch"
    and footprint: "owner_ref_ok env \<Longrightarrow> act env c n h = Some (r, h') \<Longrightarrow> extends (node_request c n) h h'"
begin

text \<open>A loop round that runs this actor keeps the contract if the rest of the loop does.\<close>

lemma loop_step:
  assumes rest: "\<And>any h r h'. per_node_loop as any env c n h = Some (r, h') \<Longrightarrow> extends (node_request c n) h h'"
    and "owner_ref_ok env" "per_node_loop (\<lparr>pna_Name = name, pna_Act = act\<rparr> # as) any env c n h = Some (r, h')"
  shows "extends (node_request c n) h h'"
  using assms(3)
  by (auto simp: bind_eq_Some_conv split: option.splits intro: extends_trans [OF footprint [OF assms(2)] rest]
      dest: footprint [OF assms(2)])

lemma loop_step_changed:
  assumes rest: "\<And>h ch err h'. per_node_loop as False env c n h = Some ((ch, err), h') \<Longrightarrow> \<not> ch"
    and "per_node_loop (\<lparr>pna_Name = name, pna_Act = act\<rparr> # as) False env c n h = Some ((ch, err), h')"
  shows "\<not> ch"
  using assms(2) by (auto simp: bind_eq_Some_conv split: option.splits if_splits dest: rest never_changed)

end

lemma sts_name: "BuildStatefulSet pq c n = Some s \<Longrightarrow>
  om_Name (sts_Meta s) = Prefix @ n_Tag n \<and> om_Namespace (sts_Meta s) = Namespace c"
  by (auto simp: BuildStatefulSet_def Let_def bind_eq_Some_conv new_meta_def)

lemma freeze_meta [simp]: "sts_Meta (freeze_image e d) = sts_Meta d"
  by (auto simp: freeze_image_def set_first_image_def Let_def split: list.splits)

lemma preserve_meta [simp]:
  "om_Name (sts_Meta (preserve_annotations e d)) = om_Name (sts_Meta d)"
  "om_Namespace (sts_Meta (preserve_annotations e d)) = om_Namespace (sts_Meta d)"
  by (simp_all add: preserve_annotations_def)

text \<open>The object the StatefulSet actor applies, as a function of the answer to its read.\<close>

definition desired_sts :: "kerr + StatefulSet \<Rightarrow> StatefulSet \<Rightarrow> StatefulSet" where
  "desired_sts got d = (case got of Inl _ \<Rightarrow> d | Inr existing \<Rightarrow> freeze_image existing (preserve_annotations existing d))"

lemma StatefulSetActor_cases:
  assumes "StatefulSetActor_Act env c n h = Some ((ch, err), h')" "owner_ref_ok env"
  obtains d where "BuildStatefulSet (e_parseQuantity env) c n = Some d"
    "\<not> ch" "err \<noteq> None" "h' = h @ [GetStatefulSet (Namespace c) (Prefix @ n_Tag n)]"
  | d m where "BuildStatefulSet (e_parseQuantity env) c n = Some d" "\<not> ch"
    "h' = h @ [GetStatefulSet (Namespace c) (Prefix @ n_Tag n),
       Apply (ObjStatefulSet ((desired_sts (e_GetStatefulSet env h (Namespace c) (Prefix @ n_Tag n)) d)\<lparr>sts_Meta := m\<rparr>))
         ''ravendb-operator/statefulset'']"
    "om_Name m = Prefix @ n_Tag n" "om_Namespace m = Namespace c"
    "om_Annotations m = om_Annotations (sts_Meta (desired_sts (e_GetStatefulSet env h (Namespace c) (Prefix @ n_Tag n)) d))"
proof -
  from assms(1) obtain d where d: "BuildStatefulSet (e_parseQuantity env) c n = Some d"
    by (auto simp: StatefulSetActor_Act_def bind_eq_Some_conv)
  note name = sts_name [OF d]
  let ?d = "desired_sts (e_GetStatefulSet env h (Namespace c) (Prefix @ n_Tag n)) d"
  have meta: "om_Name (sts_Meta ?d) = Prefix @ n_Tag n" "om_Namespace (sts_Meta ?d) = Namespace c"
    using name by (auto simp: desired_sts_def split: sum.splits)
  let ?h = "h @ [GetStatefulSet (Namespace c) (Prefix @ n_Tag n)]"
  show thesis
  proof (cases "set_owner env c (ObjStatefulSet ?d)")
    case (Inl e)
    with assms(1) d name show thesis
      by (intro that(1)) (auto simp: StatefulSetActor_Act_def get_sts_def desired_sts_def)
  next
    case (Inr obj)
    from set_owner_meta [OF assms(2) Inr] obtain m where m: "obj = set_meta (ObjStatefulSet ?d) m"
      "om_Name m = om_Name (sts_Meta ?d)" "om_Namespace m = om_Namespace (sts_Meta ?d)"
      "om_Annotations m = om_Annotations (sts_Meta ?d)" by auto
    from assms(1) d name Inr have "\<not> ch" "h' = ?h @ [Apply (ssa_object obj) ''ravendb-operator/statefulset'']"
      by (auto simp: StatefulSetActor_Act_def get_sts_def desired_sts_def applyResourceSSA_eq split: option.splits)
    with m meta d show thesis
      by (intro that(2) [of d "m\<lparr>om_ResourceVersion := []\<rparr>"]) (auto simp: ssa_object_def)
  qed
qed

interpretation sts_actor: node_actor StatefulSetActor_Act
proof
  fix env c n h ch err h'
  assume a: "StatefulSetActor_Act env c n h = Some ((ch, err), h')"
  then obtain d where d: "BuildStatefulSet (e_parseQuantity env) c n = Some d"
    by (auto simp: StatefulSetActor_Act_def bind_eq_Some_conv)
  let ?d = "desired_sts (e_GetStatefulSet env h (Namespace c) (om_Name (sts_Meta d))) d"
  show "\<not> ch"
    using a d by (cases "set_owner env c (ObjStatefulSet ?d)")
      (auto simp: StatefulSetActor_Act_def Let_def get_sts_def applyResourceSSA_eq desired_sts_def split: option.splits)
next
  fix env c n h r h'
  assume o: "owner_ref_ok env" and a: "StatefulSetActor_Act env c n h = Some (r, h')"
  obtain ch err where "r = (ch, err)" by (cases r)
  with a have "StatefulSetActor_Act env c n h = Some ((ch, err), h')" by simp
  then show "extends (node_request c n) h h'"
    using o by (rule StatefulSetActor_cases) (auto simp: extends_def node_request_def)
qed

interpretation svc_actor: node_actor ServiceActor_Act
proof
  fix env c n h ch err h'
  assume a: "ServiceActor_Act env c n h = Some ((ch, err), h')"
  then obtain svc where svc: "BuildService c n = Some svc" by (auto simp: ServiceActor_Act_def bind_eq_Some_conv)
  show "\<not> ch"
    using a svc by (cases "set_owner env c (ObjService svc)")
      (auto simp: ServiceActor_Act_def Let_def applyResourceSSA_eq split: option.splits)
next
  fix env c n h r h'
  assume o: "owner_ref_ok env" and a: "ServiceActor_Act env c n h = Some (r, h')"
  then obtain svc where svc: "BuildService c n = Some svc" by (auto simp: ServiceActor_Act_def bind_eq_Some_conv)
  show "extends (node_request c n) h h'"
  proof (cases "set_owner env c (ObjService svc)")
    case (Inl e)
    with a svc show ?thesis by (simp add: ServiceActor_Act_def)
  next
    case (Inr obj)
    with a svc have "h' = h @ [Apply (ssa_object obj) ''ravendb-operator/service'']"
      by (auto simp: ServiceActor_Act_def Let_def applyResourceSSA_eq split: option.splits)
    with set_owner_meta [OF o Inr] BuildService_fields [OF svc] show ?thesis
      by (auto simp: extends_def node_request_def)
  qed
qed

text \<open>The contract of an actor of the whole cluster: it applies a list of objects, each with its field owner, one after the other.
  Each gets the owner reference and no resource version; the first reference that cannot be set and the first apply
  that is refused end the list.  An entry is \<open>None\<close> if its builder panics.\<close>

fun apply_plan :: "Env \<Rightarrow> RavenDBCluster \<Rightarrow> (Object \<times> string) option list \<Rightarrow> history \<Rightarrow> (bool \<times> history) option" where
  "apply_plan env c [] h = Some (True, h)"
| "apply_plan env c (None # plan) h = None"
| "apply_plan env c (Some (obj, owner) # plan) h =
     (case e_SetControllerReference env c (obj_meta obj) of
        Inl _ \<Rightarrow> Some (False, h)
      | Inr m \<Rightarrow>
          (let obj' = set_meta obj (m\<lparr>om_ResourceVersion := ''''\<rparr>); h' = h @ [Apply obj' owner]
           in if e_Apply env h obj' owner = None then apply_plan env c plan h' else Some (False, h')))"

text \<open>A run of actors as seen from outside: the change flag, whether there was no error, and the requests.\<close>

definition outcome :: "act_result \<Rightarrow> (bool \<times> bool \<times> history) option" where
  "outcome r = map_option (\<lambda>((changed, err), h'). (changed, err = None, h')) r"

definition planned :: "(bool \<times> history) option \<Rightarrow> (bool \<times> bool \<times> history) option" where
  "planned r = map_option (\<lambda>(ok, h'). (False, ok, h')) r"

lemma apply_plan_append:
  "apply_plan env c (xs @ ys) h =
     (case apply_plan env c xs h of
        None \<Rightarrow> None
      | Some (ok, h') \<Rightarrow> if ok then apply_plan env c ys h' else Some (False, h'))"
  by (induction env c xs h rule: apply_plan.induct) (auto simp: Let_def split: sum.splits)

lemma apply_plan_extends:
  assumes "apply_plan env c plan h = Some (ok, h')" "\<And>obj owner. Some (obj, owner) \<in> set plan \<Longrightarrow> type_name obj \<in> T"
    and Q: "\<And>obj owner. type_name obj \<in> T \<Longrightarrow> Q (Apply obj owner)"
  shows "extends Q h h'"
  using assms(1,2)
proof (induction env c plan h rule: apply_plan.induct)
  case (3 env c obj owner plan h)
  have one: "extends Q h (h @ [Apply (set_meta obj m) owner])" for m
    using 3(3) [of obj owner] by (simp add: extends_def Q)
  show ?case
  proof (cases "e_SetControllerReference env c (obj_meta obj)")
    case (Inr m)
    let ?obj = "set_meta obj (m\<lparr>om_ResourceVersion := ''''\<rparr>)"
    show ?thesis
    proof (cases "e_Apply env h ?obj owner = None")
      case True
      with 3(2) Inr have "apply_plan env c plan (h @ [Apply ?obj owner]) = Some (ok, h')" by (simp add: Let_def)
      then have "extends Q (h @ [Apply ?obj owner]) h'" by (rule 3(1) [OF Inr refl refl True]) (rule 3(3), rule list.set_intros(2))
      with one show ?thesis by (rule extends_trans)
    qed (use 3(2) Inr one in \<open>auto simp: Let_def\<close>)
  qed (use 3(2) in simp)
qed simp_all

locale cluster_actor =
  fixes act :: "Env \<Rightarrow> RavenDBCluster \<Rightarrow> history \<Rightarrow> act_result"
    and plan :: "Env \<Rightarrow> RavenDBCluster \<Rightarrow> (Object \<times> string) option list"
  assumes contract: "outcome (act env c h) = planned (apply_plan env c (plan env c) h)"
begin

lemma loop_step:
  assumes rest: "\<And>h. outcome (per_cluster_loop as False env c h) = planned (apply_plan env c us h)"
  shows "outcome (per_cluster_loop (\<lparr>pca_Name = name, pca_ShouldAct = should, pca_Act = act\<rparr> # as) False env c h) =
    planned (apply_plan env c ((if should c then plan env c else []) @ us) h)"
proof (cases "should c")
  case True
  with contract [of env c h] show ?thesis
    by (auto simp: apply_plan_append outcome_def planned_def rest [unfolded outcome_def planned_def]
        split: option.splits prod.splits) (metis (full_types) not_None_eq)+
next
  case False
  with rest show ?thesis by simp
qed

end

lemma ssa_error_Some: "ssa_error env obj fo h = Some e \<Longrightarrow> e_Apply env h (ssa_object obj) fo \<noteq> None"
  using ssa_error_None [of env obj fo h] by simp

lemma set_meta_twice [simp]: "set_meta (set_meta obj m) m' = set_meta obj m'"
  by (cases obj) simp_all

lemmas actor_simps = outcome_def planned_def set_owner_def applyResourceSSA_eq ssa_object_def ssa_error_None Let_def

definition ingress_plan :: "RavenDBCluster \<Rightarrow> (Object \<times> string) option list" where
  "ingress_plan c = [map_option (\<lambda>ing. (ObjIngress ing, ''ravendb-operator/ingress'')) (BuildIngress c)]"

definition job_plan :: "RavenDBCluster \<Rightarrow> (Object \<times> string) option list" where
  "job_plan c = [map_option (\<lambda>job. (ObjJob job, ''ravendb-operator/job'')) (BuildJob c)]"

definition hooks_plan :: "Env \<Rightarrow> RavenDBCluster \<Rightarrow> (Object \<times> string) option list" where
  "hooks_plan env c =
     [Some (hook_config_map c BootstrapperHookConfigMap
        [InitClusterHookKey \<mapsto> normalizeLF (e_initClusterScriptRaw env),
         CheckNodesDiscoverabilityHookKey \<mapsto> normalizeLF (e_checkNodesDiscoverabilityScriptRaw env)], ''ravendb-operator/hooks''),
      Some (hook_config_map c CertHookConfigMap
        [UpdateCertHookKey \<mapsto> normalizeLF (e_updateCertScriptRaw env), GetCertHookKey \<mapsto> normalizeLF (e_getServerCertScriptRaw env)],
        ''ravendb-operator/hooks'')]"

interpretation ing_actor: cluster_actor ingressActor_Act "\<lambda>env. ingress_plan"
  by unfold_locales
    (auto simp: ingressActor_Act_def ingress_plan_def actor_simps split: option.splits sum.splits Option.bind_splits
      dest!: ssa_error_Some)

interpretation boot_actor: cluster_actor BootstrapperActor_Act "\<lambda>env. job_plan"
  by unfold_locales
    (auto simp: BootstrapperActor_Act_def job_plan_def actor_simps split: option.splits sum.splits Option.bind_splits
      dest!: ssa_error_Some)

interpretation hooks_actor: cluster_actor HooksActor_Act hooks_plan
  by unfold_locales
    (auto simp: HooksActor_Act_def hooks_plan_def actor_simps split: option.splits sum.splits dest!: ssa_error_Some)

subsection \<open>Properties\<close>

lemma built_images: "BuildStatefulSet pq c n = Some d \<Longrightarrow> map ct_Image (ps_Containers (sts_PodSpec d)) = [s_Image (Spec c)]"
  by (auto dest!: BuildStatefulSet_parts simp: BuildRavenDBContainer_def empty_container_def)

lemma built_annotations:
  "BuildStatefulSet pq c n = Some d \<Longrightarrow> om_Annotations (sts_Meta d) = [IngressSSLPassthroughAnnotation \<mapsto> ''true'']"
  by (auto simp: BuildStatefulSet_def Let_def bind_eq_Some_conv new_meta_def buildStatefulsetAnnotations_def)

lemma freeze_images:
  assumes "map ct_Image (ps_Containers (sts_PodSpec d)) = [img]"
  shows "map ct_Image (ps_Containers (sts_PodSpec (freeze_image live (preserve_annotations live d)))) =
    [if om_Annotations (sts_Meta live) UpgradeImageAnnotation = None \<and> ps_Containers (sts_PodSpec live) \<noteq> []
     then ct_Image (hd (ps_Containers (sts_PodSpec live))) else img]"
  using assms by (auto simp: freeze_image_def preserve_annotations_def set_first_image_def Let_def split: list.splits)

text \<open>C15. The freeze policy of the StatefulSet actor.  Whatever it applies has one container.  If the live StatefulSet can be read, the image is
  the live one unless the upgrade annotation is set, in which case it is the image of the specification; the annotations are exactly the
  live ones, the upgrade mark among them, except that the one the builder sets, \<open>ingress.kubernetes.io/ssl-passthrough\<close>, is
  \<open>true\<close> whatever its live value was.  If the read fails, for whatever reason, the applied image is that of the specification and the
  only annotation is the builder's.\<close>

theorem StatefulSetActor_freeze:
  assumes "owner_ref_ok env" "StatefulSetActor_Act env c n h = Some (r, h')"
    and "Apply (ObjStatefulSet d) fo \<in> set (drop (length h) h')"
  shows "case e_GetStatefulSet env h (Namespace c) (Prefix @ n_Tag n) of
           Inl _ \<Rightarrow> map ct_Image (ps_Containers (sts_PodSpec d)) = [s_Image (Spec c)] \<and>
             om_Annotations (sts_Meta d) = [''ingress.kubernetes.io/ssl-passthrough'' \<mapsto> ''true'']
         | Inr live \<Rightarrow>
             map ct_Image (ps_Containers (sts_PodSpec d)) =
               [if om_Annotations (sts_Meta live) UpgradeImageAnnotation = None \<and> ps_Containers (sts_PodSpec live) \<noteq> []
                then ct_Image (hd (ps_Containers (sts_PodSpec live))) else s_Image (Spec c)] \<and>
             om_Annotations (sts_Meta d) =
               (om_Annotations (sts_Meta live))(''ingress.kubernetes.io/ssl-passthrough'' \<mapsto> ''true'')"
proof -
  obtain ch err where "StatefulSetActor_Act env c n h = Some ((ch, err), h')" using assms(2) by (cases r) simp
  then show ?thesis
    using assms(1)
  proof (rule StatefulSetActor_cases)
    fix d0 m
    let ?got = "e_GetStatefulSet env h (Namespace c) (Prefix @ n_Tag n)"
    assume b: "BuildStatefulSet (e_parseQuantity env) c n = Some d0"
      and h': "h' = h @ [GetStatefulSet (Namespace c) (Prefix @ n_Tag n),
         Apply (ObjStatefulSet ((desired_sts ?got d0)\<lparr>sts_Meta := m\<rparr>)) ''ravendb-operator/statefulset'']"
      and ann: "om_Annotations m = om_Annotations (sts_Meta (desired_sts ?got d0))"
    from h' assms(3) have d: "d = (desired_sts ?got d0)\<lparr>sts_Meta := m\<rparr>" by auto
    show ?thesis
      using built_images [OF b] built_annotations [OF b] ann freeze_images [OF built_images [OF b]]
      by (auto simp: d desired_sts_def preserve_annotations_def IngressSSLPassthroughAnnotation_def split: sum.splits)
  qed (use assms(3) in simp)
qed

lemma per_node_footprint:
  assumes "owner_ref_ok env" "ExecutePerNode NewDefaultDirector env c n h = Some ((ch, err), h')"
  shows "extends (node_request c n) h h' \<and> \<not> ch"
proof
  let ?svc = "\<lparr>pna_Name = ''ServiceActor'', pna_Act = ServiceActor_Act\<rparr>"
  let ?sts = "\<lparr>pna_Name = ''StatefulSetActor'', pna_Act = StatefulSetActor_Act\<rparr>"
  have run: "per_node_loop [?sts, ?svc] False env c n h = Some ((ch, err), h')"
    using assms(2) by (simp add: ExecutePerNode_def NewDefaultDirector_def del: per_node_loop.simps)
  have svc: "extends (node_request c n) h1 h2" if "per_node_loop [?svc] any env c n h1 = Some (r, h2)" for any h1 r h2
    by (rule svc_actor.loop_step [OF _ assms(1) that]) auto
  show "extends (node_request c n) h h'"
    by (rule sts_actor.loop_step [OF svc assms(1) run])
  have svc': "\<not> ch1" if "per_node_loop [?svc] False env c n h1 = Some ((ch1, err1), h2)" for h1 ch1 err1 h2
    by (rule svc_actor.loop_step_changed [OF _ that]) auto
  show "\<not> ch"
    by (rule sts_actor.loop_step_changed [OF svc' run])
qed

text \<open>Running the actors of one node touches that node only: it reads the node's StatefulSet and applies objects named after
  the node in the cluster's namespace, nothing else.  The change flag the director returns is always false.\<close>

theorem ExecutePerNode_footprint:
  assumes "owner_ref_ok env" "ExecutePerNode NewDefaultDirector env c n h = Some ((ch, err), h')"
  shows "extends (node_request c n) h h' \<and> \<not> ch"
  using assms by (rule per_node_footprint)

lemma per_cluster_plan:
  "outcome (ExecutePerCluster NewDefaultDirector env c h) =
     planned (apply_plan env c ((if ingressActor_ShouldAct c then ingress_plan c else []) @ (if IsBootstrapped c then [] else job_plan c) @
       hooks_plan env c) h)"
proof -
  let ?hooks = "[NewHooksActor]" and ?boot = "[NewBootstrapperActor, NewHooksActor]"
  have hooks: "outcome (per_cluster_loop ?hooks False env c h) =
      planned (apply_plan env c ((if HooksActor_ShouldAct c then hooks_plan env c else []) @ []) h)" for h
    unfolding NewHooksActor_def by (rule hooks_actor.loop_step) (simp add: outcome_def planned_def)
  have boot: "outcome (per_cluster_loop ?boot False env c h) =
      planned (apply_plan env c ((if BootstrapperActor_ShouldAct c then job_plan c else []) @
        (if HooksActor_ShouldAct c then hooks_plan env c else []) @ []) h)" for h
    unfolding NewBootstrapperActor_def by (rule boot_actor.loop_step [OF hooks])
  have "outcome (ExecutePerCluster NewDefaultDirector env c h) =
      planned (apply_plan env c ((if ingressActor_ShouldAct c then ingress_plan c else []) @
        (if BootstrapperActor_ShouldAct c then job_plan c else []) @ (if HooksActor_ShouldAct c then hooks_plan env c else []) @ []) h)"
    unfolding ExecutePerCluster_def NewDefaultDirector_def DefaultDirector.simps NewIngressActor_def
    by (rule ing_actor.loop_step [OF boot])
  then show ?thesis by (simp add: HooksActor_ShouldAct_def BootstrapperActor_ShouldAct_def if_not_P)
qed

lemma plan_types:
  "Some (obj, owner) \<in> set ((if ingressActor_ShouldAct c then ingress_plan c else []) @
     (if IsBootstrapped c then [] else job_plan c) @ hooks_plan env c) \<Longrightarrow>
   type_name obj \<in> {''*v1.Ingress'', ''*v1.Job'', ''*v1.ConfigMap''}"
  by (auto simp: ingress_plan_def job_plan_def hooks_plan_def hook_config_map_def map_option_case split: if_splits option.splits)

text \<open>The cluster-wide actors apply Ingresses, Jobs and ConfigMaps, and make no other request.\<close>

lemma per_cluster_extends:
  assumes "ExecutePerCluster NewDefaultDirector env c h = Some ((ch, err), h')"
    and Q: "\<And>obj fo. type_name obj \<in> {''*v1.Ingress'', ''*v1.Job'', ''*v1.ConfigMap''} \<Longrightarrow> Q (Apply obj fo)"
  shows "extends Q h h'"
proof -
  from per_cluster_plan [of env c h] assms(1) obtain ok where "apply_plan env c ((if ingressActor_ShouldAct c then ingress_plan c else []) @
      (if IsBootstrapped c then [] else job_plan c) @ hooks_plan env c) h = Some (ok, h')"
    by (fastforce simp: outcome_def planned_def map_option_case split: option.splits)
  then show ?thesis using plan_types Q by (rule apply_plan_extends)
qed

lemma find_condition_find: "find_condition cs t = find (\<lambda>cd. c_Type cd = t) cs"
  by (induction cs) simp_all

text \<open>C28. The cluster-wide actors are exactly the application of one list of objects, whatever the API server answers.  The list has, in
  this order: the Ingress, if the external access is of type \<open>ingress-controller\<close> and its class is not \<open>traefik\<close> (a missing class counts
  as another one); the bootstrap Job, unless the first \<open>BootstrapCompleted\<close> condition of the status is \<open>True\<close>; and the two hook config
  maps, with the four embedded scripts under their keys, Windows line ends replaced.  Each object gets the owner reference of the cluster and is
  applied under the field owner of its actor; the first owner reference that cannot be set and the first apply that is refused end the run
  with an error, and there is an error in no other case.  The run panics exactly where a builder does when its turn comes.  The change flag
  is never set.\<close>

theorem ExecutePerCluster_order:
  "map_option (\<lambda>((changed, err), h'). (changed, err = None, h')) (ExecutePerCluster NewDefaultDirector env c h) =
   map_option (\<lambda>(ok, h'). (False, ok, h'))
     (apply_plan env c
       ((if case s_ExternalAccessConfiguration (Spec c) of
              None \<Rightarrow> False
            | Some ea \<Rightarrow> ea_Type ea = ''ingress-controller'' \<and>
                map_option ic_IngressClassName (ea_IngressControllerExternalAccess ea) \<noteq> Some ''traefik''
         then [map_option (\<lambda>ing. (ObjIngress ing, ''ravendb-operator/ingress'')) (BuildIngress c)] else []) @
        (if map_option c_Status (find (\<lambda>cd. c_Type cd = ''BootstrapCompleted'') (st_Conditions (Status c))) = Some ''True''
         then [] else [map_option (\<lambda>job. (ObjJob job, ''ravendb-operator/job'')) (BuildJob c)]) @
        map (\<lambda>(name, content). Some (ObjConfigMap
               \<lparr>cm_Meta = new_meta name (Namespace c)
                  [''app.kubernetes.io/name'' \<mapsto> ''ravendb'', ''app.kubernetes.io/managed-by'' \<mapsto> ''ravendb-operator'',
                   ''app.kubernetes.io/instance'' \<mapsto> Name c] Map.empty,
                cm_Data = map_option (\<lambda>raw. strings_ReplaceAll raw [CHR 0x0D, CHR 0x0A] [CHR 0x0A]) \<circ> content\<rparr>, ''ravendb-operator/hooks''))
          [(''ravendb-bootstrapper-hook'',
            [''init-cluster.sh'' \<mapsto> e_initClusterScriptRaw env,
             ''check-nodes-discoverability.sh'' \<mapsto> e_checkNodesDiscoverabilityScriptRaw env]),
           (''ravendb-cert-hook'',
            [''update-cert.sh'' \<mapsto> e_updateCertScriptRaw env, ''get-server-cert.sh'' \<mapsto> e_getServerCertScriptRaw env])]) h)"
proof -
  have ing: "(case s_ExternalAccessConfiguration (Spec c) of
              None \<Rightarrow> False
            | Some ea \<Rightarrow> ea_Type ea = ''ingress-controller'' \<and>
                map_option ic_IngressClassName (ea_IngressControllerExternalAccess ea) \<noteq> Some ''traefik'') = ingressActor_ShouldAct c"
    by (auto simp: ingressActor_ShouldAct_def ExternalAccessTypeIngressController_def IngressControllerTypeTraefik_def split: option.splits)
  have boot: "(map_option c_Status (find (\<lambda>cd. c_Type cd = ''BootstrapCompleted'') (st_Conditions (Status c))) = Some ''True'') = IsBootstrapped c"
    by (auto simp: IsBootstrapped_def HasConditionTrue_def GetCondition_def find_condition_find ConditionBootstrapCompleted_def
        ConditionTrue_def split: option.splits)
  show ?thesis
    using per_cluster_plan [of env c h] unfolding ing boot outcome_def planned_def
    by (simp add: ingress_plan_def job_plan_def hooks_plan_def hook_config_map_def normalizeLF_def common_defs)
qed

subsection \<open>Witnesses\<close>

lemma sample_env_owner: "owner_ref_ok (sample_env live)"
  by (auto simp: owner_ref_ok_def sample_env_def)

definition live_sts :: "string \<Rightarrow> StatefulSet" where
  "live_sts img = the (BuildStatefulSet sample_quantity (sample_cluster img) (sample_node ''a''))"

lemma live_sts: "BuildStatefulSet sample_quantity (sample_cluster img) (sample_node ''a'') = Some (live_sts img)"
  using sample_statefulset [of img "''a''"] by (auto simp: live_sts_def)

lemma sample_actor_run:
  "\<exists>d h'. StatefulSetActor_Act (sample_env (\<lambda>_. Inr (live_sts old))) (sample_cluster new) (sample_node ''a'') [] =
     Some ((False, None), h') \<and> Apply (ObjStatefulSet d) ''ravendb-operator/statefulset'' \<in> set h'"
  by (auto simp: StatefulSetActor_Act_def sample_env_def live_sts get_sts_def set_owner_def applyResourceSSA_def
      apply_obj_def)

theorem StatefulSetActor_freeze_witness:
  "\<exists>d h'. StatefulSetActor_Act (sample_env (\<lambda>_. Inr (live_sts ''old''))) (sample_cluster ''new'') (sample_node ''a'') [] =
     Some ((False, None), h') \<and> Apply (ObjStatefulSet d) ''ravendb-operator/statefulset'' \<in> set h' \<and>
     map ct_Image (ps_Containers (sts_PodSpec d)) = [''old'']"
proof -
  let ?env = "sample_env (\<lambda>_. Inr (live_sts ''old''))"
  obtain d h' where r: "StatefulSetActor_Act ?env (sample_cluster ''new'') (sample_node ''a'') [] = Some ((False, None), h')"
    "Apply (ObjStatefulSet d) ''ravendb-operator/statefulset'' \<in> set h'" using sample_actor_run by blast
  obtain ct where "ps_Containers (sts_PodSpec (live_sts ''old'')) = [ct]" "ct_Image ct = ''old''"
    using built_images [OF live_sts [of "''old''"]] by (auto simp: sample_defs)
  moreover have "om_Annotations (sts_Meta (live_sts ''old'')) UpgradeImageAnnotation = None"
    using built_annotations [OF live_sts [of "''old''"]] by (simp add: IngressSSLPassthroughAnnotation_def UpgradeImageAnnotation_def)
  ultimately show ?thesis
    using r StatefulSetActor_freeze [OF sample_env_owner r(1), of d] by (auto simp: sample_env_def)
qed


theorem ExecutePerNode_footprint_witness:
  "\<exists>ch err h'. ExecutePerNode NewDefaultDirector (sample_env (\<lambda>_. Inr (live_sts ''old''))) (sample_cluster ''new'') (sample_node ''a'') [] =
     Some ((ch, err), h') \<and> extends (node_request (sample_cluster ''new'') (sample_node ''a'')) [] h'"
proof -
  let ?env = "sample_env (\<lambda>_. Inr (live_sts ''old''))"
  obtain svc where "BuildService (sample_cluster ''new'') (sample_node ''a'') = Some svc" using sample_service by blast
  then obtain ch err h' where r: "ExecutePerNode NewDefaultDirector ?env (sample_cluster ''new'') (sample_node ''a'') [] = Some ((ch, err), h')"
    by (auto simp: ExecutePerNode_def NewDefaultDirector_def StatefulSetActor_Act_def ServiceActor_Act_def sample_env_def live_sts
        get_sts_def set_owner_def applyResourceSSA_def apply_obj_def)
  with ExecutePerNode_footprint [OF sample_env_owner r] show ?thesis by blast
qed

end
