(* ===== verification/Wait.thy ===== *)
theory Wait
  imports Gates Actors
begin

text \<open>
  Waiting for a gate (\<open>pkg/upgrade/wait.go\<close>), the timing it uses (\<open>pkg/upgrade/status_and_annotation.go\<close>) and the events it
  emits (\<open>NewGateEventEmitter\<close> of \<open>pkg/upgrade/upgrader.go\<close>).  The retry loop is a \<open>partial_function\<close>: a wait that never ends is
  \<open>None\<close>, and that it ends is a theorem.
\<close>

subsection \<open>Timing\<close>

record Timing =
  PreMaxWait :: int
  PostMaxWait :: int
  PingInterval :: int
  DBInterval :: int
  GraceAfterReady :: int

definition DefaultTiming :: Timing where
  "DefaultTiming = \<lparr>PreMaxWait = 5 * Minute, PostMaxWait = 12 * Minute, PingInterval = 5 * Second, DBInterval = 10 * Second,
     GraceAfterReady = 10 * Second\<rparr>"

text \<open>The closure \<open>parse\<close>: the value of an annotation if it is a positive duration, else the old value.\<close>

definition parse_timing :: "gomap \<Rightarrow> string \<Rightarrow> int \<Rightarrow> int" where
  "parse_timing anns key dst =
     (case anns key of
        None \<Rightarrow> dst
      | Some v \<Rightarrow>
          if strings_TrimSpace v \<noteq> '''' then
            (case ParseDuration v of None \<Rightarrow> dst | Some d \<Rightarrow> if d > 0 then d else dst)
          else dst)"

definition ReadTimingFromAnnotations :: "RavenDBCluster \<Rightarrow> Timing \<Rightarrow> Timing" where
  "ReadTimingFromAnnotations c def =
     (let anns = Annotations c;
          def = def\<lparr>PreMaxWait := parse_timing anns UpgradePreWaitAnnotation (PreMaxWait def)\<rparr>;
          def = def\<lparr>PostMaxWait := parse_timing anns UpgradePostWaitAnnotation (PostMaxWait def)\<rparr>;
          def = def\<lparr>PingInterval := parse_timing anns UpgradePingIntervalAnnotation (PingInterval def)\<rparr>
      in def\<lparr>DBInterval := parse_timing anns UpgradeDBIntervalAnnotation (DBInterval def)\<rparr>)"

subsection \<open>The upgrader's state and its events\<close>

definition GateStart :: string where "GateStart = ''start''"
definition GatePass :: string where "GatePass = ''pass''"
definition GateBlock :: string where "GateBlock = ''block''"
definition GateTimeout :: string where "GateTimeout = ''timeout''"

type_synonym GateEmitter =
  "Env \<Rightarrow> RavenDBCluster \<Rightarrow> string \<Rightarrow> string \<Rightarrow> string \<Rightarrow> string \<Rightarrow> string \<Rightarrow> history \<Rightarrow> history"

record upgrader =
  buildGates :: "Env \<Rightarrow> RavenDBCluster \<Rightarrow> history \<Rightarrow> ((string + HealthCheckContext) \<times> history) option"
  timing :: Timing
  emit :: "GateEmitter option"

definition SetTiming :: "Timing \<Rightarrow> upgrader \<Rightarrow> upgrader" where
  "SetTiming t u = u\<lparr>timing := t\<rparr>"

definition SetEmitter :: "GateEmitter \<Rightarrow> upgrader \<Rightarrow> upgrader" where
  "SetEmitter e u = u\<lparr>emit := Some e\<rparr>"

definition EventTypeNormal :: string where "EventTypeNormal = ''Normal''"
definition EventTypeWarning :: string where "EventTypeWarning = ''Warning''"

definition gate_tag :: "string \<Rightarrow> string" where
  "gate_tag tag = (let t = strings_ToUpper (strings_TrimSpace tag) in if t = '''' then ''-'' else t)"

definition gate_reason :: "string \<Rightarrow> string \<Rightarrow> string \<Rightarrow> string \<Rightarrow> string" where
  "gate_reason phase kind state t =
     (let reason = ''RollingUpgrade_node_'' @ phase @ ''_'' @ kind @ ''_'' @ state @ ''_'' @ t
      in if length reason > 64 then take 64 reason else reason)"

definition gate_message :: "string \<Rightarrow> string \<Rightarrow> string \<Rightarrow> string \<Rightarrow> string \<Rightarrow> string" where
  "gate_message phase kind state t info =
     (let action = phase @ ''/'' @ kind
      in if state = GateStart then ''node '' @ t @ '' - '' @ action @ '' started''
         else if state = GatePass then ''node '' @ t @ '' - '' @ action @ '' passed''
         else if state = GateBlock then ''node '' @ t @ '' - '' @ action @ '' blocked: '' @ info
         else if state = GateTimeout then ''node '' @ t @ '' - '' @ action @ '' timeout: '' @ info
         else '''')"

text \<open>\<open>rec\<close> says whether the recorder is non-nil; the cluster pointer never is nil.\<close>

definition NewGateEventEmitter :: "bool \<Rightarrow> GateEmitter" where
  "NewGateEventEmitter rec env c state phase kind tag info h =
     (if \<not> rec then h
      else let eventType = (if state \<noteq> GatePass \<and> state \<noteq> GateStart then EventTypeWarning else EventTypeNormal);
               t = gate_tag tag;
               msg = gate_message phase kind state t info;
               reason = gate_reason phase kind state t;
               h = eventf ''RavenDBCluster'' (Name c) eventType reason msg h;
               tag = strings_TrimSpace tag;
               h = (if tag \<noteq> '''' then
                      (let (got, h) = get_sts env (Namespace c) (Prefix @ strings_ToLower tag) h
                       in case got of
                            Inl _ \<Rightarrow> h
                          | Inr sts \<Rightarrow> eventf ''StatefulSet'' (om_Name (sts_Meta sts)) eventType reason msg h)
                    else h)
           in time_Sleep (200 * Millisecond) h)"

subsection \<open>The retry loop\<close>

definition emit_gate :: "upgrader \<Rightarrow> Env \<Rightarrow> RavenDBCluster \<Rightarrow> string \<Rightarrow> string \<Rightarrow> string \<Rightarrow> string \<Rightarrow> string \<Rightarrow> history \<Rightarrow> history" where
  "emit_gate u env c state phase kind tag info h =
     (case emit u of None \<Rightarrow> h | Some e \<Rightarrow> e env c state phase kind tag info h)"

definition maxWaitFor :: "upgrader \<Rightarrow> string \<Rightarrow> int" where
  "maxWaitFor u phase = (if phase = GatePreStep then PreMaxWait (timing u) else PostMaxWait (timing u))"

definition maxSleep :: int where "maxSleep = 15 * Second"

definition next_sleep :: "int \<Rightarrow> int" where
  "next_sleep sleep = (let sleep = wrap64 (sleep * 2) in if sleep > maxSleep then maxSleep else sleep)"

text \<open>\<open>Time.Sub\<close> saturates.\<close>

definition time_Sub :: "int \<Rightarrow> int \<Rightarrow> int" where
  "time_Sub t u = max (- (2 ^ 63)) (min (2 ^ 63 - 1) (t - u))"

text \<open>One round of the loop: \<open>Inl\<close> is the return of \<open>wait\<close> (\<open>None\<close> for success), \<open>Inr\<close> the sleep and the attempt
  counter of the next round.\<close>

definition wait_round ::
  "upgrader \<Rightarrow> Env \<Rightarrow> RavenDBCluster \<Rightarrow> string \<Rightarrow> string \<Rightarrow> string \<Rightarrow> (history \<Rightarrow> gate_result) \<Rightarrow> int \<Rightarrow> int \<Rightarrow> int \<Rightarrow> history \<Rightarrow>
   (GateError option + int \<times> int) \<times> history" where
  "wait_round u env c phase kind tag fn start sleep attempt h =
     (let gate_err = (\<lambda>info. Some \<lparr>ge_Phase = phase, ge_Kind = kind, ge_Tag = tag, ge_Info = info\<rparr>);
          (err, h) = ctx_Err env h
      in case err of
           Some e \<Rightarrow>
             (let msg = (if e = '''' then ''timeout'' else e)
              in (Inl (gate_err msg), emit_gate u env c GateTimeout phase kind tag msg h))
         | None \<Rightarrow>
             (let ((ok, info, err), h) = fn h
              in case err of
                   Some e \<Rightarrow> (Inl (gate_err e), emit_gate u env c GateBlock phase kind tag e h)
                 | None \<Rightarrow>
                     if ok then (Inl None, emit_gate u env c GatePass phase kind tag '''' h)
                     else let lastInfo = info;
                              attempt = attempt + 1;
                              h = emit_gate u env c GateBlock phase kind tag
                                    (''retry in '' @ Duration_String sleep @ '' (attempt '' @ itoa attempt @ ''): '' @
                                     summarizeError lastInfo) h;
                              (now, h) = time_Now env h
                          in if time_Sub now start \<ge> maxWaitFor u phase
                             then (let msg = (if lastInfo = '''' then ''timeout'' else lastInfo @ '' (timeout)'')
                                   in (Inl (gate_err msg), emit_gate u env c GateTimeout phase kind tag msg h))
                             else (Inr (next_sleep sleep, attempt), time_Sleep sleep h)))"

partial_function (option) wait_loop ::
  "upgrader \<Rightarrow> Env \<Rightarrow> RavenDBCluster \<Rightarrow> string \<Rightarrow> string \<Rightarrow> string \<Rightarrow> (history \<Rightarrow> gate_result) \<Rightarrow> int \<Rightarrow> int \<Rightarrow> int \<Rightarrow> history \<Rightarrow>
   (GateError option \<times> history) option" where
  "wait_loop u env c phase kind tag fn start sleep attempt h =
     (case wait_round u env c phase kind tag fn start sleep attempt h of
        (Inl r, h) \<Rightarrow> Some (r, h)
      | (Inr (sleep, attempt), h) \<Rightarrow> wait_loop u env c phase kind tag fn start sleep attempt h)"

definition wait ::
  "upgrader \<Rightarrow> Env \<Rightarrow> RavenDBCluster \<Rightarrow> string \<Rightarrow> string \<Rightarrow> string \<Rightarrow> int \<Rightarrow> (history \<Rightarrow> gate_result) \<Rightarrow> history \<Rightarrow>
   (GateError option \<times> history) option" where
  "wait u env c phase kind tag interval fn h =
     (let h = emit_gate u env c GateStart phase kind tag '''' h;
          (start, h) = time_Now env h
      in wait_loop u env c phase kind tag fn start interval 0 h)"

definition waitNodeAlive ::
  "upgrader \<Rightarrow> Env \<Rightarrow> RavenDBCluster \<Rightarrow> HealthCheckContext \<Rightarrow> string \<Rightarrow> string \<Rightarrow> history \<Rightarrow> (GateError option \<times> history) option" where
  "waitNodeAlive u env c hcc phase tag = wait u env c phase GateNodeAlive tag (PingInterval (timing u)) (NodeAlive env hcc tag)"

definition waitConnectivity ::
  "upgrader \<Rightarrow> Env \<Rightarrow> RavenDBCluster \<Rightarrow> HealthCheckContext \<Rightarrow> string \<Rightarrow> string \<Rightarrow> history \<Rightarrow> (GateError option \<times> history) option" where
  "waitConnectivity u env c hcc phase tag =
     wait u env c phase GateClusterConnectivity tag (PingInterval (timing u)) (ClusterConnectivity env hcc)"

definition waitDB ::
  "upgrader \<Rightarrow> Env \<Rightarrow> RavenDBCluster \<Rightarrow> HealthCheckContext \<Rightarrow> string \<Rightarrow> string \<Rightarrow> string \<Rightarrow> history \<Rightarrow>
   (GateError option \<times> history) option" where
  "waitDB u env c hcc phase excluded tag =
     wait u env c phase GateDatabasesOnline tag (DBInterval (timing u)) (DatabasesOnline env hcc excluded)"

subsection \<open>The clock\<close>

text \<open>What the code relies on of \<open>time\<close>: the clock does not run backwards, and \<open>Sleep(d)\<close> returns after at least \<open>d\<close>.\<close>

definition clock_ok :: "Env \<Rightarrow> bool" where
  "clock_ok env \<longleftrightarrow> (\<forall>h es. e_Now env h \<le> e_Now env (h @ es)) \<and>
     (\<forall>h d es. e_Now env h + d \<le> e_Now env (h @ Sleep d # es))"

lemma clock_mono: "clock_ok env \<Longrightarrow> e_Now env h \<le> e_Now env (h @ es)"
  by (simp add: clock_ok_def)

lemma clock_sleep: "clock_ok env \<Longrightarrow> e_Now env h + d \<le> e_Now env (h @ es @ Sleep d # es')"
  using clock_mono [of env h es] by (simp add: clock_ok_def) (metis append_assoc dual_order.trans add_right_mono)

definition int64 :: "int \<Rightarrow> bool" where
  "int64 i \<longleftrightarrow> - (2 ^ 63) \<le> i \<and> i < 2 ^ 63"

lemma time_Sub_less: "int64 w \<Longrightarrow> time_Sub t s < w \<Longrightarrow> t - s < w"
  by (auto simp: time_Sub_def int64_def max_def min_def split: if_splits)

lemma next_sleep_bounds: "0 < s \<Longrightarrow> s < 2 ^ 62 \<Longrightarrow> 0 < next_sleep s \<and> next_sleep s \<le> maxSleep"
  using wrap64_id [of "s * 2"] by (auto simp: next_sleep_def Let_def maxSleep_def Second_def)

subsection \<open>Polling a gate\<close>

definition gate_event :: "request \<Rightarrow> bool" where
  "gate_event e \<longleftrightarrow> (case e of Eventf k n t r m \<Rightarrow> True | GetStatefulSet ns n \<Rightarrow> True | _ \<Rightarrow> False)"

definition is_http :: "request \<Rightarrow> bool" where
  "is_http e \<longleftrightarrow> (case e of HttpGet cl url \<Rightarrow> True | _ \<Rightarrow> False)"

definition is_sleep :: "request \<Rightarrow> bool" where
  "is_sleep e \<longleftrightarrow> (case e of Sleep d \<Rightarrow> True | _ \<Rightarrow> False)"

lemma gate_event_simps:
  "gate_event e \<Longrightarrow> \<not> mutating e" "gate_event e \<Longrightarrow> \<not> is_http e" "gate_event e \<Longrightarrow> \<not> is_sleep e"
  by (cases e; simp add: gate_event_def is_http_def is_sleep_def)+

abbreviation emit_pause :: int where "emit_pause \<equiv> 200 * Millisecond"

text \<open>The states of the loop, before each round.\<close>

inductive retries ::
  "upgrader \<Rightarrow> Env \<Rightarrow> RavenDBCluster \<Rightarrow> string \<Rightarrow> string \<Rightarrow> string \<Rightarrow> (history \<Rightarrow> gate_result) \<Rightarrow> int \<Rightarrow>
   int \<times> int \<times> history \<Rightarrow> int \<times> int \<times> history \<Rightarrow> bool"
  for u env c phase kind tag fn start x where
  start: "retries u env c phase kind tag fn start x x"
| again: "retries u env c phase kind tag fn start x (s, a, h) \<Longrightarrow>
    wait_round u env c phase kind tag fn start s a h = (Inr (s', a'), h') \<Longrightarrow>
    retries u env c phase kind tag fn start x (s', a', h')"

lemma retries_trans:
  assumes "retries u env c phase kind tag fn start y z" "retries u env c phase kind tag fn start x y"
  shows "retries u env c phase kind tag fn start x z"
  using assms by induction (auto intro: retries.intros)

lemma wait_loop_last:
  assumes "wait_loop u env c phase kind tag fn start sleep attempt h = Some y"
  shows "\<exists>s a hl. retries u env c phase kind tag fn start (sleep, attempt, h) (s, a, hl) \<and>
    wait_round u env c phase kind tag fn start s a hl = (Inl (fst y), snd y)"
proof (rule wait_loop.raw_induct [OF _ assms, where P = "\<lambda>u env c phase kind tag fn start sleep attempt h y.
    \<exists>s a hl. retries u env c phase kind tag fn start (sleep, attempt, h) (s, a, hl) \<and>
    wait_round u env c phase kind tag fn start s a hl = (Inl (fst y), snd y)"], goal_cases)
  case (1 loop u env c phase kind tag fn start sleep attempt h y)
  show ?case
  proof (cases "wait_round u env c phase kind tag fn start sleep attempt h")
    case (Pair x h1)
    show ?thesis
    proof (cases x)
      case (Inl r)
      with 1(2) Pair have "wait_round u env c phase kind tag fn start sleep attempt h = (Inl (fst y), snd y)" by auto
      then show ?thesis by (blast intro: retries.start)
    next
      case (Inr sa)
      with Pair obtain s1 a1 where r: "wait_round u env c phase kind tag fn start sleep attempt h = (Inr (s1, a1), h1)"
        by (cases sa) auto
      with 1(2) have "loop u env c phase kind tag fn start s1 a1 h1 = Some y" by simp
      from 1(1) [OF this] retries.again [OF retries.start r] show ?thesis by (blast intro: retries_trans)
    qed
  qed
qed

lemma is_simps [simp]: "is_http (HttpGet cl url)" "\<not> is_http (Sleep d)" "\<not> is_http CtxErr" "\<not> is_http Now"
  "is_sleep (Sleep d)" "\<not> is_sleep CtxErr" "\<not> is_sleep Now"
  by (simp_all add: is_http_def is_sleep_def)

lemma is_http_not: "is_http e \<Longrightarrow> \<not> mutating e" "is_http e \<Longrightarrow> \<not> is_sleep e"
  by (cases e; simp add: is_http_def is_sleep_def)+

text \<open>\<open>polls k P h h'\<close>: only requests that change nothing were appended, at most \<open>k\<close> of them HTTP, and every sleep satisfies \<open>P\<close>.\<close>

definition polls :: "nat \<Rightarrow> (int \<Rightarrow> bool) \<Rightarrow> history \<Rightarrow> history \<Rightarrow> bool" where
  "polls k P h h' \<longleftrightarrow> (\<exists>es. h' = h @ es \<and> list_all (\<lambda>e. \<not> mutating e) es \<and> list_all (\<lambda>e. \<forall>d. e = Sleep d \<longrightarrow> P d) es \<and>
     length (filter is_http es) \<le> k)"

lemma polls_trans: "polls j P h h' \<Longrightarrow> polls k P h' h'' \<Longrightarrow> polls (j + k) P h h''"
  unfolding polls_def by (force simp: list_all_iff)

lemma polls_refl [simp]: "polls k P h h"
  by (simp add: polls_def)

lemma polls_le: "polls j P h h' \<Longrightarrow> j \<le> k \<Longrightarrow> polls k P h h'"
  by (auto simp: polls_def)

lemma polls_mono: "polls k P h h' \<Longrightarrow> (\<And>d. P d \<Longrightarrow> Q d) \<Longrightarrow> polls k Q h h'"
  by (fastforce simp: polls_def list_all_iff)

lemma polls_one [simp]: "polls k P h (h @ [CtxErr])" "polls k P h (h @ [Now])" "P d \<Longrightarrow> polls k P h (h @ [Sleep d])"
  by (auto simp: polls_def)

lemma polls_reads_only: "polls k P h h' \<Longrightarrow> reads_only h h'"
  by (auto simp: polls_def extends_def)

lemma polls_clock: "clock_ok env \<Longrightarrow> polls k P h h' \<Longrightarrow> e_Now env h \<le> e_Now env h'"
  by (auto simp: polls_def clock_mono)

lemma polls_http: "list_all is_http es \<Longrightarrow> length es \<le> k \<Longrightarrow> polls k P h (h @ es)"
proof -
  assume es: "list_all is_http es" "length es \<le> k"
  then have "list_all (\<lambda>e. \<not> mutating e) es" "list_all (\<lambda>e. \<forall>d. e = Sleep d \<longrightarrow> P d) es"
    by (auto elim!: list.pred_mono_strong dest: is_http_not)
  moreover have "length (filter is_http es) \<le> k" using es(2) length_filter_le [of is_http es] by (rule order_trans [rotated])
  ultimately show ?thesis unfolding polls_def by blast
qed

lemma polls_events: "list_all gate_event es \<Longrightarrow> polls 0 (\<lambda>d. d = p) h (h @ es @ [Sleep p])"
proof -
  assume es: "list_all gate_event es"
  then have "list_all (\<lambda>e. \<not> mutating e) es" "list_all (\<lambda>e. \<forall>d. e = Sleep d \<longrightarrow> d = p) es" "list_all (\<lambda>e. \<not> is_http e) es"
    by (auto elim!: list.pred_mono_strong dest: gate_event_simps)
  moreover from this(3) have "filter is_http es = []" by (simp add: filter_empty_conv list_all_iff)
  ultimately
  show ?thesis unfolding polls_def by (intro exI [of _ "es @ [Sleep p]"]) simp
qed

text \<open>What waiting needs of a gate and of the emitter: the gate makes at most one HTTP request and nothing else, and every
  announcement ends with the pause of the emitter.\<close>

locale gate_poll =
  fixes u :: upgrader and check :: "history \<Rightarrow> gate_result"
  assumes check_asks: "check h = (r, h') \<Longrightarrow> \<exists>es. h' = h @ es \<and> list_all is_http es \<and> length es \<le> 1"
    and emit_waits: "\<exists>es. emit_gate u env c state phase kind tag info h = h @ es @ [Sleep emit_pause] \<and> list_all gate_event es"
begin

lemma check_polls: "check h = (r, h') \<Longrightarrow> polls 1 P h h'"
  using check_asks [of h r h'] polls_http by metis

lemma emit_polls: "polls 0 (\<lambda>d. d = emit_pause) h (emit_gate u env c state phase kind tag info h)"
  using emit_waits [of env c state phase kind tag info h] polls_events by metis

lemma emit_clock: "clock_ok env \<Longrightarrow> e_Now env h + emit_pause \<le> e_Now env (emit_gate u env c state phase kind tag info h)"
  using emit_waits [of env c state phase kind tag info h] clock_sleep [of env h emit_pause] by auto

text \<open>How a round ends: the context is done, the gate fails hard or passes, or the time is up.\<close>

lemma round_cases:
  assumes "wait_round u env c phase kind tag check start sleep attempt h = (r, h')"
  obtains (ended) e st info h1 where "r = Inl (Some e)" "polls 1 (\<lambda>d. d = emit_pause) h h1"
      "h' = emit_gate u env c st phase kind tag info h1"
  | (passed) info h1 where "r = Inl None" "e_CtxErr env h = None" "check (h @ [CtxErr]) = ((True, info, None), h1)"
      "h' = emit_gate u env c GatePass phase kind tag '''' h1"
  | (retry) info h1 msg where "r = Inr (next_sleep sleep, attempt + 1)" "check (h @ [CtxErr]) = ((False, info, None), h1)"
      "time_Sub (e_Now env (emit_gate u env c GateBlock phase kind tag msg h1)) start < maxWaitFor u phase"
      "h' = emit_gate u env c GateBlock phase kind tag msg h1 @ [Now, Sleep sleep]"
proof -
  obtain ok info err h1 where c: "check (h @ [CtxErr]) = ((ok, info, err), h1)" by (metis prod.exhaust)
  have p: "polls 1 (\<lambda>d. d = emit_pause) h h1" "polls 1 (\<lambda>d. d = emit_pause) h (h @ [CtxErr])"
    using polls_trans [OF polls_one(1) [of 0] check_polls [OF c]] by simp_all
  have block: "polls 1 (\<lambda>d. d = emit_pause) h (emit_gate u env c GateBlock phase kind tag msg h1 @ [Now])" for msg
    using polls_trans [OF polls_trans [OF p(1) emit_polls] polls_one(2) [of 0]] by simp
  consider m where "e_CtxErr env h = Some m" | m where "e_CtxErr env h = None" "err = Some m"
    | "e_CtxErr env h = None" "err = None" "ok" | "e_CtxErr env h = None" "err = None" "\<not> ok" by blast
  then show thesis
  proof cases
    case 1
    let ?m = "if m = '''' then ''timeout'' else m"
    from 1 assms have "h' = emit_gate u env c GateTimeout phase kind tag ?m (h @ [CtxErr])" "\<exists>e. r = Inl (Some e)"
      by (auto simp: wait_round_def ctx_Err_def Let_def)
    with ended [OF _ p(2)] show thesis by blast
  next
    case 2
    with assms c p(1) show thesis by (auto simp: wait_round_def ctx_Err_def Let_def intro: ended)
  next
    case 3
    with assms c show thesis by (auto simp: wait_round_def ctx_Err_def Let_def intro: passed)
  next
    case 4
    let ?msg = "''retry in '' @ Duration_String sleep @ '' (attempt '' @ itoa (attempt + 1) @ ''): '' @ summarizeError info"
    let ?h = "emit_gate u env c GateBlock phase kind tag ?msg h1"
    show thesis
    proof (cases "time_Sub (e_Now env ?h) start \<ge> maxWaitFor u phase")
      case True
      with 4 assms c block [of ?msg] show thesis
        by (auto simp: wait_round_def ctx_Err_def time_Now_def Let_def intro: ended)
    next
      case False
      with 4 assms c retry [of info h1 ?msg] show thesis
        by (auto simp: wait_round_def ctx_Err_def time_Now_def time_Sleep_def Let_def)
    qed
  qed
qed

end

context gate_poll
begin

text \<open>A further round means that the clock moved by at least the pause and that there is time left.\<close>

lemma round_again:
  assumes "wait_round u env c phase kind tag check start sleep attempt h = (Inr (s', a'), h')"
  shows "s' = next_sleep sleep \<and> polls 1 (\<lambda>d. d = emit_pause \<or> d = sleep) h h' \<and>
    (clock_ok env \<longrightarrow> e_Now env h + emit_pause \<le> e_Now env h') \<and>
    (clock_ok env \<longrightarrow> int64 (maxWaitFor u phase) \<longrightarrow> e_Now env h + emit_pause - start < maxWaitFor u phase)"
  using assms
proof (cases rule: round_cases)
  case (retry info h1 msg)
  let ?h = "emit_gate u env c GateBlock phase kind tag msg h1"
  have h1: "polls 1 P h h1" for P using polls_trans [OF polls_one(1) [of 0] check_polls [OF retry(2)]] by simp
  have "polls 1 (\<lambda>d. d = emit_pause \<or> d = sleep) h ?h"
    using polls_trans [OF h1 polls_mono [OF emit_polls]] by fastforce
  from polls_trans [OF polls_trans [OF this polls_one(2) [of 0]] polls_one(3) [of _ sleep 0]]
  have p: "polls 1 (\<lambda>d. d = emit_pause \<or> d = sleep) h h'" using retry(4) by simp
  have t: "e_Now env h + emit_pause \<le> e_Now env ?h" if "clock_ok env"
    using emit_clock [OF that, of h1 c GateBlock phase kind tag msg] polls_clock [OF that h1] by force
  have t': "e_Now env h + emit_pause \<le> e_Now env h'" if "clock_ok env"
    using t [OF that] clock_mono [OF that, of ?h "[Now, Sleep sleep]"] retry(4) by simp
  have "e_Now env h + emit_pause - start < maxWaitFor u phase" if "clock_ok env" "int64 (maxWaitFor u phase)"
    using t [OF that(1)] time_Sub_less [OF that(2) retry(3)] by simp
  with p t' retry(1) show ?thesis by simp
qed simp_all

lemma round_last:
  assumes "wait_round u env c phase kind tag check start sleep attempt h = (Inl r, h')"
  shows "polls 1 (\<lambda>d. d = emit_pause) h h'"
  using assms
proof (cases rule: round_cases)
  case (ended e st info h1)
  from polls_trans [OF ended(2) emit_polls] ended(3) show ?thesis by simp
next
  case (passed info h1)
  have "polls 1 (\<lambda>d. d = emit_pause) h h1" using polls_trans [OF polls_one(1) [of 0] check_polls [OF passed(3)]] by simp
  from polls_trans [OF this emit_polls] passed(4) show ?thesis by simp
qed simp

lemma loop_returns:
  assumes "clock_ok env" "int64 (maxWaitFor u phase)" "start + maxWaitFor u phase - e_Now env h \<le> int k * emit_pause"
  shows "\<exists>r h'. wait_loop u env c phase kind tag check start sleep attempt h = Some (r, h') \<and> polls (k + 1) (\<lambda>_. True) h h'"
  using assms(3)
proof (induction k arbitrary: sleep attempt h)
  case 0
  obtain x h1 where r: "wait_round u env c phase kind tag check start sleep attempt h = (x, h1)" by (metis prod.exhaust)
  show ?case
  proof (cases x)
    case (Inl res)
    have "polls 1 (\<lambda>_. True) h h1" by (rule polls_mono [OF round_last [OF r [unfolded Inl]]]) simp
    then show ?thesis by (subst wait_loop.simps) (simp add: r Inl)
  next
    case (Inr sa)
    then obtain s' a' where "x = Inr (s', a')" by (cases sa) simp
    from round_again [OF r [unfolded this]] assms(1,2) 0 show ?thesis by (simp add: Millisecond_def)
  qed
next
  case (Suc k)
  obtain x h1 where r: "wait_round u env c phase kind tag check start sleep attempt h = (x, h1)" by (metis prod.exhaust)
  show ?case
  proof (cases x)
    case (Inl res)
    have "polls 1 (\<lambda>_. True) h h1" by (rule polls_mono [OF round_last [OF r [unfolded Inl]]]) simp
    with polls_le [OF this, of "k + 2"] show ?thesis by (subst wait_loop.simps) (simp add: r Inl)
  next
    case (Inr sa)
    then obtain s' a' where x: "x = Inr (s', a')" by (cases sa) simp
    note ra = round_again [OF r [unfolded x]]
    have "start + maxWaitFor u phase - e_Now env h1 \<le> int k * emit_pause"
      using Suc.prems ra assms(1) by (simp add: algebra_simps)
    from Suc.IH [OF this, of s' a'] obtain res h' where
      l: "wait_loop u env c phase kind tag check start s' a' h1 = Some (res, h')" "polls (k + 1) (\<lambda>_. True) h1 h'" by blast
    have "polls 1 (\<lambda>_. True) h h1" by (rule polls_mono [of _ "\<lambda>d. d = emit_pause \<or> d = sleep"]) (use ra in simp_all)
    from polls_trans [OF this l(2)] l(1) show ?thesis by (subst wait_loop.simps) (simp add: r x)
  qed
qed

text \<open>Waiting ends after at most one check per pause that fits into the allowed time, and two more.\<close>

lemma wait_returns:
  assumes "clock_ok env" "int64 (maxWaitFor u phase)"
  shows "\<exists>r h'. wait u env c phase kind tag interval check h = Some (r, h') \<and>
    polls (nat (maxWaitFor u phase div emit_pause) + 2) (\<lambda>_. True) h h'"
proof -
  let ?h = "emit_gate u env c GateStart phase kind tag '''' h" and ?w = "maxWaitFor u phase"
  let ?k = "nat (?w div emit_pause) + 1"
  have "?w \<le> int ?k * emit_pause"
    using div_mult_mod_eq [of ?w emit_pause] pos_mod_bound [of emit_pause ?w]
    by (cases "0 \<le> ?w") (auto simp: Millisecond_def algebra_simps pos_imp_zdiv_neg_iff)
  moreover have "e_Now env ?h \<le> e_Now env (?h @ [Now])" using assms(1) by (rule clock_mono)
  ultimately have "e_Now env ?h + ?w - e_Now env (?h @ [Now]) \<le> int ?k * emit_pause" by simp
  from loop_returns [OF assms this, of c kind tag interval 0] obtain r h' where
    l: "wait_loop u env c phase kind tag check (e_Now env ?h) interval 0 (?h @ [Now]) = Some (r, h')" "polls (?k + 1) (\<lambda>_. True) (?h @ [Now]) h'"
    by blast
  have "polls 0 (\<lambda>_. True) h (?h @ [Now])" using polls_trans [OF polls_mono [OF emit_polls] polls_one(2) [of 0]] by fastforce
  from polls_trans [OF this l(2)] l(1) show ?thesis by (simp add: wait_def time_Now_def Let_def)
qed

end

abbreviation sleep_range :: "int \<Rightarrow> int \<Rightarrow> bool" where
  "sleep_range interval d \<equiv> d = emit_pause \<or> d = interval \<or> (0 < d \<and> d \<le> maxSleep)"

context gate_poll
begin

lemma retries_sleep:
  assumes "retries u env c phase kind tag check start x y" "x = (interval, a0, h)" "0 < interval" "interval < 2 ^ 62"
  shows "(fst y = interval \<or> (0 < fst y \<and> fst y \<le> maxSleep)) \<and> (\<exists>k. polls k (sleep_range interval) h (snd (snd y)))"
  using assms
proof induction
  case start
  then show ?case by (auto intro: exI [of _ 0])
next
  case (again s a h1 s' a' h2)
  note ra = round_again [OF again.hyps(2)]
  from again.IH [OF again.prems] obtain k where s: "s = interval \<or> (0 < s \<and> s \<le> maxSleep)" and k: "polls k (sleep_range interval) h h1"
    by auto
  have "0 < s" "s < 2 ^ 62" using s again.prems by (auto simp: maxSleep_def Second_def)
  from next_sleep_bounds [OF this] ra have n: "0 < s' \<and> s' \<le> maxSleep" by simp
  have "polls 1 (sleep_range interval) h1 h2"
    by (rule polls_mono [of _ "\<lambda>d. d = emit_pause \<or> d = s"]) (use ra s in auto)
  from polls_trans [OF k this] n show ?case by auto
qed

lemma wait_sleeps:
  assumes "wait u env c phase kind tag interval check h = Some (r, h')" "0 < interval" "interval < 2 ^ 62"
  shows "\<exists>k. polls k (sleep_range interval) h h'"
proof -
  let ?h = "emit_gate u env c GateStart phase kind tag '''' h"
  have "wait_loop u env c phase kind tag check (e_Now env ?h) interval 0 (?h @ [Now]) = Some (r, h')"
    using assms(1) by (simp add: wait_def time_Now_def Let_def)
  from wait_loop_last [OF this] obtain s a hl where
    l: "retries u env c phase kind tag check (e_Now env ?h) (interval, 0, ?h @ [Now]) (s, a, hl)"
       "wait_round u env c phase kind tag check (e_Now env ?h) s a hl = (Inl r, h')" by auto
  from retries_sleep [OF l(1) refl assms(2,3)] obtain k where k: "polls k (sleep_range interval) (?h @ [Now]) hl" by auto
  have "polls 0 (sleep_range interval) h (?h @ [Now])"
    using polls_trans [OF polls_mono [OF emit_polls] polls_one(2) [of 0]] by fastforce
  from polls_trans [OF polls_trans [OF this k] polls_mono [OF round_last [OF l(2)]]] show ?thesis by blast
qed

lemma retries_reads: "retries u env c phase kind tag check start x y \<Longrightarrow> reads_only (snd (snd x)) (snd (snd y))"
proof (induction rule: retries.induct)
  case (again s a h s' a' h')
  from round_again [OF again.hyps(2)] have "reads_only h h'" by (blast intro: polls_reads_only)
  with again.IH show ?case by (auto intro: extends_trans)
qed simp

lemma wait_reads: "wait u env c phase kind tag interval check h = Some (r, h') \<Longrightarrow> reads_only h h'"
proof -
  let ?h = "emit_gate u env c GateStart phase kind tag '''' h"
  assume "wait u env c phase kind tag interval check h = Some (r, h')"
  then have "wait_loop u env c phase kind tag check (e_Now env ?h) interval 0 (?h @ [Now]) = Some (r, h')"
    by (simp add: wait_def time_Now_def Let_def)
  from wait_loop_last [OF this] obtain s a hl where
    l: "retries u env c phase kind tag check (e_Now env ?h) (interval, 0, ?h @ [Now]) (s, a, hl)"
       "wait_round u env c phase kind tag check (e_Now env ?h) s a hl = (Inl r, h')" by auto
  have "reads_only h ?h" by (rule polls_reads_only [OF emit_polls])
  then have "reads_only h (?h @ [Now])" by (rule extends_snoc) simp
  also have "reads_only (?h @ [Now]) hl" using retries_reads [OF l(1)] by simp
  also have "reads_only hl h'" by (rule polls_reads_only [OF round_last [OF l(2)]])
  finally show ?thesis .
qed

text \<open>Waiting succeeds only if the gate passed in the last round; only requests that change nothing came before.\<close>

lemma wait_passed:
  assumes "wait u env c phase kind tag interval check h = Some (None, h')"
  shows "\<exists>h1 info h2. reads_only h h1 \<and> check h1 = ((True, info, None), h2) \<and>
    h' = emit_gate u env c GatePass phase kind tag '''' h2"
proof -
  let ?h = "emit_gate u env c GateStart phase kind tag '''' h"
  have "wait_loop u env c phase kind tag check (e_Now env ?h) interval 0 (?h @ [Now]) = Some (None, h')"
    using assms(1) by (simp add: wait_def time_Now_def Let_def)
  from wait_loop_last [OF this] obtain s a hl where
    l: "retries u env c phase kind tag check (e_Now env ?h) (interval, 0, ?h @ [Now]) (s, a, hl)"
       "wait_round u env c phase kind tag check (e_Now env ?h) s a hl = (Inl None, h')" by auto
  have "reads_only h ?h" by (rule polls_reads_only [OF emit_polls])
  then have "reads_only h (?h @ [Now])" by (rule extends_snoc) simp
  from extends_trans [OF this] retries_reads [OF l(1)] have "reads_only h hl" by simp
  then have "reads_only h (hl @ [CtxErr])" by (rule extends_snoc) simp
  with l(2) show ?thesis by (cases rule: round_cases) auto
qed

end

subsection \<open>The gates are polled\<close>

lemma NodeAlive_asks: "NodeAlive env hcc tag h = (r, h') \<Longrightarrow> \<exists>es. h' = h @ es \<and> list_all is_http es \<and> length es \<le> 1"
  by (auto simp: NodeAlive_def httpGET_def http_get_def Let_def split: if_splits sum.splits option.splits prod.splits)

lemma ClusterConnectivity_asks:
  "ClusterConnectivity env hcc h = (r, h') \<Longrightarrow> \<exists>es. h' = h @ es \<and> list_all is_http es \<and> length es \<le> 1"
  by (auto simp: ClusterConnectivity_def httpGET_def http_get_def Let_def split: if_splits sum.splits option.splits prod.splits)

lemma DatabasesOnline_asks:
  "DatabasesOnline env hcc excl h = (r, h') \<Longrightarrow> \<exists>es. h' = h @ es \<and> list_all is_http es \<and> length es \<le> 1"
  by (auto simp: DatabasesOnline_def httpGET_def http_get_def Let_def split: if_splits sum.splits option.splits prod.splits)

text \<open>The upgrader as \<open>SetupWithManager\<close> configures it: it announces its gates.\<close>

abbreviation announcing :: "upgrader \<Rightarrow> upgrader" where
  "announcing u \<equiv> SetEmitter (NewGateEventEmitter True) u"

lemma announcing_waits:
  "\<exists>es. emit_gate (announcing u) env c state phase kind tag info h = h @ es @ [Sleep emit_pause] \<and> list_all gate_event es"
proof -
  let ?t = "strings_TrimSpace tag"
  let ?k = "if state \<noteq> GatePass \<and> state \<noteq> GateStart then EventTypeWarning else EventTypeNormal"
  let ?r = "gate_reason phase kind state (gate_tag tag)" and ?m = "gate_message phase kind state (gate_tag tag) info"
  let ?e = "Eventf ''RavenDBCluster'' (Name c) ?k ?r ?m"
  let ?es = "?e # (if ?t = '''' then [] else GetStatefulSet (Namespace c) (Prefix @ strings_ToLower ?t) #
    (case e_GetStatefulSet env (h @ [?e]) (Namespace c) (Prefix @ strings_ToLower ?t) of
       Inl _ \<Rightarrow> [] | Inr sts \<Rightarrow> [Eventf ''StatefulSet'' (om_Name (sts_Meta sts)) ?k ?r ?m]))"
  have "list_all gate_event ?es" by (auto simp: gate_event_def split: sum.splits)
  moreover have "emit_gate (announcing u) env c state phase kind tag info h = h @ ?es @ [Sleep emit_pause]"
    by (simp add: emit_gate_def SetEmitter_def NewGateEventEmitter_def env_ops Let_def split: sum.splits)
  ultimately show ?thesis by blast
qed

interpretation alive: gate_poll "announcing u" "NodeAlive env hcc tag" for u env hcc tag
  by unfold_locales (auto dest: NodeAlive_asks intro: announcing_waits)

interpretation conn: gate_poll "announcing u" "ClusterConnectivity env hcc" for u env hcc
  by unfold_locales (auto dest: ClusterConnectivity_asks intro: announcing_waits)

interpretation dbs: gate_poll "announcing u" "DatabasesOnline env hcc excl" for u env hcc excl
  by unfold_locales (auto dest: DatabasesOnline_asks intro: announcing_waits)

subsection \<open>Properties of waiting\<close>

definition timing_ok :: "Timing \<Rightarrow> bool" where
  "timing_ok t \<longleftrightarrow> list_all (\<lambda>d. 0 < d \<and> d < 2 ^ 63) [PreMaxWait t, PostMaxWait t, PingInterval t, DBInterval t, GraceAfterReady t]"

lemma timing_ok_max: "timing_ok (timing u) \<Longrightarrow> int64 (maxWaitFor u phase)"
  by (auto simp: timing_ok_def int64_def maxWaitFor_def)

lemma SetEmitter_sel [simp]: "timing (SetEmitter e u) = timing u" "maxWaitFor (SetEmitter e u) phase = maxWaitFor u phase"
  by (simp_all add: SetEmitter_def maxWaitFor_def)

lemma waits_return:
  assumes "clock_ok env" "int64 (maxWaitFor u phase)"
  shows "\<exists>r h'. waitNodeAlive (announcing u) env c hcc phase tag h = Some (r, h') \<and>
      polls (nat (maxWaitFor u phase div emit_pause) + 2) (\<lambda>_. True) h h'"
    "\<exists>r h'. waitConnectivity (announcing u) env c hcc phase tag h = Some (r, h') \<and>
      polls (nat (maxWaitFor u phase div emit_pause) + 2) (\<lambda>_. True) h h'"
    "\<exists>r h'. waitDB (announcing u) env c hcc phase excl tag h = Some (r, h') \<and>
      polls (nat (maxWaitFor u phase div emit_pause) + 2) (\<lambda>_. True) h h'"
  unfolding waitNodeAlive_def waitConnectivity_def waitDB_def
  using assms alive.wait_returns [of env u phase c GateNodeAlive tag _ env hcc tag h]
    conn.wait_returns [of env u phase c GateClusterConnectivity tag _ env hcc h]
    dbs.wait_returns [of env u phase c GateDatabasesOnline tag _ env hcc excl h]
  by simp_all

text \<open>C19. Waiting for a gate always ends, whatever the gate answers and whatever the polling interval is, if the clock does not run
  backwards and a sleep lasts as long as asked for: each round announces itself and pauses, so the allowed time runs out.  It changes
  nothing in the cluster, and it checks the gate at most once per 200 ms of the allowed time, and twice more.\<close>

theorem wait_gates_return:
  assumes "clock_ok env" "timing_ok (timing u)"
  shows "(\<exists>r h'. waitNodeAlive (announcing u) env c hcc phase tag h = Some (r, h') \<and>
      polls (nat (maxWaitFor u phase div (200 * Millisecond)) + 2) (\<lambda>_. True) h h') \<and>
    (\<exists>r h'. waitConnectivity (announcing u) env c hcc phase tag h = Some (r, h') \<and>
      polls (nat (maxWaitFor u phase div (200 * Millisecond)) + 2) (\<lambda>_. True) h h') \<and>
    (\<exists>r h'. waitDB (announcing u) env c hcc phase excl tag h = Some (r, h') \<and>
      polls (nat (maxWaitFor u phase div (200 * Millisecond)) + 2) (\<lambda>_. True) h h')"
  using waits_return [OF assms(1) timing_ok_max [OF assms(2)]] by blast

text \<open>Waiting for a gate reports success only if the gate passed: the last check it made was successful, and until then
  nothing was changed.\<close>

lemma waits_sound:
  "waitNodeAlive (announcing u) env c hcc phase tag h = Some (None, h') \<Longrightarrow>
     \<exists>h1 info h2. reads_only h h1 \<and> NodeAlive env hcc tag h1 = ((True, info, None), h2) \<and> reads_only h1 h'"
  "waitConnectivity (announcing u) env c hcc phase tag h = Some (None, h') \<Longrightarrow>
     \<exists>h1 info h2. reads_only h h1 \<and> ClusterConnectivity env hcc h1 = ((True, info, None), h2) \<and> reads_only h1 h'"
  "waitDB (announcing u) env c hcc phase excl tag h = Some (None, h') \<Longrightarrow>
     \<exists>h1 info h2. reads_only h h1 \<and> DatabasesOnline env hcc excl h1 = ((True, info, None), h2) \<and> reads_only h1 h'"
proof -
  have after: "reads_only h1 (emit_gate (announcing u) env c GatePass phase kind tag '''' h2)" if "reads_only h1 h2" for h1 h2 kind
    using extends_trans [OF that polls_reads_only [OF alive.emit_polls]] .
  show "\<exists>h1 info h2. reads_only h h1 \<and> NodeAlive env hcc tag h1 = ((True, info, None), h2) \<and> reads_only h1 h'"
    if "waitNodeAlive (announcing u) env c hcc phase tag h = Some (None, h')"
    using alive.wait_passed [OF that [unfolded waitNodeAlive_def]] after [OF polls_reads_only [OF alive.check_polls]] by blast
  show "\<exists>h1 info h2. reads_only h h1 \<and> ClusterConnectivity env hcc h1 = ((True, info, None), h2) \<and> reads_only h1 h'"
    if "waitConnectivity (announcing u) env c hcc phase tag h = Some (None, h')"
    using conn.wait_passed [OF that [unfolded waitConnectivity_def]] after [OF polls_reads_only [OF conn.check_polls]] by blast
  show "\<exists>h1 info h2. reads_only h h1 \<and> DatabasesOnline env hcc excl h1 = ((True, info, None), h2) \<and> reads_only h1 h'"
    if "waitDB (announcing u) env c hcc phase excl tag h = Some (None, h')"
    using dbs.wait_passed [OF that [unfolded waitDB_def]] after [OF polls_reads_only [OF dbs.check_polls]] by blast
qed

lemma waits_read:
  "waitNodeAlive (announcing u) env c hcc phase tag h = Some (r, h') \<Longrightarrow> reads_only h h'"
  "waitConnectivity (announcing u) env c hcc phase tag h = Some (r, h') \<Longrightarrow> reads_only h h'"
  "waitDB (announcing u) env c hcc phase excl tag h = Some (r, h') \<Longrightarrow> reads_only h h'"
  unfolding waitNodeAlive_def waitConnectivity_def waitDB_def by (rule alive.wait_reads conn.wait_reads dbs.wait_reads, assumption)+

text \<open>The pauses between two checks stay in bounds.  For an interval that is positive and below \<open>2 ^ 62\<close> ns, whatever the number of
  retries, every sleep of a wait is the pause of the emitter, the interval itself, or positive and at most 15 s: the doubling neither
  overflows nor reaches zero.\<close>

theorem wait_sleep_bounds:
  assumes "0 < PingInterval (timing u)" "PingInterval (timing u) < 2 ^ 62"
    and "waitNodeAlive (announcing u) env c hcc phase tag h = Some (r, h')" "Sleep d \<in> set (drop (length h) h')"
  shows "d = 200 * Millisecond \<or> d = PingInterval (timing u) \<or> (0 < d \<and> d \<le> 15 * Second)"
  using alive.wait_sleeps [of u env c phase GateNodeAlive tag _ env hcc tag h r h'] assms
  by (fastforce simp: waitNodeAlive_def polls_def list_all_iff maxSleep_def)

lemma ReadTiming_bounds:
  assumes "timing_ok t"
  shows "timing_ok (ReadTimingFromAnnotations c t) \<and> GraceAfterReady (ReadTimingFromAnnotations c t) = GraceAfterReady t"
proof -
  have "0 < parse_timing anns key d \<and> parse_timing anns key d < 2 ^ 63" if "0 < d" "d < 2 ^ 63" for anns key d
    using that ParseDuration_range by (auto simp: parse_timing_def split: option.splits)
  with assms show ?thesis by (simp add: timing_ok_def ReadTimingFromAnnotations_def Let_def)
qed

lemmas ReadTiming_ok = conjunct1 [OF ReadTiming_bounds]

text \<open>C31. Timing read from annotations stays usable: from positive 64-bit durations it makes positive 64-bit durations, whatever the
  annotations hold, and the grace period is not configurable.\<close>

theorem ReadTimingFromAnnotations_bounds:
  assumes "timing_ok t"
  shows "timing_ok (ReadTimingFromAnnotations c t) \<and> GraceAfterReady (ReadTimingFromAnnotations c t) = GraceAfterReady t"
  using assms by (rule ReadTiming_bounds)

text \<open>The reason of an event has at most 64 bytes.  For the database gate the cut removes the state, so that start, pass, block and
  timeout of that gate, on every node, are reported under one and the same reason; for the two other gates, before the upgrade, reasons of
  different states differ.\<close>

theorem gate_reason_folding:
  "length (gate_reason phase kind state t) \<le> 64 \<and>
   gate_reason GatePreStep GateDatabasesOnline state t = gate_reason GatePreStep GateDatabasesOnline state' t' \<and>
   gate_reason GatePostStep GateDatabasesOnline state t = gate_reason GatePostStep GateDatabasesOnline state' t' \<and>
   distinct (map (\<lambda>st. gate_reason GatePreStep GateClusterConnectivity st t) [GateStart, GatePass, GateBlock, GateTimeout])"
proof (intro conjI)
  have "length (if length x > 64 then take 64 x else x) \<le> 64" for x :: string by auto
  then show "length (gate_reason phase kind state t) \<le> 64" unfolding gate_reason_def Let_def by this
qed (simp_all add: gate_reason_def GatePreStep_def GatePostStep_def GateDatabasesOnline_def GateClusterConnectivity_def
      GateStart_def GatePass_def GateBlock_def GateTimeout_def Let_def)

subsection \<open>Witnesses\<close>

lemma sample_clock_append: "sample_clock (h @ es) = sample_clock h + sample_clock es"
  by (induction h rule: sample_clock.induct) auto

lemma sample_clock_nonneg: "0 \<le> sample_clock h"
  by (induction h rule: sample_clock.induct) auto

lemma sample_env_clock: "clock_ok (sample_env live)"
  using sample_clock_nonneg by (auto simp: clock_ok_def sample_env_def sample_clock_append add_increasing2 max_def)

definition sample_upgrader :: upgrader where
  "sample_upgrader = \<lparr>buildGates = (\<lambda>env c h. Some (Inr sample_hcc, h)), timing = DefaultTiming, emit = None\<rparr>"

lemma DefaultTiming_ok: "timing_ok DefaultTiming"
  by (simp add: timing_ok_def DefaultTiming_def Minute_def Second_def)

theorem wait_gates_return_witness:
  "\<exists>r h'. waitDB (announcing sample_upgrader) sample_db_env (sample_cluster ''x'') sample_hcc GatePreStep '''' ''a'' [] = Some (r, h') \<and>
     polls 1502 (\<lambda>_. True) [] h'"
proof -
  have "clock_ok sample_db_env" using sample_env_clock by (simp add: clock_ok_def sample_db_env_def)
  moreover have "timing_ok (timing sample_upgrader)" using DefaultTiming_ok by (simp add: sample_upgrader_def)
  moreover have "nat (maxWaitFor sample_upgrader GatePreStep div (200 * Millisecond)) + 2 = 1502"
    by (simp add: maxWaitFor_def sample_upgrader_def DefaultTiming_def Minute_def Second_def Millisecond_def)
  ultimately show ?thesis
    using wait_gates_return [of sample_db_env sample_upgrader "sample_cluster ''x''" sample_hcc GatePreStep "''a''" "[]" "''''"] by simp
qed

theorem wait_sleep_bounds_witness:
  "\<exists>r h'. waitNodeAlive (announcing sample_upgrader) sample_db_env (sample_cluster ''x'') sample_hcc GatePreStep ''a'' [] = Some (r, h') \<and>
     Sleep (200 * Millisecond) \<in> set h' \<and>
     (200 * Millisecond = 200 * Millisecond \<or> 200 * Millisecond = PingInterval (timing sample_upgrader) \<or>
      (0 < 200 * Millisecond \<and> 200 * Millisecond \<le> 15 * Second))"
proof -
  have "\<exists>r h'. waitNodeAlive (announcing sample_upgrader) sample_db_env (sample_cluster ''x'') sample_hcc GatePreStep ''a'' [] =
      Some (r, h') \<and> Sleep (200 * Millisecond) \<in> set h'"
    unfolding waitNodeAlive_def wait_def
    by (simp add: wait_loop.simps Let_def wait_round_def NodeAlive_def urlForTag_def sample_hcc_def sample_db_env_def sample_env_def
        emit_gate_def SetEmitter_def NewGateEventEmitter_def env_ops)
  then obtain r h' where r: "waitNodeAlive (announcing sample_upgrader) sample_db_env (sample_cluster ''x'') sample_hcc GatePreStep ''a'' [] =
      Some (r, h')" "Sleep (200 * Millisecond) \<in> set h'" by blast
  have "0 < PingInterval (timing sample_upgrader)" "PingInterval (timing sample_upgrader) < 2 ^ 62"
    by (simp_all add: sample_upgrader_def DefaultTiming_def Second_def)
  from wait_sleep_bounds [OF this r(1), of "200 * Millisecond"] r show ?thesis by auto
qed

theorem ReadTimingFromAnnotations_bounds_witness:
  "timing_ok (ReadTimingFromAnnotations ((sample_cluster ''x'')\<lparr>Annotations := [UpgradePreWaitAnnotation \<mapsto> ''7m'']\<rparr>) DefaultTiming) \<and>
   PreMaxWait (ReadTimingFromAnnotations ((sample_cluster ''x'')\<lparr>Annotations := [UpgradePreWaitAnnotation \<mapsto> ''7m'']\<rparr>) DefaultTiming) = 7 * Minute"
proof -
  have "ParseDuration ''7m'' = Some 420000000000"
    by (simp add: ParseDuration_def parse_terms.simps duration_term_def duration_number_def duration_fraction_def unit_value_def
        unit_char_def term_value_def is_digit_def Let_def)
  moreover have "strings_TrimSpace ''7m'' \<noteq> ''''" by (simp add: strings_TrimSpace_def is_space_def)
  ultimately
  show ?thesis
    using ReadTimingFromAnnotations_bounds [OF DefaultTiming_ok, of "(sample_cluster ''x'')\<lparr>Annotations := [UpgradePreWaitAnnotation \<mapsto> ''7m'']\<rparr>"]
    by (simp add: ReadTimingFromAnnotations_def parse_timing_def Let_def Minute_def Second_def UpgradePreWaitAnnotation_def
        UpgradePostWaitAnnotation_def UpgradePingIntervalAnnotation_def UpgradeDBIntervalAnnotation_def)
qed

end
