(* ===== verification/HttpClient.thy ===== *)
theory HttpClient
  imports Gates
begin

text \<open>
  The HTTPS client of the gates (\<open>pkg/upgrade/httpclient.go\<close>).  The PKCS 12 and X.509 libraries are parameters of the environment:
  \<open>e_ToPEM\<close> gives the blocks of a PFX file, each as its type and its PEM encoding, \<open>e_X509KeyPair\<close> says whether a pair of PEM texts is
  accepted, \<open>e_AppendCertsFromPEM\<close> whether a text holds a certificate.  Following the nil pointer of a missing
  \<open>CACertSecretRef\<close> panics, which is \<open>None\<close>.
\<close>

definition clientPFXKey :: string where "clientPFXKey = ''client.pfx''"
definition clientPwdKey :: string where "clientPwdKey = ''password''"
definition caCRTKey :: string where "caCRTKey = ''ca.crt''"

definition needsCA :: "RavenDBCluster \<Rightarrow> string + bool" where
  "needsCA c =
     (let mode = s_Mode (Spec c)
      in if mode = ModeLetsEncrypt then Inr False
         else if mode = ModeNone then Inr True
         else Inl (''unsupported mode: '' @ quote mode))"

text \<open>The certificate part and the key part of the blocks.\<close>

definition is_key_block :: "string \<times> string \<Rightarrow> bool" where
  "is_key_block b = strings_Contains (fst b) ''PRIVATE KEY''"

definition pfxToTLSCert :: "Env \<Rightarrow> string \<Rightarrow> string \<Rightarrow> string + Certificate" where
  "pfxToTLSCert env pfx password =
     (case e_ToPEM env pfx password of
        Inl err \<Rightarrow> Inl (''decode client.pfx: '' @ err)
      | Inr blocks \<Rightarrow>
          (let keyPEM = foldl (\<lambda>acc b. if is_key_block b then acc @ snd b else acc) '''' blocks;
               certPEM = foldl (\<lambda>acc b. if is_key_block b then acc else acc @ snd b) '''' blocks
           in case e_X509KeyPair env certPEM keyPEM of
                Some err \<Rightarrow> Inl err
              | None \<Rightarrow> Inr \<lparr>cert_PEM = certPEM, key_PEM = keyPEM\<rparr>))"

definition loadClientPair :: "Env \<Rightarrow> Secret \<Rightarrow> string + Certificate" where
  "loadClientPair env secret =
     (case map_of (sec_Data secret) clientPFXKey of
        None \<Rightarrow> Inl (''client secret '' @ quote (om_Name (sec_Meta secret)) @ '' missing '' @ quote clientPFXKey)
      | Some pfx \<Rightarrow>
          if length pfx = 0 then Inl (''client secret '' @ quote (om_Name (sec_Meta secret)) @ '' missing '' @ quote clientPFXKey)
          else let pass = (case map_of (sec_Data secret) clientPwdKey of Some p \<Rightarrow> p | None \<Rightarrow> '''')
               in pfxToTLSCert env pfx pass)"

definition loadCAPool :: "Env \<Rightarrow> RavenDBCluster \<Rightarrow> history \<Rightarrow> ((string + string) \<times> history) option" where
  "loadCAPool env c h =
     do { ref \<leftarrow> s_CACertSecretRef (Spec c);
          (let caName = strings_TrimSpace ref;
               (got, h) = get_secret env (Namespace c) caName h
           in case got of
                Inl e \<Rightarrow> Some (Inl (''get CA secret '' @ quote caName @ '': '' @ kerr_msg e), h)
              | Inr caSecret \<Rightarrow>
                  (case map_of (sec_Data caSecret) caCRTKey of
                     None \<Rightarrow> Some (Inl (''CA secret '' @ quote caName @ '' missing '' @ quote caCRTKey), h)
                   | Some caPEM \<Rightarrow>
                       if length caPEM = 0 then Some (Inl (''CA secret '' @ quote caName @ '' missing '' @ quote caCRTKey), h)
                       else if \<not> e_AppendCertsFromPEM env caPEM
                            then Some (Inl (''failed to parse '' @ quote caCRTKey @ '' from '' @ quote caName), h)
                            else Some (Inr caPEM, h))) }"

definition BuildHTTPSClientFromCluster :: "Env \<Rightarrow> RavenDBCluster \<Rightarrow> history \<Rightarrow> ((string + http_Client) \<times> history) option" where
  "BuildHTTPSClientFromCluster env c h =
     (case needsCA c of
        Inl err \<Rightarrow> Some (Inl err, h)
      | Inr needCA \<Rightarrow>
          (let (got, h) = get_secret env (Namespace c) (s_ClientCertSecretRef (Spec c)) h
           in case got of
                Inl e \<Rightarrow> Some (Inl (''get client cert secret '' @ quote (s_ClientCertSecretRef (Spec c)) @ '': '' @ kerr_msg e), h)
              | Inr clientSecret \<Rightarrow>
                  (case loadClientPair env clientSecret of
                     Inl err \<Rightarrow> Some (Inl err, h)
                   | Inr pair \<Rightarrow>
                       if needCA then
                         do { (r, h) \<leftarrow> loadCAPool env c h;
                              Some (case r of
                                      Inl err \<Rightarrow> Inl err
                                    | Inr pool \<Rightarrow> Inr \<lparr>hc_Certificates = [pair], hc_RootCAs = Some pool, hc_Timeout = 0\<rparr>, h) }
                       else Some (Inr \<lparr>hc_Certificates = [pair], hc_RootCAs = None, hc_Timeout = 0\<rparr>, h))))"

subsection \<open>Properties\<close>

lemma foldl_concat: "foldl (\<lambda>acc b. if P b then acc @ f b else acc) a bs = a @ concat (map f (filter P bs))"
  by (induction bs arbitrary: a) auto

lemma foldl_concat_not: "foldl (\<lambda>acc b. if P b then acc else acc @ f b) a bs = a @ concat (map f (filter (\<lambda>b. \<not> P b) bs))"
  by (induction bs arbitrary: a) auto

lemma BuildHTTPS_total:
  "(s_Mode (Spec c) = ModeNone \<Longrightarrow> s_CACertSecretRef (Spec c) \<noteq> None) \<Longrightarrow> \<exists>r h'. BuildHTTPSClientFromCluster env c h = Some (r, h')"
  by (auto simp: BuildHTTPSClientFromCluster_def needsCA_def loadCAPool_def Let_def get_secret_def
      split: sum.splits option.splits)

lemma loadCAPool_reads: "loadCAPool env c h = Some (r, h') \<Longrightarrow> \<exists>name. h' = h @ [GetSecret (Namespace c) name]"
  by (cases "s_CACertSecretRef (Spec c)")
    (auto simp: loadCAPool_def Let_def get_secret_def split: sum.split_asm option.split_asm if_split_asm)

lemma BuildHTTPS_reads: "BuildHTTPSClientFromCluster env c h = Some (r, h') \<Longrightarrow> reads_only h h'"
  by (auto simp: BuildHTTPSClientFromCluster_def Let_def get_secret_def extends_def
      split: sum.split_asm Option.bind_split_asm if_split_asm dest!: loadCAPool_reads)

lemma loadCAPool_pool:
  "loadCAPool env c h = Some (Inr pem, h') \<longleftrightarrow>
   (\<exists>ref caSecret. s_CACertSecretRef (Spec c) = Some ref \<and> e_GetSecret env h (Namespace c) (strings_TrimSpace ref) = Inr caSecret \<and>
      map_of (sec_Data caSecret) caCRTKey = Some pem \<and> pem \<noteq> '''' \<and> e_AppendCertsFromPEM env pem \<and>
      h' = h @ [GetSecret (Namespace c) (strings_TrimSpace ref)])"
  by (cases "s_CACertSecretRef (Spec c)")
    (auto simp: loadCAPool_def Let_def get_secret_def split: sum.split_asm option.split_asm if_split_asm)

lemma loadClientPair_cert:
  "loadClientPair env secret = Inr pair \<longleftrightarrow>
   (\<exists>pfx blocks. map_of (sec_Data secret) clientPFXKey = Some pfx \<and> pfx \<noteq> '''' \<and>
      e_ToPEM env pfx (case map_of (sec_Data secret) clientPwdKey of Some p \<Rightarrow> p | None \<Rightarrow> '''') = Inr blocks \<and>
      e_X509KeyPair env (cert_PEM pair) (key_PEM pair) = None \<and>
      pair = \<lparr>cert_PEM = concat (map snd (filter (\<lambda>b. \<not> is_key_block b) blocks)), key_PEM = concat (map snd (filter is_key_block blocks))\<rparr>)"
  by (auto simp: loadClientPair_def pfxToTLSCert_def Let_def foldl_concat foldl_concat_not split: sum.splits option.splits)

text \<open>C29. What client the operator talks to the nodes with.  If it is built, it presents exactly one certificate: the certificate and key blocks,
  in order, of the \<open>client.pfx\<close> of the client secret, read from the cluster's own namespace, opened with the secret's password or the
  empty one.  In mode None it trusts only the \<open>ca.crt\<close> of the CA secret, in mode LetsEncrypt the system's roots; in every other mode no
  client is built.  It has no timeout.\<close>

theorem https_client_spec:
  assumes "BuildHTTPSClientFromCluster env c h = Some (Inr cl, h')"
  shows "\<exists>secret pfx blocks.
    e_GetSecret env h (Namespace c) (s_ClientCertSecretRef (Spec c)) = Inr secret \<and>
    map_of (sec_Data secret) clientPFXKey = Some pfx \<and> pfx \<noteq> '''' \<and>
    e_ToPEM env pfx (case map_of (sec_Data secret) clientPwdKey of Some p \<Rightarrow> p | None \<Rightarrow> '''') = Inr blocks \<and>
    hc_Certificates cl = [\<lparr>cert_PEM = concat (map snd (filter (\<lambda>b. \<not> is_key_block b) blocks)),
                           key_PEM = concat (map snd (filter is_key_block blocks))\<rparr>] \<and>
    hc_Timeout cl = 0 \<and>
    (if s_Mode (Spec c) = ModeLetsEncrypt then hc_RootCAs cl = None
     else s_Mode (Spec c) = ModeNone \<and>
       (\<exists>ref caSecret pem. s_CACertSecretRef (Spec c) = Some ref \<and>
          e_GetSecret env (h @ [GetSecret (Namespace c) (s_ClientCertSecretRef (Spec c))]) (Namespace c) (strings_TrimSpace ref) = Inr caSecret \<and>
          map_of (sec_Data caSecret) caCRTKey = Some pem \<and> pem \<noteq> '''' \<and> e_AppendCertsFromPEM env pem \<and> hc_RootCAs cl = Some pem))"
  using assms
  by (auto simp: BuildHTTPSClientFromCluster_def needsCA_def Let_def get_secret_def loadCAPool_pool loadClientPair_cert
      split: sum.split_asm if_split_asm Option.bind_split_asm)

theorem https_client_spec_witness:
  "\<exists>cl h'. BuildHTTPSClientFromCluster (sample_env (\<lambda>_. Inl (NotFound ''''))) ((sample_cluster ''x'')\<lparr>Spec := (sample_spec ''x'')
       \<lparr>s_Mode := ModeNone, s_CACertSecretRef := Some '' ca ''\<rparr>\<rparr>) [] = Some (Inr cl, h') \<and> hc_RootCAs cl = Some ''crt'' \<and>
     hc_Certificates cl = [\<lparr>cert_PEM = ''pfx'', key_PEM = ''pfx''\<rparr>]"
proof -
  let ?env = "sample_env (\<lambda>_. Inl (NotFound ''''))"
  let ?c = "(sample_cluster ''x'')\<lparr>Spec := (sample_spec ''x'')\<lparr>s_Mode := ModeNone, s_CACertSecretRef := Some '' ca ''\<rparr>\<rparr>"
  have key: "is_key_block (''PRIVATE KEY'', x)" "\<not> is_key_block (''CERTIFICATE'', x)" for x
    by (simp_all add: is_key_block_def go_simps, code_simp)
  have "\<exists>cl h'. BuildHTTPSClientFromCluster ?env ?c [] = Some (Inr cl, h')"
    by (simp add: BuildHTTPSClientFromCluster_def needsCA_def loadClientPair_def pfxToTLSCert_def loadCAPool_def get_secret_def sample_env_def
        sample_secret_def clientPFXKey_def clientPwdKey_def caCRTKey_def)
  then obtain cl h' where r: "BuildHTTPSClientFromCluster ?env ?c [] = Some (Inr cl, h')" by blast
  from https_client_spec [OF r] have "hc_RootCAs cl = Some ''crt'' \<and> hc_Certificates cl = [\<lparr>cert_PEM = ''pfx'', key_PEM = ''pfx''\<rparr>]"
    by (auto simp: sample_env_def sample_secret_def clientPFXKey_def clientPwdKey_def caCRTKey_def key)
  with r show ?thesis by blast
qed

end
