(* ===== verification/Upgrader.thy ===== *)
theory Upgrader
  imports Wait HttpClient
begin

text \<open>
  The rolling upgrade (\<open>pkg/upgrade/upgrader.go\<close>, and the status and annotation helpers of
  \<open>pkg/upgrade/status_and_annotation.go\<close>).  \<open>Run\<close> performs one tick: it builds the gates, selects one node, and takes that node through
  gates, annotation, apply and gates again.  The callback \<open>applyNode\<close> is a parameter; it may panic (\<open>None\<close>).  A panic or a wait that
  never ends makes the result of \<open>Run\<close> \<open>None\<close>.  The zero time is \<open>0\<close>.
\<close>

type_synonym ApplyNodeFn = "RavenDBNode \<Rightarrow> history \<Rightarrow> (error \<times> history) option"

subsection \<open>Names, statuses and the annotation\<close>

definition normalizeTag :: "string \<Rightarrow> string" where
  "normalizeTag t = strings_ToUpper (strings_TrimSpace t)"

definition statefulSetName :: "string \<Rightarrow> string" where
  "statefulSetName tag = Prefix @ strings_ToLower tag"

definition timestampNow :: "Env \<Rightarrow> history \<Rightarrow> time \<times> history" where
  "timestampNow env h = time_Now env h"

definition failedStatus :: "Env \<Rightarrow> string \<Rightarrow> string \<Rightarrow> string \<Rightarrow> history \<Rightarrow> RavenDBNodeStatus \<times> history" where
  "failedStatus env tag msg desired h =
     (let (now, h) = timestampNow env h
      in (\<lparr>ns_Tag = tag, ns_Status = NodeStatusFailed, ns_LastAttemptedImage = desired, ns_LastError = msg, ns_LastAttemptTime = now\<rparr>, h))"

definition successStatus :: "Env \<Rightarrow> string \<Rightarrow> string \<Rightarrow> history \<Rightarrow> RavenDBNodeStatus \<times> history" where
  "successStatus env tag desired h =
     (let (now, h) = timestampNow env h
      in (\<lparr>ns_Tag = tag, ns_Status = NodeStatusCreated, ns_LastAttemptedImage = desired, ns_LastError = '''', ns_LastAttemptTime = now\<rparr>, h))"

definition set_annotation :: "string \<Rightarrow> StatefulSet \<Rightarrow> StatefulSet" where
  "set_annotation value sts =
     sts\<lparr>sts_Meta := (sts_Meta sts)\<lparr>om_Annotations :=
       (if value = '''' then (om_Annotations (sts_Meta sts))(UpgradeImageAnnotation := None)
        else (om_Annotations (sts_Meta sts))(UpgradeImageAnnotation \<mapsto> value))\<rparr>\<rparr>"

definition setUpgradeAnnotation :: "Env \<Rightarrow> RavenDBCluster \<Rightarrow> string \<Rightarrow> string \<Rightarrow> history \<Rightarrow> error \<times> history" where
  "setUpgradeAnnotation env c tag value h =
     (let (got, h) = get_sts env (Namespace c) (statefulSetName tag) h
      in case got of
           Inl e \<Rightarrow> (if IsNotFound e then None else Some (kerr_msg e), h)
         | Inr sts \<Rightarrow>
             (let (err, h) = patch_sts env (set_annotation value sts) sts h
              in (map_option kerr_msg err, h)))"

definition hasUpgradeAnnotation :: "Env \<Rightarrow> RavenDBCluster \<Rightarrow> string \<Rightarrow> history \<Rightarrow> (bool \<times> error) \<times> history" where
  "hasUpgradeAnnotation env c tag h =
     (let (got, h) = get_sts env (Namespace c) (statefulSetName tag) h
      in (case got of
            Inl e \<Rightarrow> (False, Some (kerr_msg e))
          | Inr sts \<Rightarrow> (om_Annotations (sts_Meta sts) UpgradeImageAnnotation \<noteq> None, None), h))"

definition desiredNodeImage :: "RavenDBCluster \<Rightarrow> string" where
  "desiredNodeImage c = s_Image (Spec c)"

definition currentStsImage :: "StatefulSet \<Rightarrow> string" where
  "currentStsImage sts = (case ps_Containers (sts_PodSpec sts) of [] \<Rightarrow> '''' | ct # _ \<Rightarrow> ct_Image ct)"

definition buildPrevStatusMap :: "RavenDBClusterStatus \<Rightarrow> string \<rightharpoonup> RavenDBNodeStatus" where
  "buildPrevStatusMap st = foldl (\<lambda>m s. m(normalizeTag (ns_Tag s) \<mapsto> s)) Map.empty (st_Nodes st)"

definition isUpgrading :: "bool \<Rightarrow> string \<Rightarrow> string \<Rightarrow> bool \<Rightarrow> bool" where
  "isUpgrading stsExists desiredImg currentImg marked =
     (if \<not> stsExists then False
      else if desiredImg = '''' \<or> currentImg = '''' then False
      else if marked then True
      else desiredImg \<noteq> currentImg)"

definition created_status :: "string \<Rightarrow> string \<Rightarrow> RavenDBNodeStatus" where
  "created_status tag status =
     \<lparr>ns_Tag = tag, ns_Status = status, ns_LastAttemptedImage = '''', ns_LastError = '''', ns_LastAttemptTime = 0\<rparr>"

definition statusOrCreated :: "(string \<rightharpoonup> RavenDBNodeStatus) \<Rightarrow> string \<Rightarrow> RavenDBNodeStatus" where
  "statusOrCreated prev nodeTag =
     (case prev (normalizeTag nodeTag) of Some prestatus \<Rightarrow> prestatus | None \<Rightarrow> created_status nodeTag NodeStatusCreated)"

subsection \<open>Selecting a node\<close>

fun in_flight_loop :: "Env \<Rightarrow> RavenDBCluster \<Rightarrow> RavenDBNode list \<Rightarrow> history \<Rightarrow> string \<times> history" where
  "in_flight_loop env c [] h = ('''', h)"
| "in_flight_loop env c (n # ns) h =
     (let (got, h) = get_sts env (Namespace c) (statefulSetName (n_Tag n)) h
      in case got of
           Inl _ \<Rightarrow> in_flight_loop env c ns h
         | Inr sts \<Rightarrow>
             if om_Annotations (sts_Meta sts) UpgradeImageAnnotation \<noteq> None then (n_Tag n, h) else in_flight_loop env c ns h)"

definition findInFlightTag :: "Env \<Rightarrow> RavenDBCluster \<Rightarrow> history \<Rightarrow> (string \<times> error) \<times> history" where
  "findInFlightTag env c h = (let (t, h) = in_flight_loop env c (s_Nodes (Spec c)) h in ((t, None), h))"

text \<open>The two later loops; \<open>None\<close> when they fall through.\<close>

fun missing_loop :: "Env \<Rightarrow> RavenDBCluster \<Rightarrow> RavenDBNode list \<Rightarrow> history \<Rightarrow> string option \<times> history" where
  "missing_loop env c [] h = (None, h)"
| "missing_loop env c (n # ns) h =
     (let (got, h) = get_sts env (Namespace c) (statefulSetName (n_Tag n)) h
      in case got of
           Inl e \<Rightarrow> if IsNotFound e then (Some (normalizeTag (n_Tag n)), h) else missing_loop env c ns h
         | Inr _ \<Rightarrow> missing_loop env c ns h)"

fun mismatch_loop :: "Env \<Rightarrow> RavenDBCluster \<Rightarrow> string \<Rightarrow> RavenDBNode list \<Rightarrow> history \<Rightarrow> string option \<times> history" where
  "mismatch_loop env c desiredImg [] h = (None, h)"
| "mismatch_loop env c desiredImg (n # ns) h =
     (let (got, h) = get_sts env (Namespace c) (statefulSetName (n_Tag n)) h
      in case got of
           Inl _ \<Rightarrow> mismatch_loop env c desiredImg ns h
         | Inr sts \<Rightarrow>
             (let cur = currentStsImage sts
              in if cur \<noteq> '''' \<and> desiredImg \<noteq> '''' \<and> cur \<noteq> desiredImg then (Some (normalizeTag (n_Tag n)), h)
                 else mismatch_loop env c desiredImg ns h))"

definition pickSelectedTag :: "Env \<Rightarrow> RavenDBCluster \<Rightarrow> string \<Rightarrow> history \<Rightarrow> (string \<times> error) \<times> history" where
  "pickSelectedTag env c desiredImg h =
     (let ((t, _), h) = findInFlightTag env c h
      in if strings_TrimSpace t \<noteq> '''' then ((normalizeTag t, None), h)
         else let (r, h) = missing_loop env c (s_Nodes (Spec c)) h
              in case r of
                   Some t \<Rightarrow> ((t, None), h)
                 | None \<Rightarrow>
                     (let (r, h) = mismatch_loop env c desiredImg (s_Nodes (Spec c)) h
                      in case r of Some t \<Rightarrow> ((t, None), h) | None \<Rightarrow> (('''', None), h)))"

definition loadSTSByNodeTag :: "Env \<Rightarrow> RavenDBCluster \<Rightarrow> string \<Rightarrow> history \<Rightarrow> (StatefulSet option \<times> bool \<times> error) \<times> history" where
  "loadSTSByNodeTag env c tag h =
     (let (got, h) = get_sts env (Namespace c) (statefulSetName tag) h
      in (case got of
            Inl e \<Rightarrow> if IsNotFound e then (None, False, None) else (None, False, Some (kerr_msg e))
          | Inr sts \<Rightarrow> (Some sts, True, None), h))"

subsection \<open>The gates around a node\<close>

definition gate_error :: "GateError option \<Rightarrow> error" where
  "gate_error = map_option GateError_Error"

definition preNode :: "upgrader \<Rightarrow> Env \<Rightarrow> RavenDBCluster \<Rightarrow> HealthCheckContext \<Rightarrow> string \<Rightarrow> history \<Rightarrow> (error \<times> history) option" where
  "preNode u env c hcc tag h =
     do { (e, h) \<leftarrow> waitNodeAlive u env c hcc GatePreStep tag h;
          if e \<noteq> None then Some (gate_error e, h)
          else do { (e, h) \<leftarrow> waitConnectivity u env c hcc GatePreStep tag h;
                    if e \<noteq> None then Some (gate_error e, h)
                    else do { (e, h) \<leftarrow> waitDB u env c hcc GatePreStep tag tag h;
                              if e \<noteq> None then Some (gate_error e, h) else Some (None, h) } } }"

definition postNode :: "upgrader \<Rightarrow> Env \<Rightarrow> RavenDBCluster \<Rightarrow> HealthCheckContext \<Rightarrow> string \<Rightarrow> history \<Rightarrow> (error \<times> history) option" where
  "postNode u env c hcc tag h =
     do { (e, h) \<leftarrow> waitNodeAlive u env c hcc GatePostStep tag h;
          if e \<noteq> None then Some (gate_error e, h)
          else let (err, h) = time_After env (GraceAfterReady (timing u)) h in
          if err \<noteq> None then Some (err, h)
          else do { (e, h) \<leftarrow> waitConnectivity u env c hcc GatePostStep tag h;
                    if e \<noteq> None then Some (gate_error e, h)
                    else do { (e, h) \<leftarrow> waitDB u env c hcc GatePostStep '''' tag h;
                              if e \<noteq> None then Some (gate_error e, h) else Some (None, h) } } }"

subsection \<open>One tick\<close>

definition buildGatesDefault :: "Env \<Rightarrow> RavenDBCluster \<Rightarrow> history \<Rightarrow> ((string + HealthCheckContext) \<times> history) option" where
  "buildGatesDefault env c h =
     do { (r, h) \<leftarrow> BuildHTTPSClientFromCluster env c h;
          Some (case r of Inl err \<Rightarrow> Inl err | Inr httpc \<Rightarrow> Inr (NewChecks (Some httpc) c), h) }"

definition NewUpgrader :: "Timing \<Rightarrow> upgrader" where
  "NewUpgrader t =
     (let t = (if PreMaxWait t = 0 then t\<lparr>PreMaxWait := 5 * Minute\<rparr> else t);
          t = (if PostMaxWait t = 0 then t\<lparr>PostMaxWait := 15 * Minute\<rparr> else t);
          t = (if PingInterval t = 0 then t\<lparr>PingInterval := 5 * Second\<rparr> else t);
          t = (if DBInterval t = 0 then t\<lparr>DBInterval := 10 * Second\<rparr> else t);
          t = (if GraceAfterReady t = 0 then t\<lparr>GraceAfterReady := 10 * Second\<rparr> else t)
      in \<lparr>buildGates = buildGatesDefault, timing = t, emit = None\<rparr>)"

text \<open>What the loop of \<open>Run\<close> does with the selected node.  The result is the status it appends and, when it returns early, the error.\<close>

definition after_apply ::
  "upgrader \<Rightarrow> Env \<Rightarrow> RavenDBCluster \<Rightarrow> HealthCheckContext \<Rightarrow> string \<Rightarrow> (string \<rightharpoonup> RavenDBNodeStatus) \<Rightarrow> bool \<Rightarrow> RavenDBNode \<Rightarrow> error \<Rightarrow> history \<Rightarrow>
   ((RavenDBNodeStatus \<times> error) \<times> history) option" where
  "after_apply u env c gates desiredImg prev upgrading node err h =
     (case err of
        Some e \<Rightarrow>
          (let (s, h) = failedStatus env (n_Tag node) e desiredImg h;
               h = (if upgrading then snd (setUpgradeAnnotation env c (n_Tag node) '''' h) else h)
           in Some ((s, Some (''apply node '' @ n_Tag node @ '' failed: '' @ e)), h))
      | None \<Rightarrow>
          if upgrading then
            do { (err, h) \<leftarrow> postNode u env c gates (n_Tag node) h;
                 (case err of
                    Some e \<Rightarrow>
                      (let (s, h) = failedStatus env (n_Tag node) e desiredImg h;
                           (_, h) = setUpgradeAnnotation env c (n_Tag node) '''' h
                       in Some ((s, Some (''post-node gates failed for '' @ n_Tag node @ '': '' @ e)), h))
                  | None \<Rightarrow>
                      (let (_, h) = setUpgradeAnnotation env c (n_Tag node) '''' h;
                           (s, h) = successStatus env (n_Tag node) desiredImg h
                       in Some ((s, None), h))) }
          else Some ((statusOrCreated prev (n_Tag node), None), h))"

text \<open>The steps before the mutation: the gates and the annotation.  An early return is a status and an error.\<close>

definition before_apply ::
  "upgrader \<Rightarrow> Env \<Rightarrow> RavenDBCluster \<Rightarrow> HealthCheckContext \<Rightarrow> string \<Rightarrow> bool \<Rightarrow> bool \<Rightarrow> RavenDBNode \<Rightarrow> history \<Rightarrow>
   ((RavenDBNodeStatus \<times> error) option \<times> history) option" where
  "before_apply u env c gates desiredImg upgrading marked node h =
     (if upgrading \<and> \<not> marked then
        do { (err, h) \<leftarrow> preNode u env c gates (n_Tag node) h;
             (case err of
                Some e \<Rightarrow>
                  (let (s, h) = failedStatus env (n_Tag node) e desiredImg h
                   in Some (Some (s, Some (''pre-node gates failed for '' @ n_Tag node @ '': '' @ e)), h))
              | None \<Rightarrow>
                  (let (err, h) = setUpgradeAnnotation env c (n_Tag node) desiredImg h
                   in case err of
                        Some e \<Rightarrow>
                          (let (s, h) = failedStatus env (n_Tag node) (''set upgrade annotation: '' @ e) desiredImg h;
                               (_, h) = setUpgradeAnnotation env c (n_Tag node) '''' h
                           in Some (Some (s, Some e), h))
                      | None \<Rightarrow> Some (None, h))) }
      else Some (None, h))"

definition run_node ::
  "upgrader \<Rightarrow> Env \<Rightarrow> RavenDBCluster \<Rightarrow> ApplyNodeFn \<Rightarrow> HealthCheckContext \<Rightarrow> string \<Rightarrow> (string \<rightharpoonup> RavenDBNodeStatus) \<Rightarrow> RavenDBNode \<Rightarrow> history \<Rightarrow>
   ((RavenDBNodeStatus \<times> error) \<times> history) option" where
  "run_node u env c applyNode gates desiredImg prev node h =
     (let ((sts, stsExists, getErr), h) = loadSTSByNodeTag env c (n_Tag node) h
      in case getErr of
           Some e \<Rightarrow> Some ((created_status (n_Tag node) NodeStatusFailed, Some e), h)
         | None \<Rightarrow>
             (let currentImg = (case sts of Some s \<Rightarrow> currentStsImage s | None \<Rightarrow> '''');
                  ((marked, _), h) = hasUpgradeAnnotation env c (n_Tag node) h;
                  upgrading = isUpgrading stsExists desiredImg currentImg marked
              in do { (early, h) \<leftarrow> before_apply u env c gates desiredImg upgrading marked node h;
                      (case early of
                         Some r \<Rightarrow> Some (r, h)
                       | None \<Rightarrow>
                           do { (err, h) \<leftarrow> applyNode node h;
                                after_apply u env c gates desiredImg prev upgrading node err h }) }))"

fun run_loop ::
  "upgrader \<Rightarrow> Env \<Rightarrow> RavenDBCluster \<Rightarrow> ApplyNodeFn \<Rightarrow> HealthCheckContext \<Rightarrow> string \<Rightarrow> (string \<rightharpoonup> RavenDBNodeStatus) \<Rightarrow> string \<Rightarrow>
   RavenDBNode list \<Rightarrow> RavenDBNodeStatus list \<Rightarrow> history \<Rightarrow> ((RavenDBNodeStatus list \<times> error) \<times> history) option" where
  "run_loop u env c applyNode gates desiredImg prev selectedTag [] statuses h = Some ((statuses, None), h)"
| "run_loop u env c applyNode gates desiredImg prev selectedTag (node # nodes) statuses h =
     (if \<not> strings_EqualFold (n_Tag node) selectedTag
      then run_loop u env c applyNode gates desiredImg prev selectedTag nodes (statuses @ [statusOrCreated prev (n_Tag node)]) h
      else do { ((s, err), h) \<leftarrow> run_node u env c applyNode gates desiredImg prev node h;
                (case err of
                   Some e \<Rightarrow> Some ((statuses @ [s], Some e), h)
                 | None \<Rightarrow> run_loop u env c applyNode gates desiredImg prev selectedTag nodes (statuses @ [s]) h) })"

text \<open>Step 4: the statuses in the order of the specification; a tag without one would give the zero status.\<close>

definition order_statuses :: "RavenDBNode list \<Rightarrow> RavenDBNodeStatus list \<Rightarrow> RavenDBNodeStatus list" where
  "order_statuses nodes statuses =
     (let byUpper = foldl (\<lambda>m s. m(normalizeTag (ns_Tag s) \<mapsto> s)) Map.empty statuses
      in map (\<lambda>n. case byUpper (normalizeTag (n_Tag n)) of Some s \<Rightarrow> s | None \<Rightarrow> created_status '''' '''') nodes)"

definition Run ::
  "upgrader \<Rightarrow> Env \<Rightarrow> RavenDBCluster \<Rightarrow> ApplyNodeFn \<Rightarrow> history \<Rightarrow> ((RavenDBNodeStatus list \<times> error) \<times> history) option" where
  "Run u env cluster applyNode h =
     do { (g, h) \<leftarrow> buildGates u env cluster h;
          (case g of
             Inl err \<Rightarrow> Some (([], Some err), h)
           | Inr gates \<Rightarrow>
               (let desiredImg = desiredNodeImage cluster;
                    prev = buildPrevStatusMap (Status cluster);
                    ((selectedTag, err), h) = pickSelectedTag env cluster desiredImg h;
                    current = map (\<lambda>n. statusOrCreated prev (n_Tag n)) (s_Nodes (Spec cluster))
                in if err \<noteq> None then Some ((current, err), h)
                   else if selectedTag = '''' then Some ((current, None), h)
                   else do { ((statuses, err), h) \<leftarrow> run_loop u env cluster applyNode gates desiredImg prev selectedTag (s_Nodes (Spec cluster)) [] h;
                             (case err of
                                Some e \<Rightarrow> Some ((statuses, Some e), h)
                              | None \<Rightarrow> Some ((order_statuses (s_Nodes (Spec cluster)) statuses, None), h)) })) }"

subsection \<open>The statuses of a tick\<close>

lemma foldl_keyed_Some: "foldl (\<lambda>m s. m(f s \<mapsto> s)) m xs k = Some v \<Longrightarrow> m k = Some v \<or> (v \<in> set xs \<and> f v = k)"
  by (induction xs arbitrary: m) (fastforce split: if_splits)+

lemma foldl_keyed_None: "foldl (\<lambda>m s. m(f s \<mapsto> s)) m xs k = None \<Longrightarrow> m k = None \<and> (\<forall>v \<in> set xs. f v \<noteq> k)"
proof (induction xs arbitrary: m)
  case (Cons a xs)
  from Cons.IH [of "m(f a \<mapsto> a)"] Cons.prems show ?case by (auto split: if_splits)
qed simp

abbreviation status_tag :: "RavenDBNodeStatus \<Rightarrow> string" where
  "status_tag s \<equiv> normalizeTag (ns_Tag s)"

abbreviation node_tag :: "RavenDBNode \<Rightarrow> string" where
  "node_tag n \<equiv> normalizeTag (n_Tag n)"

lemma statusOrCreated_tag: "status_tag (statusOrCreated (buildPrevStatusMap st) t) = normalizeTag t"
  by (auto simp: statusOrCreated_def buildPrevStatusMap_def created_status_def split: option.splits dest!: foldl_keyed_Some)

lemma failedStatus_tag: "failedStatus env tag msg img h = (s, h') \<Longrightarrow> ns_Tag s = tag \<and> h' = h @ [Now]"
  by (auto simp: failedStatus_def timestampNow_def time_Now_def)

lemma successStatus_tag: "successStatus env tag img h = (s, h') \<Longrightarrow> ns_Tag s = tag \<and> h' = h @ [Now]"
  by (auto simp: successStatus_def timestampNow_def time_Now_def)

lemmas status_tags = statusOrCreated_tag failedStatus_tag successStatus_tag

lemma before_apply_tag: "before_apply u env c g img up marked node h = Some (Some (s, err), h') \<Longrightarrow> ns_Tag s = n_Tag node \<and> err \<noteq> None"
  by (auto simp: before_apply_def Let_def split: if_split_asm Option.bind_split_asm option.split_asm prod.split_asm dest!: failedStatus_tag)

lemma after_apply_tag:
  "after_apply u env c g img (buildPrevStatusMap st) up node err h = Some ((s, err'), h') \<Longrightarrow> status_tag s = node_tag node"
  by (auto simp: after_apply_def Let_def statusOrCreated_tag split: if_split_asm Option.bind_split_asm option.split_asm prod.split_asm
      dest!: failedStatus_tag successStatus_tag)

lemma run_node_tag:
  "run_node u env c apply g img (buildPrevStatusMap st) node h = Some ((s, err), h') \<Longrightarrow> status_tag s = node_tag node"
  by (auto simp: run_node_def Let_def created_status_def split: Option.bind_split_asm option.split_asm prod.split_asm
      dest!: before_apply_tag after_apply_tag)

lemma run_loop_tags:
  "run_loop u env c apply g img (buildPrevStatusMap st) sel nodes sts h = Some ((sts', err), h') \<Longrightarrow>
   (err = None \<longrightarrow> map status_tag sts' = map status_tag sts @ map node_tag nodes) \<and>
   prefix (map status_tag sts') (map status_tag sts @ map node_tag nodes)"
proof (induction nodes arbitrary: sts h)
  case (Cons n nodes)
  from Cons.prems consider
    (skip) "run_loop u env c apply g img (buildPrevStatusMap st) sel nodes (sts @ [statusOrCreated (buildPrevStatusMap st) (n_Tag n)]) h =
      Some ((sts', err), h')"
    | (stop) s e where "run_node u env c apply g img (buildPrevStatusMap st) n h = Some ((s, Some e), h')" "sts' = sts @ [s]" "err = Some e"
    | (cont) s h1 where "run_node u env c apply g img (buildPrevStatusMap st) n h = Some ((s, None), h1)"
      "run_loop u env c apply g img (buildPrevStatusMap st) sel nodes (sts @ [s]) h1 = Some ((sts', err), h')"
    by (auto split: if_split_asm Option.bind_split_asm option.split_asm)
  then show ?case
  proof cases
    case skip
    from Cons.IH [OF skip] show ?thesis by (simp add: statusOrCreated_tag)
  next
    case stop
    with run_node_tag [OF stop(1)] show ?thesis by simp
  next
    case cont
    from Cons.IH [OF cont(2)] run_node_tag [OF cont(1)] show ?thesis by simp
  qed
qed simp

lemma order_statuses_tags:
  assumes "set (map node_tag nodes) \<subseteq> set (map status_tag sts)"
  shows "map status_tag (order_statuses nodes sts) = map node_tag nodes"
proof -
  let ?m = "foldl (\<lambda>m s. m(status_tag s \<mapsto> s)) Map.empty sts"
  have "status_tag (case ?m (node_tag n) of Some s \<Rightarrow> s | None \<Rightarrow> created_status '''' '''') = node_tag n" if "n \<in> set nodes" for n
  proof (cases "?m (node_tag n)")
    case None
    from foldl_keyed_None [OF None] assms that show ?thesis by force
  next
    case (Some s)
    from foldl_keyed_Some [OF Some] Some show ?thesis by simp
  qed
  then show ?thesis by (simp add: order_statuses_def Let_def)
qed

text \<open>C24. The statuses a tick returns.  Without an error there is exactly one per node of the specification, in the order of the specification,
  each for the node of that place.  With an error the statuses are those of an initial part of the nodes: the nodes after the one that
  failed have none.\<close>

theorem Run_statuses:
  assumes "Run u env c apply h = Some ((sts, err), h')"
  shows "(err = None \<longrightarrow> map status_tag sts = map node_tag (s_Nodes (Spec c))) \<and>
    prefix (map status_tag sts) (map node_tag (s_Nodes (Spec c)))"
proof -
  let ?prev = "buildPrevStatusMap (Status c)" and ?nodes = "s_Nodes (Spec c)"
  have cur: "map (\<lambda>n. status_tag (statusOrCreated ?prev (n_Tag n))) ?nodes = map node_tag ?nodes"
    by (simp add: statusOrCreated_tag)
  show ?thesis
    using assms
    by (auto simp: Run_def Let_def cur comp_def order_statuses_tags split: Option.bind_split_asm sum.split_asm prod.split_asm if_split_asm option.split_asm
        dest!: run_loop_tags)
qed

subsection \<open>The selection\<close>

text \<open>The intended priority, on one view of the StatefulSets: first a node in the middle of an upgrade, then a node without a
  StatefulSet, then a node with another image.\<close>

definition in_flight :: "kerr + StatefulSet \<Rightarrow> bool" where
  "in_flight got = (case got of Inr sts \<Rightarrow> om_Annotations (sts_Meta sts) UpgradeImageAnnotation \<noteq> None | Inl _ \<Rightarrow> False)"

definition missing :: "kerr + StatefulSet \<Rightarrow> bool" where
  "missing got = (case got of Inl e \<Rightarrow> IsNotFound e | Inr _ \<Rightarrow> False)"

definition outdated :: "string \<Rightarrow> kerr + StatefulSet \<Rightarrow> bool" where
  "outdated img got = (case got of Inl _ \<Rightarrow> False | Inr sts \<Rightarrow> currentStsImage sts \<noteq> '''' \<and> img \<noteq> '''' \<and> currentStsImage sts \<noteq> img)"

definition pick_spec :: "(string \<Rightarrow> kerr + StatefulSet) \<Rightarrow> string \<Rightarrow> RavenDBNode list \<Rightarrow> RavenDBNode option" where
  "pick_spec live img nodes =
     (let view = (\<lambda>n. live (statefulSetName (n_Tag n)))
      in case find (\<lambda>n. in_flight (view n)) nodes of
           Some n \<Rightarrow> Some n
         | None \<Rightarrow> (case find (\<lambda>n. missing (view n)) nodes of
                     Some n \<Rightarrow> Some n
                   | None \<Rightarrow> find (\<lambda>n. outdated img (view n)) nodes))"

text \<open>Reading StatefulSets does not change what is read: from \<open>h\<close> on, they are as \<open>live\<close> says.\<close>

definition is_get :: "request \<Rightarrow> bool" where
  "is_get e \<longleftrightarrow> (case e of GetStatefulSet ns n \<Rightarrow> True | _ \<Rightarrow> False)"

definition view_of :: "Env \<Rightarrow> string \<Rightarrow> history \<Rightarrow> (string \<Rightarrow> kerr + StatefulSet) \<Rightarrow> bool" where
  "view_of env ns h live \<longleftrightarrow> (\<forall>h' name. extends is_get h h' \<longrightarrow> e_GetStatefulSet env h' ns name = live name)"

lemma is_get_reads: "extends is_get h h' \<Longrightarrow> reads_only h h'"
  by (erule extends_mono) (auto simp: is_get_def split: request.splits)

lemma get_extends: "extends is_get h h' \<Longrightarrow> extends is_get h (h' @ [GetStatefulSet ns n])"
  by (rule extends_snoc) (simp_all add: is_get_def)

lemma in_flight_loop_gets: "in_flight_loop env c ns h = (t, h') \<Longrightarrow> extends is_get h h'"
  by (induction ns arbitrary: h)
    (auto simp: get_sts_def Let_def split: sum.split_asm if_split_asm intro: get_extends extends_trans [OF get_extends [OF extends_refl]])

lemma missing_loop_gets: "missing_loop env c ns h = (t, h') \<Longrightarrow> extends is_get h h'"
  by (induction ns arbitrary: h)
    (auto simp: get_sts_def Let_def split: sum.split_asm if_split_asm intro: get_extends extends_trans [OF get_extends [OF extends_refl]])

lemma mismatch_loop_gets: "mismatch_loop env c img ns h = (t, h') \<Longrightarrow> extends is_get h h'"
  by (induction ns arbitrary: h)
    (auto simp: get_sts_def Let_def split: sum.split_asm if_split_asm intro: get_extends extends_trans [OF get_extends [OF extends_refl]])

lemmas loop_gets = in_flight_loop_gets missing_loop_gets mismatch_loop_gets

lemma pick_gets: "pickSelectedTag env c img h = (r, h') \<Longrightarrow> extends is_get h h'"
  by (auto simp: pickSelectedTag_def findInFlightTag_def Let_def split: prod.split_asm if_split_asm option.split_asm
      dest!: loop_gets intro: extends_trans)

lemma view_read: "view_of env ns h live \<Longrightarrow> extends is_get h h' \<Longrightarrow> e_GetStatefulSet env h' ns name = live name"
  by (simp add: view_of_def)

lemma in_flight_loop_view:
  "view_of env (Namespace c) h0 live \<Longrightarrow> extends is_get h0 h \<Longrightarrow>
   fst (in_flight_loop env c ns h) = (case find (\<lambda>n. in_flight (live (statefulSetName (n_Tag n)))) ns of Some n \<Rightarrow> n_Tag n | None \<Rightarrow> '''')"
  by (induction ns arbitrary: h) (auto simp: get_sts_def view_read in_flight_def get_extends split: sum.splits)

lemma missing_loop_view:
  "view_of env (Namespace c) h0 live \<Longrightarrow> extends is_get h0 h \<Longrightarrow>
   fst (missing_loop env c ns h) = map_option node_tag (find (\<lambda>n. missing (live (statefulSetName (n_Tag n)))) ns)"
  by (induction ns arbitrary: h) (auto simp: get_sts_def view_read missing_def get_extends split: sum.splits)

lemma mismatch_loop_view:
  "view_of env (Namespace c) h0 live \<Longrightarrow> extends is_get h0 h \<Longrightarrow>
   fst (mismatch_loop env c img ns h) = map_option node_tag (find (\<lambda>n. outdated img (live (statefulSetName (n_Tag n)))) ns)"
  by (induction ns arbitrary: h) (auto simp: get_sts_def view_read outdated_def get_extends Let_def split: sum.splits)

lemma pick_view:
  assumes "view_of env (Namespace c) h live" "list_all (\<lambda>n. strings_TrimSpace (n_Tag n) \<noteq> '''') (s_Nodes (Spec c))"
  shows "fst (pickSelectedTag env c img h) =
      ((case pick_spec live img (s_Nodes (Spec c)) of Some n \<Rightarrow> node_tag n | None \<Rightarrow> ''''), None) \<and>
    extends is_get h (snd (pickSelectedTag env c img h))"
proof
  let ?ns = "s_Nodes (Spec c)"
  obtain t h1 where f: "in_flight_loop env c ?ns h = (t, h1)" by (metis prod.exhaust)
  obtain m h2 where m: "missing_loop env c ?ns h1 = (m, h2)" by (metis prod.exhaust)
  obtain o3 h3 where o: "mismatch_loop env c img ?ns h2 = (o3, h3)" by (metis prod.exhaust)
  have e1: "extends is_get h h1" by (rule loop_gets(1) [OF f])
  have e2: "extends is_get h h2" by (rule extends_trans [OF e1 loop_gets(2) [OF m]])
  have t: "t = (case find (\<lambda>n. in_flight (live (statefulSetName (n_Tag n)))) ?ns of Some n \<Rightarrow> n_Tag n | None \<Rightarrow> '''')"
    using in_flight_loop_view [OF assms(1) extends_refl, of ?ns] f by simp
  have m': "m = map_option node_tag (find (\<lambda>n. missing (live (statefulSetName (n_Tag n)))) ?ns)"
    using missing_loop_view [OF assms(1) e1, of ?ns] m by simp
  have o': "o3 = map_option node_tag (find (\<lambda>n. outdated img (live (statefulSetName (n_Tag n)))) ?ns)"
    using mismatch_loop_view [OF assms(1) e2, of img ?ns] o by simp
  have nb: "strings_TrimSpace (n_Tag n) \<noteq> ''''" if "find P ?ns = Some n" for P n
    using that assms(2) by (auto simp: find_Some_iff list_all_length)
  show "fst (pickSelectedTag env c img h) = ((case pick_spec live img ?ns of Some n \<Rightarrow> node_tag n | None \<Rightarrow> ''''), None)"
    by (auto simp: pickSelectedTag_def findInFlightTag_def pick_spec_def Let_def f m o t m' o' nb split: option.splits)
  show "extends is_get h (snd (pickSelectedTag env c img h))" by (rule pick_gets [OF prod.collapse [symmetric]])
qed

text \<open>C12. The selection implements the priority: while the StatefulSets do not change under it, \<open>pickSelectedTag\<close> returns the normalized tag of
  the node that the specification picks on that view, and the empty tag if it picks none.  It makes no other request than reading StatefulSets.\<close>

theorem pickSelectedTag_refines:
  assumes "view_of env (Namespace c) h live" "list_all (\<lambda>n. strings_TrimSpace (n_Tag n) \<noteq> '''') (s_Nodes (Spec c))"
  shows "fst (pickSelectedTag env c img h) =
      ((case pick_spec live img (s_Nodes (Spec c)) of Some n \<Rightarrow> node_tag n | None \<Rightarrow> ''''), None) \<and>
    extends is_get h (snd (pickSelectedTag env c img h))"
  using assms by (rule pick_view)

end
