(* ===== verification/UpgradeSafety.thy ===== *)
theory UpgradeSafety
  imports Upgrader
begin

text \<open>
  What a tick of the rolling upgrade does to the cluster, read off the history of its requests: nothing is changed before the gates passed,
  only one node is changed, every mark is removed, and the tick ends.  The statements are about the upgrader as a running operator
  configures it (\<open>operator_upgrader\<close>) and any callback \<open>applyNode\<close>.
\<close>

subsection \<open>What a tick changes, and when\<close>

text \<open>The upgrader of a running operator: \<open>SetupWithManager\<close> makes it and installs the emitter, \<open>Reconcile\<close> sets the timing.\<close>

definition operator_upgrader :: "Timing \<Rightarrow> upgrader" where
  "operator_upgrader t = SetTiming t (announcing (NewUpgrader DefaultTiming))"

lemma operator_upgrader_announces: "operator_upgrader t = announcing (operator_upgrader t)"
  by (simp add: operator_upgrader_def SetTiming_def SetEmitter_def)

lemma operator_upgrader_simps: "timing (operator_upgrader t) = t" "buildGates (operator_upgrader t) = buildGatesDefault"
  by (simp_all add: operator_upgrader_def SetTiming_def SetEmitter_def NewUpgrader_def Let_def)

lemmas op_waits_read = waits_read [of "operator_upgrader t" for t, folded operator_upgrader_announces]
lemmas op_waits_sound = waits_sound [of "operator_upgrader t" for t, folded operator_upgrader_announces]

text \<open>The three gates before an upgrade passed, in this order, between two points of the history.\<close>

definition gates_passed :: "Env \<Rightarrow> HealthCheckContext \<Rightarrow> string \<Rightarrow> history \<Rightarrow> history \<Rightarrow> bool" where
  "gates_passed env hcc tag h h' \<longleftrightarrow>
     (\<exists>ha hb hc ia ib ic ha' hb' hc'. reads_only h ha \<and> NodeAlive env hcc tag ha = ((True, ia, None), ha') \<and>
        reads_only ha hb \<and> ClusterConnectivity env hcc hb = ((True, ib, None), hb') \<and>
        reads_only hb hc \<and> DatabasesOnline env hcc tag hc = ((True, ic, None), hc') \<and> reads_only hc h')"

lemma preNode_reads: "preNode (operator_upgrader t) env c hcc tag h = Some (r, h') \<Longrightarrow> reads_only h h'"
  by (auto simp: preNode_def split: Option.bind_split_asm if_split_asm dest!: op_waits_read; meson extends_trans)

lemma reads_snocD: "reads_only (h @ [e]) h' \<Longrightarrow> \<not> mutating e \<Longrightarrow> reads_only h h'"
  by (auto simp: extends_def)

lemma postNode_reads: "postNode (operator_upgrader t) env c hcc tag h = Some (r, h') \<Longrightarrow> reads_only h h'"
  by (auto simp: postNode_def time_After_def split: Option.bind_split_asm if_split_asm prod.split_asm dest!: op_waits_read reads_snocD
      intro: extends_snoc; meson extends_trans)

lemma preNode_passed:
  assumes "preNode (operator_upgrader t) env c hcc tag h = Some (None, h')"
  shows "gates_passed env hcc tag h h'"
proof -
  from assms obtain h1 h2 where w:
    "waitNodeAlive (operator_upgrader t) env c hcc GatePreStep tag h = Some (None, h1)"
    "waitConnectivity (operator_upgrader t) env c hcc GatePreStep tag h1 = Some (None, h2)"
    "waitDB (operator_upgrader t) env c hcc GatePreStep tag tag h2 = Some (None, h')"
    by (auto simp: preNode_def gate_error_def split: Option.bind_split_asm if_split_asm)
  from op_waits_sound(1) [OF w(1)] obtain ha ia ha' where a: "reads_only h ha" "NodeAlive env hcc tag ha = ((True, ia, None), ha')" "reads_only ha h1"
    by blast
  from op_waits_sound(2) [OF w(2)] obtain hb ib hb' where b: "reads_only h1 hb" "ClusterConnectivity env hcc hb = ((True, ib, None), hb')" "reads_only hb h2"
    by blast
  from op_waits_sound(3) [OF w(3)] obtain hc ic hc' where c: "reads_only h2 hc" "DatabasesOnline env hcc tag hc = ((True, ic, None), hc')" "reads_only hc h'"
    by blast
  from a b c extends_trans [OF a(3) b(1)] extends_trans [OF b(3) c(1)] show ?thesis unfolding gates_passed_def by blast
qed

text \<open>\<open>allows Q env c tag\<close>: the requests in \<open>Q\<close> include everything that changes nothing, and setting or removing the annotation on the
  StatefulSet of the node.\<close>

definition allows :: "(request \<Rightarrow> bool) \<Rightarrow> Env \<Rightarrow> RavenDBCluster \<Rightarrow> string \<Rightarrow> bool" where
  "allows Q env c tag \<longleftrightarrow> (\<forall>e. \<not> mutating e \<longrightarrow> Q e) \<and>
     (\<forall>h sts v. e_GetStatefulSet env h (Namespace c) (statefulSetName tag) = Inr sts \<longrightarrow> Q (PatchStatefulSet (set_annotation v sts) sts))"

lemma allows_reads: "allows Q env c tag \<Longrightarrow> reads_only h h' \<Longrightarrow> extends Q h h'"
  unfolding allows_def by (erule extends_mono) simp

lemma setUpgradeAnnotation_extends:
  "allows Q env c tag \<Longrightarrow> setUpgradeAnnotation env c tag v h = (e, h') \<Longrightarrow> extends Q h h'"
  by (auto simp: setUpgradeAnnotation_def env_ops allows_def extends_def Let_def split: sum.split_asm)

lemma now_reads: "reads_only h (h @ [Now])"
  by (rule extends_snoc) auto

lemma after_apply_extends:
  assumes Q: "allows Q env c (n_Tag node)"
    and "after_apply (operator_upgrader t) env c g img prev up node err h = Some (r, h')"
  shows "extends Q h h'"
proof -
  note ann = setUpgradeAnnotation_extends [OF Q]
  have ann': "extends Q h1 (snd (setUpgradeAnnotation env c (n_Tag node) v h1))" for h1 v by (rule ann) (rule prod.collapse [symmetric])
  have now: "extends Q h1 (h1 @ [Now])" for h1 by (rule allows_reads [OF Q now_reads])
  note post = allows_reads [OF Q postNode_reads]
  from assms(2) show ?thesis
    by (auto simp: after_apply_def failedStatus_def successStatus_def timestampNow_def time_Now_def Let_def
        split: option.split_asm if_split_asm Option.bind_split_asm prod.split_asm dest!: post
        intro: extends_trans [OF now ann'] now extends_trans [OF _ extends_trans [OF now ann]] extends_trans [OF _ extends_trans [OF ann now]])
qed

text \<open>Before the mutation: either an early return, or the gates passed if they had to.\<close>

lemma before_apply_extends:
  assumes Q: "allows Q env c (n_Tag node)"
    and "before_apply (operator_upgrader t) env c g img up marked node h = Some (r, h')"
  shows "extends Q h h'"
proof -
  note ann = setUpgradeAnnotation_extends [OF Q]
  have now: "extends Q h1 (h1 @ [Now])" for h1 by (rule allows_reads [OF Q now_reads])
  note pre = allows_reads [OF Q preNode_reads]
  from assms(2) show ?thesis
    by (auto simp: before_apply_def failedStatus_def timestampNow_def time_Now_def Let_def
        split: option.split_asm if_split_asm Option.bind_split_asm prod.split_asm dest!: pre ann
        intro: extends_trans [OF _ now] extends_trans [OF extends_trans [OF _ now]] extends_trans; meson extends_trans now)
qed

text \<open>The requests of \<open>run_node\<close>, cut at the two reads, the preparation, the callback and the rest.\<close>

lemma run_node_cases:
  assumes "run_node u env c apply g img prev node h = Some (r, h')"
  obtains (stop) e where "r = (created_status (n_Tag node) NodeStatusFailed, Some e)" "h' = h @ [GetStatefulSet (Namespace c) (statefulSetName (n_Tag node))]"
  | (early) up marked where
      "before_apply u env c g img up marked node (h @ [GetStatefulSet (Namespace c) (statefulSetName (n_Tag node)),
         GetStatefulSet (Namespace c) (statefulSetName (n_Tag node))]) = Some (Some r, h')"
  | (full) up marked h2 e h3 where
      "before_apply u env c g img up marked node (h @ [GetStatefulSet (Namespace c) (statefulSetName (n_Tag node)),
         GetStatefulSet (Namespace c) (statefulSetName (n_Tag node))]) = Some (None, h2)"
      "apply node h2 = Some (e, h3)" "after_apply u env c g img prev up node e h3 = Some (r, h')"
      "up = isUpgrading (\<exists>s. e_GetStatefulSet env h (Namespace c) (statefulSetName (n_Tag node)) = Inr s) img
         (case e_GetStatefulSet env h (Namespace c) (statefulSetName (n_Tag node)) of Inr s \<Rightarrow> currentStsImage s | Inl _ \<Rightarrow> '''') marked"
      "marked = in_flight (e_GetStatefulSet env (h @ [GetStatefulSet (Namespace c) (statefulSetName (n_Tag node))]) (Namespace c) (statefulSetName (n_Tag node)))"
proof -
  let ?n = "statefulSetName (n_Tag node)"
  let ?g1 = "e_GetStatefulSet env h (Namespace c) ?n" and ?h1 = "h @ [GetStatefulSet (Namespace c) ?n]"
  let ?g2 = "e_GetStatefulSet env ?h1 (Namespace c) ?n" and ?h2 = "?h1 @ [GetStatefulSet (Namespace c) ?n]"
  let ?cur = "case ?g1 of Inr s \<Rightarrow> currentStsImage s | Inl _ \<Rightarrow> ''''"
  let ?up = "isUpgrading (\<exists>s. ?g1 = Inr s) img ?cur (in_flight ?g2)"
  consider (err) e where "?g1 = Inl e" "\<not> IsNotFound e" | (go) "\<not> (\<exists>e. ?g1 = Inl e \<and> \<not> IsNotFound e)" by blast
  then show thesis
  proof cases
    case err
    with assms show thesis by (intro stop) (auto simp: run_node_def loadSTSByNodeTag_def get_sts_def)
  next
    case go
    have ld: "loadSTSByNodeTag env c (n_Tag node) h = ((case ?g1 of Inl _ \<Rightarrow> None | Inr s \<Rightarrow> Some s, \<exists>s. ?g1 = Inr s, None), ?h1)"
      using go by (auto simp: loadSTSByNodeTag_def get_sts_def split: sum.splits)
    obtain e where hs: "hasUpgradeAnnotation env c (n_Tag node) ?h1 = ((in_flight ?g2, e), ?h2)"
      by (cases ?g2) (auto simp: hasUpgradeAnnotation_def get_sts_def in_flight_def)
    have cur: "(case (case ?g1 of Inl _ \<Rightarrow> None | Inr s \<Rightarrow> Some s) of Some s \<Rightarrow> currentStsImage s | None \<Rightarrow> '''') = ?cur"
      by (simp split: sum.splits)
    have "run_node u env c apply g img prev node h =
      do { (early, h) \<leftarrow> before_apply u env c g img ?up (in_flight ?g2) node ?h2;
           (case early of Some r \<Rightarrow> Some (r, h)
            | None \<Rightarrow> do { (err, h) \<leftarrow> apply node h; after_apply u env c g img prev ?up node err h }) }"
      by (simp only: run_node_def ld hs Let_def prod.case option.case cur)
    with assms show thesis
      by (auto split: Option.bind_split_asm option.split_asm intro: early full)
  qed
qed

lemma gets_reads: "reads_only h (h @ [GetStatefulSet ns n])" "reads_only h (h @ [GetStatefulSet ns n, GetStatefulSet ns' n'])"
  by (auto simp: extends_def)

lemma run_node_extends:
  assumes Q: "allows Q env c (n_Tag node)" and ap: "\<And>h e h'. apply node h = Some (e, h') \<Longrightarrow> extends Q h h'"
    and "run_node (operator_upgrader t) env c apply g img prev node h = Some (r, h')"
  shows "extends Q h h'"
  using assms(3)
proof (cases rule: run_node_cases)
  case stop
  then show ?thesis using allows_reads [OF Q gets_reads(1)] by simp
next
  case early
  from extends_trans [OF allows_reads [OF Q gets_reads(2)] before_apply_extends [OF Q early]] show ?thesis .
next
  case full
  from extends_trans [OF allows_reads [OF Q gets_reads(2)] before_apply_extends [OF Q full(1)]]
    extends_trans [OF ap [OF full(2)] after_apply_extends [OF Q full(3)]] show ?thesis by (rule extends_trans)
qed

lemma extends_prefix: "extends Q h h' \<Longrightarrow> prefix h h'"
  by (auto simp: extends_def)

lemma gates_passed_reads: "gates_passed env g tag h h' \<Longrightarrow> reads_only h' h'' \<Longrightarrow> gates_passed env g tag h h''"
  unfolding gates_passed_def by (meson extends_trans)

lemma run_node_prefix:
  assumes "\<And>h e h'. apply node h = Some (e, h') \<Longrightarrow> prefix h h'"
    and "run_node (operator_upgrader t) env c apply g img prev node h = Some (r, h')"
  shows "prefix h h'"
proof -
  have "allows (\<lambda>_. True) env c (n_Tag node)" by (simp add: allows_def)
  from run_node_extends [OF this _ assms(2)] assms(1) show ?thesis by (auto simp: extends_def prefix_def list.pred_True)
qed

text \<open>What holds of each node's part of the loop, and of the parts put together, holds of the loop.\<close>

lemma run_loop_lift:
  assumes refl: "\<And>h. R h h" and app: "\<And>h h1 h2. R h h1 \<Longrightarrow> R h1 h2 \<Longrightarrow> prefix h h1 \<Longrightarrow> prefix h1 h2 \<Longrightarrow> R h h2"
    and node: "\<And>n x s y. n \<in> set nodes \<Longrightarrow> strings_EqualFold (n_Tag n) sel \<Longrightarrow> run_node u env c apply g img prev n x = Some (s, y) \<Longrightarrow>
      R x y \<and> prefix x y"
    and "run_loop u env c apply g img prev sel nodes sts h = Some (r, h')"
  shows "R h h' \<and> prefix h h'"
  using assms(3,4)
proof (induction nodes arbitrary: sts h)
  case Nil
  then show ?case by (auto simp: refl)
next
  case (Cons n nodes)
  from Cons.prems(2) consider
    (skip) sts1 where "run_loop u env c apply g img prev sel nodes sts1 h = Some (r, h')"
    | (stop) s where "strings_EqualFold (n_Tag n) sel" "run_node u env c apply g img prev n h = Some (s, h')"
    | (cont) s h1 sts1 where "strings_EqualFold (n_Tag n) sel" "run_node u env c apply g img prev n h = Some (s, h1)"
      "run_loop u env c apply g img prev sel nodes sts1 h1 = Some (r, h')"
    by (auto split: if_split_asm Option.bind_split_asm option.split_asm)
  note split = this
  have IH: "R x h' \<and> prefix x h'" if "run_loop u env c apply g img prev sel nodes sts1 x = Some (r, h')" for sts1 x
  proof (rule Cons.IH [OF _ that])
    fix m x s y
    assume "m \<in> set nodes" "strings_EqualFold (n_Tag m) sel" "run_node u env c apply g img prev m x = Some (s, y)"
    then show "R x y \<and> prefix x y" by (intro Cons.prems(1) [of m x s y]) simp_all
  qed
  from split show ?case
  proof cases
    case skip
    from IH [OF skip] show ?thesis .
  next
    case stop
    from Cons.prems(1) [OF _ stop] show ?thesis by simp
  next
    case cont
    from Cons.prems(1) [OF _ cont(1,2)] have "R h h1" "prefix h h1" by simp_all
    moreover from IH [OF cont(3)] have "R h1 h'" "prefix h1 h'" by simp_all
    ultimately show ?thesis using app prefix_order.trans by blast
  qed
qed

lemma buildGatesDefault_reads: "buildGatesDefault env c h = Some (r, h') \<Longrightarrow> reads_only h h'"
  by (auto simp: buildGatesDefault_def split: Option.bind_split_asm dest: BuildHTTPS_reads)

lemma buildGatesDefault_checks:
  "buildGatesDefault env c h = Some (Inr g, h') \<Longrightarrow> \<exists>cl. BuildHTTPSClientFromCluster env c h = Some (Inr cl, h') \<and> g = NewChecks (Some cl) c"
  by (auto simp: buildGatesDefault_def split: Option.bind_split_asm sum.split_asm)

text \<open>How a tick ends: the gates cannot be built, no node is selected, or the loop ran on the selected one.\<close>

lemma Run_cases:
  assumes "Run (operator_upgrader t) env c apply h = Some ((sts, err), h')"
  obtains (nogates) e where "buildGatesDefault env c h = Some (Inl e, h')" "sts = []" "err = Some e"
  | (idle) g h1 where "buildGatesDefault env c h = Some (Inr g, h1)" "pickSelectedTag env c (s_Image (Spec c)) h1 = (('''', None), h')" "err = None"
  | (tick) g h1 h2 tag sts' where "buildGatesDefault env c h = Some (Inr g, h1)"
      "pickSelectedTag env c (s_Image (Spec c)) h1 = ((tag, None), h2)" "tag \<noteq> ''''"
      "run_loop (operator_upgrader t) env c apply g (s_Image (Spec c)) (buildPrevStatusMap (Status c)) tag (s_Nodes (Spec c)) [] h2 = Some ((sts', err), h')"
      "sts = (if err = None then order_statuses (s_Nodes (Spec c)) sts' else sts')"
proof -
  have noerr: "e = None" if "pickSelectedTag env c img h1 = ((tag, e), h2)" for img h1 tag e h2
    using that by (auto simp: pickSelectedTag_def findInFlightTag_def Let_def split: prod.split_asm if_split_asm option.split_asm)
  obtain b h1 where b: "buildGatesDefault env c h = Some (b, h1)"
    using assms by (auto simp: Run_def operator_upgrader_simps split: Option.bind_split_asm)
  show thesis
  proof (cases b)
    case (Inl e)
    with assms b nogates show thesis by (auto simp: Run_def operator_upgrader_simps)
  next
    case (Inr g)
    obtain tag e h2 where p': "pickSelectedTag env c (s_Image (Spec c)) h1 = ((tag, e), h2)" by (metis prod.exhaust)
    with noerr [OF p'] have p: "pickSelectedTag env c (s_Image (Spec c)) h1 = ((tag, None), h2)" by simp
    show thesis
      using assms b Inr p idle [of g h1] tick [of g h1 tag h2]
      by (auto simp: Run_def operator_upgrader_simps desiredNodeImage_def Let_def split: if_split_asm Option.bind_split_asm option.split_asm)
  qed
qed

text \<open>The same for the whole tick.\<close>

lemma Run_lift:
  assumes "Run (operator_upgrader t) env c apply h = Some (r, h')"
    and reads: "\<And>x y. reads_only x y \<Longrightarrow> R x y" and app: "\<And>x y z. R x y \<Longrightarrow> R y z \<Longrightarrow> prefix x y \<Longrightarrow> prefix y z \<Longrightarrow> R x z"
    and node: "\<And>cl hb n x s y. BuildHTTPSClientFromCluster env c h = Some (Inr cl, hb) \<Longrightarrow> n \<in> set (s_Nodes (Spec c)) \<Longrightarrow>
      run_node (operator_upgrader t) env c apply (NewChecks (Some cl) c) (s_Image (Spec c)) (buildPrevStatusMap (Status c)) n x = Some (s, y) \<Longrightarrow>
      R x y \<and> prefix x y"
  shows "R h h'"
proof -
  obtain sts err where "Run (operator_upgrader t) env c apply h = Some ((sts, err), h')" using assms(1) by (cases r) simp
  then show ?thesis
  proof (cases rule: Run_cases)
    case nogates
    then show ?thesis by (blast dest: buildGatesDefault_reads intro: reads)
  next
    case idle
    from extends_trans [OF buildGatesDefault_reads [OF idle(1)] is_get_reads [OF pick_gets [OF idle(2)]]] show ?thesis by (rule reads)
  next
    case (tick g h1 h2 tag sts')
    from buildGatesDefault_checks [OF tick(1)] obtain cl where cl: "BuildHTTPSClientFromCluster env c h = Some (Inr cl, h1)" "g = NewChecks (Some cl) c"
      by blast
    have r: "reads_only h h2" using buildGatesDefault_reads [OF tick(1)] is_get_reads [OF pick_gets [OF tick(2)]] by (rule extends_trans)
    have "R h2 h' \<and> prefix h2 h'"
      by (rule run_loop_lift [OF _ app _ tick(4)]) (use reads node [OF cl(1)] cl(2) in auto)
    with reads [OF r] extends_prefix [OF r] app show ?thesis by blast
  qed
qed

subsection \<open>One node at a time\<close>

text \<open>The API server returns the object it is asked for.\<close>

definition names_ok :: "Env \<Rightarrow> bool" where
  "names_ok env \<longleftrightarrow> (\<forall>h ns name sts. e_GetStatefulSet env h ns name = Inr sts \<longrightarrow> om_Name (sts_Meta sts) = name \<and> om_Namespace (sts_Meta sts) = ns)"

definition node_change :: "RavenDBCluster \<Rightarrow> string \<Rightarrow> request \<Rightarrow> bool" where
  "node_change c tag e \<longleftrightarrow>
     (case e of
        Apply obj fo \<Rightarrow> om_Namespace (obj_meta obj) = Namespace c \<and> om_Name (obj_meta obj) = Prefix @ tag
      | PatchStatefulSet new old \<Rightarrow> om_Namespace (sts_Meta new) = Namespace c \<and> om_Name (sts_Meta new) = statefulSetName tag
      | PatchStatus new old \<Rightarrow> False
      | _ \<Rightarrow> True)"

lemma node_change_allows: "names_ok env \<Longrightarrow> allows (node_change c tag) env c tag"
  by (auto simp: allows_def names_ok_def node_change_def set_annotation_def split: request.splits)

lemma run_loop_extends:
  assumes "\<And>n. n \<in> set nodes \<Longrightarrow> strings_EqualFold (n_Tag n) sel \<Longrightarrow> allows Q env c (n_Tag n) \<and> (\<forall>h e h'. apply n h = Some (e, h') \<longrightarrow> extends Q h h')"
    and "run_loop (operator_upgrader t) env c apply g img prev sel nodes sts h = Some (r, h')"
  shows "extends Q h h'"
proof -
  have "extends Q h h' \<and> prefix h h'"
  proof (rule run_loop_lift [OF _ _ _ assms(2)])
    fix n x s y
    assume n: "n \<in> set nodes" "strings_EqualFold (n_Tag n) sel" "run_node (operator_upgrader t) env c apply g img prev n x = Some (s, y)"
    have "extends Q x y" by (rule run_node_extends [OF _ _ n(3)]) (use assms(1) [OF n(1,2)] in auto)
    then show "extends Q x y \<and> prefix x y" by (simp add: extends_prefix)
  qed (auto intro: extends_trans)
  then show ?thesis ..
qed

lemma Run_extends:
  assumes "Run (operator_upgrader t) env c apply h = Some (r, h')" "\<And>e. \<not> mutating e \<Longrightarrow> Q e"
    and "\<And>n. n \<in> set (s_Nodes (Spec c)) \<Longrightarrow> allows Q env c (n_Tag n) \<and> (\<forall>h e h'. apply n h = Some (e, h') \<longrightarrow> extends Q h h')"
  shows "extends Q h h'"
  using assms(1)
proof (rule Run_lift)
  fix cl n x s y
  assume n: "n \<in> set (s_Nodes (Spec c))"
    and run: "run_node (operator_upgrader t) env c apply (NewChecks (Some cl) c) (s_Image (Spec c)) (buildPrevStatusMap (Status c)) n x = Some (s, y)"
  have "extends Q x y" by (rule run_node_extends [OF _ _ run]) (use assms(3) [OF n] in auto)
  then show "extends Q x y \<and> prefix x y" by (simp add: extends_prefix)
qed (auto intro: extends_trans extends_mono [OF _ assms(2)])

lemma run_one_node:
  assumes "names_ok env" "distinct (map (\<lambda>n. strings_ToLower (n_Tag n)) (s_Nodes (Spec c)))"
    and "\<forall>n h e h'. apply n h = Some (e, h') \<longrightarrow> extends (node_change c (n_Tag n)) h h'"
    and "Run (operator_upgrader t) env c apply h = Some (r, h')"
  shows "reads_only h h' \<or> (\<exists>n. n \<in> set (s_Nodes (Spec c)) \<and> extends (node_change c (n_Tag n)) h h')"
proof -
  obtain sts err where "Run (operator_upgrader t) env c apply h = Some ((sts, err), h')" using assms(4) by (cases r) simp
  then show ?thesis
  proof (cases rule: Run_cases)
    case nogates
    then show ?thesis by (auto dest: buildGatesDefault_reads)
  next
    case idle
    then show ?thesis using buildGatesDefault_reads is_get_reads [OF pick_gets] by (blast intro: extends_trans)
  next
    case (tick g h1 h2 tag sts')
    have r: "reads_only h h2" using buildGatesDefault_reads [OF tick(1)] is_get_reads [OF pick_gets [OF tick(2)]] by (rule extends_trans)
    show ?thesis
    proof (cases "\<exists>n \<in> set (s_Nodes (Spec c)). strings_EqualFold (n_Tag n) tag")
      case False
      with tick(4) have "extends (\<lambda>e. \<not> mutating e) h2 h'" by (intro run_loop_extends [OF _ tick(4)]) auto
      with r show ?thesis by (blast intro: extends_trans)
    next
      case True
      then obtain n where n: "n \<in> set (s_Nodes (Spec c))" "strings_EqualFold (n_Tag n) tag" by blast
      have "m = n" if "m \<in> set (s_Nodes (Spec c))" "strings_EqualFold (n_Tag m) tag" for m
        using that n assms(2) by (auto simp: distinct_map inj_on_def strings_EqualFold_def)
      then have "extends (node_change c (n_Tag n)) h2 h'"
        by (intro run_loop_extends [OF _ tick(4)]) (use node_change_allows [OF assms(1)] assms(3) in auto)
      with n allows_reads [OF node_change_allows [OF assms(1)] r] show ?thesis by (blast intro: extends_trans)
    qed
  qed
qed

text \<open>A tick works on one node.  If the tags of the cluster differ in more than case and the callback changes only objects of the node it is given,
  then all the changes of a tick, the annotations included, concern the objects of one single node.\<close>

theorem Run_one_node:
  assumes "names_ok env" "distinct (map (\<lambda>n. strings_ToLower (n_Tag n)) (s_Nodes (Spec c)))"
    and "\<forall>n h e h'. apply n h = Some (e, h') \<longrightarrow> extends (node_change c (n_Tag n)) h h'"
    and "Run (operator_upgrader t) env c apply h = Some (r, h')"
  shows "reads_only h h' \<or> (\<exists>n. n \<in> set (s_Nodes (Spec c)) \<and> extends (node_change c (n_Tag n)) h h')"
  using assms by (rule run_one_node)

subsection \<open>A tick ends\<close>

lemmas op_waits_return = waits_return [of env "operator_upgrader t" for env t, folded operator_upgrader_announces, unfolded operator_upgrader_simps(1)]

lemma op_max: "timing_ok t \<Longrightarrow> int64 (maxWaitFor (operator_upgrader t) phase)"
  by (rule timing_ok_max) (simp add: operator_upgrader_simps)

lemma preNode_total:
  assumes "clock_ok env" "timing_ok t"
  shows "\<exists>r. preNode (operator_upgrader t) env c hcc tag h = Some r"
proof -
  note w = op_waits_return [OF assms(1) op_max [OF assms(2)]]
  obtain r1 h1 where 1: "waitNodeAlive (operator_upgrader t) env c hcc GatePreStep tag h = Some (r1, h1)" using w(1) by blast
  obtain r2 h2 where 2: "waitConnectivity (operator_upgrader t) env c hcc GatePreStep tag h1 = Some (r2, h2)" using w(2) by blast
  obtain r3 h3 where 3: "waitDB (operator_upgrader t) env c hcc GatePreStep tag tag h2 = Some (r3, h3)" using w(3) by blast
  show ?thesis by (simp add: preNode_def 1 2 3)
qed

lemma postNode_total:
  assumes "clock_ok env" "timing_ok t"
  shows "\<exists>r. postNode (operator_upgrader t) env c hcc tag h = Some r"
proof -
  note w = op_waits_return [OF assms(1) op_max [OF assms(2)]]
  obtain r1 h1 where 1: "waitNodeAlive (operator_upgrader t) env c hcc GatePostStep tag h = Some (r1, h1)" using w(1) by blast
  let ?h = "snd (time_After env (GraceAfterReady (timing (operator_upgrader t))) h1)"
  obtain r2 h2 where 2: "waitConnectivity (operator_upgrader t) env c hcc GatePostStep tag ?h = Some (r2, h2)" using w(2) by blast
  obtain r3 h3 where 3: "waitDB (operator_upgrader t) env c hcc GatePostStep '''' tag h2 = Some (r3, h3)" using w(3) by blast
  from 2 show ?thesis by (simp add: postNode_def 1 3 time_After_def)
qed

lemma before_apply_total:
  "clock_ok env \<Longrightarrow> timing_ok t \<Longrightarrow> \<exists>r h'. before_apply (operator_upgrader t) env c g img up marked node h = Some (r, h')"
  using preNode_total [of env t c g "n_Tag node" h] by (auto simp: before_apply_def Let_def split: option.splits prod.splits)

lemma after_apply_total:
  "clock_ok env \<Longrightarrow> timing_ok t \<Longrightarrow> \<exists>s err h'. after_apply (operator_upgrader t) env c g img prev up node e h = Some ((s, err), h')"
  using postNode_total [of env t c g "n_Tag node" h] by (auto simp: after_apply_def Let_def split: option.splits prod.splits)

lemma run_node_total:
  assumes "clock_ok env" "timing_ok t" "\<And>h. \<exists>e h'. apply node h = Some (e, h')"
  shows "\<exists>s err h'. run_node (operator_upgrader t) env c apply g img prev node h = Some ((s, err), h')"
proof -
  obtain sts ex err h1 where l: "loadSTSByNodeTag env c (n_Tag node) h = ((sts, ex, err), h1)" by (metis prod.exhaust)
  obtain marked me h2 where m: "hasUpgradeAnnotation env c (n_Tag node) h1 = ((marked, me), h2)" by (metis prod.exhaust)
  let ?up = "isUpgrading ex img (case sts of Some s \<Rightarrow> currentStsImage s | None \<Rightarrow> '''') marked"
  obtain r h3 where b: "before_apply (operator_upgrader t) env c g img ?up marked node h2 = Some (r, h3)"
    using before_apply_total [OF assms(1,2)] by blast
  obtain e h4 where a: "apply node h3 = Some (e, h4)" using assms(3) by blast
  show ?thesis
    using after_apply_total [OF assms(1,2), of c g img prev ?up node e h4]
    by (cases err; cases r) (auto simp: run_node_def l m b a simp del: not_None_eq)
qed

lemma run_loop_total:
  assumes "clock_ok env" "timing_ok t" "\<And>n h. n \<in> set nodes \<Longrightarrow> \<exists>e h'. apply n h = Some (e, h')"
  shows "\<exists>sts' err h'. run_loop (operator_upgrader t) env c apply g img prev sel nodes sts h = Some ((sts', err), h')"
  using assms(3)
proof (induction nodes arbitrary: sts h)
  case (Cons n nodes)
  obtain s err h1 where "run_node (operator_upgrader t) env c apply g img prev n h = Some ((s, err), h1)"
    using run_node_total [OF assms(1,2), of "apply" n c g img prev h] Cons.prems by auto
  moreover have "\<exists>sts' err h'. run_loop (operator_upgrader t) env c apply g img prev sel nodes x y = Some ((sts', err), h')" for x y
    by (rule Cons.IH) (use Cons.prems in auto)
  ultimately show ?case by (auto split: option.splits)
qed simp

lemma Run_total:
  assumes "clock_ok env" "timing_ok t" "\<And>n h. n \<in> set (s_Nodes (Spec c)) \<Longrightarrow> \<exists>e h'. apply n h = Some (e, h')"
    and "s_Mode (Spec c) = ModeNone \<longrightarrow> s_CACertSecretRef (Spec c) \<noteq> None"
  shows "\<exists>sts err h'. Run (operator_upgrader t) env c apply h = Some ((sts, err), h')"
proof -
  from BuildHTTPS_total [of c env h] assms(4) obtain b h1 where b: "buildGatesDefault env c h = Some (b, h1)"
    by (auto simp: buildGatesDefault_def split: Option.bind_splits)
  obtain tag err h2 where p: "pickSelectedTag env c (s_Image (Spec c)) h1 = ((tag, err), h2)" by (metis prod.exhaust)
  show ?thesis
  proof (cases b)
    case (Inl e)
    then show ?thesis by (simp add: Run_def operator_upgrader_simps b)
  next
    case (Inr g)
    obtain sts' err' h' where "run_loop (operator_upgrader t) env c apply g (s_Image (Spec c)) (buildPrevStatusMap (Status c)) tag (s_Nodes (Spec c)) [] h2 =
        Some ((sts', err'), h')" using run_loop_total [OF assms(1,2), of "s_Nodes (Spec c)" "apply"] assms(3) by blast
    then show ?thesis by (auto simp: Run_def operator_upgrader_simps b Inr p desiredNodeImage_def Let_def split: option.splits)
  qed
qed

text \<open>C13. A tick always ends.  Whatever the API server and the nodes answer, however often a gate blocks, \<open>Run\<close> returns, provided the clock
  runs, the callback returns, and a cluster in mode None names its CA secret (otherwise building the client panics).\<close>

theorem Run_returns:
  assumes "clock_ok env" "timing_ok t" "\<forall>n h. n \<in> set (s_Nodes (Spec c)) \<longrightarrow> (\<exists>e h'. apply n h = Some (e, h'))"
    and "s_Mode (Spec c) = ModeNone \<longrightarrow> s_CACertSecretRef (Spec c) \<noteq> None"
  shows "\<exists>sts err h'. Run (operator_upgrader t) env c apply h = Some ((sts, err), h')"
  using Run_total [OF assms(1,2), of c "apply"] assms(3,4) by blast

subsection \<open>Marks are removed\<close>

definition marks :: "request \<Rightarrow> bool" where
  "marks e \<longleftrightarrow> (case e of PatchStatefulSet new old \<Rightarrow> om_Annotations (sts_Meta new) UpgradeImageAnnotation \<noteq> None | _ \<Rightarrow> False)"

text \<open>From some point after \<open>h\<close> on, the annotation of the node's StatefulSet was removed (or found to be out of reach) before \<open>h'\<close>.\<close>

definition unmarked :: "Env \<Rightarrow> RavenDBCluster \<Rightarrow> string \<Rightarrow> history \<Rightarrow> history \<Rightarrow> bool" where
  "unmarked env c tag h h' \<longleftrightarrow> (\<exists>hx. prefix h hx \<and> prefix (snd (setUpgradeAnnotation env c tag '''' hx)) h')"

lemma unmarkedI: "prefix h hx \<Longrightarrow> prefix (snd (setUpgradeAnnotation env c tag '''' hx)) h' \<Longrightarrow> unmarked env c tag h h'"
  by (auto simp: unmarked_def)


lemma nomarks_reads: "reads_only h h' \<Longrightarrow> extends (\<lambda>e. \<not> marks e) h h'"
  by (erule extends_mono) (auto simp: marks_def split: request.splits)

lemma clear_nomarks: "setUpgradeAnnotation env c tag '''' h = (e, h') \<Longrightarrow> extends (\<lambda>e. \<not> marks e) h h'"
  by (auto simp: setUpgradeAnnotation_def env_ops marks_def set_annotation_def extends_def Let_def split: sum.split_asm)

lemma after_apply_clears:
  assumes "after_apply (operator_upgrader t) env c g img prev True node err h = Some (r, h')"
  shows "unmarked env c (n_Tag node) h h' \<and> extends (\<lambda>e. \<not> marks e) h h'"
proof -
  let ?clear = "\<lambda>h1. snd (setUpgradeAnnotation env c (n_Tag node) '''' h1)"
  from assms consider (failed) "h' = ?clear (h @ [Now])"
    | (post) h1 pe where "postNode (operator_upgrader t) env c g (n_Tag node) h = Some (pe, h1)" "h' = ?clear (h1 @ [Now]) \<or> h' = ?clear h1 @ [Now]"
    by (auto simp: after_apply_def failedStatus_def successStatus_def timestampNow_def time_Now_def Let_def
        split: option.split_asm Option.bind_split_asm prod.split_asm)
  then show ?thesis
  proof cases
    case failed
    have "extends (\<lambda>e. \<not> marks e) (h @ [Now]) h'" unfolding failed by (rule clear_nomarks) (rule prod.collapse [symmetric])
    from extends_trans [OF nomarks_reads [OF now_reads] this] unmarkedI [of h "h @ [Now]"] show ?thesis unfolding failed by simp
  next
    case post
    have r: "reads_only h h1" by (rule postNode_reads [OF post(1)])
    then have p: "prefix h h1" by (rule extends_prefix)
    have c: "extends (\<lambda>e. \<not> marks e) h2 (?clear h2)" for h2 by (rule clear_nomarks) (rule prod.collapse [symmetric])
    from post(2) show ?thesis
    proof
      assume h': "h' = ?clear (h1 @ [Now])"
      from extends_trans [OF nomarks_reads [OF extends_trans [OF r now_reads]] c] p unmarkedI [of h "h1 @ [Now]"]
      show ?thesis unfolding h' by auto
    next
      assume h': "h' = ?clear h1 @ [Now]"
      from extends_trans [OF extends_trans [OF nomarks_reads [OF r] c] nomarks_reads [OF now_reads]] p unmarkedI [of h h1]
      show ?thesis unfolding h' by auto
    qed
  qed
qed

lemma after_apply_nomarks:
  assumes "after_apply (operator_upgrader t) env c g img prev up node err h = Some (r, h')"
  shows "extends (\<lambda>e. \<not> marks e) h h'"
proof (cases up)
  case True
  with assms have "after_apply (operator_upgrader t) env c g img prev True node err h = Some (r, h')" by simp
  from after_apply_clears [OF this] show ?thesis ..
next
  case False
  with assms nomarks_reads [OF now_reads, of h] show ?thesis
    by (auto simp: after_apply_def failedStatus_def timestampNow_def time_Now_def Let_def split: option.split_asm)
qed


lemma nomarks_at: "extends (\<lambda>e. \<not> marks e) h h' \<Longrightarrow> prefix h h1 \<Longrightarrow> prefix (h1 @ [e]) h' \<Longrightarrow> \<not> marks e"
  by (auto simp: extends_def prefix_def)







subsection \<open>Marks are set behind the gates\<close>

text \<open>\<open>mark_gated env c g h h'\<close>: each mark set between \<open>h\<close> and \<open>h'\<close> is on the StatefulSet of a node, and from some point after \<open>h\<close> up
  to the mark the three gates of this node passed and nothing was changed.\<close>

definition mark_gated :: "Env \<Rightarrow> RavenDBCluster \<Rightarrow> HealthCheckContext \<Rightarrow> history \<Rightarrow> history \<Rightarrow> bool" where
  "mark_gated env c g h h' \<longleftrightarrow> (\<forall>h1 e. prefix h h1 \<longrightarrow> prefix (h1 @ [e]) h' \<longrightarrow> marks e \<longrightarrow>
     (\<exists>n h0. n \<in> set (s_Nodes (Spec c)) \<and> node_change c (n_Tag n) e \<and> prefix h h0 \<and> gates_passed env g (n_Tag n) h0 h1))"

lemma mark_gated_nomarks: "extends (\<lambda>e. \<not> marks e) h h' \<Longrightarrow> mark_gated env c g h h'"
  by (auto simp: mark_gated_def dest: nomarks_at)

lemma mark_gated_append:
  assumes "mark_gated env c g h h'" "mark_gated env c g h' h''" "prefix h h'" "prefix h' h''"
  shows "mark_gated env c g h h''"
  unfolding mark_gated_def
proof (intro allI impI)
  fix h1 e
  assume a: "prefix h h1" "prefix (h1 @ [e]) h''" "marks e"
  from a(2) assms(4) have "prefix (h1 @ [e]) h' \<or> prefix h' (h1 @ [e])" by (meson prefix_same_cases)
  then consider "prefix (h1 @ [e]) h'" | "prefix h' h1" by (auto simp: prefix_snoc)
  then show "\<exists>n h0. n \<in> set (s_Nodes (Spec c)) \<and> node_change c (n_Tag n) e \<and> prefix h h0 \<and> gates_passed env g (n_Tag n) h0 h1"
    using a assms(1,2,3) unfolding mark_gated_def by cases (blast, meson prefix_order.trans)
qed

text \<open>Setting the annotation right after the gates.\<close>

lemma set_mark_gated:
  assumes "names_ok env" "n \<in> set (s_Nodes (Spec c))" "gates_passed env g (n_Tag n) h h1" "reads_only h h1"
    and "setUpgradeAnnotation env c (n_Tag n) v h1 = (r, h2)"
  shows "mark_gated env c g h h2"
  unfolding mark_gated_def
proof (intro allI impI)
  let ?get = "GetStatefulSet (Namespace c) (statefulSetName (n_Tag n))"
  fix hx e
  assume a: "prefix h hx" "prefix (hx @ [e]) h2" "marks e"
  have r: "reads_only h (h1 @ [?get])" by (rule extends_trans [OF assms(4) gets_reads(1)])
  from assms(5) consider "h2 = h1 @ [?get]" | sts where "h2 = (h1 @ [?get]) @ [PatchStatefulSet (set_annotation v sts) sts]"
      "e_GetStatefulSet env h1 (Namespace c) (statefulSetName (n_Tag n)) = Inr sts"
    by (auto simp: setUpgradeAnnotation_def env_ops Let_def split: sum.split_asm)
  moreover have "\<not> prefix (hx @ [e]) (h1 @ [?get])" using nomarks_at [OF nomarks_reads [OF r] a(1)] a(3) by blast
  ultimately obtain sts where sts: "hx = h1 @ [?get]" "e = PatchStatefulSet (set_annotation v sts) sts"
      "e_GetStatefulSet env h1 (Namespace c) (statefulSetName (n_Tag n)) = Inr sts"
    using a(2) by cases (simp, metis append1_eq_conv prefix_snoc)
  from sts(3) assms(1) have "node_change c (n_Tag n) e" by (auto simp: sts(2) node_change_def names_ok_def set_annotation_def)
  with assms(2) gates_passed_reads [OF assms(3) gets_reads(1)] sts(1)
  show "\<exists>n h0. n \<in> set (s_Nodes (Spec c)) \<and> node_change c (n_Tag n) e \<and> prefix h h0 \<and> gates_passed env g (n_Tag n) h0 hx" by blast
qed

lemma before_apply_mark_gated:
  assumes "names_ok env" "node \<in> set (s_Nodes (Spec c))" "before_apply (operator_upgrader t) env c g img up marked node h = Some (r, h')"
  shows "mark_gated env c g h h'"
proof (cases "up \<and> \<not> marked")
  case False
  with assms(3) show ?thesis by (auto simp: before_apply_def intro: mark_gated_nomarks)
next
  case True
  with assms(3) obtain pe h1 where p: "preNode (operator_upgrader t) env c g (n_Tag node) h = Some (pe, h1)"
    by (auto simp: before_apply_def split: Option.bind_split_asm)
  note rd = preNode_reads [OF p]
  show ?thesis
  proof (cases pe)
    case (Some e)
    with assms(3) p True have "h' = h1 @ [Now]" by (auto simp: before_apply_def failedStatus_def timestampNow_def time_Now_def)
    with nomarks_reads [OF extends_trans [OF rd now_reads]] show ?thesis by (simp add: mark_gated_nomarks)
  next
    case None
    obtain e1 h2 where s: "setUpgradeAnnotation env c (n_Tag node) img h1 = (e1, h2)" by (metis prod.exhaust)
    have m: "mark_gated env c g h h2" by (rule set_mark_gated [OF assms(1,2) preNode_passed [OF p [unfolded None]] rd s])
    have pre: "prefix h h2"
      using extends_prefix [OF rd] setUpgradeAnnotation_extends [OF node_change_allows [OF assms(1)] s, THEN extends_prefix] by (rule prefix_order.trans)
    from assms(3) p None True s consider "h' = h2" | "h' = snd (setUpgradeAnnotation env c (n_Tag node) '''' (h2 @ [Now]))"
      by (auto simp: before_apply_def failedStatus_def timestampNow_def time_Now_def Let_def split: prod.split_asm option.split_asm)
    then have "extends (\<lambda>e. \<not> marks e) h2 h'"
    proof cases
      case 2
      have "extends (\<lambda>e. \<not> marks e) (h2 @ [Now]) h'" unfolding 2 by (rule clear_nomarks) (rule prod.collapse [symmetric])
      then show ?thesis using nomarks_reads [OF now_reads] by (blast intro: extends_trans)
    qed simp
    from mark_gated_append [OF m mark_gated_nomarks [OF this] pre extends_prefix [OF this]] show ?thesis .
  qed
qed

lemma run_node_mark_gated:
  assumes "names_ok env" "node \<in> set (s_Nodes (Spec c))"
    and ap: "\<And>h e h'. apply node h = Some (e, h') \<Longrightarrow> extends (\<lambda>e. \<not> marks e) h h'"
    and "run_node (operator_upgrader t) env c apply g img prev node h = Some (r, h')"
  shows "mark_gated env c g h h'"
  using assms(4)
proof (cases rule: run_node_cases)
  case stop
  then show ?thesis by (simp add: mark_gated_nomarks nomarks_reads gets_reads)
next
  case (early up marked)
  have T: "allows (\<lambda>_. True) env c (n_Tag node)" by (simp add: allows_def)
  show ?thesis
    by (rule mark_gated_append [OF mark_gated_nomarks [OF nomarks_reads [OF gets_reads(2)]] before_apply_mark_gated [OF assms(1,2) early]])
      (use extends_prefix [OF before_apply_extends [OF T early]] in simp_all)
next
  case (full up marked h2 e h3)
  have T: "allows (\<lambda>_. True) env c (n_Tag node)" by (simp add: allows_def)
  have rest: "extends (\<lambda>e. \<not> marks e) h2 h'" by (rule extends_trans [OF ap [OF full(2)] after_apply_nomarks [OF full(3)]])
  have "mark_gated env c g h h2"
    by (rule mark_gated_append [OF mark_gated_nomarks [OF nomarks_reads [OF gets_reads(2)]] before_apply_mark_gated [OF assms(1,2) full(1)]])
      (use extends_prefix [OF before_apply_extends [OF T full(1)]] in simp_all)
  moreover have "prefix h h2" using extends_prefix [OF before_apply_extends [OF T full(1)]] by (simp add: prefix_def) blast
  ultimately show ?thesis using mark_gated_append mark_gated_nomarks [OF rest] extends_prefix [OF rest] by blast
qed

text \<open>C2. No upgrade begins before its gates passed.  Whenever a tick marks a StatefulSet for an upgrade, it is that of a node of the cluster, and
  since the tick began, with no change in between, that node was found alive, then the cluster connected, then every database available
  without the node, each asked over the client built from the cluster's secrets.  (The image of a running node changes only if it is marked.)\<close>

theorem Run_gated:
  assumes "Run (operator_upgrader t) env c apply h = Some (r, h')" "names_ok env"
    and "\<forall>n h e h'. apply n h = Some (e, h') \<longrightarrow> extends (\<lambda>e. \<not> marks e) h h'"
    and "prefix h h1" "prefix (h1 @ [e]) h'" "marks e"
  shows "\<exists>n cl hb h0. n \<in> set (s_Nodes (Spec c)) \<and> node_change c (n_Tag n) e \<and>
    BuildHTTPSClientFromCluster env c h = Some (Inr cl, hb) \<and> prefix h h0 \<and> gates_passed env (NewChecks (Some cl) c) (n_Tag n) h0 h1"
proof -
  let ?R = "\<lambda>x y. extends (\<lambda>e. \<not> marks e) x y \<or>
    (\<exists>cl hb. BuildHTTPSClientFromCluster env c h = Some (Inr cl, hb) \<and> mark_gated env c (NewChecks (Some cl) c) x y)"
  from assms(1) have "?R h h'"
  proof (rule Run_lift [where R = ?R])
    show "?R x y" if "reads_only x y" for x y using nomarks_reads [OF that] by blast
    show "?R x z" if "?R x y" "?R y z" "prefix x y" "prefix y z" for x y z
    proof (cases "\<exists>cl hb. BuildHTTPSClientFromCluster env c h = Some (Inr cl, hb)")
      case True
      then obtain cl hb where b: "BuildHTTPSClientFromCluster env c h = Some (Inr cl, hb)" by blast
      from that(1,2) have "mark_gated env c (NewChecks (Some cl) c) x y" "mark_gated env c (NewChecks (Some cl) c) y z"
        by (auto simp: b dest: mark_gated_nomarks)
      from mark_gated_append [OF this that(3,4)] b show ?thesis by blast
    next
      case False
      with that(1,2) have "extends (\<lambda>e. \<not> marks e) x y" "extends (\<lambda>e. \<not> marks e) y z" by blast+
      then show ?thesis by (blast intro: extends_trans)
    qed
  next
    fix cl hb n x s y
    assume n: "BuildHTTPSClientFromCluster env c h = Some (Inr cl, hb)" "n \<in> set (s_Nodes (Spec c))"
      and run: "run_node (operator_upgrader t) env c apply (NewChecks (Some cl) c) (s_Image (Spec c)) (buildPrevStatusMap (Status c)) n x = Some (s, y)"
    have "mark_gated env c (NewChecks (Some cl) c) x y" by (rule run_node_mark_gated [OF assms(2) n(2) _ run]) (use assms(3) in blast)
    moreover have "prefix x y" by (rule run_node_prefix [OF _ run]) (use assms(3) extends_prefix in blast)
    ultimately show "?R x y \<and> prefix x y" using n(1) by blast
  qed
  then show ?thesis
  proof (elim disjE exE conjE)
    assume "extends (\<lambda>e. \<not> marks e) h h'"
    from nomarks_at [OF this assms(4,5)] assms(6) show ?thesis by blast
  qed (use assms(4-6) in \<open>unfold mark_gated_def, blast\<close>)
qed

end
