(* ===== verification/UpgradeProgress.thy ===== *)
theory UpgradeProgress
  imports UpgradeSafety
begin

text \<open>
  Progress of the rolling upgrade: when the gates are healthy and the writes succeed, a tick brings the selected node to the desired
  image and reports it.  Then the concrete environment on which the properties of the upgrader are evaluated.
\<close>

subsection \<open>Healthy gates\<close>

text \<open>Nothing is cancelled and every check of a node passes whenever it is made.\<close>

definition healthy_gates :: "Env \<Rightarrow> HealthCheckContext \<Rightarrow> string \<Rightarrow> bool" where
  "healthy_gates env hcc tag \<longleftrightarrow> (\<forall>h. e_CtxErr env h = None) \<and> (\<forall>h d. e_After env h d = None) \<and>
     (\<forall>h. \<exists>i h'. NodeAlive env hcc tag h = ((True, i, None), h')) \<and> (\<forall>h. \<exists>i h'. ClusterConnectivity env hcc h = ((True, i, None), h')) \<and>
     (\<forall>excl h. \<exists>i h'. DatabasesOnline env hcc excl h = ((True, i, None), h'))"

lemma wait_passes:
  assumes "\<And>h. e_CtxErr env h = None" "\<And>h. \<exists>i h'. fn h = ((True, i, None), h')"
  shows "\<exists>h'. wait u env c phase kind tag iv fn h = Some (None, h')"
proof -
  have "\<exists>h'. wait_loop u env c phase kind tag fn start sleep attempt h = Some (None, h')" for start sleep attempt h
  proof -
    obtain i h' where "fn (h @ [CtxErr]) = ((True, i, None), h')" using assms(2) by blast
    then show ?thesis by (subst wait_loop.simps) (simp add: wait_round_def ctx_Err_def assms(1) Let_def)
  qed
  then show ?thesis by (simp add: wait_def time_Now_def Let_def)
qed

lemma waits_pass:
  assumes "healthy_gates env hcc tag"
  shows "\<exists>h'. waitNodeAlive u env c hcc phase tag h = Some (None, h')" "\<exists>h'. waitConnectivity u env c hcc phase tag' h = Some (None, h')"
    "\<exists>h'. waitDB u env c hcc phase excl tag' h = Some (None, h')"
  using assms unfolding waitNodeAlive_def waitConnectivity_def waitDB_def by (auto simp: healthy_gates_def intro!: wait_passes)

lemma preNode_passes: "healthy_gates env hcc tag \<Longrightarrow> \<exists>h'. preNode u env c hcc tag h = Some (None, h')"
proof -
  assume g: "healthy_gates env hcc tag"
  obtain h1 where 1: "waitNodeAlive u env c hcc GatePreStep tag h = Some (None, h1)" using waits_pass(1) [OF g] by blast
  obtain h2 where 2: "waitConnectivity u env c hcc GatePreStep tag h1 = Some (None, h2)" using waits_pass(2) [OF g] by blast
  obtain h3 where 3: "waitDB u env c hcc GatePreStep tag tag h2 = Some (None, h3)" using waits_pass(3) [OF g] by blast
  show ?thesis by (simp add: preNode_def 1 2 3)
qed

lemma postNode_passes: "healthy_gates env hcc tag \<Longrightarrow> \<exists>h'. postNode u env c hcc tag h = Some (None, h')"
proof -
  assume g: "healthy_gates env hcc tag"
  obtain h1 where 1: "waitNodeAlive u env c hcc GatePostStep tag h = Some (None, h1)" using waits_pass(1) [OF g] by blast
  have "\<exists>h2. time_After env d h1 = (None, h2)" for d using g by (simp add: healthy_gates_def time_After_def)
  then obtain h2 where 2: "time_After env (GraceAfterReady (timing u)) h1 = (None, h2)" by blast
  obtain h3 where 3: "waitConnectivity u env c hcc GatePostStep tag h2 = Some (None, h3)" using waits_pass(2) [OF g] by blast
  obtain h4 where 4: "waitDB u env c hcc GatePostStep '''' tag h3 = Some (None, h4)" using waits_pass(3) [OF g] by blast
  show ?thesis by (simp add: postNode_def 1 2 3 4)
qed

subsection \<open>A tick upgrades its node\<close>

text \<open>The upgrade of a node from \<open>h\<close> to \<open>h'\<close>: its StatefulSet is marked with the image, then the callback runs, then the mark is removed.\<close>

definition upgrades :: "Env \<Rightarrow> RavenDBCluster \<Rightarrow> ApplyNodeFn \<Rightarrow> string \<Rightarrow> RavenDBNode \<Rightarrow> StatefulSet \<Rightarrow> history \<Rightarrow> history \<Rightarrow> bool" where
  "upgrades env c act img n sts h h' \<longleftrightarrow>
     (\<exists>h1 h2 h3. reads_only h h1 \<and> act n (h1 @ [PatchStatefulSet (set_annotation img sts) sts]) = Some (None, h2) \<and>
        reads_only h2 h3 \<and> reads_only (snd (setUpgradeAnnotation env c (n_Tag n) '''' h3)) h')"

lemma upgrades_mark:
  assumes "upgrades env c act img n sts h h'" "\<And>h e h'. act n h = Some (e, h') \<Longrightarrow> prefix h h'"
  shows "\<exists>h1. prefix h h1 \<and> prefix (h1 @ [PatchStatefulSet (set_annotation img sts) sts]) h'"
proof -
  from assms(1) obtain h1 h2 h3 where u: "reads_only h h1" "act n (h1 @ [PatchStatefulSet (set_annotation img sts) sts]) = Some (None, h2)"
    "reads_only h2 h3" "reads_only (snd (setUpgradeAnnotation env c (n_Tag n) '''' h3)) h'" by (auto simp: upgrades_def)
  have "allows (\<lambda>_. True) env c (n_Tag n)" by (simp add: allows_def)
  from setUpgradeAnnotation_extends [OF this, THEN extends_prefix] have "prefix h3 (snd (setUpgradeAnnotation env c (n_Tag n) '''' h3))"
    by (metis prod.collapse)
  with assms(2) [OF u(2)] extends_prefix [OF u(3)] extends_prefix [OF u(4)] extends_prefix [OF u(1)] show ?thesis by (meson prefix_order.trans)
qed

lemma run_node_upgrades:
  assumes g: "healthy_gates env g (n_Tag n)"
    and view: "\<And>h'. reads_only h h' \<Longrightarrow> e_GetStatefulSet env h' (Namespace c) (statefulSetName (n_Tag n)) = Inr sts"
    and "outdated img (Inr sts)" "\<not> in_flight (Inr sts)" and patch: "\<And>h new old. e_PatchStatefulSet env h new old = None"
    and ap: "\<And>h. \<exists>h'. act n h = Some (None, h')"
  shows "\<exists>time h'. run_node (operator_upgrader t) env c act g img prev n h =
      Some ((\<lparr>ns_Tag = n_Tag n, ns_Status = NodeStatusCreated, ns_LastAttemptedImage = img, ns_LastError = '''', ns_LastAttemptTime = time\<rparr>, None), h') \<and>
    upgrades env c act img n sts h h'"
proof -
  let ?get = "GetStatefulSet (Namespace c) (statefulSetName (n_Tag n))" and ?u = "operator_upgrader t"
  let ?patch = "PatchStatefulSet (set_annotation img sts) sts"
  let ?h2 = "(h @ [?get]) @ [?get]"
  have s1: "e_GetStatefulSet env h (Namespace c) (statefulSetName (n_Tag n)) = Inr sts" by (rule view) simp
  have s2: "e_GetStatefulSet env (h @ [?get]) (Namespace c) (statefulSetName (n_Tag n)) = Inr sts" by (rule view) (simp add: gets_reads)
  have l: "loadSTSByNodeTag env c (n_Tag n) h = ((Some sts, True, None), h @ [?get])" by (simp add: loadSTSByNodeTag_def get_sts_def s1)
  obtain e where m: "hasUpgradeAnnotation env c (n_Tag n) (h @ [?get]) = ((False, e), ?h2)"
    using assms(4) by (auto simp: hasUpgradeAnnotation_def get_sts_def s2 in_flight_def)
  have up: "isUpgrading True img (currentStsImage sts) False" using assms(3) by (auto simp: isUpgrading_def outdated_def)
  obtain h3 where p: "preNode ?u env c g (n_Tag n) ?h2 = Some (None, h3)" using preNode_passes [OF g] by blast
  have r: "reads_only h h3" using extends_trans [OF gets_reads(2) preNode_reads [OF p [simplified]]] .
  have a: "setUpgradeAnnotation env c (n_Tag n) img h3 = (None, h3 @ [?get, ?patch])"
    using view [OF r] by (simp add: setUpgradeAnnotation_def get_sts_def patch_sts_def patch)
  obtain h4 where ap4: "act n (h3 @ [?get, ?patch]) = Some (None, h4)" using ap by blast
  obtain h5 where po: "postNode ?u env c g (n_Tag n) h4 = Some (None, h5)" using postNode_passes [OF g] by blast
  obtain e6 h6 where cl: "setUpgradeAnnotation env c (n_Tag n) '''' h5 = (e6, h6)" by (metis prod.exhaust)
  have "upgrades env c act img n sts h (h6 @ [Now])"
    unfolding upgrades_def using extends_trans [OF r gets_reads(1)] ap4 postNode_reads [OF po] cl
    by (intro exI [of _ "h3 @ [?get]"] exI [of _ h4] exI [of _ h5]) (auto intro: extends_snoc)
  moreover have "run_node ?u env c act g img prev n h =
    Some ((\<lparr>ns_Tag = n_Tag n, ns_Status = NodeStatusCreated, ns_LastAttemptedImage = img, ns_LastError = '''', ns_LastAttemptTime = e_Now env h6\<rparr>, None), h6 @ [Now])"
    using l m up p a ap4 po cl
    by (simp add: run_node_def before_apply_def after_apply_def successStatus_def timestampNow_def time_Now_def)
  ultimately show ?thesis by blast
qed

text \<open>The loop does nothing but copy statuses for the nodes that are not selected.\<close>

lemma run_loop_skips:
  assumes "list_all (\<lambda>m. \<not> strings_EqualFold (n_Tag m) sel) nodes"
  shows "run_loop u env c act g img prev sel nodes sts h = Some ((sts @ map (\<lambda>m. statusOrCreated prev (n_Tag m)) nodes, None), h)"
  using assms by (induction nodes arbitrary: sts) auto

lemma run_loop_one:
  assumes "run_node u env c act g img prev n h = Some ((s, None), h')" "strings_EqualFold (n_Tag n) sel"
    and "list_all (\<lambda>m. \<not> strings_EqualFold (n_Tag m) sel) (before @ after)"
  shows "run_loop u env c act g img prev sel (before @ n # after) sts h =
    Some ((sts @ map (\<lambda>m. statusOrCreated prev (n_Tag m)) before @ s # map (\<lambda>m. statusOrCreated prev (n_Tag m)) after, None), h')"
  using assms by (induction before arbitrary: sts) (auto simp: run_loop_skips)

lemma EqualFold_normalize: "strings_TrimSpace t = t \<Longrightarrow> strings_EqualFold t (normalizeTag t)"
proof -
  have "lower_char (upper_char ch) = lower_char ch" for ch
  proof (cases "is_lower ch")
    case True
    then have "of_char ch \<in> {97 :: nat..122}" by (auto simp: is_lower_def)
    then have "is_upper (char_of (of_char ch - 32 :: nat))" "\<not> is_upper ch" by (auto simp: is_upper_def)
    moreover have "(of_char ch - 32) mod 256 + 32 = (of_char ch :: nat)" using \<open>of_char ch \<in> {97 :: nat..122}\<close> by auto
    ultimately show ?thesis using True by (simp add: upper_char_def lower_char_def)
  qed (simp add: upper_char_def)
  then show "strings_TrimSpace t = t \<Longrightarrow> strings_EqualFold t (normalizeTag t)"
    by (simp add: normalizeTag_def strings_EqualFold_def strings_ToLower_def strings_ToUpper_def)
qed

lemma foldl_keyed_other: "k \<notin> set (map f xs) \<Longrightarrow> foldl (\<lambda>m s. m(f s \<mapsto> s)) m xs k = m k"
  by (induction xs arbitrary: m) auto

lemma foldl_keyed_distinct: "distinct (map f xs) \<Longrightarrow> x \<in> set xs \<Longrightarrow> foldl (\<lambda>m s. m(f s \<mapsto> s)) m xs (f x) = Some x"
proof (induction xs arbitrary: m)
  case (Cons a xs)
  show ?case
  proof (cases "x \<in> set xs")
    case True
    with Cons show ?thesis by (simp del: fun_upd_apply)
  next
    case False
    with Cons.prems have "x = a" "f a \<notin> set (map f xs)" by auto
    then show ?thesis using foldl_keyed_other [of "f a" f xs "m(f a \<mapsto> a)"] by (simp del: fun_upd_apply) simp
  qed
qed simp

text \<open>The statuses of distinct nodes are in order already.\<close>

lemma order_statuses_id:
  assumes "map status_tag sts = map node_tag nodes" "distinct (map node_tag nodes)"
  shows "order_statuses nodes sts = sts"
proof (rule nth_equalityI)
  have len: "length sts = length nodes" using assms(1) by (metis length_map)
  then show "length (order_statuses nodes sts) = length sts" by (simp add: order_statuses_def Let_def)
  fix i
  assume "i < length (order_statuses nodes sts)"
  then have i: "i < length nodes" "i < length sts" using len by (simp_all add: order_statuses_def Let_def)
  have "status_tag (sts ! i) = node_tag (nodes ! i)" using arg_cong [OF assms(1), of "\<lambda>xs. xs ! i"] i by simp
  moreover have "foldl (\<lambda>m s. m(status_tag s \<mapsto> s)) Map.empty sts (status_tag (sts ! i)) = Some (sts ! i)"
    using assms i(2) by (intro foldl_keyed_distinct) simp_all
  ultimately show "order_statuses nodes sts ! i = sts ! i" using i by (simp add: order_statuses_def Let_def)
qed

text \<open>The tags of a cluster: written without surrounding blanks, and different in more than case.\<close>

definition tags_ok :: "RavenDBCluster \<Rightarrow> bool" where
  "tags_ok c \<longleftrightarrow> distinct (map (\<lambda>n. strings_ToLower (n_Tag n)) (s_Nodes (Spec c))) \<and>
     list_all (\<lambda>n. strings_TrimSpace (n_Tag n) = n_Tag n \<and> n_Tag n \<noteq> '''') (s_Nodes (Spec c))"

lemma tags_ok_trimmed: "tags_ok c \<Longrightarrow> list_all (\<lambda>n. strings_TrimSpace (n_Tag n) \<noteq> '''') (s_Nodes (Spec c))"
  by (auto simp: tags_ok_def list_all_iff)

lemma EqualFold_node_tag:
  assumes "tags_ok c" "m \<in> set (s_Nodes (Spec c))" "n \<in> set (s_Nodes (Spec c))"
  shows "strings_EqualFold (n_Tag m) (node_tag n) \<longleftrightarrow> m = n"
proof -
  from assms have "strings_EqualFold (n_Tag n) (node_tag n)" by (auto simp: tags_ok_def list_all_iff EqualFold_normalize)
  then have "strings_EqualFold (n_Tag m) (node_tag n) \<longleftrightarrow> strings_ToLower (n_Tag m) = strings_ToLower (n_Tag n)"
    by (simp add: strings_EqualFold_def)
  with assms show ?thesis by (auto simp: tags_ok_def distinct_map inj_on_def)
qed

lemma tags_ok_distinct: "tags_ok c \<Longrightarrow> distinct (map node_tag (s_Nodes (Spec c)))"
  unfolding distinct_map
proof
  assume t: "tags_ok c"
  then show "distinct (s_Nodes (Spec c))" by (simp add: tags_ok_def distinct_map)
  show "inj_on node_tag (set (s_Nodes (Spec c)))"
  proof (rule inj_onI)
    fix m n
    assume n: "m \<in> set (s_Nodes (Spec c))" "n \<in> set (s_Nodes (Spec c))" "node_tag m = node_tag n"
    with EqualFold_node_tag [OF t n(1,1)] have "strings_EqualFold (n_Tag m) (node_tag n)" by simp
    with EqualFold_node_tag [OF t n(1,2)] show "m = n" by simp
  qed
qed

lemma pick_spec_in: "pick_spec live img nodes = Some n \<Longrightarrow> n \<in> set nodes"
  by (auto simp: pick_spec_def Let_def find_Some_iff split: option.split_asm)

lemma pick_spec_outdated:
  assumes "pick_spec live img nodes = Some n" "live (statefulSetName (n_Tag n)) = Inr sts" "\<not> in_flight (Inr sts)"
  shows "outdated img (Inr sts)"
  using assms by (auto simp: pick_spec_def Let_def find_Some_iff missing_def split: option.split_asm)

text \<open>A tick that selects a node is \<open>run_node\<close> on that node, between the statuses of the others.\<close>

lemma Run_selected:
  assumes t: "tags_ok c" and n: "n \<in> set (s_Nodes (Spec c))" and b: "buildGatesDefault env c h = Some (Inr g, hb)"
    and p: "pickSelectedTag env c (s_Image (Spec c)) hb = ((node_tag n, None), hp)"
    and r: "run_node (operator_upgrader tm) env c act g (s_Image (Spec c)) (buildPrevStatusMap (Status c)) n hp = Some ((s, None), h')"
  shows "Run (operator_upgrader tm) env c act h =
    Some ((map (\<lambda>m. if m = n then s else statusOrCreated (buildPrevStatusMap (Status c)) (n_Tag m)) (s_Nodes (Spec c)), None), h')"
proof -
  let ?nodes = "s_Nodes (Spec c)" and ?prev = "\<lambda>m. statusOrCreated (buildPrevStatusMap (Status c)) (n_Tag m)"
  let ?f = "\<lambda>m. if m = n then s else ?prev m"
  from split_list [OF n] obtain before after where nodes: "?nodes = before @ n # after" by blast
  have "distinct ?nodes" using t by (simp add: tags_ok_def distinct_map)
  then have others: "n \<notin> set before" "n \<notin> set after" by (simp_all add: nodes)
  have "list_all (\<lambda>m. \<not> strings_EqualFold (n_Tag m) (node_tag n)) (before @ after)"
    unfolding list_all_iff using EqualFold_node_tag [OF t _ n] others by (auto simp: nodes)
  from run_loop_one [OF r _ this, of "[]"] EqualFold_node_tag [OF t n n] have
    l: "run_loop (operator_upgrader tm) env c act g (s_Image (Spec c)) (buildPrevStatusMap (Status c)) (node_tag n) ?nodes [] hp =
      Some ((map ?prev before @ s # map ?prev after, None), h')" by (simp add: nodes)
  have f: "map ?prev before @ s # map ?prev after = map ?f ?nodes" using others by (auto simp: nodes intro!: map_cong)
  have "map status_tag (map ?f ?nodes) = map node_tag ?nodes" using run_node_tag [OF r] by (auto simp: statusOrCreated_tag)
  then have o: "order_statuses ?nodes (map ?f ?nodes) = map ?f ?nodes" by (rule order_statuses_id [OF _ tags_ok_distinct [OF t]])
  have "node_tag n \<noteq> ''''" using t n by (auto simp: tags_ok_def list_all_iff normalizeTag_def strings_ToUpper_def)
  then show ?thesis using b p l by (simp add: Run_def operator_upgrader_simps desiredNodeImage_def Let_def f o)
qed

lemma run_progress:
  assumes http: "BuildHTTPSClientFromCluster env c h = Some (Inr cl, hb)" and g: "healthy_gates env (NewChecks (Some cl) c) (n_Tag n)"
    and view: "\<And>h' name. reads_only h h' \<Longrightarrow> e_GetStatefulSet env h' (Namespace c) name = live name"
    and pick: "pick_spec live (s_Image (Spec c)) (s_Nodes (Spec c)) = Some n"
    and sts: "live (statefulSetName (n_Tag n)) = Inr sts" "\<not> in_flight (Inr sts)" and t: "tags_ok c"
    and patch: "\<And>h new old. e_PatchStatefulSet env h new old = None" and ap: "\<And>h. \<exists>h'. act n h = Some (None, h')"
  shows "\<exists>time h'. Run (operator_upgrader tm) env c act h =
      Some ((map (\<lambda>m. if m = n
         then \<lparr>ns_Tag = n_Tag n, ns_Status = NodeStatusCreated, ns_LastAttemptedImage = s_Image (Spec c), ns_LastError = '''', ns_LastAttemptTime = time\<rparr>
         else statusOrCreated (buildPrevStatusMap (Status c)) (n_Tag m)) (s_Nodes (Spec c)), None), h') \<and>
    upgrades env c act (s_Image (Spec c)) n sts h h'"
proof -
  let ?img = "s_Image (Spec c)" and ?nodes = "s_Nodes (Spec c)" and ?prev = "buildPrevStatusMap (Status c)" and ?g = "NewChecks (Some cl) c"
  have b: "buildGatesDefault env c h = Some (Inr ?g, hb)" using http by (simp add: buildGatesDefault_def)
  have rb: "reads_only h hb" by (rule buildGatesDefault_reads [OF b])
  have n: "n \<in> set ?nodes" by (rule pick_spec_in [OF pick])
  have "view_of env (Namespace c) hb live" unfolding view_of_def using extends_trans [OF rb is_get_reads] view by blast
  from pick_view [OF this tags_ok_trimmed [OF t], of ?img] pick obtain hp where
    p: "pickSelectedTag env c ?img hb = ((node_tag n, None), hp)" by (metis option.simps(5) prod.collapse)
  have rp: "reads_only h hp" by (rule extends_trans [OF rb is_get_reads [OF pick_gets [OF p]]])
  have "e_GetStatefulSet env h' (Namespace c) (statefulSetName (n_Tag n)) = Inr sts" if "reads_only hp h'" for h'
    using view [OF extends_trans [OF rp that]] sts(1) by simp
  from run_node_upgrades [where act = act and n = n and t = tm and prev = ?prev, OF g this pick_spec_outdated [OF pick sts] sts(2) patch ap] obtain time h' where
    r: "run_node (operator_upgrader tm) env c act ?g ?img ?prev n hp =
      Some ((\<lparr>ns_Tag = n_Tag n, ns_Status = NodeStatusCreated, ns_LastAttemptedImage = ?img, ns_LastError = '''', ns_LastAttemptTime = time\<rparr>, None), h')"
    and up: "upgrades env c act ?img n sts hp h'" by blast
  let ?s = "\<lparr>ns_Tag = n_Tag n, ns_Status = NodeStatusCreated, ns_LastAttemptedImage = ?img, ns_LastError = '''', ns_LastAttemptTime = time\<rparr>"
  have "Run (operator_upgrader tm) env c act h = Some ((map (\<lambda>m. if m = n then ?s else statusOrCreated ?prev (n_Tag m)) ?nodes, None), h')"
    by (rule Run_selected [OF t n b p r])
  moreover have "upgrades env c act ?img n sts h h'"
    using up extends_trans [OF rp] unfolding upgrades_def by blast
  ultimately show ?thesis by blast
qed


subsection \<open>Witnesses\<close>

text \<open>An environment in which every StatefulSet runs the image \<open>old\<close>, and a callback that does nothing.\<close>

definition named_sts :: "string \<Rightarrow> string \<Rightarrow> StatefulSet" where
  "named_sts ns name = (live_sts ''old'')\<lparr>sts_Meta := new_meta name ns Map.empty Map.empty\<rparr>"

definition upgrade_env :: Env where
  "upgrade_env = (sample_env (\<lambda>_. Inl (NotFound '''')))\<lparr>e_GetStatefulSet := \<lambda>h ns name. Inr (named_sts ns name)\<rparr>"

definition no_apply :: ApplyNodeFn where
  "no_apply n h = Some (None, h)"

lemma upgrade_env_names: "names_ok upgrade_env"
  by (simp add: names_ok_def upgrade_env_def named_sts_def new_meta_def)

lemma upgrade_env_clock: "clock_ok upgrade_env"
  using sample_env_clock by (simp add: clock_ok_def upgrade_env_def)

lemma named_sts_image: "currentStsImage (named_sts ns name) = ''old''"
  using built_images [OF live_sts [of "''old''"]] by (auto simp: currentStsImage_def named_sts_def sample_defs split: list.splits)

lemma sample_tick: "\<exists>sts err h'. Run (operator_upgrader DefaultTiming) upgrade_env (sample_cluster ''new'') no_apply [] = Some ((sts, err), h')"
  by (rule Run_total [OF upgrade_env_clock DefaultTiming_ok]) (simp_all add: no_apply_def sample_defs)

theorem Run_statuses_witness:
  "\<exists>sts err h'. Run (operator_upgrader DefaultTiming) upgrade_env (sample_cluster ''new'') no_apply [] = Some ((sts, err), h') \<and>
     prefix (map status_tag sts) [node_tag (sample_node ''a''), node_tag (sample_node ''b'')]"
proof -
  from sample_tick obtain sts err h' where r: "Run (operator_upgrader DefaultTiming) upgrade_env (sample_cluster ''new'') no_apply [] = Some ((sts, err), h')"
    by blast
  have "map node_tag (s_Nodes (Spec (sample_cluster ''new''))) = [node_tag (sample_node ''a''), node_tag (sample_node ''b'')]"
    by (simp add: sample_cluster_def sample_spec_def)
  with Run_statuses [OF r] r show ?thesis by auto
qed

theorem pickSelectedTag_refines_witness:
  "fst (pickSelectedTag upgrade_env (sample_cluster ''new'') ''new'' []) = (''A'', None)"
proof -
  let ?live = "\<lambda>name. Inr (named_sts ''ravendb'' name)"
  have v: "view_of upgrade_env (Namespace (sample_cluster ''new'')) [] ?live"
    by (simp add: view_of_def upgrade_env_def sample_defs)
  have t: "list_all (\<lambda>n. strings_TrimSpace (n_Tag n) \<noteq> '''') (s_Nodes (Spec (sample_cluster ''new'')))"
    by (simp add: sample_defs strings_TrimSpace_def is_space_def)
  have "pick_spec ?live ''new'' (s_Nodes (Spec (sample_cluster ''new''))) = Some (sample_node ''a'')"
    by (simp add: pick_spec_def in_flight_def missing_def outdated_def named_sts_image sample_cluster_def sample_spec_def)
      (simp add: named_sts_def new_meta_def)
  moreover have "normalizeTag ''a'' = ''A''" by code_simp
  then have "node_tag (sample_node ''a'') = ''A''" by (simp add: sample_node_def)
  ultimately show ?thesis using pickSelectedTag_refines [OF v t, of "''new''"] by simp
qed

theorem Run_one_node_witness:
  "\<exists>sts err h'. Run (operator_upgrader DefaultTiming) upgrade_env (sample_cluster ''new'') no_apply [] = Some ((sts, err), h') \<and>
     (reads_only [] h' \<or> (\<exists>n. n \<in> set (s_Nodes (Spec (sample_cluster ''new''))) \<and> extends (node_change (sample_cluster ''new'') (n_Tag n)) [] h'))"
proof -
  from sample_tick obtain sts err h' where r: "Run (operator_upgrader DefaultTiming) upgrade_env (sample_cluster ''new'') no_apply [] = Some ((sts, err), h')"
    by blast
  have "\<forall>n h e h'. no_apply n h = Some (e, h') \<longrightarrow> extends (node_change (sample_cluster ''new'') (n_Tag n)) h h'" by (simp add: no_apply_def)
  moreover have "distinct (map (\<lambda>n. strings_ToLower (n_Tag n)) (s_Nodes (Spec (sample_cluster ''new''))))"
    by (simp add: sample_defs strings_ToLower_def lower_char_def is_upper_def)
  ultimately show ?thesis using Run_one_node [OF upgrade_env_names _ _ r] r by blast
qed

theorem Run_returns_witness:
  "\<exists>sts err h'. Run (operator_upgrader DefaultTiming) upgrade_env (sample_cluster ''new'') no_apply [] = Some ((sts, err), h')"
  by (rule Run_returns [OF upgrade_env_clock DefaultTiming_ok]) (simp_all add: no_apply_def sample_defs)


text \<open>The gates of the sample environment are healthy, so its tick marks and upgrades the first node.\<close>

lemma upgrade_env_gates:
  assumes "BuildHTTPSClientFromCluster upgrade_env (sample_cluster ''new'') [] = Some (Inr cl, hb)"
  shows "healthy_gates upgrade_env (NewChecks (Some cl) (sample_cluster ''new'')) ''a''"
proof -
  let ?g = "NewChecks (Some cl) (sample_cluster ''new'')"
  have base: "baseURL ?g \<noteq> ''''" and url: "strings_TrimSpace (urlForTag ?g ''a'') \<noteq> ''''"
    by (simp_all add: NewChecks_def urlForTag_def sample_defs, code_simp+)
  show ?thesis
    using base url
    by (auto simp: healthy_gates_def upgrade_env_def sample_env_def NodeAlive_def ClusterConnectivity_def DatabasesOnline_def clusterURL_def join_def
        httpGET_def http_get_def Let_def summarizeError_blank)
qed

lemma upgrade_env_pick:
  "\<forall>h' name. reads_only [] h' \<longrightarrow> e_GetStatefulSet upgrade_env h' (Namespace (sample_cluster ''new'')) name = Inr (named_sts ''ravendb'' name)"
  "pick_spec (\<lambda>name. Inr (named_sts ''ravendb'' name)) (s_Image (Spec (sample_cluster ''new''))) (s_Nodes (Spec (sample_cluster ''new''))) =
     Some (sample_node ''a'')"
  "\<not> in_flight (Inr (named_sts ns name))" "tags_ok (sample_cluster ''new'')"
  "\<forall>h new old. e_PatchStatefulSet upgrade_env h new old = None"
proof -
  show "pick_spec (\<lambda>name. Inr (named_sts ''ravendb'' name)) (s_Image (Spec (sample_cluster ''new''))) (s_Nodes (Spec (sample_cluster ''new''))) =
     Some (sample_node ''a'')"
    by (simp add: pick_spec_def in_flight_def missing_def outdated_def named_sts_image sample_cluster_def sample_spec_def)
      (simp add: named_sts_def new_meta_def)
  show "\<not> in_flight (Inr (named_sts ns name))" by (simp add: in_flight_def named_sts_def new_meta_def)
  show "tags_ok (sample_cluster ''new'')"
    by (simp add: tags_ok_def sample_defs strings_TrimSpace_def is_space_def strings_ToLower_def lower_char_def is_upper_def)
qed (simp_all add: upgrade_env_def sample_env_def sample_cluster_def)

lemma upgrade_env_client: "\<exists>cl hb. BuildHTTPSClientFromCluster upgrade_env (sample_cluster img) [] = Some (Inr cl, hb)"
  by (simp add: BuildHTTPSClientFromCluster_def needsCA_def sample_defs loadClientPair_def pfxToTLSCert_def get_secret_def
      upgrade_env_def sample_env_def sample_secret_def clientPFXKey_def clientPwdKey_def)


theorem Run_gated_witness:
  "\<exists>h1 h' sts. Run (operator_upgrader DefaultTiming) upgrade_env (sample_cluster ''new'') no_apply [] = Some ((sts, None), h') \<and>
     prefix (h1 @ [PatchStatefulSet (set_annotation ''new'' (named_sts ''ravendb'' (statefulSetName ''a''))) (named_sts ''ravendb'' (statefulSetName ''a''))]) h' \<and>
     (\<exists>n cl h0. n \<in> set (s_Nodes (Spec (sample_cluster ''new''))) \<and>
        gates_passed upgrade_env (NewChecks (Some cl) (sample_cluster ''new'')) (n_Tag n) h0 h1)"
proof -
  let ?s = "named_sts ''ravendb'' (statefulSetName ''a'')"
  let ?e = "PatchStatefulSet (set_annotation ''new'' ?s) ?s"
  obtain cl hb where cl: "BuildHTTPSClientFromCluster upgrade_env (sample_cluster ''new'') [] = Some (Inr cl, hb)" using upgrade_env_client by blast
  have g: "healthy_gates upgrade_env (NewChecks (Some cl) (sample_cluster ''new'')) (n_Tag (sample_node ''a''))"
    using upgrade_env_gates [OF cl] by (simp add: sample_node_def)
  have "\<exists>sts h'. Run (operator_upgrader DefaultTiming) upgrade_env (sample_cluster ''new'') no_apply [] = Some ((sts, None), h') \<and>
      upgrades upgrade_env (sample_cluster ''new'') no_apply (s_Image (Spec (sample_cluster ''new''))) (sample_node ''a'')
        (named_sts ''ravendb'' (statefulSetName (n_Tag (sample_node ''a'')))) [] h'"
    using run_progress [OF cl g _ upgrade_env_pick(2) refl upgrade_env_pick(3,4), of no_apply DefaultTiming] upgrade_env_pick(1,5)
    by (auto simp: no_apply_def)
  then obtain sts h' where r: "Run (operator_upgrader DefaultTiming) upgrade_env (sample_cluster ''new'') no_apply [] = Some ((sts, None), h')"
    and "upgrades upgrade_env (sample_cluster ''new'') no_apply ''new'' (sample_node ''a'') ?s [] h'"
    by (auto simp: sample_cluster_def sample_spec_def sample_node_def)
  then obtain h1 where p: "prefix (h1 @ [?e]) h'" using upgrades_mark [where act = no_apply] by (fastforce simp: no_apply_def)
  have m: "marks ?e" by (simp add: marks_def set_annotation_def)
  have "\<forall>n h e h'. no_apply n h = Some (e, h') \<longrightarrow> extends (\<lambda>e. \<not> marks e) h h'" by (simp add: no_apply_def)
  from Run_gated [OF r upgrade_env_names this _ p m] r p show ?thesis by fastforce
qed

end
