(* ===== verification/Controller.thy ===== *)
theory Controller
  imports Evaluator UpgradeProgress
begin

text \<open>
  The reconciler (\<open>internal/controller/ravendbcluster_controller.go\<close>).  \<open>Reconcile\<close> loads the cluster, runs the director's
  cluster-wide actors, one tick of the upgrader with the director's node actors as its callback, the collector and the evaluator, and patches
  the status if it changed.  It returns the result and the reconciler, whose upgrader has the new timing; \<open>None\<close> is a panic or a
  wait that never ends.  Logging is left out.  Nil and empty slices are not told apart, so a status compares by its entries.
\<close>

subsection \<open>The model\<close>

record Result =
  Requeue :: bool

text \<open>\<open>rc_Recorder\<close> says whether the event recorder is non-nil.\<close>

record RavenDBClusterReconciler =
  rc_Director :: DefaultDirector
  rc_Upgrader :: upgrader
  rc_Recorder :: bool
  rc_BaseTiming :: Timing

definition SetupWithManager :: "RavenDBClusterReconciler \<Rightarrow> RavenDBClusterReconciler" where
  "SetupWithManager r =
     (let r = r\<lparr>rc_Recorder := True\<rparr>;
          tm = DefaultTiming;
          r = r\<lparr>rc_Upgrader := NewUpgrader tm\<rparr>;
          r = r\<lparr>rc_BaseTiming := tm\<rparr>
      in r\<lparr>rc_Upgrader := SetEmitter (NewGateEventEmitter (rc_Recorder r)) (rc_Upgrader r)\<rparr>)"

definition getEventSeverity :: "Condition \<Rightarrow> string" where
  "getEventSeverity cur =
     (if c_Type cur = ConditionReady then
        (if c_Status cur = ConditionFalse then EventTypeWarning else EventTypeNormal)
      else if c_Type cur = ConditionDegraded then
        (if c_Status cur = ConditionTrue then EventTypeWarning else EventTypeNormal)
      else if c_Type cur = ConditionProgressing then EventTypeNormal
      else (if c_Status cur = ConditionFalse then EventTypeWarning else EventTypeNormal))"

definition transition_message :: "Condition \<Rightarrow> string" where
  "transition_message cur =
     ''Condition '' @ c_Type cur @ '' changed to '' @ c_Status cur @ '' (reason='' @ c_Reason cur @ ''): '' @ c_Message cur"

definition is_transition :: "(string \<rightharpoonup> Condition) \<Rightarrow> Condition \<Rightarrow> bool" where
  "is_transition previousByType cur =
     (case previousByType (c_Type cur) of
        None \<Rightarrow> True
      | Some previous \<Rightarrow> c_Status previous \<noteq> c_Status cur \<or> c_Reason previous \<noteq> c_Reason cur \<or> c_Message previous \<noteq> c_Message cur)"

fun transitions_loop :: "RavenDBCluster \<Rightarrow> (string \<rightharpoonup> Condition) \<Rightarrow> bool \<Rightarrow> Condition list \<Rightarrow> history \<Rightarrow> history option" where
  "transitions_loop cluster previousByType rec [] h = Some h"
| "transitions_loop cluster previousByType rec (cur # cs) h =
     (if is_transition previousByType cur then
        (if \<not> rec then None
         else transitions_loop cluster previousByType rec cs
                (eventf ''RavenDBCluster'' (Name cluster) (getEventSeverity cur) (c_Reason cur) (transition_message cur) h))
      else transitions_loop cluster previousByType rec cs h)"

definition emitConditionTransitions :: "RavenDBCluster \<Rightarrow> Condition list \<Rightarrow> bool \<Rightarrow> history \<Rightarrow> history option" where
  "emitConditionTransitions cluster prevConditions rec h =
     (let previousByType = foldl (\<lambda>m c. m(c_Type c \<mapsto> c)) Map.empty prevConditions
      in transitions_loop cluster previousByType rec (st_Conditions (Status cluster)) h)"

text \<open>The closure passed to the upgrader.\<close>

definition applyNode :: "RavenDBClusterReconciler \<Rightarrow> Env \<Rightarrow> RavenDBCluster \<Rightarrow> ApplyNodeFn" where
  "applyNode r env inst node h = do { ((_, err), h) \<leftarrow> ExecutePerNode (rc_Director r) env inst node h; Some (err, h) }"

text \<open>From the status comparison on.\<close>

definition finish_reconcile ::
  "RavenDBClusterReconciler \<Rightarrow> Env \<Rightarrow> RavenDBCluster \<Rightarrow> RavenDBCluster \<Rightarrow> history \<Rightarrow> ((Result \<times> error) \<times> history) option" where
  "finish_reconcile r env original inst h =
     (if Status original \<noteq> Status inst then
        (let (res, h) = patch_status env inst original h
         in case res of
              Inl e \<Rightarrow> if IsConflict e then Some ((\<lparr>Requeue = True\<rparr>, None), h) else Some ((\<lparr>Requeue = False\<rparr>, Some (kerr_msg e)), h)
            | Inr inst \<Rightarrow>
                do { h \<leftarrow> emitConditionTransitions inst (st_Conditions (Status original)) (rc_Recorder r) h;
                     Some ((\<lparr>Requeue = False\<rparr>, None), h) })
      else Some ((\<lparr>Requeue = False\<rparr>, None), h))"

definition Reconcile ::
  "RavenDBClusterReconciler \<Rightarrow> Env \<Rightarrow> string \<Rightarrow> string \<Rightarrow> history \<Rightarrow> ((Result \<times> error) \<times> RavenDBClusterReconciler \<times> history) option" where
  "Reconcile r env ns name h =
     (let (got, h) = get_cluster env ns name h
      in case got of
           Inl e \<Rightarrow> Some ((\<lparr>Requeue = False\<rparr>, if IsNotFound e then None else Some (kerr_msg e)), r, h)
         | Inr inst \<Rightarrow>
             do { ((_, err), h) \<leftarrow> ExecutePerCluster (rc_Director r) env inst h;
                  (case err of
                     Some e \<Rightarrow> Some ((\<lparr>Requeue = False\<rparr>, Some e), r, h)
                   | None \<Rightarrow>
                       (let r = r\<lparr>rc_Upgrader := SetTiming (ReadTimingFromAnnotations inst (rc_BaseTiming r)) (rc_Upgrader r)\<rparr>
                        in do { ((nodeStatuses, err), h) \<leftarrow> Run (rc_Upgrader r) env inst (applyNode r env inst) h;
                                (let h = (case err of
                                            Some e \<Rightarrow> if rc_Recorder r then eventf ''RavenDBCluster'' (Name inst) EventTypeWarning ''RollingUpgradeFailed'' e h else h
                                          | None \<Rightarrow> h);
                                     inst' = set_status inst (\<lambda>s. s\<lparr>st_Nodes := nodeStatuses\<rparr>);
                                     (cli, h) = list_all_kinds env (Namespace inst) h;
                                     (resFacts, _) = Collect cli inst';
                                     (now, h) = time_Now env h;
                                     inst' = Evaluate inst' (Some resFacts) now
                                 in do { (res, h) \<leftarrow> finish_reconcile r env inst inst' h; Some (res, r, h) }) })) })"

text \<open>The reconciler of the process, as \<open>main\<close> sets it up; the upgrader and the timing given here are overwritten by
  \<open>SetupWithManager\<close>.\<close>

definition main_reconciler :: RavenDBClusterReconciler where
  "main_reconciler = SetupWithManager
     \<lparr>rc_Director = NewDefaultDirector, rc_Upgrader = NewUpgrader DefaultTiming, rc_Recorder = False, rc_BaseTiming = DefaultTiming\<rparr>"

subsection \<open>The parts of a reconcile\<close>

abbreviation cluster_timing :: "RavenDBCluster \<Rightarrow> Timing" where
  "cluster_timing c \<equiv> ReadTimingFromAnnotations c DefaultTiming"

abbreviation timed_reconciler :: "RavenDBCluster \<Rightarrow> RavenDBClusterReconciler" where
  "timed_reconciler c \<equiv> main_reconciler\<lparr>rc_Upgrader := operator_upgrader (cluster_timing c)\<rparr>"

lemma main_simps:
  "rc_Director main_reconciler = NewDefaultDirector" "rc_Recorder main_reconciler" "rc_BaseTiming main_reconciler = DefaultTiming"
  "SetTiming t (rc_Upgrader main_reconciler) = operator_upgrader t"
  by (simp_all add: main_reconciler_def SetupWithManager_def operator_upgrader_def Let_def)

text \<open>The cluster as evaluated at the end of a reconcile that reached \<open>h3\<close> with the node statuses \<open>sts\<close>.\<close>

definition with_nodes :: "RavenDBCluster \<Rightarrow> RavenDBNodeStatus list \<Rightarrow> RavenDBCluster" where
  "with_nodes c sts = set_status c (\<lambda>s. s\<lparr>st_Nodes := sts\<rparr>)"

definition evaluated :: "Env \<Rightarrow> RavenDBCluster \<Rightarrow> RavenDBNodeStatus list \<Rightarrow> history \<Rightarrow> RavenDBCluster" where
  "evaluated env c sts h3 =
     Evaluate (with_nodes c sts) (Some (fst (Collect (e_Lister env h3) (with_nodes c sts)))) (e_Now env (h3 @ [ListAll (Namespace c)]))"

lemma Reconcile_cases:
  assumes "Reconcile main_reconciler env ns name h = Some ((res, err), r', h')"
  obtains (gone) e where "e_GetCluster env h ns name = Inl e" "h' = h @ [GetCluster ns name]" "\<not> Requeue res"
      "err = (if IsNotFound e then None else Some (kerr_msg e))"
  | (cluster) c ch e where "e_GetCluster env h ns name = Inr c"
      "ExecutePerCluster NewDefaultDirector env c (h @ [GetCluster ns name]) = Some ((ch, Some e), h')" "\<not> Requeue res" "err = Some e"
  | (full) c ch h1 sts rerr h2 h3 where "e_GetCluster env h ns name = Inr c"
      "ExecutePerCluster NewDefaultDirector env c (h @ [GetCluster ns name]) = Some ((ch, None), h1)"
      "Run (operator_upgrader (cluster_timing c)) env c (applyNode (timed_reconciler c) env c) h1 = Some ((sts, rerr), h2)"
      "h3 = (case rerr of None \<Rightarrow> h2 | Some e \<Rightarrow> h2 @ [Eventf ''RavenDBCluster'' (Name c) EventTypeWarning ''RollingUpgradeFailed'' e])"
      "finish_reconcile (timed_reconciler c) env c (evaluated env c sts h3) (h3 @ [ListAll (Namespace c), Now]) = Some ((res, err), h')"
proof (cases "e_GetCluster env h ns name")
  case (Inl e)
  with assms gone show thesis by (auto simp: Reconcile_def get_cluster_def)
next
  case (Inr c)
  let ?rt = "timed_reconciler c"
  from assms Inr obtain ch perr h1 where x: "ExecutePerCluster NewDefaultDirector env c (h @ [GetCluster ns name]) = Some ((ch, perr), h1)"
    by (auto simp: Reconcile_def get_cluster_def main_simps split: Option.bind_split_asm)
  show thesis
  proof (cases perr)
    case (Some e)
    with assms Inr x cluster show thesis by (auto simp: Reconcile_def get_cluster_def main_simps)
  next
    case None
    with assms Inr x obtain sts rerr h2 where
      run: "Run (operator_upgrader (cluster_timing c)) env c (applyNode ?rt env c) h1 = Some ((sts, rerr), h2)"
      by (auto simp: Reconcile_def get_cluster_def main_simps Let_def split: Option.bind_split_asm)
    let ?h3 = "case rerr of None \<Rightarrow> h2 | Some e \<Rightarrow> h2 @ [Eventf ''RavenDBCluster'' (Name c) EventTypeWarning ''RollingUpgradeFailed'' e]"
    have "finish_reconcile ?rt env c (evaluated env c sts ?h3) (?h3 @ [ListAll (Namespace c), Now]) = Some ((res, err), h')"
      using assms Inr x None run
      by (auto simp: Reconcile_def env_ops main_simps Let_def evaluated_def with_nodes_def case_prod_beta split: Option.bind_split_asm option.splits)
    from full [OF Inr x [unfolded None] run refl this] show thesis .
  qed
qed

text \<open>Evaluation writes nothing but the status, and of the status not the nodes.\<close>

definition status_only :: "RavenDBCluster \<Rightarrow> RavenDBCluster \<Rightarrow> bool" where
  "status_only c c' \<longleftrightarrow> c' = c\<lparr>Status := Status c'\<rparr> \<and> st_Nodes (Status c') = st_Nodes (Status c)"

lemma status_only_trans: "status_only a b \<Longrightarrow> status_only b c \<Longrightarrow> status_only a c"
  unfolding status_only_def by (metis RavenDBCluster.update_convs(7) RavenDBCluster.surjective RavenDBCluster.select_convs)

lemma status_only_refl [simp]: "status_only c c"
  by (simp add: status_only_def)

lemma status_only_ops:
  "status_only c (setCondition c t st re msg now)" "status_only c (set_message c msg)" "status_only c (SetObservedGeneration c g)"
  "status_only c (UpdatePhaseFromConditions c)"
  by (simp_all add: status_only_def setCondition_def SetObservedGeneration_def UpdatePhaseFromConditions_def go_simps split: option.split)

lemma Evaluate_status_only: "status_only c (Evaluate c res now)"
proof -
  have res: "status_only a (apply_result b t r now)" if "status_only a b" for a b t r
    by (rule status_only_trans [OF that]) (simp add: apply_result_eq status_only_ops)
  have conds: "status_only c (apply_conditions c res now)"
    unfolding apply_conditions_def Let_def by (intro res status_only_refl)
  have loop: "status_only c (compute_ready_loop c ts now)" for c ts
    by (induction ts) (auto simp: status_only_ops intro: status_only_trans [OF status_only_ops(1) status_only_ops(2)] split: option.split)
  have ready: "status_only c (ComputeReady c now)" for c by (simp add: ComputeReady_def loop)
  show ?thesis
    unfolding Evaluate_def Let_def
    by (rule status_only_trans [OF status_only_trans [OF status_only_trans [OF conds status_only_ops(3)] ready] status_only_ops(4)])
qed

lemma Evaluate_conditions_wf: "conditions_wf c \<Longrightarrow> conditions_wf (Evaluate c res now)"
proof -
  assume "conditions_wf c"
  then have "conditions_wf (apply_conditions c res now)" by (simp add: apply_conditions_def Let_def conditions_wf_apply)
  then have "conditions_wf (SetObservedGeneration (apply_conditions c res now) g)" for g
    by (simp add: conditions_wf_def SetObservedGeneration_def go_simps)
  then show ?thesis
    by (simp add: Evaluate_def Let_def ComputeReady_def UpdatePhaseFromConditions_def)
      (simp add: conditions_wf_def go_simps, metis conditions_wf_compute_ready_loop conditions_wf_def)
qed

lemma evaluated_status_only: "evaluated env c sts h3 = c\<lparr>Status := Status (evaluated env c sts h3)\<rparr> \<and> st_Nodes (Status (evaluated env c sts h3)) = sts"
  using Evaluate_status_only [of "with_nodes c sts"] by (simp add: evaluated_def status_only_def with_nodes_def go_simps)

lemma evaluated_conditions_wf: "conditions_wf c \<Longrightarrow> conditions_wf (evaluated env c sts h3)"
  by (auto simp: evaluated_def with_nodes_def conditions_wf_def go_simps intro!: Evaluate_conditions_wf [unfolded conditions_wf_def])

subsection \<open>Events of condition changes\<close>

lemma transitions_loop_events:
  "transitions_loop c prev True cs h =
   Some (h @ map (\<lambda>cur. Eventf ''RavenDBCluster'' (Name c) (getEventSeverity cur) (c_Reason cur) (transition_message cur)) (filter (is_transition prev) cs))"
  by (induction cs arbitrary: h) (auto simp: eventf_def)

lemma foldl_types_distinct:
  "distinct (map c_Type cs) \<Longrightarrow> foldl (\<lambda>m c. m(c_Type c \<mapsto> c)) m cs t = (case find (\<lambda>c. c_Type c = t) cs of Some c \<Rightarrow> Some c | None \<Rightarrow> m t)"
proof (induction cs arbitrary: m)
  case (Cons a cs)
  have "find (\<lambda>c. c_Type c = c_Type a) cs = None" unfolding find_None_iff using Cons.prems by (simp add: image_iff) metis
  with Cons show ?case by auto
qed simp

text \<open>C30. With a recorder, and conditions of distinct types before, the events emitted are exactly those of the conditions that are new or
  whose status, reason or message changed, one each, in the order of the status, with severity Warning exactly for a false condition, or a true one in the case of
  Degraded, and never for Progressing.  Without a recorder the operation panics as soon as there is one to emit.\<close>

theorem emitConditionTransitions_spec:
  assumes "distinct (map c_Type prev)"
  shows "emitConditionTransitions c prev rec h =
    (let changed = filter (\<lambda>cur. \<not> (\<exists>p. find_condition prev (c_Type cur) = Some p \<and> c_Status p = c_Status cur \<and> c_Reason p = c_Reason cur \<and>
                                       c_Message p = c_Message cur)) (st_Conditions (Status c))
     in if rec \<or> changed = []
        then Some (h @ map (\<lambda>cur. Eventf ''RavenDBCluster'' (Name c)
                    (if c_Type cur \<noteq> ConditionProgressing \<and> c_Status cur = (if c_Type cur = ConditionDegraded then ConditionTrue else ConditionFalse)
                     then EventTypeWarning else EventTypeNormal) (c_Reason cur) (transition_message cur)) changed)
        else None)"
proof -
  let ?m = "foldl (\<lambda>m c. m(c_Type c \<mapsto> c)) Map.empty prev" and ?cs = "st_Conditions (Status c)"
  let ?changed = "\<lambda>cur. \<not> (\<exists>p. find_condition prev (c_Type cur) = Some p \<and> c_Status p = c_Status cur \<and> c_Reason p = c_Reason cur \<and> c_Message p = c_Message cur)"
  have m: "?m t = find_condition prev t" for t
    using foldl_types_distinct [OF assms, of Map.empty t] by (simp add: find_condition_find split: option.splits)
  have tr: "is_transition ?m = ?changed" by (rule ext) (auto simp: is_transition_def m split: option.splits)
  have sev: "getEventSeverity cur = (if c_Type cur \<noteq> ConditionProgressing \<and>
      c_Status cur = (if c_Type cur = ConditionDegraded then ConditionTrue else ConditionFalse) then EventTypeWarning else EventTypeNormal)" for cur
    by (auto simp: getEventSeverity_def)
  have none: "transitions_loop c ?m False cs h = (if filter (is_transition ?m) cs = [] then Some h else None)" for cs
    by (induction cs) auto
  show ?thesis
    by (cases rec) (auto simp: emitConditionTransitions_def Let_def transitions_loop_events none tr sev)
qed

subsection \<open>What a reconcile changes\<close>

definition node_level :: "request \<Rightarrow> bool" where
  "node_level e \<longleftrightarrow> (case e of Apply obj fo \<Rightarrow> type_name obj \<in> {''*v1.StatefulSet'', ''*v1.Service''} | PatchStatefulSet new old \<Rightarrow> True | _ \<Rightarrow> False)"

definition is_status :: "request \<Rightarrow> bool" where
  "is_status e \<longleftrightarrow> (case e of PatchStatus new old \<Rightarrow> True | _ \<Rightarrow> False)"

definition is_event :: "request \<Rightarrow> bool" where
  "is_event e \<longleftrightarrow> (case e of Eventf k n t r m \<Rightarrow> True | _ \<Rightarrow> False)"

lemma applyNode_request:
  "owner_ref_ok env \<Longrightarrow> applyNode (timed_reconciler c) env c n h = Some (e, h') \<Longrightarrow> extends (node_request c n) h h'"
  by (auto simp: applyNode_def main_simps split: Option.bind_split_asm dest: per_node_footprint)

lemma node_request_imp:
  "node_request c n e \<Longrightarrow> node_change c (n_Tag n) e" "node_request c n e \<Longrightarrow> \<not> marks e" "node_request c n e \<Longrightarrow> \<not> is_status e"
  by (auto simp: node_request_def node_change_def marks_def is_status_def split: request.splits)

lemma applyNode_extends:
  "owner_ref_ok env \<Longrightarrow> applyNode (timed_reconciler c) env c n h = Some (e, h') \<Longrightarrow> (\<And>e. node_request c n e \<Longrightarrow> Q e) \<Longrightarrow> extends Q h h'"
  by (rule extends_mono [OF applyNode_request])

lemma per_cluster_requests:
  assumes "ExecutePerCluster NewDefaultDirector env c h = Some ((ch, err), h')"
  shows "extends (\<lambda>e. \<not> node_level e \<and> \<not> is_status e) h h'"
  by (rule per_cluster_extends [OF assms]) (auto simp: node_level_def is_status_def)

lemma finish_requests:
  assumes "finish_reconcile (timed_reconciler c) env original inst h = Some ((res, err), h')"
  shows "if Status original = Status inst then h' = h \<and> \<not> Requeue res \<and> err = None
         else (\<exists>es. h' = h @ PatchStatus inst original # es \<and> list_all is_event es)"
  using assms
  by (auto simp: finish_reconcile_def patch_status_def emitConditionTransitions_def main_simps transitions_loop_events list_all_iff is_event_def Let_def
      split: if_split_asm sum.split_asm Option.bind_split_asm)

lemma h3_requests:
  "h3 = (case rerr of None \<Rightarrow> h2 | Some e \<Rightarrow> h2 @ [Eventf k n t rs e]) \<Longrightarrow>
   extends (\<lambda>e. \<not> mutating e) h2 (h3 @ [ListAll ns, Now])"
  by (auto simp: extends_def split: option.splits)

lemma quiet_levels: "\<not> mutating e \<Longrightarrow> \<not> node_level e \<and> \<not> is_status e"
  by (cases e) (auto simp: node_level_def is_status_def)

lemma event_levels: "is_event e \<Longrightarrow> \<not> mutating e"
  by (cases e) (auto simp: is_event_def)

lemma finish_extends:
  assumes "finish_reconcile (timed_reconciler c) env original inst h = Some ((res, err), h')"
    and "\<And>e. \<not> mutating e \<Longrightarrow> Q e" "Status original \<noteq> Status inst \<Longrightarrow> Q (PatchStatus inst original)"
  shows "extends Q h h'"
proof (cases "Status original = Status inst")
  case True
  with finish_requests [OF assms(1)] show ?thesis by simp
next
  case False
  with finish_requests [OF assms(1)] obtain es where es: "h' = h @ PatchStatus inst original # es" "list_all is_event es" by auto
  from es(2) have "list_all Q es" by (rule list.pred_mono_strong) (simp add: assms(2) event_levels)
  with es(1) assms(3) [OF False] show ?thesis by (auto simp: extends_def)
qed

text \<open>What a reconcile may request at all.\<close>

lemma Reconcile_extends:
  assumes "Reconcile main_reconciler env ns name h = Some (r, r', h')" "owner_ref_ok env"
    and quiet: "\<And>e. \<not> mutating e \<Longrightarrow> Q e"
    and applies: "\<And>obj fo. type_name obj \<in> {''*v1.Ingress'', ''*v1.Job'', ''*v1.ConfigMap'', ''*v1.StatefulSet'', ''*v1.Service''} \<Longrightarrow> Q (Apply obj fo)"
    and patches: "\<And>new old. Q (PatchStatefulSet new old)" "\<And>new old. Q (PatchStatus new old)"
  shows "extends Q h h'"
proof -
  have got: "extends Q h (h @ [GetCluster ns name])" by (rule extends_snoc) (simp, rule quiet, simp)
  have per: "extends Q x y" if "ExecutePerCluster NewDefaultDirector env c x = Some ((ch, e), y)" for c x ch e y
    by (rule per_cluster_extends [OF that], rule applies) auto
  obtain res err where "Reconcile main_reconciler env ns name h = Some ((res, err), r', h')" using assms(1) by (cases r) simp
  then show ?thesis
  proof (cases rule: Reconcile_cases)
    case gone
    with got show ?thesis by simp
  next
    case cluster
    from extends_trans [OF got per [OF cluster(2)]] show ?thesis .
  next
    case (full c ch h1 sts rerr h2 h3)
    have node: "extends Q x y" if "applyNode (timed_reconciler c) env c n x = Some (e, y)" for n x e y
      by (rule applyNode_extends [OF assms(2) that]) (auto simp: node_request_def intro: quiet applies split: request.split_asm)
    have run: "extends Q h1 h2"
    proof (rule Run_extends [OF full(3) quiet])
      have "allows Q env c (n_Tag n)" for n :: RavenDBNode by (simp add: allows_def quiet patches)
      with node show "allows Q env c (n_Tag n) \<and> (\<forall>h e h'. applyNode (timed_reconciler c) env c n h = Some (e, h') \<longrightarrow> extends Q h h')" for n by blast
    qed
    note got
    also note per [OF full(2)]
    also note run
    also have "extends Q h2 (h3 @ [ListAll (Namespace c), Now])" by (rule extends_mono [OF h3_requests [OF full(4)] quiet])
    also have "extends Q (h3 @ [ListAll (Namespace c), Now]) h'" by (rule finish_extends [OF full(5)]) (simp_all add: quiet patches)
    finally show ?thesis .
  qed
qed

text \<open>A reconcile around its tick: what comes before and after it concerns no node.\<close>

abbreviation no_node :: "history \<Rightarrow> history \<Rightarrow> bool" where
  "no_node \<equiv> extends (\<lambda>e. \<not> node_level e)"

lemma quiet_no_node: "reads_only h h' \<Longrightarrow> no_node h h'"
  by (erule extends_mono) (simp add: quiet_levels)

lemma Reconcile_split:
  assumes "Reconcile main_reconciler env ns name h = Some (r, r', h')" "e_GetCluster env h ns name = Inr c"
  obtains (none) ch e where "ExecutePerCluster NewDefaultDirector env c (h @ [GetCluster ns name]) = Some ((ch, Some e), h')" "no_node h h'"
  | (tick) h1 out h2 where "no_node h h1"
      "Run (operator_upgrader (cluster_timing c)) env c (applyNode (timed_reconciler c) env c) h1 = Some (out, h2)" "no_node h2 h'"
proof -
  have got: "no_node h (h @ [GetCluster ns name])" by (rule extends_snoc) (auto simp: node_level_def)
  have per: "no_node h x" if "ExecutePerCluster NewDefaultDirector env c (h @ [GetCluster ns name]) = Some ((ch, e), x)" for ch e x
    by (rule extends_trans [OF got extends_mono [OF per_cluster_requests [OF that]]]) simp
  obtain res err where "Reconcile main_reconciler env ns name h = Some ((res, err), r', h')" using assms(1) by (cases r) simp
  then show thesis
  proof (cases rule: Reconcile_cases)
    case gone
    with assms(2) show thesis by simp
  next
    case (cluster c' ch e)
    with assms(2) per none show thesis by simp
  next
    case (full c' ch h1 sts rerr h2 h3)
    have c: "c' = c" using full(1) assms(2) by simp
    have "no_node h2 (h3 @ [ListAll (Namespace c'), Now])" by (rule quiet_no_node [OF h3_requests [OF full(4)]])
    also have "no_node (h3 @ [ListAll (Namespace c'), Now]) h'"
      by (rule finish_extends [OF full(5)]) (simp_all add: quiet_levels, simp add: node_level_def)
    finally show thesis using tick per full(2,3) c by blast
  qed
qed

text \<open>C6. One reconcile changes the StatefulSet and the Service of at most one node.  (Owner references and names are as the API promises, and the
  tags of the nodes differ in more than case.)\<close>

theorem Reconcile_one_node:
  assumes "Reconcile main_reconciler env ns name h = Some (r, r', h')" "e_GetCluster env h ns name = Inr c"
    and "owner_ref_ok env" "names_ok env" "distinct (map (\<lambda>n. strings_ToLower (n_Tag n)) (s_Nodes (Spec c)))"
  shows "\<exists>tag. extends (\<lambda>e. node_level e \<longrightarrow> node_change c tag e) h h'"
proof -
  let ?Q = "\<lambda>tag e. node_level e \<longrightarrow> node_change c tag e"
  have quiet: "extends (?Q tag) x y" if "no_node x y" for tag x y by (rule extends_mono [OF that]) simp
  from assms(1,2) show ?thesis
  proof (cases rule: Reconcile_split)
    case none
    then show ?thesis using quiet by blast
  next
    case (tick h1 out h2)
    have "\<forall>n h e h'. applyNode (timed_reconciler c) env c n h = Some (e, h') \<longrightarrow> extends (node_change c (n_Tag n)) h h'"
      using applyNode_extends [OF assms(3)] node_request_imp(1) by blast
    from run_one_node [OF assms(4,5) this tick(2)] have "\<exists>tag. extends (?Q tag) h1 h2"
    proof (elim disjE exE conjE)
      fix n
      assume "extends (node_change c (n_Tag n)) h1 h2"
      then have "extends (?Q (n_Tag n)) h1 h2" by (rule extends_mono) simp
      then show ?thesis by blast
    qed (use quiet quiet_no_node in blast)
    then show ?thesis using quiet [OF tick(1)] quiet [OF tick(3)] by (blast intro: extends_trans)
  qed
qed

text \<open>Up to the comparison of the status, a reconcile does not touch the status.\<close>

lemma before_finish:
  assumes "owner_ref_ok env"
    and "ExecutePerCluster NewDefaultDirector env c (h @ [GetCluster ns name]) = Some ((ch, None), h1)"
    and "Run (operator_upgrader t) env c (applyNode (timed_reconciler c) env c) h1 = Some (r, h2)"
    and "h3 = (case rerr of None \<Rightarrow> h2 | Some e \<Rightarrow> h2 @ [Eventf k nm ty rs e])"
  shows "extends (\<lambda>e. \<not> is_status e) h (h3 @ [ListAll ns', Now])"
proof -
  have "extends (\<lambda>e. \<not> is_status e) h (h @ [GetCluster ns name])" by (rule extends_snoc) (auto simp: is_status_def)
  also have "extends (\<lambda>e. \<not> is_status e) (h @ [GetCluster ns name]) h1" by (rule extends_mono [OF per_cluster_requests [OF assms(2)]]) simp
  also have "extends (\<lambda>e. \<not> is_status e) h1 h2"
  proof (rule Run_extends [OF assms(3)])
    show "\<not> is_status e" if "\<not> mutating e" for e using quiet_levels [OF that] by simp
    then have "allows (\<lambda>e. \<not> is_status e) env c (n_Tag n)" for n :: RavenDBNode by (auto simp: allows_def is_status_def)
    moreover have "extends (\<lambda>e. \<not> is_status e) x y" if "applyNode (timed_reconciler c) env c n x = Some (e, y)" for n x e y
      by (rule applyNode_extends [OF assms(1) that]) (rule node_request_imp)
    ultimately show "allows (\<lambda>e. \<not> is_status e) env c (n_Tag n) \<and>
        (\<forall>h e h'. applyNode (timed_reconciler c) env c n h = Some (e, h') \<longrightarrow> extends (\<lambda>e. \<not> is_status e) h h')" for n by blast
  qed
  also have "extends (\<lambda>e. \<not> is_status e) h2 (h3 @ [ListAll ns', Now])"
    by (rule extends_mono [OF h3_requests [OF assms(4)]]) (simp add: quiet_levels)
  finally show ?thesis .
qed

text \<open>C17. A reconcile writes the status at most once, only if it changed, against the version it read, and it changes nothing else of the object: neither
  the specification nor the metadata.  Well-formed conditions (distinct types, non-empty reasons) stay well-formed.\<close>

theorem Reconcile_status_patch:
  assumes "Reconcile main_reconciler env ns name h = Some (r, r', h')" "owner_ref_ok env"
  shows "length (filter is_status (drop (length h) h')) \<le> 1 \<and>
    (\<forall>new old. PatchStatus new old \<in> set (drop (length h) h') \<longrightarrow>
       e_GetCluster env h ns name = Inr old \<and> new = old\<lparr>Status := Status new\<rparr> \<and> Status new \<noteq> Status old \<and>
       (conditions_wf old \<longrightarrow> conditions_wf new))"
proof -
  have none: "length (filter is_status es) = 0 \<and> (\<forall>new old. PatchStatus new old \<notin> set es)" if "list_all (\<lambda>e. \<not> is_status e) es" for es
    using that by (auto simp: list_all_iff filter_empty_conv is_status_def)
  obtain res err where "Reconcile main_reconciler env ns name h = Some ((res, err), r', h')" using assms(1) by (cases r) simp
  then show ?thesis
  proof (cases rule: Reconcile_cases)
    case gone
    then show ?thesis by (simp add: is_status_def)
  next
    case (cluster c ch e)
    have "extends (\<lambda>e. \<not> is_status e) h (h @ [GetCluster ns name])" by (rule extends_snoc) (auto simp: is_status_def)
    also have "extends (\<lambda>e. \<not> is_status e) (h @ [GetCluster ns name]) h'" by (rule extends_mono [OF per_cluster_requests [OF cluster(2)]]) simp
    finally obtain es where "h' = h @ es" "list_all (\<lambda>e. \<not> is_status e) es" by (auto simp: extends_def)
    with none show ?thesis by fastforce
  next
    case (full c ch h1 sts rerr h2 h3)
    let ?inst = "evaluated env c sts h3"
    from before_finish [OF assms(2) full(2,3,4), of "Namespace c"] obtain es where
      es: "h3 @ [ListAll (Namespace c), Now] = h @ es" "list_all (\<lambda>e. \<not> is_status e) es" by (auto simp: extends_def)
    show ?thesis
    proof (cases "Status c = Status ?inst")
      case True
      with finish_requests [OF full(5)] es(1) have "h' = h @ es" by simp
      with none [OF es(2)] show ?thesis by simp
    next
      case False
      with finish_requests [OF full(5)] es(1) obtain fs where h': "h' = h @ es @ PatchStatus ?inst c # fs" "list_all is_event fs" by auto
      from h'(2) have "list_all (\<lambda>e. \<not> is_status e) fs" by (rule list.pred_mono_strong) (simp add: event_levels quiet_levels)
      from none [OF this] none [OF es(2)] h'(1) full(1) False evaluated_status_only [of env c sts h3] evaluated_conditions_wf [of c env sts h3]
      show ?thesis by (auto simp: is_status_def)
    qed
  qed
qed

subsection \<open>A reconcile ends\<close>

text \<open>What the builders and the HTTP client dereference is there.\<close>

definition reconcilable :: "(string \<Rightarrow> string option) \<Rightarrow> RavenDBCluster \<Rightarrow> bool" where
  "reconcilable pq c \<longleftrightarrow>
     s_Nodes (Spec c) \<noteq> [] \<and> list_all (\<lambda>(n, v). pq (v_Size v) \<noteq> None) (claim_specs c) \<and>
     (if s_Mode (Spec c) = ModeLetsEncrypt
      then s_Email (Spec c) \<noteq> None \<and> list_all (\<lambda>n. n_CertSecretRef n \<noteq> None) (s_Nodes (Spec c))
      else s_Mode (Spec c) = ModeNone \<and> s_ClusterCertSecretRef (Spec c) \<noteq> None \<and> s_CACertSecretRef (Spec c) \<noteq> None) \<and>
     (case s_ExternalAccessConfiguration (Spec c) of
        None \<Rightarrow> True
      | Some ea \<Rightarrow> (ea_Type ea = ExternalAccessTypeAWS \<longrightarrow> ea_AWSExternalAccess ea \<noteq> None) \<and>
          (ea_Type ea = ExternalAccessTypeIngressController \<longrightarrow> ea_IngressControllerExternalAccess ea \<noteq> None))"

lemma actors_total:
  "BuildStatefulSet (e_parseQuantity env) c n \<noteq> None \<Longrightarrow> \<exists>ch err h'. StatefulSetActor_Act env c n h = Some ((ch, err), h')"
  "BuildService c n \<noteq> None \<Longrightarrow> \<exists>ch err h'. ServiceActor_Act env c n h = Some ((ch, err), h')"
  "BuildIngress c \<noteq> None \<Longrightarrow> \<exists>ch err h'. ingressActor_Act env c h = Some ((ch, err), h')"
  "BuildJob c \<noteq> None \<Longrightarrow> \<exists>ch err h'. BootstrapperActor_Act env c h = Some ((ch, err), h')"
  "\<exists>ch err h'. HooksActor_Act env c h = Some ((ch, err), h')"
  by (auto simp: StatefulSetActor_Act_def ServiceActor_Act_def ingressActor_Act_def BootstrapperActor_Act_def HooksActor_Act_def Let_def
      get_sts_def applyResourceSSA_eq split: sum.splits option.splits)

lemma reconcilable_builds:
  assumes "reconcilable pq c"
  shows "n \<in> set (s_Nodes (Spec c)) \<Longrightarrow> BuildStatefulSet pq c n \<noteq> None" "BuildService c n \<noteq> None"
    "ingressActor_ShouldAct c \<Longrightarrow> BuildIngress c \<noteq> None" "BuildJob c \<noteq> None"
proof -
  show "BuildStatefulSet pq c n \<noteq> None" if "n \<in> set (s_Nodes (Spec c))"
    using assms that unfolding BuildStatefulSet_total reconcilable_def list_all_iff by (auto split: if_splits)
  show "BuildService c n \<noteq> None" using assms by (auto simp: BuildService_total reconcilable_def split: option.splits)
  show "BuildIngress c \<noteq> None" if "ingressActor_ShouldAct c"
    using assms that by (auto simp: BuildIngress_total reconcilable_def ingressActor_ShouldAct_def simp del: not_None_eq split: option.splits if_splits)
  obtain m ms where m: "s_Nodes (Spec c) = m # ms" using assms by (cases "s_Nodes (Spec c)") (auto simp: reconcilable_def)
  then show "BuildJob c \<noteq> None" using assms BuildJob_total [OF m] by (auto simp: reconcilable_def)
qed

lemma director_total:
  assumes "reconcilable (e_parseQuantity env) c"
  shows "n \<in> set (s_Nodes (Spec c)) \<Longrightarrow> \<exists>ch err h'. ExecutePerNode NewDefaultDirector env c n h = Some ((ch, err), h')"
    "\<exists>ch err h'. ExecutePerCluster NewDefaultDirector env c h = Some ((ch, err), h')"
proof -
  note b = reconcilable_builds [OF assms]
  show "\<exists>ch err h'. ExecutePerNode NewDefaultDirector env c n h = Some ((ch, err), h')" if n: "n \<in> set (s_Nodes (Spec c))"
  proof -
    obtain ch err h1 where 1: "StatefulSetActor_Act env c n h = Some ((ch, err), h1)" using actors_total(1) [OF b(1) [OF n]] by blast
    obtain ch' err' h2 where 2: "ServiceActor_Act env c n h1 = Some ((ch', err'), h2)" using actors_total(2) [OF b(2)] by blast
    show ?thesis by (auto simp: ExecutePerNode_def NewDefaultDirector_def 1 2 split: option.splits)
  qed
  have step: "\<exists>ch err h'. per_cluster_loop (a # as) any env c h = Some ((ch, err), h')"
    if "pca_ShouldAct a c \<Longrightarrow> \<forall>h. \<exists>ch err h'. pca_Act a env c h = Some ((ch, err), h')"
      "\<forall>any h. \<exists>ch err h'. per_cluster_loop as any env c h = Some ((ch, err), h')" for a as any h
  proof (cases "pca_ShouldAct a c")
    case True
    with that(1) obtain ch err h1 where "pca_Act a env c h = Some ((ch, err), h1)" by blast
    with True that(2) show ?thesis by (cases err) auto
  qed (use that(2) in auto)
  have ing: "\<exists>ch err h'. ingressActor_Act env c h = Some ((ch, err), h')" if "ingressActor_ShouldAct c" for h
    by (rule actors_total(3) [OF b(3) [OF that]])
  have boot: "\<exists>ch err h'. BootstrapperActor_Act env c h = Some ((ch, err), h')" for h by (rule actors_total(4) [OF b(4)])
  show "\<exists>ch err h'. ExecutePerCluster NewDefaultDirector env c h = Some ((ch, err), h')"
    unfolding ExecutePerCluster_def NewDefaultDirector_def DefaultDirector.select_convs
    by (intro step allI) (simp_all add: ing boot actors_total(5) del: per_cluster_loop.simps(2))
qed

lemma finish_total: "\<exists>res err h'. finish_reconcile (timed_reconciler c) env original inst h = Some ((res, err), h')"
  by (auto simp: finish_reconcile_def patch_status_def emitConditionTransitions_def main_simps transitions_loop_events Let_def split: sum.splits)

lemma Reconcile_total:
  assumes "clock_ok env" "\<And>c. e_GetCluster env h ns name = Inr c \<Longrightarrow> reconcilable (e_parseQuantity env) c"
  shows "\<exists>res err r' h'. Reconcile main_reconciler env ns name h = Some ((res, err), r', h')"
proof (cases "e_GetCluster env h ns name")
  case (Inl e)
  then show ?thesis by (simp add: Reconcile_def get_cluster_def)
next
  case (Inr c)
  note rc = assms(2) [OF Inr]
  let ?t = "cluster_timing c" and ?rt = "timed_reconciler c"
  obtain ch perr h1 where x: "ExecutePerCluster NewDefaultDirector env c (h @ [GetCluster ns name]) = Some ((ch, perr), h1)"
    using director_total(2) [OF rc] by blast
  have t: "timing_ok ?t" by (rule ReadTiming_ok [OF DefaultTiming_ok])
  have ap: "\<exists>e h'. applyNode ?rt env c n x = Some (e, h')" if "n \<in> set (s_Nodes (Spec c))" for n x
    using director_total(1) [OF rc that, of x] by (auto simp: applyNode_def main_simps)
  have "s_Mode (Spec c) = ModeNone \<longrightarrow> s_CACertSecretRef (Spec c) \<noteq> None" using rc by (auto simp: reconcilable_def)
  with Run_total [OF assms(1) t, of c "applyNode ?rt env c" h1] ap obtain sts rerr h2 where
    run: "Run (operator_upgrader ?t) env c (applyNode ?rt env c) h1 = Some ((sts, rerr), h2)" by blast
  let ?h3 = "case rerr of None \<Rightarrow> h2 | Some e \<Rightarrow> h2 @ [Eventf ''RavenDBCluster'' (Name c) EventTypeWarning ''RollingUpgradeFailed'' e]"
  obtain res err h' where f: "finish_reconcile ?rt env c (evaluated env c sts ?h3) (?h3 @ [ListAll (Namespace c), Now]) = Some ((res, err), h')"
    using finish_total by blast
  show ?thesis
  proof (cases perr)
    case (Some e)
    then show ?thesis by (simp add: Reconcile_def get_cluster_def Inr x main_simps)
  next
    case None
    with f show ?thesis
      by (cases rerr) (simp_all add: Reconcile_def env_ops Inr x main_simps run Let_def evaluated_def with_nodes_def case_prod_beta)
  qed
qed

subsection \<open>The steady state\<close>

lemma idle_statuses:
  assumes "map status_tag (st_Nodes st) = map node_tag nodes" "distinct (map node_tag nodes)"
  shows "map (\<lambda>n. statusOrCreated (buildPrevStatusMap st) (n_Tag n)) nodes = st_Nodes st"
proof (rule nth_equalityI)
  have len: "length (st_Nodes st) = length nodes" using assms(1) by (metis length_map)
  then show "length (map (\<lambda>n. statusOrCreated (buildPrevStatusMap st) (n_Tag n)) nodes) = length (st_Nodes st)" by simp
  fix i
  assume "i < length (map (\<lambda>n. statusOrCreated (buildPrevStatusMap st) (n_Tag n)) nodes)"
  then have i: "i < length nodes" "i < length (st_Nodes st)" using len by simp_all
  have "status_tag (st_Nodes st ! i) = node_tag (nodes ! i)" using arg_cong [OF assms(1), of "\<lambda>xs. xs ! i"] i by simp
  moreover have "buildPrevStatusMap st (status_tag (st_Nodes st ! i)) = Some (st_Nodes st ! i)"
    unfolding buildPrevStatusMap_def using assms i(2) by (intro foldl_keyed_distinct) simp_all
  ultimately show "map (\<lambda>n. statusOrCreated (buildPrevStatusMap st) (n_Tag n)) nodes ! i = st_Nodes st ! i"
    using i by (simp add: statusOrCreated_def)
qed

lemma idle_run:
  assumes "Run (operator_upgrader t) env c apply h = Some ((sts, rerr), h')"
    and "\<forall>h nm. e_GetStatefulSet env h (Namespace c) nm = live nm" "pick_spec live (s_Image (Spec c)) (s_Nodes (Spec c)) = None"
    and tags: "list_all (\<lambda>n. strings_TrimSpace (n_Tag n) \<noteq> '''') (s_Nodes (Spec c))"
  shows "reads_only h h'"
  using assms(1)
proof (cases rule: Run_cases)
  case nogates
  then show ?thesis by (blast dest: buildGatesDefault_reads)
next
  case (idle g h1)
  show ?thesis by (rule extends_trans [OF buildGatesDefault_reads [OF idle(1)] is_get_reads [OF pick_gets [OF idle(2)]]])
next
  case (tick g h1 h2 tag sts')
  have "view_of env (Namespace c) h1 live" using assms(2) by (simp add: view_of_def)
  from pick_view [OF this tags, of "s_Image (Spec c)"] assms(3) tick(2,3) show ?thesis by simp
qed

text \<open>C25. Only the image reaches a running node.  If every StatefulSet is there, runs the desired image and is not marked, a reconcile
  changes no StatefulSet and no Service, whatever else of the specification differs from what they were built from: the environment, the
  volumes, the pull policy, the external access.\<close>

theorem Reconcile_idle:
  assumes got: "e_GetCluster env h ns name = Inr c" and tags: "list_all (\<lambda>n. strings_TrimSpace (n_Tag n) \<noteq> '''') (s_Nodes (Spec c))"
    and view: "\<forall>h nm. e_GetStatefulSet env h (Namespace c) nm = live nm" "pick_spec live (s_Image (Spec c)) (s_Nodes (Spec c)) = None"
    and run: "Reconcile main_reconciler env ns name h = Some ((res, err), r', h')"
  shows "extends (\<lambda>e. \<not> node_level e) h h'"
  using run got
proof (cases rule: Reconcile_split)
  case (tick h1 out h2)
  obtain sts e where "out = (sts, e)" by (metis prod.exhaust)
  with tick(2) have "no_node h1 h2" by (intro quiet_no_node idle_run [OF _ view tags]) simp_all
  with tick(1,3) show ?thesis by (blast intro: extends_trans)
qed

text \<open>C18. A settled cluster is left alone.  If every node runs the desired image and none is marked, the node statuses are complete, the status is the
  evaluation of the facts, and the facts do not change, then a reconcile changes no StatefulSet and no Service and does not write the status; all it
  applies are the cluster-wide objects.\<close>

theorem Reconcile_steady:
  assumes got: "e_GetCluster env h ns name = Inr c" and settled: "c = Evaluate c0 (Some facts) t0"
    and nodes: "map status_tag (st_Nodes (Status c)) = map node_tag (s_Nodes (Spec c))" "distinct (map node_tag (s_Nodes (Spec c)))"
      "list_all (\<lambda>n. strings_TrimSpace (n_Tag n) \<noteq> '''') (s_Nodes (Spec c))"
    and view: "\<forall>h nm. e_GetStatefulSet env h (Namespace c) nm = live nm" "pick_spec live (s_Image (Spec c)) (s_Nodes (Spec c)) = None"
    and facts: "\<forall>h. fst (Collect (e_Lister env h) c) = facts"
    and gates: "\<forall>h. \<exists>cl h'. BuildHTTPSClientFromCluster env c h = Some (Inr cl, h')"
    and run: "Reconcile main_reconciler env ns name h = Some ((res, err), r', h')"
  shows "extends (\<lambda>e. \<not> node_level e \<and> \<not> is_status e) h h' \<and> \<not> Requeue res"
proof -
  let ?Q = "\<lambda>e. \<not> node_level e \<and> \<not> is_status e"
  have got_Q: "extends ?Q h (h @ [GetCluster ns name])" by (rule extends_snoc) (auto simp: node_level_def is_status_def)
  from run show ?thesis
  proof (cases rule: Reconcile_cases)
    case gone
    with got show ?thesis by simp
  next
    case (cluster c' ch e)
    from extends_trans [OF got_Q per_cluster_requests [OF cluster(2)]] cluster(3) show ?thesis by simp
  next
    case (full c' ch h1 sts rerr h2 h3)
    have c: "c' = c" using full(1) got by simp
    obtain cl hb where "BuildHTTPSClientFromCluster env c h1 = Some (Inr cl, hb)" using gates by blast
    then have b: "buildGatesDefault env c h1 = Some (Inr (NewChecks (Some cl) c), hb)" by (simp add: buildGatesDefault_def)
    have "view_of env (Namespace c) hb live" using view(1) by (simp add: view_of_def)
    from pick_view [OF this nodes(3), of "s_Image (Spec c)"] view(2) obtain hp where
      p: "pickSelectedTag env c (s_Image (Spec c)) hb = (('''', None), hp)" by (metis option.simps(4) prod.collapse)
    from full(3) b p have r: "sts = st_Nodes (Status c)" "rerr = None" "h2 = hp"
      by (simp_all add: c Run_def operator_upgrader_simps desiredNodeImage_def Let_def idle_statuses [OF nodes(1,2)])
    have "with_nodes c sts = c" by (simp add: r(1) with_nodes_def go_simps)
    then have "evaluated env c sts h3 = Evaluate c (Some facts) (e_Now env (h3 @ [ListAll (Namespace c)]))"
      using facts by (simp add: evaluated_def)
    also have "\<dots> = c" unfolding settled by (rule Evaluate_again)
    finally have f: "h' = h3 @ [ListAll (Namespace c), Now]" "\<not> Requeue res"
      using finish_requests [OF full(5)] by (auto simp: c)
    have "reads_only h1 h2" by (rule idle_run [OF full(3) [unfolded c] view nodes(3)])
    from extends_trans [OF this h3_requests [OF full(4)]] f(1) have "reads_only h1 h'" by (simp add: c)
    then have "extends ?Q h1 h'" by (rule extends_mono) (rule quiet_levels)
    from extends_trans [OF extends_trans [OF got_Q per_cluster_requests [OF full(2)]] this] f(2) show ?thesis by simp
  qed
qed

subsection \<open>A sample reconcile\<close>

definition reconcile_env :: "RavenDBCluster \<Rightarrow> Env" where
  "reconcile_env c = upgrade_env\<lparr>e_GetCluster := \<lambda>h ns name. Inr c\<rparr>"

lemma reconcile_env_ok: "clock_ok (reconcile_env c)" "names_ok (reconcile_env c)" "owner_ref_ok (reconcile_env c)"
  using upgrade_env_clock upgrade_env_names sample_env_owner [of "\<lambda>_. Inl (NotFound '''')"]
  by (simp_all add: reconcile_env_def clock_ok_def names_ok_def owner_ref_ok_def upgrade_env_def)

lemma sample_reconcilable: "reconcilable (e_parseQuantity (reconcile_env c')) (sample_cluster img)"
  by (simp add: reconcilable_def reconcile_env_def upgrade_env_def sample_env_def sample_defs claim_specs_def logs_raven_def logs_audit_def)

lemma reconcilable_spec: "Spec c = Spec c' \<Longrightarrow> reconcilable pq c = reconcilable pq c'"
  by (simp add: reconcilable_def claim_specs_def logs_raven_def logs_audit_def)

lemma sample_reconcile:
  assumes "Spec c = sample_spec img"
  shows "\<exists>res err r' h'. Reconcile main_reconciler (reconcile_env c) ''ravendb'' ''x'' [] = Some ((res, err), r', h')"
proof (rule Reconcile_total [OF reconcile_env_ok(1)])
  fix d
  assume "e_GetCluster (reconcile_env c) [] ''ravendb'' ''x'' = Inr d"
  with assms sample_reconcilable [of c img] reconcilable_spec [of d "sample_cluster img"]
  show "reconcilable (e_parseQuantity (reconcile_env c)) d" by (simp add: reconcile_env_def sample_cluster_def)
qed

theorem emitConditionTransitions_spec_witness:
  "let cs = [\<lparr>c_Type = ConditionReady, c_Status = ConditionFalse, c_Reason = ''Waiting'', c_Message = '''', c_LastTransitionTime = 0\<rparr>];
       c = (sample_cluster ''x'')\<lparr>Status := empty_status\<lparr>st_Conditions := cs\<rparr>\<rparr>
   in (\<exists>e. emitConditionTransitions c [] True [] = Some [e]) \<and> emitConditionTransitions c [] False [] = None \<and>
      emitConditionTransitions c cs True [] = Some []"
proof -
  let ?cs = "[\<lparr>c_Type = ConditionReady, c_Status = ConditionFalse, c_Reason = ''Waiting'', c_Message = '''', c_LastTransitionTime = 0\<rparr>]"
  let ?c = "(sample_cluster ''x'')\<lparr>Status := empty_status\<lparr>st_Conditions := ?cs\<rparr>\<rparr>"
  show ?thesis
    using emitConditionTransitions_spec [of "[]" ?c _ "[]"] emitConditionTransitions_spec [of ?cs ?c True "[]"]
    by (simp add: Let_def sample_defs)
qed

theorem Reconcile_one_node_witness:
  "\<exists>res err r' h' tag. Reconcile main_reconciler (reconcile_env (sample_cluster ''new'')) ''ravendb'' ''x'' [] = Some ((res, err), r', h') \<and>
     extends (\<lambda>e. node_level e \<longrightarrow> node_change (sample_cluster ''new'') tag e) [] h'"
proof -
  have s: "Spec (sample_cluster ''new'') = sample_spec ''new''" by (simp add: sample_cluster_def)
  obtain res err r' h' where r: "Reconcile main_reconciler (reconcile_env (sample_cluster ''new'')) ''ravendb'' ''x'' [] = Some ((res, err), r', h')"
    using sample_reconcile [OF s] by blast
  have "distinct (map (\<lambda>n. strings_ToLower (n_Tag n)) (s_Nodes (Spec (sample_cluster ''new''))))"
    by (simp add: sample_defs strings_ToLower_def lower_char_def is_upper_def)
  with Reconcile_one_node [OF r _ reconcile_env_ok(3,2)] r show ?thesis by (fastforce simp: reconcile_env_def)
qed

theorem Reconcile_status_patch_witness:
  "\<exists>res err r' h'. Reconcile main_reconciler (reconcile_env (sample_cluster ''new'')) ''ravendb'' ''x'' [] = Some ((res, err), r', h') \<and>
     length (filter is_status h') \<le> 1"
proof -
  have s: "Spec (sample_cluster ''new'') = sample_spec ''new''" by (simp add: sample_cluster_def)
  obtain res err r' h' where r: "Reconcile main_reconciler (reconcile_env (sample_cluster ''new'')) ''ravendb'' ''x'' [] = Some ((res, err), r', h')"
    using sample_reconcile [OF s] by blast
  from Reconcile_status_patch [OF r reconcile_env_ok(3)] r show ?thesis by auto
qed

definition steady_cluster :: RavenDBCluster where
  "steady_cluster =
     Evaluate (with_nodes (sample_cluster ''old'') [created_status ''A'' NodeStatusCreated, created_status ''B'' NodeStatusCreated])
       (Some (fst (Collect (e_Lister upgrade_env []) (sample_cluster ''old'')))) 0"

lemma steady_fields: "Spec steady_cluster = sample_spec ''old''" "Namespace steady_cluster = ''ravendb''"
  "st_Nodes (Status steady_cluster) = [created_status ''A'' NodeStatusCreated, created_status ''B'' NodeStatusCreated]"
proof -
  have e: "status_only (with_nodes (sample_cluster ''old'') [created_status ''A'' NodeStatusCreated, created_status ''B'' NodeStatusCreated]) steady_cluster"
    unfolding steady_cluster_def by (rule Evaluate_status_only)
  then obtain st where eq: "steady_cluster =
    (with_nodes (sample_cluster ''old'') [created_status ''A'' NodeStatusCreated, created_status ''B'' NodeStatusCreated])\<lparr>Status := st\<rparr>"
    unfolding status_only_def by blast
  show "Spec steady_cluster = sample_spec ''old''" "Namespace steady_cluster = ''ravendb''"
    unfolding eq by (simp_all add: with_nodes_def go_simps sample_cluster_def)
  show "st_Nodes (Status steady_cluster) = [created_status ''A'' NodeStatusCreated, created_status ''B'' NodeStatusCreated]"
    using e by (simp add: status_only_def with_nodes_def go_simps)
qed

lemma steady_nodes:
  "map status_tag (st_Nodes (Status steady_cluster)) = map node_tag (s_Nodes (Spec steady_cluster))"
  "distinct (map node_tag (s_Nodes (Spec steady_cluster)))"
  "list_all (\<lambda>n. strings_TrimSpace (n_Tag n) \<noteq> '''') (s_Nodes (Spec steady_cluster))"
proof -
  have "normalizeTag ''A'' = ''A''" "normalizeTag ''B'' = ''B''" "normalizeTag ''a'' = ''A''" "normalizeTag ''b'' = ''B''" by code_simp+
  then show "map status_tag (st_Nodes (Status steady_cluster)) = map node_tag (s_Nodes (Spec steady_cluster))"
    "distinct (map node_tag (s_Nodes (Spec steady_cluster)))"
    unfolding steady_fields by (simp_all add: sample_defs created_status_def)
  show "list_all (\<lambda>n. strings_TrimSpace (n_Tag n) \<noteq> '''') (s_Nodes (Spec steady_cluster))"
    unfolding steady_fields by (simp add: sample_defs strings_TrimSpace_def is_space_def)
qed

lemma steady_view:
  "\<forall>h nm. e_GetStatefulSet (reconcile_env steady_cluster) h (Namespace steady_cluster) nm = Inr (named_sts ''ravendb'' nm)"
  "pick_spec (\<lambda>nm. Inr (named_sts ''ravendb'' nm)) (s_Image (Spec steady_cluster)) (s_Nodes (Spec steady_cluster)) = None"
  unfolding steady_fields
  by (simp add: reconcile_env_def upgrade_env_def)
    (simp add: pick_spec_def in_flight_def missing_def outdated_def named_sts_image sample_spec_def, simp add: named_sts_def new_meta_def)

theorem Reconcile_idle_witness:
  "\<exists>res err r' h'. Reconcile main_reconciler (reconcile_env steady_cluster) ''ravendb'' ''x'' [] = Some ((res, err), r', h') \<and>
     extends (\<lambda>e. \<not> node_level e) [] h'"
proof -
  obtain res err r' h' where r: "Reconcile main_reconciler (reconcile_env steady_cluster) ''ravendb'' ''x'' [] = Some ((res, err), r', h')"
    using sample_reconcile [OF steady_fields(1)] by blast
  have got: "e_GetCluster (reconcile_env steady_cluster) [] ''ravendb'' ''x'' = Inr steady_cluster" by (simp add: reconcile_env_def)
  from Reconcile_idle [OF got steady_nodes(3) steady_view r] r show ?thesis by blast
qed

theorem Reconcile_steady_witness:
  "\<exists>res err r' h'. Reconcile main_reconciler (reconcile_env steady_cluster) ''ravendb'' ''x'' [] = Some ((res, err), r', h') \<and>
     extends (\<lambda>e. \<not> node_level e \<and> \<not> is_status e) [] h' \<and> \<not> Requeue res"
proof -
  obtain res err r' h' where r: "Reconcile main_reconciler (reconcile_env steady_cluster) ''ravendb'' ''x'' [] = Some ((res, err), r', h')"
    using sample_reconcile [OF steady_fields(1)] by blast
  have got: "e_GetCluster (reconcile_env steady_cluster) [] ''ravendb'' ''x'' = Inr steady_cluster" by (simp add: reconcile_env_def)
  have facts: "\<forall>h. fst (Collect (e_Lister (reconcile_env steady_cluster) h) steady_cluster) = fst (Collect (e_Lister upgrade_env []) (sample_cluster ''old''))"
    by (simp add: reconcile_env_def upgrade_env_def sample_env_def Collect_def collectStatefulSets_def collectJobs_def collectPodsAndPVCRefs_def
        collectPVCs_def collectServices_def collectIngresses_def collectSecrets_def Let_def)
  have gates: "\<forall>h. \<exists>cl h'. BuildHTTPSClientFromCluster (reconcile_env steady_cluster) steady_cluster h = Some (Inr cl, h')"
    by (simp add: BuildHTTPSClientFromCluster_def needsCA_def steady_fields sample_defs loadClientPair_def pfxToTLSCert_def get_secret_def
        reconcile_env_def upgrade_env_def sample_env_def sample_secret_def clientPFXKey_def clientPwdKey_def)
  from Reconcile_steady [OF got steady_cluster_def steady_nodes steady_view facts gates r] r show ?thesis by blast
qed

end
