(* ===== verification/Rollout.thy ===== *)
theory Rollout
  imports Controller
begin

text \<open>
  The rolling upgrade as a whole.  Against an API server that keeps what is written to it, and with healthy gates, every reconcile
  settles one node that is missing, marked or on another image, and touches no other; after as many reconciles as there are such
  nodes, all run the desired image and no mark is left.
\<close>

subsection \<open>What the API server promises\<close>

definition writes_sts :: "request \<Rightarrow> bool" where
  "writes_sts e \<longleftrightarrow> (case e of Apply obj fo \<Rightarrow> type_name obj = ''*v1.StatefulSet'' | PatchStatefulSet new old \<Rightarrow> True | _ \<Rightarrow> False)"

abbreviation mark_of :: "StatefulSet \<Rightarrow> string option" where
  "mark_of s \<equiv> om_Annotations (sts_Meta s) UpgradeImageAnnotation"

text \<open>A StatefulSet changes only when it is written.  After a server-side apply its image is the applied one, and so is its mark, if one was
  applied or there was none before.  A merge patch carries the difference of two versions: the mark changes to the new one if the two
  differ in it, the image stays if they agree in it, and nothing happens if the object is missing.\<close>

definition api_server :: "Env \<Rightarrow> bool" where
  "api_server env \<longleftrightarrow>
     (\<forall>h e ns nm. \<not> writes_sts e \<longrightarrow> e_GetStatefulSet env (h @ [e]) ns nm = e_GetStatefulSet env h ns nm) \<and>
     (\<forall>h d fo ns nm. if ns = om_Namespace (sts_Meta d) \<and> nm = om_Name (sts_Meta d)
        then (\<exists>s. e_GetStatefulSet env (h @ [Apply (ObjStatefulSet d) fo]) ns nm = Inr s \<and> currentStsImage s = currentStsImage d \<and>
                (mark_of d \<noteq> None \<or> \<not> in_flight (e_GetStatefulSet env h ns nm) \<longrightarrow> mark_of s = mark_of d))
        else e_GetStatefulSet env (h @ [Apply (ObjStatefulSet d) fo]) ns nm = e_GetStatefulSet env h ns nm) \<and>
     (\<forall>h new old ns nm. if ns = om_Namespace (sts_Meta new) \<and> nm = om_Name (sts_Meta new)
        then (case e_GetStatefulSet env h ns nm of
                Inr s \<Rightarrow> (\<exists>s'. e_GetStatefulSet env (h @ [PatchStatefulSet new old]) ns nm = Inr s' \<and>
                   (currentStsImage new = currentStsImage old \<longrightarrow> currentStsImage s' = currentStsImage s) \<and>
                   mark_of s' = (if mark_of new = mark_of old then mark_of s else mark_of new))
              | Inl e \<Rightarrow> e_GetStatefulSet env (h @ [PatchStatefulSet new old]) ns nm = Inl e)
        else e_GetStatefulSet env (h @ [PatchStatefulSet new old]) ns nm = e_GetStatefulSet env h ns nm)"

text \<open>Requests succeed: a read finds the object or that there is none, and no write is refused.\<close>

definition requests_succeed :: "Env \<Rightarrow> bool" where
  "requests_succeed env \<longleftrightarrow> (\<forall>h ns nm e. e_GetStatefulSet env h ns nm = Inl e \<longrightarrow> IsNotFound e) \<and>
     (\<forall>h obj fo. e_Apply env h obj fo = None) \<and> (\<forall>h new old. e_PatchStatefulSet env h new old = None) \<and>
     (\<forall>c m. \<exists>m'. e_SetControllerReference env c m = Inr m')"

lemma api_quiet: "api_server env \<Longrightarrow> \<not> writes_sts e \<Longrightarrow> e_GetStatefulSet env (h @ [e]) ns nm = e_GetStatefulSet env h ns nm"
  unfolding api_server_def by (drule conjunct1) blast

lemma api_frame:
  assumes "api_server env" "extends (\<lambda>e. \<not> writes_sts e) h h'"
  shows "e_GetStatefulSet env h' ns nm = e_GetStatefulSet env h ns nm"
proof -
  from assms(2) obtain es where "h' = h @ es" "list_all (\<lambda>e. \<not> writes_sts e) es" by (auto simp: extends_def)
  moreover have "e_GetStatefulSet env (h @ es) ns nm = e_GetStatefulSet env h ns nm" if "list_all (\<lambda>e. \<not> writes_sts e) es" for es
    using that
  proof (induction es rule: rev_induct)
    case (snoc e es)
    then show ?case using api_quiet [OF assms(1), of e "h @ es"] by simp
  qed simp
  ultimately show ?thesis by simp
qed

lemma reads_not_sts: "reads_only h h' \<Longrightarrow> extends (\<lambda>e. \<not> writes_sts e) h h'"
  by (erule extends_mono) (auto simp: writes_sts_def split: request.splits)

lemmas api_reads = api_frame [OF _ reads_not_sts]

lemma api_apply:
  assumes "api_server env"
  shows "\<exists>s. e_GetStatefulSet env (h @ [Apply (ObjStatefulSet d) fo]) (om_Namespace (sts_Meta d)) (om_Name (sts_Meta d)) = Inr s \<and>
      currentStsImage s = currentStsImage d \<and>
      (mark_of d \<noteq> None \<or> \<not> in_flight (e_GetStatefulSet env h (om_Namespace (sts_Meta d)) (om_Name (sts_Meta d))) \<longrightarrow> mark_of s = mark_of d)"
    and "nm \<noteq> om_Name (sts_Meta d) \<Longrightarrow> e_GetStatefulSet env (h @ [Apply (ObjStatefulSet d) fo]) ns nm = e_GetStatefulSet env h ns nm"
  using assms unfolding api_server_def by (metis (lifting))+

lemma sts_meta_image [simp]: "currentStsImage (s\<lparr>sts_Meta := m\<rparr>) = currentStsImage s"
  by (simp add: currentStsImage_def)

lemma set_annotation_image [simp]: "currentStsImage (set_annotation v s) = currentStsImage s"
  by (simp add: set_annotation_def)

lemma api_patch:
  assumes "api_server env"
  shows "e_GetStatefulSet env h (om_Namespace (sts_Meta new)) (om_Name (sts_Meta new)) = Inr s \<Longrightarrow> currentStsImage new = currentStsImage s \<Longrightarrow>
      \<exists>s'. e_GetStatefulSet env (h @ [PatchStatefulSet new s]) (om_Namespace (sts_Meta new)) (om_Name (sts_Meta new)) = Inr s' \<and>
        currentStsImage s' = currentStsImage s \<and> mark_of s' = mark_of new"
    and "nm \<noteq> om_Name (sts_Meta new) \<Longrightarrow> e_GetStatefulSet env (h @ [PatchStatefulSet new old]) ns nm = e_GetStatefulSet env h ns nm"
    and "e_GetStatefulSet env (h @ [PatchStatefulSet new old]) ns nm = Inr s' \<Longrightarrow> currentStsImage new = currentStsImage old \<Longrightarrow>
      \<exists>s. e_GetStatefulSet env h ns nm = Inr s \<and> currentStsImage s' = currentStsImage s"
proof -
  have p: "if ns = om_Namespace (sts_Meta new) \<and> nm = om_Name (sts_Meta new)
      then (case e_GetStatefulSet env h ns nm of
              Inr s \<Rightarrow> (\<exists>s'. e_GetStatefulSet env (h @ [PatchStatefulSet new old]) ns nm = Inr s' \<and>
                 (currentStsImage new = currentStsImage old \<longrightarrow> currentStsImage s' = currentStsImage s) \<and>
                 mark_of s' = (if mark_of new = mark_of old then mark_of s else mark_of new))
            | Inl e \<Rightarrow> e_GetStatefulSet env (h @ [PatchStatefulSet new old]) ns nm = Inl e)
      else e_GetStatefulSet env (h @ [PatchStatefulSet new old]) ns nm = e_GetStatefulSet env h ns nm" for ns nm old
    using assms unfolding api_server_def by blast
  show "\<exists>s'. e_GetStatefulSet env (h @ [PatchStatefulSet new s]) (om_Namespace (sts_Meta new)) (om_Name (sts_Meta new)) = Inr s' \<and>
        currentStsImage s' = currentStsImage s \<and> mark_of s' = mark_of new"
    if "e_GetStatefulSet env h (om_Namespace (sts_Meta new)) (om_Name (sts_Meta new)) = Inr s" "currentStsImage new = currentStsImage s"
    using p [of "om_Namespace (sts_Meta new)" "om_Name (sts_Meta new)" s] that by (auto split: if_split_asm)
  show "e_GetStatefulSet env (h @ [PatchStatefulSet new old]) ns nm = e_GetStatefulSet env h ns nm" if "nm \<noteq> om_Name (sts_Meta new)"
    using p [of ns nm old] that by simp
  show "\<exists>s. e_GetStatefulSet env h ns nm = Inr s \<and> currentStsImage s' = currentStsImage s"
    if "e_GetStatefulSet env (h @ [PatchStatefulSet new old]) ns nm = Inr s'" "currentStsImage new = currentStsImage old"
    using p [of ns nm old] that by (auto split: if_split_asm sum.split_asm)
qed

subsection \<open>What the callback does to the store\<close>

text \<open>The tags of the nodes as the StatefulSets have them: lower case, trimmed, distinct.\<close>

definition lower_tags :: "RavenDBCluster \<Rightarrow> bool" where
  "lower_tags c \<longleftrightarrow> tags_ok c \<and> list_all (\<lambda>n. strings_ToLower (n_Tag n) = n_Tag n) (s_Nodes (Spec c))"

abbreviation sts_of :: "Env \<Rightarrow> RavenDBCluster \<Rightarrow> history \<Rightarrow> RavenDBNode \<Rightarrow> kerr + StatefulSet" where
  "sts_of env c h n \<equiv> e_GetStatefulSet env h (Namespace c) (statefulSetName (n_Tag n))"

lemma lower_name: "lower_tags c \<Longrightarrow> n \<in> set (s_Nodes (Spec c)) \<Longrightarrow> Prefix @ n_Tag n = statefulSetName (n_Tag n)"
  by (auto simp: lower_tags_def list_all_iff statefulSetName_def)

lemma lower_names_distinct:
  "lower_tags c \<Longrightarrow> n \<in> set (s_Nodes (Spec c)) \<Longrightarrow> m \<in> set (s_Nodes (Spec c)) \<Longrightarrow> statefulSetName (n_Tag n) = statefulSetName (n_Tag m) \<Longrightarrow> n = m"
  by (auto simp: lower_tags_def tags_ok_def statefulSetName_def distinct_map inj_on_def)

text \<open>What is true of the store between two points: only this StatefulSet changed, and it has this image and this mark now.\<close>

definition store_step :: "Env \<Rightarrow> RavenDBCluster \<Rightarrow> RavenDBNode \<Rightarrow> string \<Rightarrow> string option \<Rightarrow> history \<Rightarrow> history \<Rightarrow> bool" where
  "store_step env c n img mark h h' \<longleftrightarrow>
     (\<exists>s. sts_of env c h' n = Inr s \<and> currentStsImage s = img \<and> mark_of s = mark) \<and>
     (\<forall>nm. nm \<noteq> statefulSetName (n_Tag n) \<longrightarrow> e_GetStatefulSet env h' (Namespace c) nm = e_GetStatefulSet env h (Namespace c) nm)"

lemma store_step_others:
  assumes "lower_tags c" "n \<in> set (s_Nodes (Spec c))" "m \<in> set (s_Nodes (Spec c))" "m \<noteq> n" "store_step env c n img mark h h'"
  shows "sts_of env c h' m = sts_of env c h m"
proof -
  have "statefulSetName (n_Tag m) \<noteq> statefulSetName (n_Tag n)" using lower_names_distinct [OF assms(1,3,2)] assms(4) by blast
  with assms(5) show ?thesis by (simp add: store_step_def)
qed

lemma store_step_trans:
  "store_step env c n img mark h h1 \<Longrightarrow> store_step env c n img' mark' h1 h2 \<Longrightarrow> store_step env c n img' mark' h h2"
  by (simp add: store_step_def)

lemma store_step_frame:
  "api_server env \<Longrightarrow> store_step env c n img mark h h1 \<Longrightarrow> extends (\<lambda>e. \<not> writes_sts e) h1 h2 \<Longrightarrow> store_step env c n img mark h h2"
  "api_server env \<Longrightarrow> extends (\<lambda>e. \<not> writes_sts e) h0 h \<Longrightarrow> store_step env c n img mark h h1 \<Longrightarrow> store_step env c n img mark h0 h1"
  by (simp_all add: store_step_def api_frame)

text \<open>The image and the mark the StatefulSet actor leaves behind, from what it finds.\<close>

definition acted_image :: "string \<Rightarrow> kerr + StatefulSet \<Rightarrow> string" where
  "acted_image img got = (case got of Inl _ \<Rightarrow> img | Inr s \<Rightarrow> if mark_of s = None \<and> currentStsImage s \<noteq> '''' then currentStsImage s else img)"

definition acted_mark :: "kerr + StatefulSet \<Rightarrow> string option" where
  "acted_mark got = (case got of Inl _ \<Rightarrow> None | Inr s \<Rightarrow> mark_of s)"

lemma desired_acted:
  assumes "BuildStatefulSet pq c n = Some d" "case got of Inr s \<Rightarrow> currentStsImage s \<noteq> '''' | Inl _ \<Rightarrow> True"
  shows "currentStsImage ((desired_sts got d)\<lparr>sts_Meta := m\<rparr>) = acted_image (s_Image (Spec c)) got"
    "om_Annotations (sts_Meta (desired_sts got d)) UpgradeImageAnnotation = acted_mark got"
proof -
  have "map ct_Image (ps_Containers (sts_PodSpec (desired_sts got d))) = [acted_image (s_Image (Spec c)) got]"
    using built_images [OF assms(1)] freeze_images [OF built_images [OF assms(1)]] assms(2)
    by (auto simp: desired_sts_def acted_image_def currentStsImage_def split: sum.splits list.splits)
  then show "currentStsImage ((desired_sts got d)\<lparr>sts_Meta := m\<rparr>) = acted_image (s_Image (Spec c)) got"
    by (auto simp: currentStsImage_def split: list.splits)
  show "om_Annotations (sts_Meta (desired_sts got d)) UpgradeImageAnnotation = acted_mark got"
    using built_annotations [OF assms(1)]
    by (auto simp: desired_sts_def acted_mark_def preserve_annotations_def IngressSSLPassthroughAnnotation_def UpgradeImageAnnotation_def split: sum.splits)
qed

lemma owner_succeeds: "requests_succeed env \<Longrightarrow> \<exists>m. set_owner env c obj = Inr (set_meta obj m)"
  by (auto simp: requests_succeed_def set_owner_def) (metis sum.case(2))

lemma ssa_succeeds: "requests_succeed env \<Longrightarrow> ssa_error env obj fo h = None"
  by (simp add: ssa_error_None requests_succeed_def)

lemma actors_succeed:
  assumes "requests_succeed env"
  shows "BuildStatefulSet (e_parseQuantity env) c n \<noteq> None \<Longrightarrow> \<exists>h'. StatefulSetActor_Act env c n h = Some ((False, None), h')"
    "BuildService c n \<noteq> None \<Longrightarrow> \<exists>obj. type_name obj = ''*v1.Service'' \<and> ServiceActor_Act env c n h = Some ((False, None), h @ [Apply obj ''ravendb-operator/service''])"
proof -
  note own = owner_succeeds [OF assms] and ok = ssa_succeeds [OF assms]
  show "\<exists>h'. StatefulSetActor_Act env c n h = Some ((False, None), h')" if "BuildStatefulSet (e_parseQuantity env) c n \<noteq> None"
  proof -
    from that obtain d where d: "BuildStatefulSet (e_parseQuantity env) c n = Some d" by blast
    let ?d = "desired_sts (e_GetStatefulSet env h (Namespace c) (om_Name (sts_Meta d))) d"
    from own [of c "ObjStatefulSet ?d"] obtain m where "set_owner env c (ObjStatefulSet ?d) = Inr (set_meta (ObjStatefulSet ?d) m)" by blast
    then show ?thesis by (simp add: StatefulSetActor_Act_def d get_sts_def desired_sts_def applyResourceSSA_eq ok Let_def)
  qed
  show "\<exists>obj. type_name obj = ''*v1.Service'' \<and> ServiceActor_Act env c n h = Some ((False, None), h @ [Apply obj ''ravendb-operator/service''])"
    if "BuildService c n \<noteq> None"
  proof -
    from that obtain svc where svc: "BuildService c n = Some svc" by blast
    from own [of c "ObjService svc"] obtain m where "set_owner env c (ObjService svc) = Inr (set_meta (ObjService svc) m)" by blast
    then have "ServiceActor_Act env c n h =
        Some ((False, None), h @ [Apply (ssa_object (set_meta (ObjService svc) m)) ''ravendb-operator/service''])"
      by (simp add: ServiceActor_Act_def svc applyResourceSSA_eq ok)
    moreover have "type_name (ssa_object (set_meta (ObjService svc) m)) = ''*v1.Service''" by simp
    ultimately show ?thesis by blast
  qed
qed

lemma applyNode_requests:
  assumes "requests_succeed env" "owner_ref_ok env" "reconcilable (e_parseQuantity env) c" "lower_tags c" "n \<in> set (s_Nodes (Spec c))"
  obtains d m obj where "BuildStatefulSet (e_parseQuantity env) c n = Some d" "type_name obj = ''*v1.Service''"
    "applyNode (timed_reconciler c') env c n h = Some (None, h @ [GetStatefulSet (Namespace c) (statefulSetName (n_Tag n)),
       Apply (ObjStatefulSet ((desired_sts (sts_of env c h n) d)\<lparr>sts_Meta := m\<rparr>)) ''ravendb-operator/statefulset'', Apply obj ''ravendb-operator/service''])"
    "om_Name m = statefulSetName (n_Tag n)" "om_Namespace m = Namespace c" "om_Annotations m = om_Annotations (sts_Meta (desired_sts (sts_of env c h n) d))"
proof -
  note name = lower_name [OF assms(4,5)]
  obtain h1 where a: "StatefulSetActor_Act env c n h = Some ((False, None), h1)"
    using actors_succeed(1) [OF assms(1) reconcilable_builds(1) [OF assms(3,5)]] by blast
  obtain obj where v: "type_name obj = ''*v1.Service''" "ServiceActor_Act env c n h1 = Some ((False, None), h1 @ [Apply obj ''ravendb-operator/service''])"
    using actors_succeed(2) [OF assms(1) reconcilable_builds(2) [OF assms(3)]] by blast
  have r: "applyNode (timed_reconciler c') env c n h = Some (None, h1 @ [Apply obj ''ravendb-operator/service''])"
    by (simp add: applyNode_def main_simps ExecutePerNode_def NewDefaultDirector_def a v)
  from a assms(2) show thesis by (rule StatefulSetActor_cases) (use that [OF _ v(1)] r in \<open>auto simp: name\<close>)
qed

lemma applyNode_store:
  assumes "api_server env" "requests_succeed env" "owner_ref_ok env" "reconcilable (e_parseQuantity env) c" "lower_tags c" "n \<in> set (s_Nodes (Spec c))"
    and img: "case sts_of env c h n of Inr s \<Rightarrow> currentStsImage s \<noteq> '''' | Inl _ \<Rightarrow> True"
  shows "\<exists>h'. applyNode (timed_reconciler c') env c n h = Some (None, h') \<and>
    store_step env c n (acted_image (s_Image (Spec c)) (sts_of env c h n)) (acted_mark (sts_of env c h n)) h h'"
proof -
  let ?nm = "statefulSetName (n_Tag n)" and ?got = "sts_of env c h n"
  let ?hg = "h @ [GetStatefulSet (Namespace c) ?nm]" and ?fo = "''ravendb-operator/statefulset''"
  obtain d m obj where d: "BuildStatefulSet (e_parseQuantity env) c n = Some d" and svc: "type_name obj = ''*v1.Service''"
    and r: "applyNode (timed_reconciler c') env c n h = Some (None, (?hg @ [Apply (ObjStatefulSet ((desired_sts ?got d)\<lparr>sts_Meta := m\<rparr>)) ?fo]) @
      [Apply obj ''ravendb-operator/service''])"
    and m: "om_Name m = ?nm" "om_Namespace m = Namespace c" "om_Annotations m = om_Annotations (sts_Meta (desired_sts ?got d))"
    by (rule applyNode_requests [OF assms(2-6), of c' h]) simp
  let ?d = "(desired_sts ?got d)\<lparr>sts_Meta := m\<rparr>"
  let ?h1 = "?hg @ [Apply (ObjStatefulSet ?d) ?fo]"
  have got: "e_GetStatefulSet env ?hg (Namespace c) nm = e_GetStatefulSet env h (Namespace c) nm" for nm by (rule api_reads [OF assms(1) gets_reads(1)])
  have mark: "mark_of ?d = acted_mark ?got" using desired_acted(2) [OF d img] m(3) by simp
  have "mark_of ?d \<noteq> None \<or> \<not> in_flight ?got" unfolding mark by (auto simp: acted_mark_def in_flight_def split: sum.splits)
  with api_apply(1) [OF assms(1), of ?hg ?d ?fo] m got
  obtain s where s: "e_GetStatefulSet env ?h1 (Namespace c) ?nm = Inr s" "currentStsImage s = currentStsImage ?d" "mark_of s = mark_of ?d" by auto
  have "store_step env c n (acted_image (s_Image (Spec c)) ?got) (acted_mark ?got) h ?h1"
    unfolding store_step_def using s desired_acted(1) [OF d img] mark api_apply(2) [OF assms(1), of _ ?d ?hg] m(1) got by auto
  moreover have "extends (\<lambda>e. \<not> writes_sts e) ?h1 (?h1 @ [Apply obj ''ravendb-operator/service''])" by (rule extends_snoc) (auto simp: writes_sts_def svc)
  ultimately have "store_step env c n (acted_image (s_Image (Spec c)) ?got) (acted_mark ?got) h (?h1 @ [Apply obj ''ravendb-operator/service''])"
    by (rule store_step_frame(1) [OF assms(1)])
  with r show ?thesis by blast
qed

subsection \<open>What a tick does to the store\<close>

lemma patch_store:
  assumes "api_server env" "names_ok env" "sts_of env c h n = Inr s"
  shows "store_step env c n (currentStsImage s) (if v = '''' then None else Some v) h (h @ [PatchStatefulSet (set_annotation v s) s])"
proof -
  let ?nm = "statefulSetName (n_Tag n)" and ?new = "set_annotation v s"
  have meta: "om_Name (sts_Meta ?new) = ?nm" "om_Namespace (sts_Meta ?new) = Namespace c"
    using assms(2,3) by (auto simp: names_ok_def set_annotation_def)
  have "e_GetStatefulSet env h (om_Namespace (sts_Meta ?new)) (om_Name (sts_Meta ?new)) = Inr s" using assms(3) by (simp add: meta)
  from api_patch(1) [OF assms(1) this] obtain s' where
    "sts_of env c (h @ [PatchStatefulSet ?new s]) n = Inr s'" "currentStsImage s' = currentStsImage s" "mark_of s' = mark_of ?new"
    by (auto simp: meta)
  moreover have "e_GetStatefulSet env (h @ [PatchStatefulSet ?new s]) (Namespace c) nm = e_GetStatefulSet env h (Namespace c) nm" if "nm \<noteq> ?nm" for nm
    using api_patch(2) [OF assms(1), of nm ?new h s] that by (simp add: meta)
  ultimately show ?thesis unfolding store_step_def by (simp add: set_annotation_def)
qed

lemma annotate_store:
  assumes "api_server env" "requests_succeed env" "names_ok env" "sts_of env c h n = Inr s"
  shows "store_step env c n (currentStsImage s) (if v = '''' then None else Some v) h (snd (setUpgradeAnnotation env c (n_Tag n) v h))"
proof -
  let ?hg = "h @ [GetStatefulSet (Namespace c) (statefulSetName (n_Tag n))]"
  have "snd (setUpgradeAnnotation env c (n_Tag n) v h) = ?hg @ [PatchStatefulSet (set_annotation v s) s]"
    by (simp add: setUpgradeAnnotation_def get_sts_def patch_sts_def assms(4))
  moreover have "sts_of env c ?hg n = Inr s" using api_reads [OF assms(1) gets_reads(1)] assms(4) by simp
  from patch_store [OF assms(1,3) this] have "store_step env c n (currentStsImage s) (if v = '''' then None else Some v) ?hg
      (?hg @ [PatchStatefulSet (set_annotation v s) s])" .
  ultimately show ?thesis using store_step_frame(2) [OF assms(1) reads_not_sts [OF gets_reads(1)]] by metis
qed

text \<open>After the callback has set the image, removing the annotation settles the node.\<close>

lemma unmark_store:
  assumes "api_server env" "requests_succeed env" "names_ok env" "store_step env c n img mark h h1" "reads_only h1 h2"
    and "reads_only (snd (setUpgradeAnnotation env c (n_Tag n) '''' h2)) h'"
  shows "store_step env c n img None h h'"
proof -
  have s: "store_step env c n img mark h h2" by (rule store_step_frame(1) [OF assms(1,4) reads_not_sts [OF assms(5)]])
  then obtain sts where sts: "sts_of env c h2 n = Inr sts" "currentStsImage sts = img" by (auto simp: store_step_def)
  from annotate_store [OF assms(1-3) sts(1), of "''''"] sts(2) have "store_step env c n img None h2 (snd (setUpgradeAnnotation env c (n_Tag n) '''' h2))" by simp
  from store_step_frame(1) [OF assms(1) store_step_trans [OF s this] reads_not_sts [OF assms(6)]] show ?thesis .
qed

text \<open>The hypotheses of the rollout, for one node and its callback.\<close>

definition rollout_env :: "Env \<Rightarrow> RavenDBCluster \<Rightarrow> bool" where
  "rollout_env env c \<longleftrightarrow> api_server env \<and> requests_succeed env \<and> owner_ref_ok env \<and> names_ok env \<and> clock_ok env \<and>
     reconcilable (e_parseQuantity env) c \<and> lower_tags c \<and> s_Image (Spec c) \<noteq> '''' \<and>
     (\<forall>h. \<exists>cl hb. BuildHTTPSClientFromCluster env c h = Some (Inr cl, hb) \<and> (\<forall>n \<in> set (s_Nodes (Spec c)). healthy_gates env (NewChecks (Some cl) c) (n_Tag n)))"

definition images_known :: "Env \<Rightarrow> RavenDBCluster \<Rightarrow> history \<Rightarrow> bool" where
  "images_known env c h \<longleftrightarrow> (\<forall>n \<in> set (s_Nodes (Spec c)). \<forall>s. sts_of env c h n = Inr s \<longrightarrow> currentStsImage s \<noteq> '''')"

definition node_settled :: "Env \<Rightarrow> RavenDBCluster \<Rightarrow> history \<Rightarrow> RavenDBNode \<Rightarrow> bool" where
  "node_settled env c h n \<longleftrightarrow> (case sts_of env c h n of Inr s \<Rightarrow> currentStsImage s = s_Image (Spec c) \<and> mark_of s = None | Inl _ \<Rightarrow> False)"

definition unsettled :: "Env \<Rightarrow> RavenDBCluster \<Rightarrow> history \<Rightarrow> RavenDBNode list" where
  "unsettled env c h = filter (\<lambda>n. \<not> node_settled env c h n) (s_Nodes (Spec c))"

lemma run_node_creates:
  assumes env: "rollout_env env c" and n: "n \<in> set (s_Nodes (Spec c))" and got: "sts_of env c h n = Inl e"
  shows "\<exists>s h'. run_node u env c (applyNode (timed_reconciler c') env c) g img prev n h = Some ((s, None), h') \<and>
    store_step env c n (s_Image (Spec c)) None h h'"
proof -
  let ?get = "GetStatefulSet (Namespace c) (statefulSetName (n_Tag n))"
  let ?h2 = "(h @ [?get]) @ [?get]"
  have api: "api_server env" and nf: "IsNotFound e" using env got by (auto simp: rollout_env_def requests_succeed_def)
  have r: "reads_only h ?h2" by (simp add: gets_reads)
  have got': "sts_of env c (h @ [?get]) n = Inl e" "sts_of env c ?h2 n = Inl e"
    using api_reads [OF api gets_reads(1)] api_reads [OF api r] got by simp_all
  obtain h' where a: "applyNode (timed_reconciler c') env c n ?h2 = Some (None, h')" "store_step env c n (s_Image (Spec c)) None ?h2 h'"
    using applyNode_store [of env c n ?h2 c'] env n unfolding got' by (auto simp: rollout_env_def acted_image_def acted_mark_def)
  have "run_node u env c (applyNode (timed_reconciler c') env c) g img prev n h = Some ((statusOrCreated prev (n_Tag n), None), h')"
    using got got' nf a(1)
    by (simp add: run_node_def loadSTSByNodeTag_def hasUpgradeAnnotation_def get_sts_def isUpgrading_def before_apply_def after_apply_def)
  with store_step_frame(2) [OF api reads_not_sts [OF r] a(2)] show ?thesis by blast
qed

lemma run_node_resumes:
  assumes env: "rollout_env env c" and n: "n \<in> set (s_Nodes (Spec c))" and g: "healthy_gates env g (n_Tag n)"
    and got: "sts_of env c h n = Inr s0" "mark_of s0 \<noteq> None" "currentStsImage s0 \<noteq> ''''"
  shows "\<exists>s h'. run_node (operator_upgrader t) env c (applyNode (timed_reconciler c') env c) g (s_Image (Spec c)) prev n h = Some ((s, None), h') \<and>
    store_step env c n (s_Image (Spec c)) None h h'"
proof -
  let ?get = "GetStatefulSet (Namespace c) (statefulSetName (n_Tag n))" and ?u = "operator_upgrader t"
  let ?h2 = "(h @ [?get]) @ [?get]"
  have api: "api_server env" and ok: "requests_succeed env" "names_ok env" "s_Image (Spec c) \<noteq> ''''" using env by (auto simp: rollout_env_def)
  have r: "reads_only h ?h2" by (simp add: gets_reads)
  have got': "sts_of env c (h @ [?get]) n = Inr s0" "sts_of env c ?h2 n = Inr s0"
    using api_reads [OF api gets_reads(1)] api_reads [OF api r] got by simp_all
  obtain h3 where a: "applyNode (timed_reconciler c') env c n ?h2 = Some (None, h3)" "store_step env c n (s_Image (Spec c)) (mark_of s0) ?h2 h3"
    using applyNode_store [of env c n ?h2 c'] env n got(2,3) unfolding got' by (auto simp: rollout_env_def acted_image_def acted_mark_def)
  obtain h4 where p: "postNode ?u env c g (n_Tag n) h3 = Some (None, h4)" using postNode_passes [OF g] by blast
  obtain e5 h5 where cl: "setUpgradeAnnotation env c (n_Tag n) '''' h4 = (e5, h5)" by (metis prod.exhaust)
  have "store_step env c n (s_Image (Spec c)) None ?h2 (h5 @ [Now])"
    by (rule unmark_store [OF api ok(1,2) a(2) postNode_reads [OF p]]) (simp add: cl now_reads)
  then have "store_step env c n (s_Image (Spec c)) None h (h5 @ [Now])" by (rule store_step_frame(2) [OF api reads_not_sts [OF r]])
  moreover have "\<exists>s. run_node ?u env c (applyNode (timed_reconciler c') env c) g (s_Image (Spec c)) prev n h = Some ((s, None), h5 @ [Now])"
    using got got' ok(3) a(1) p cl
    by (simp add: run_node_def loadSTSByNodeTag_def hasUpgradeAnnotation_def get_sts_def isUpgrading_def before_apply_def after_apply_def
        successStatus_def timestampNow_def time_Now_def)
  ultimately show ?thesis by blast
qed

lemma run_node_replaces:
  assumes env: "rollout_env env c" and n: "n \<in> set (s_Nodes (Spec c))" and g: "healthy_gates env g (n_Tag n)"
    and got: "sts_of env c h n = Inr s0" "mark_of s0 = None" "currentStsImage s0 \<noteq> ''''" "currentStsImage s0 \<noteq> s_Image (Spec c)"
  shows "\<exists>s h'. run_node (operator_upgrader t) env c (applyNode (timed_reconciler c') env c) g (s_Image (Spec c)) prev n h = Some ((s, None), h') \<and>
    store_step env c n (s_Image (Spec c)) None h h'"
proof -
  let ?img = "s_Image (Spec c)" and ?act = "applyNode (timed_reconciler c') env c" and ?patch = "PatchStatefulSet (set_annotation (s_Image (Spec c)) s0) s0"
  have api: "api_server env" and ok: "requests_succeed env" "names_ok env" "?img \<noteq> ''''" using env by (auto simp: rollout_env_def)
  have view: "sts_of env c h' n = Inr s0" if "reads_only h h'" for h' using api_reads [OF api that] got(1) by simp
  have old: "outdated ?img (Inr s0)" "\<not> in_flight (Inr s0)" using got(2-4) ok(3) by (auto simp: outdated_def in_flight_def)
  have patch: "e_PatchStatefulSet env h new old = None" for h new old using ok(1) by (simp add: requests_succeed_def)
  have act: "\<exists>h'. ?act n h = Some (None, h')" for h by (rule applyNode_requests [of env c n c' h]) (use env n in \<open>auto simp: rollout_env_def\<close>)
  from run_node_upgrades [where act = ?act, OF g view old patch act] obtain s h' where
    r: "run_node (operator_upgrader t) env c ?act g ?img prev n h = Some ((s, None), h')" and "upgrades env c ?act ?img n s0 h h'" by blast
  then obtain h1 h2 h3 where u: "reads_only h h1" "?act n (h1 @ [?patch]) = Some (None, h2)" "reads_only h2 h3"
      "reads_only (snd (setUpgradeAnnotation env c (n_Tag n) '''' h3)) h'" by (auto simp: upgrades_def)
  have s1: "store_step env c n (currentStsImage s0) (Some ?img) h1 (h1 @ [?patch])" using patch_store [OF api ok(2) view [OF u(1)], of ?img] ok(3) by simp
  then obtain sm where sm: "sts_of env c (h1 @ [?patch]) n = Inr sm" "currentStsImage sm \<noteq> ''''" "mark_of sm = Some ?img"
    using got(3) by (auto simp: store_step_def)
  have "store_step env c n ?img (Some ?img) (h1 @ [?patch]) h2"
    using applyNode_store [of env c n "h1 @ [?patch]" c'] env n sm(2,3) u(2) unfolding sm(1) by (auto simp: rollout_env_def acted_image_def acted_mark_def)
  from store_step_trans [OF s1 unmark_store [OF api ok(1,2) this u(3,4)]] have "store_step env c n ?img None h1 h'" .
  from store_step_frame(2) [OF api reads_not_sts [OF u(1)] this] r show ?thesis by blast
qed

lemma run_node_settles:
  assumes "rollout_env env c" "n \<in> set (s_Nodes (Spec c))" "healthy_gates env g (n_Tag n)" "images_known env c h" "\<not> node_settled env c h n"
  shows "\<exists>s h'. run_node (operator_upgrader t) env c (applyNode (timed_reconciler c') env c) g (s_Image (Spec c)) prev n h = Some ((s, None), h') \<and>
    store_step env c n (s_Image (Spec c)) None h h'"
proof (cases "sts_of env c h n")
  case (Inl e)
  from run_node_creates [OF assms(1,2) Inl] show ?thesis .
next
  case (Inr s)
  with assms(2,4) have img: "currentStsImage s \<noteq> ''''" by (auto simp: images_known_def)
  show ?thesis
  proof (cases "mark_of s")
    case None
    with Inr assms(5) have "currentStsImage s \<noteq> s_Image (Spec c)" by (simp add: node_settled_def)
    from run_node_replaces [OF assms(1-3) Inr None img this] show ?thesis .
  next
    case (Some v)
    with run_node_resumes [OF assms(1-3) Inr _ img] show ?thesis by blast
  qed
qed

text \<open>Something is selected exactly if a node is unsettled, and then such a node.\<close>

lemma pick_unsettled:
  assumes "rollout_env env c" "images_known env c h"
  shows "case pick_spec (\<lambda>nm. e_GetStatefulSet env h (Namespace c) nm) (s_Image (Spec c)) (s_Nodes (Spec c)) of
      None \<Rightarrow> unsettled env c h = []
    | Some n \<Rightarrow> n \<in> set (unsettled env c h)"
proof -
  let ?live = "\<lambda>nm. e_GetStatefulSet env h (Namespace c) nm" and ?img = "s_Image (Spec c)"
  have ok: "\<And>e n. sts_of env c h n = Inl e \<Longrightarrow> IsNotFound e" "?img \<noteq> ''''" using assms(1) by (auto simp: rollout_env_def requests_succeed_def)
  have "\<not> node_settled env c h n \<longleftrightarrow> in_flight (sts_of env c h n) \<or> missing (sts_of env c h n) \<or> outdated ?img (sts_of env c h n)"
    if "n \<in> set (s_Nodes (Spec c))" for n
    using that ok assms(2)
    by (cases "sts_of env c h n") (auto simp: node_settled_def in_flight_def missing_def outdated_def images_known_def)
  moreover have "x \<in> set xs \<and> P x" if "find P xs = Some x" for P x and xs :: "RavenDBNode list" using that by (auto simp: find_Some_iff)
  ultimately show ?thesis
    by (auto simp: pick_spec_def Let_def unsettled_def find_None_iff filter_empty_conv split: option.splits)
qed

text \<open>What the store is after a tick that finds no fault: unchanged if nothing is selected, else changed in the selected node, which is settled.\<close>

definition worked :: "Env \<Rightarrow> RavenDBCluster \<Rightarrow> history \<Rightarrow> history \<Rightarrow> bool" where
  "worked env c h h' \<longleftrightarrow>
     (case pick_spec (\<lambda>nm. e_GetStatefulSet env h (Namespace c) nm) (s_Image (Spec c)) (s_Nodes (Spec c)) of
        None \<Rightarrow> (\<forall>nm. e_GetStatefulSet env h' (Namespace c) nm = e_GetStatefulSet env h (Namespace c) nm)
      | Some n \<Rightarrow> store_step env c n (s_Image (Spec c)) None h h')"

lemma worked_frame:
  assumes "api_server env" "extends (\<lambda>e. \<not> writes_sts e) h h1" "worked env c h1 h2" "extends (\<lambda>e. \<not> writes_sts e) h2 h'"
  shows "worked env c h h'"
proof -
  have "e_GetStatefulSet env h1 ns nm = e_GetStatefulSet env h ns nm" "e_GetStatefulSet env h' ns nm = e_GetStatefulSet env h2 ns nm" for ns nm
    using api_frame [OF assms(1,2)] api_frame [OF assms(1,4)] by blast+
  with assms(3) show ?thesis by (simp add: worked_def store_step_def split: option.splits)
qed

lemma Run_works:
  assumes env: "rollout_env env c" and known: "images_known env c h"
  shows "\<exists>sts h'. Run (operator_upgrader t) env c (applyNode (timed_reconciler c') env c) h = Some ((sts, None), h') \<and> worked env c h h'"
proof -
  let ?img = "s_Image (Spec c)" and ?nodes = "s_Nodes (Spec c)" and ?prev = "buildPrevStatusMap (Status c)" and ?u = "operator_upgrader t"
  let ?live = "\<lambda>nm. e_GetStatefulSet env h (Namespace c) nm" and ?act = "applyNode (timed_reconciler c') env c"
  have api: "api_server env" and tags: "tags_ok c" using env by (auto simp: rollout_env_def lower_tags_def)
  obtain cl hb where http: "BuildHTTPSClientFromCluster env c h = Some (Inr cl, hb)"
    and g: "\<forall>n \<in> set ?nodes. healthy_gates env (NewChecks (Some cl) c) (n_Tag n)" using env unfolding rollout_env_def by blast
  let ?g = "NewChecks (Some cl) c"
  have b: "buildGatesDefault env c h = Some (Inr ?g, hb)" using http by (simp add: buildGatesDefault_def)
  have rb: "reads_only h hb" by (rule buildGatesDefault_reads [OF b])
  have "view_of env (Namespace c) hb ?live"
    unfolding view_of_def using api_reads [OF api extends_trans [OF rb is_get_reads]] by blast
  note pick = pick_view [OF this tags_ok_trimmed [OF tags], of ?img]
  show ?thesis
  proof (cases "pick_spec ?live ?img ?nodes")
    case None
    with pick obtain hp where p: "pickSelectedTag env c ?img hb = (('''', None), hp)" by (metis option.simps(4) prod.collapse)
    have "reads_only h hp" by (rule extends_trans [OF rb is_get_reads [OF pick_gets [OF p]]])
    with None have "worked env c h hp" by (simp add: worked_def api_reads [OF api])
    moreover have "\<exists>sts. Run ?u env c ?act h = Some ((sts, None), hp)"
      using b p by (simp add: Run_def operator_upgrader_simps desiredNodeImage_def Let_def)
    ultimately show ?thesis by blast
  next
    case (Some n)
    with pick obtain hp where p: "pickSelectedTag env c ?img hb = ((node_tag n, None), hp)" by (metis option.simps(5) prod.collapse)
    have rp: "reads_only h hp" by (rule extends_trans [OF rb is_get_reads [OF pick_gets [OF p]]])
    have n: "n \<in> set ?nodes" "\<not> node_settled env c h n" using pick_unsettled [OF env known] Some by (auto simp: unsettled_def)
    have same: "sts_of env c hp m = sts_of env c h m" for m by (rule api_reads [OF api rp])
    have "images_known env c hp" "\<not> node_settled env c hp n" using known n(2) by (simp_all add: images_known_def node_settled_def same)
    from run_node_settles [OF env n(1) _ this, of ?g t c' ?prev] g n(1) obtain s h' where
      r: "run_node ?u env c ?act ?g ?img ?prev n hp = Some ((s, None), h')" and st: "store_step env c n ?img None hp h'" by blast
    have "worked env c h h'" using store_step_frame(2) [OF api reads_not_sts [OF rp] st] Some by (simp add: worked_def)
    with Run_selected [OF tags n(1) b p r] show ?thesis by blast
  qed
qed

subsection \<open>What a reconcile does to the store\<close>

lemma cluster_actors_succeed:
  assumes "requests_succeed env"
  shows "BuildIngress c \<noteq> None \<Longrightarrow> \<exists>h'. ingressActor_Act env c h = Some ((False, None), h')"
    "BuildJob c \<noteq> None \<Longrightarrow> \<exists>h'. BootstrapperActor_Act env c h = Some ((False, None), h')"
    "\<exists>h'. HooksActor_Act env c h = Some ((False, None), h')"
proof -
  note own = owner_succeeds [OF assms] and ok = ssa_succeeds [OF assms]
  show "\<exists>h'. ingressActor_Act env c h = Some ((False, None), h')" if "BuildIngress c \<noteq> None"
  proof -
    from that obtain ing where ing: "BuildIngress c = Some ing" by blast
    from own [of c "ObjIngress ing"] obtain m where "set_owner env c (ObjIngress ing) = Inr (set_meta (ObjIngress ing) m)" by blast
    then show ?thesis by (simp add: ingressActor_Act_def ing applyResourceSSA_eq ok)
  qed
  show "\<exists>h'. BootstrapperActor_Act env c h = Some ((False, None), h')" if "BuildJob c \<noteq> None"
  proof -
    from that obtain job where job: "BuildJob c = Some job" by blast
    from own [of c "ObjJob job"] obtain m where "set_owner env c (ObjJob job) = Inr (set_meta (ObjJob job) m)" by blast
    then show ?thesis by (simp add: BootstrapperActor_Act_def job applyResourceSSA_eq ok)
  qed
  obtain m where m: "set_owner env c (hook_config_map c BootstrapperHookConfigMap
      [InitClusterHookKey \<mapsto> normalizeLF (e_initClusterScriptRaw env), CheckNodesDiscoverabilityHookKey \<mapsto> normalizeLF (e_checkNodesDiscoverabilityScriptRaw env)]) =
      Inr m" using own by blast
  obtain m' where m': "set_owner env c (hook_config_map c CertHookConfigMap
      [UpdateCertHookKey \<mapsto> normalizeLF (e_updateCertScriptRaw env), GetCertHookKey \<mapsto> normalizeLF (e_getServerCertScriptRaw env)]) = Inr m'"
    using own by blast
  show "\<exists>h'. HooksActor_Act env c h = Some ((False, None), h')"
    by (simp add: HooksActor_Act_def Let_def m m' applyResourceSSA_eq ok)
qed

lemma per_cluster_succeeds:
  assumes "requests_succeed env" "reconcilable (e_parseQuantity env) c"
  shows "\<exists>h'. ExecutePerCluster NewDefaultDirector env c h = Some ((False, None), h')"
proof -
  note b = reconcilable_builds [OF assms(2)]
  have step: "\<exists>h'. per_cluster_loop (a # as) False env c h = Some ((False, None), h')"
    if "pca_ShouldAct a c \<Longrightarrow> \<forall>h. \<exists>h'. pca_Act a env c h = Some ((False, None), h')"
      "\<forall>h. \<exists>h'. per_cluster_loop as False env c h = Some ((False, None), h')" for a as h
  proof (cases "pca_ShouldAct a c")
    case True
    with that(1) obtain h1 where "pca_Act a env c h = Some ((False, None), h1)" by blast
    with True that(2) show ?thesis by auto
  qed (use that(2) in auto)
  have ing: "\<exists>h'. ingressActor_Act env c h = Some ((False, None), h')" if "ingressActor_ShouldAct c" for h
    by (rule cluster_actors_succeed(1) [OF assms(1) b(3) [OF that]])
  have boot: "\<exists>h'. BootstrapperActor_Act env c h = Some ((False, None), h')" for h by (rule cluster_actors_succeed(2) [OF assms(1) b(4)])
  show ?thesis
    unfolding ExecutePerCluster_def NewDefaultDirector_def DefaultDirector.select_convs
    by (intro step allI) (simp_all add: ing boot cluster_actors_succeed(3) [OF assms(1)] del: per_cluster_loop.simps(2))
qed

lemma no_node_sts: "no_node h h' \<Longrightarrow> extends (\<lambda>e. \<not> writes_sts e) h h'"
  by (erule extends_mono) (auto simp: node_level_def writes_sts_def split: request.splits)

lemma Reconcile_works:
  assumes env: "rollout_env env c" and got: "e_GetCluster env h ns name = Inr c" and known: "images_known env c h"
  shows "\<exists>res r' h'. Reconcile main_reconciler env ns name h = Some (res, r', h') \<and> worked env c h h'"
proof -
  have ok: "api_server env" "requests_succeed env" "clock_ok env" "reconcilable (e_parseQuantity env) c" using env by (auto simp: rollout_env_def)
  have rc: "reconcilable (e_parseQuantity env) c'" if "e_GetCluster env h ns name = Inr c'" for c' using that got ok(4) by simp
  obtain res err r' h' where r: "Reconcile main_reconciler env ns name h = Some ((res, err), r', h')" using Reconcile_total [OF ok(3) rc] by blast
  from r got have "worked env c h h'"
  proof (cases rule: Reconcile_split)
    case none
    with per_cluster_succeeds [OF ok(2,4), of "h @ [GetCluster ns name]"] show ?thesis by auto
  next
    case (tick h1 out h2)
    note w = no_node_sts [OF tick(1)] no_node_sts [OF tick(3)]
    have "images_known env c h1" using known by (simp add: images_known_def api_frame [OF ok(1) w(1)])
    with Run_works [OF env this, of "cluster_timing c" c] tick(2) have "worked env c h1 h2" by auto
    from worked_frame [OF ok(1) w(1) this w(2)] show ?thesis .
  qed
  with r show ?thesis by blast
qed

subsection \<open>Repeated reconciles\<close>

text \<open>The work queue calls \<open>Reconcile\<close> again and again with the same reconciler.\<close>

fun reconcile_loop ::
  "RavenDBClusterReconciler \<Rightarrow> Env \<Rightarrow> string \<Rightarrow> string \<Rightarrow> nat \<Rightarrow> history \<Rightarrow> (RavenDBClusterReconciler \<times> history) option" where
  "reconcile_loop r env ns name 0 h = Some (r, h)"
| "reconcile_loop r env ns name (Suc k) h = do { (_, r, h) \<leftarrow> Reconcile r env ns name h; reconcile_loop r env ns name k h }"

text \<open>What a reconcile leaves in the reconciler, the timing of the last one, makes no difference to the next.\<close>

definition operational :: "RavenDBClusterReconciler \<Rightarrow> bool" where
  "operational r \<longleftrightarrow> rc_Director r = NewDefaultDirector \<and> rc_Recorder r \<and> rc_BaseTiming r = DefaultTiming \<and>
     (\<forall>t. SetTiming t (rc_Upgrader r) = operator_upgrader t)"

lemma main_operational: "operational main_reconciler"
  by (simp add: operational_def main_simps)

lemma operational_timed: "operational r \<Longrightarrow> r\<lparr>rc_Upgrader := operator_upgrader t\<rparr> = main_reconciler\<lparr>rc_Upgrader := operator_upgrader t\<rparr>"
  using main_simps by (cases r; cases main_reconciler) (auto simp: operational_def)

lemma timed_operational: "operational (main_reconciler\<lparr>rc_Upgrader := operator_upgrader t\<rparr>)"
  by (simp add: operational_def main_simps operator_upgrader_def SetTiming_def)

lemma Reconcile_operational:
  assumes "operational r" "operational s" "Reconcile s env ns name h = Some (res, r1, h')"
  shows "\<exists>r2. Reconcile r env ns name h = Some (res, r2, h') \<and> operational r2"
proof -
  have dir: "rc_Director u = NewDefaultDirector \<and> rc_Recorder u \<and> rc_BaseTiming u = DefaultTiming \<and> (\<forall>t. SetTiming t (rc_Upgrader u) = operator_upgrader t)"
    if "operational u" for u using that by (simp add: operational_def)
  note u = dir [OF assms(1)] dir [OF assms(2)]
  have t: "r\<lparr>rc_Upgrader := operator_upgrader t\<rparr> = s\<lparr>rc_Upgrader := operator_upgrader t\<rparr>" for t
    by (simp add: operational_timed [OF assms(1)] operational_timed [OF assms(2)])
  show ?thesis
  proof (cases "e_GetCluster env h ns name")
    case (Inl e)
    with assms show ?thesis by (auto simp: Reconcile_def get_cluster_def)
  next
    case (Inr c)
    with assms(3) obtain ch perr h1 where x: "ExecutePerCluster NewDefaultDirector env c (h @ [GetCluster ns name]) = Some ((ch, perr), h1)"
      by (auto simp: Reconcile_def get_cluster_def u split: Option.bind_split_asm)
    show ?thesis
    proof (cases perr)
      case (Some e)
      with assms Inr x show ?thesis by (auto simp: Reconcile_def get_cluster_def u)
    next
      case None
      with assms(3) Inr x have "Reconcile r env ns name h = Some (res, r1, h')"
        by (simp add: Reconcile_def get_cluster_def u t Let_def)
      moreover have "\<exists>t. r1 = s\<lparr>rc_Upgrader := operator_upgrader t\<rparr>" using assms(3) Inr x None
        by (auto simp: Reconcile_def get_cluster_def u Let_def split: Option.bind_split_asm prod.split_asm)
      ultimately show ?thesis using timed_operational operational_timed [OF assms(2)] by auto
    qed
  qed
qed

lemma operational_main:
  assumes "operational r" "Reconcile r env ns name h = Some (res, r1, h')"
  shows "\<exists>r2. Reconcile main_reconciler env ns name h = Some (res, r2, h') \<and> operational r1"
proof -
  from Reconcile_operational [OF main_operational assms] obtain r2 where r2: "Reconcile main_reconciler env ns name h = Some (res, r2, h')" by blast
  from Reconcile_operational [OF assms(1) main_operational r2] assms(2) r2 show ?thesis by auto
qed

lemma rollout_env_status: "rollout_env env (c\<lparr>Status := st\<rparr>) = rollout_env env c"
proof -
  have "BuildHTTPSClientFromCluster env (c\<lparr>Status := st\<rparr>) h = BuildHTTPSClientFromCluster env c h" for h
  proof -
    have sel: "Spec (c\<lparr>Status := st\<rparr>) = Spec c" "Namespace (c\<lparr>Status := st\<rparr>) = Namespace c" by simp_all
    show ?thesis unfolding BuildHTTPSClientFromCluster_def needsCA_def loadCAPool_def sel by (rule refl)
  qed
  moreover have "NewChecks cl (c\<lparr>Status := st\<rparr>) = NewChecks cl c" for cl by (simp add: NewChecks_def)
  moreover have "reconcilable pq (c\<lparr>Status := st\<rparr>) = reconcilable pq c" for pq by (rule reconcilable_spec) simp
  ultimately show ?thesis by (simp add: rollout_env_def lower_tags_def tags_ok_def)
qed

lemma store_step_unsettled:
  assumes "lower_tags c" "n \<in> set (unsettled env c h)" "store_step env c n (s_Image (Spec c)) None h h'"
  shows "unsettled env c h' = filter (\<lambda>m. m \<noteq> n) (unsettled env c h)" "length (unsettled env c h') = length (unsettled env c h) - 1"
    "images_known env c h \<Longrightarrow> s_Image (Spec c) \<noteq> '''' \<Longrightarrow> images_known env c h'"
proof -
  have n: "n \<in> set (s_Nodes (Spec c))" using assms(2) by (simp add: unsettled_def)
  note same = store_step_others [OF assms(1) n _ _ assms(3)]
  have "node_settled env c h' n" using assms(3) by (auto simp: store_step_def node_settled_def)
  moreover have "node_settled env c h' m = node_settled env c h m" if "m \<in> set (s_Nodes (Spec c))" "m \<noteq> n" for m
    by (simp add: node_settled_def same that)
  ultimately show f: "unsettled env c h' = filter (\<lambda>m. m \<noteq> n) (unsettled env c h)"
    unfolding unsettled_def filter_filter by (intro filter_cong refl) metis
  have "distinct (unsettled env c h)" using assms(1) by (auto simp: unsettled_def lower_tags_def tags_ok_def distinct_map)
  moreover have "filter (\<lambda>m. m \<noteq> n) xs = removeAll n xs" for xs :: "RavenDBNode list" by (induction xs) auto
  ultimately have "filter (\<lambda>m. m \<noteq> n) (unsettled env c h) = remove1 n (unsettled env c h)" by (simp add: distinct_remove1_removeAll)
  then show "length (unsettled env c h') = length (unsettled env c h) - 1" unfolding f using assms(2) by (simp add: length_remove1)
  show "images_known env c h'" if "images_known env c h" "s_Image (Spec c) \<noteq> ''''"
    unfolding images_known_def
  proof (intro ballI allI impI)
    fix m s
    assume "m \<in> set (s_Nodes (Spec c))" "sts_of env c h' m = Inr s"
    then show "currentStsImage s \<noteq> ''''" using that assms(3) same [of m] by (cases "m = n") (auto simp: images_known_def store_step_def)
  qed
qed

lemma worked_unsettled:
  assumes "rollout_env env c" "images_known env c h" "worked env c h h'"
  shows "length (unsettled env c h') = length (unsettled env c h) - 1 \<and> images_known env c h'"
proof (cases "pick_spec (\<lambda>nm. e_GetStatefulSet env h (Namespace c) nm) (s_Image (Spec c)) (s_Nodes (Spec c))")
  case None
  with assms(2,3) pick_unsettled [OF assms(1,2)] show ?thesis by (simp add: worked_def unsettled_def node_settled_def images_known_def)
next
  case (Some n)
  with assms(3) pick_unsettled [OF assms(1,2)] have "n \<in> set (unsettled env c h)" "store_step env c n (s_Image (Spec c)) None h h'" by (simp_all add: worked_def)
  with store_step_unsettled(2,3) [of c n env h h'] assms(1,2) show ?thesis by (simp add: rollout_env_def)
qed

lemma worked_status: "worked env (c\<lparr>Status := st\<rparr>) = worked env c" "images_known env (c\<lparr>Status := st\<rparr>) = images_known env c"
proof -
  have sel: "Spec (c\<lparr>Status := st\<rparr>) = Spec c" "Namespace (c\<lparr>Status := st\<rparr>) = Namespace c" by simp_all
  show "worked env (c\<lparr>Status := st\<rparr>) = worked env c" "images_known env (c\<lparr>Status := st\<rparr>) = images_known env c"
    unfolding fun_eq_iff worked_def store_step_def images_known_def sel by simp_all
qed

lemma rollout_steps:
  assumes env: "rollout_env env c" and got: "\<forall>h. \<exists>st. e_GetCluster env h ns name = Inr (c\<lparr>Status := st\<rparr>)"
    and "images_known env c h" "operational r"
  shows "\<exists>r' h'. reconcile_loop r env ns name k h = Some (r', h') \<and> length (unsettled env c h') = length (unsettled env c h) - k"
  using assms(3,4)
proof (induction k arbitrary: r h)
  case (Suc k)
  obtain st where st: "e_GetCluster env h ns name = Inr (c\<lparr>Status := st\<rparr>)" using got by blast
  from Reconcile_works [OF _ st] env Suc.prems(1) obtain res r1 h1 where
    r1: "Reconcile main_reconciler env ns name h = Some (res, r1, h1)" and w: "worked env c h h1" unfolding rollout_env_status worked_status by blast
  from Reconcile_operational [OF Suc.prems(2) main_operational r1] obtain r2 where
    r2: "Reconcile r env ns name h = Some (res, r2, h1)" "operational r2" by blast
  from worked_unsettled [OF env Suc.prems(1) w] Suc.IH [OF _ r2(2), of h1] r2(1) show ?case by auto
qed simp

text \<open>A rollout converges.  Against an API server that keeps what it is given, with healthy gates, lower-case tags and a specification that stays, every
  reconcile settles exactly one more node (creates it if it is missing, finishes its upgrade if it is marked, upgrades it if it has another
  image), so that after \<open>k\<close> reconciles \<open>k\<close> nodes less are unsettled; once none is, this stays so.\<close>

theorem rollout_converges:
  assumes "rollout_env env c" "\<forall>h. \<exists>st. e_GetCluster env h ns name = Inr (c\<lparr>Status := st\<rparr>)" "images_known env c h"
  shows "\<exists>r' h'. reconcile_loop main_reconciler env ns name k h = Some (r', h') \<and>
    length (unsettled env c h') = length (unsettled env c h) - k \<and>
    (length (s_Nodes (Spec c)) \<le> k \<longrightarrow> (\<forall>n \<in> set (s_Nodes (Spec c)). \<exists>s. sts_of env c h' n = Inr s \<and>
       currentStsImage s = s_Image (Spec c) \<and> om_Annotations (sts_Meta s) UpgradeImageAnnotation = None))"
proof -
  from rollout_steps [OF assms main_operational, of k] obtain r' h' where
    r: "reconcile_loop main_reconciler env ns name k h = Some (r', h')" "length (unsettled env c h') = length (unsettled env c h) - k" by blast
  have "\<exists>s. sts_of env c h' n = Inr s \<and> currentStsImage s = s_Image (Spec c) \<and> mark_of s = None"
    if k: "length (s_Nodes (Spec c)) \<le> k" and n: "n \<in> set (s_Nodes (Spec c))" for n
  proof -
    have "length (unsettled env c h) \<le> length (s_Nodes (Spec c))" by (simp add: unsettled_def)
    with r(2) k have "unsettled env c h' = []" by simp
    with n have "node_settled env c h' n" by (auto simp: unsettled_def filter_empty_conv)
    then show ?thesis by (auto simp: node_settled_def split: sum.splits)
  qed
  with r show ?thesis by blast
qed

end
