(* ===== verification/RolloutMachine.thy ===== *)
theory RolloutMachine
  imports Rollout
begin

text \<open>
  The rollout as an abstract machine on the states of the nodes, which a reconcile refines, and a concrete API server, a store of
  StatefulSets, on which the properties of rollouts are witnessed.
\<close>

subsection \<open>The rollout as an abstract machine\<close>

text \<open>What a rollout is about: the state of each node.\<close>

datatype node_state = Absent | Runs string | Upgrading

definition node_state_of :: "kerr + StatefulSet \<Rightarrow> node_state" where
  "node_state_of got = (case got of Inl _ \<Rightarrow> Absent | Inr s \<Rightarrow> if mark_of s \<noteq> None then Upgrading else Runs (currentStsImage s))"

definition rollout_state :: "Env \<Rightarrow> RavenDBCluster \<Rightarrow> history \<Rightarrow> node_state list" where
  "rollout_state env c h = map (\<lambda>n. node_state_of (sts_of env c h n)) (s_Nodes (Spec c))"

text \<open>One step of the machine: the first node whose upgrade is in flight, else the first that is absent, else the first on another image, runs the desired
  image afterwards; all others stay as they are.\<close>

fun update_first :: "('a \<Rightarrow> bool) \<Rightarrow> 'a \<Rightarrow> 'a list \<Rightarrow> 'a list" where
  "update_first P y [] = []"
| "update_first P y (x # xs) = (if P x then y # xs else x # update_first P y xs)"

definition rollout_step :: "string \<Rightarrow> node_state list \<Rightarrow> node_state list" where
  "rollout_step img ns =
     (if Upgrading \<in> set ns then update_first (\<lambda>x. x = Upgrading) (Runs img) ns
      else if Absent \<in> set ns then update_first (\<lambda>x. x = Absent) (Runs img) ns
      else update_first (\<lambda>x. x \<noteq> Runs img) (Runs img) ns)"

lemma update_first_map:
  assumes "find (\<lambda>n. P (f n)) xs = Some n" "distinct xs" "g n = y" "\<And>m. m \<in> set xs \<Longrightarrow> m \<noteq> n \<Longrightarrow> g m = f m"
  shows "map g xs = update_first P y (map f xs)"
  using assms
proof (induction xs)
  case (Cons x xs)
  show ?case
  proof (cases "P (f x)")
    case True
    with Cons.prems(1) have "n = x" by simp
    with Cons.prems True show ?thesis by (auto intro!: map_cong)
  next
    case False
    with Cons.prems(1) have "find (\<lambda>n. P (f n)) xs = Some n" by simp
    then have n: "n \<in> set xs" by (auto simp: find_Some_iff)
    with Cons.prems(2,4) have "g x = f x" by auto
    moreover have "map g xs = update_first P y (map f xs)" by (rule Cons.IH) (use Cons.prems \<open>find (\<lambda>n. P (f n)) xs = Some n\<close> in auto)
    ultimately show ?thesis using False by simp
  qed
qed simp

lemma update_first_none: "(\<And>x. x \<in> set xs \<Longrightarrow> \<not> P x) \<Longrightarrow> update_first P y xs = xs"
  by (induction xs) auto

text \<open>The selection of the upgrader in these terms.\<close>

lemma pick_states:
  assumes "rollout_env env c" "images_known env c h"
  shows "pick_spec (\<lambda>nm. e_GetStatefulSet env h (Namespace c) nm) (s_Image (Spec c)) (s_Nodes (Spec c)) =
    (let f = (\<lambda>n. node_state_of (sts_of env c h n)) in
     if Upgrading \<in> set (rollout_state env c h) then find (\<lambda>n. f n = Upgrading) (s_Nodes (Spec c))
     else if Absent \<in> set (rollout_state env c h) then find (\<lambda>n. f n = Absent) (s_Nodes (Spec c))
     else find (\<lambda>n. f n \<noteq> Runs (s_Image (Spec c))) (s_Nodes (Spec c)))"
proof -
  let ?f = "\<lambda>n. node_state_of (sts_of env c h n)" and ?nodes = "s_Nodes (Spec c)" and ?img = "s_Image (Spec c)"
  have nf: "\<And>e n. sts_of env c h n = Inl e \<Longrightarrow> IsNotFound e" and img: "?img \<noteq> ''''" using assms(1) by (auto simp: rollout_env_def requests_succeed_def)
  have up: "in_flight (sts_of env c h n) \<longleftrightarrow> ?f n = Upgrading" for n by (auto simp: in_flight_def node_state_of_def split: sum.splits)
  have ab: "missing (sts_of env c h n) \<longleftrightarrow> ?f n = Absent" for n using nf by (auto simp: missing_def node_state_of_def split: sum.splits)
  have od: "outdated ?img (sts_of env c h n) \<longleftrightarrow> ?f n \<noteq> Runs ?img" if "n \<in> set ?nodes" "?f n \<noteq> Upgrading" "?f n \<noteq> Absent" for n
    using that img assms(2) by (auto simp: outdated_def node_state_of_def images_known_def split: sum.splits)
  have u: "find (\<lambda>n. in_flight (sts_of env c h n)) ?nodes = find (\<lambda>n. ?f n = Upgrading) ?nodes" by (simp add: up)
  have a: "find (\<lambda>n. missing (sts_of env c h n)) ?nodes = find (\<lambda>n. ?f n = Absent) ?nodes" by (simp add: ab)
  have o: "find (\<lambda>n. outdated ?img (sts_of env c h n)) ?nodes = find (\<lambda>n. ?f n \<noteq> Runs ?img) ?nodes"
    if "Upgrading \<notin> set (rollout_state env c h)" "Absent \<notin> set (rollout_state env c h)"
  proof (rule find_cong [OF refl])
    fix n
    assume n: "n \<in> set ?nodes"
    with that have "?f n \<noteq> Upgrading" "?f n \<noteq> Absent" by (auto simp: rollout_state_def image_iff)
    with od [OF n] show "outdated ?img (sts_of env c h n) \<longleftrightarrow> ?f n \<noteq> Runs ?img" by simp
  qed
  have None: "find (\<lambda>n. ?f n = x) ?nodes = None \<longleftrightarrow> x \<notin> set (rollout_state env c h)" for x
    by (auto simp: find_None_iff rollout_state_def)
  show ?thesis
    unfolding pick_spec_def Let_def u a using o None [of Upgrading] None [of Absent] by (auto split: option.splits)
qed

lemma worked_refines:
  assumes "rollout_env env c" "images_known env c h" "worked env c h h'"
  shows "rollout_state env c h' = rollout_step (s_Image (Spec c)) (rollout_state env c h)"
proof -
  let ?f = "\<lambda>h n. node_state_of (sts_of env c h n)" and ?nodes = "s_Nodes (Spec c)" and ?img = "s_Image (Spec c)"
  let ?pick = "pick_spec (\<lambda>nm. e_GetStatefulSet env h (Namespace c) nm) ?img ?nodes"
  have lt: "lower_tags c" and dist: "distinct ?nodes" using assms(1) by (auto simp: rollout_env_def lower_tags_def tags_ok_def distinct_map)
  note pick = pick_states [OF assms(1,2)]
  show ?thesis
  proof (cases ?pick)
    case None
    with assms(3) have same: "rollout_state env c h' = rollout_state env c h" by (simp add: worked_def rollout_state_def)
    from None pick_unsettled [OF assms(1,2)] have "\<forall>n \<in> set ?nodes. ?f h n = Runs ?img"
      by (auto simp: unsettled_def filter_empty_conv node_settled_def node_state_of_def split: sum.splits)
    then have all: "\<forall>x \<in> set (rollout_state env c h). x = Runs ?img" by (simp add: rollout_state_def)
    then have "Upgrading \<notin> set (rollout_state env c h)" "Absent \<notin> set (rollout_state env c h)" by auto
    moreover have "update_first (\<lambda>x. x \<noteq> Runs ?img) (Runs ?img) (rollout_state env c h) = rollout_state env c h" using all by (intro update_first_none) simp
    ultimately show ?thesis unfolding same by (simp add: rollout_step_def)
  next
    case (Some n)
    with assms(3) have st: "store_step env c n ?img None h h'" by (simp add: worked_def)
    have n: "?f h' n = Runs ?img" using st by (auto simp: store_step_def node_state_of_def)
    have o: "?f h' m = ?f h m" if "m \<in> set ?nodes" "m \<noteq> n" for m
      by (simp add: store_step_others [OF lt pick_spec_in [OF Some] that st])
    note upd = update_first_map [where f = "?f h" and g = "?f h'" and xs = ?nodes, OF _ dist n o]
    show ?thesis
      using Some pick upd [of "\<lambda>x. x = Upgrading"] upd [of "\<lambda>x. x = Absent"] upd [of "\<lambda>x. x \<noteq> Runs ?img"]
      unfolding rollout_state_def [of env c h'] by (auto simp: rollout_step_def Let_def rollout_state_def [of env c h] split: if_split_asm)
  qed
qed

text \<open>C3. A reconcile refines the abstract rollout.  Against an API server that keeps what it is given, with healthy gates and lower-case tags, a reconcile does to the
  states of the nodes (absent, running an image, being upgraded) exactly one step of the abstract machine.\<close>

theorem Reconcile_refines:
  assumes "rollout_env env c" "e_GetCluster env h ns name = Inr c" "images_known env c h"
  shows "\<exists>res r' h'. Reconcile main_reconciler env ns name h = Some (res, r', h') \<and>
    rollout_state env c h' = rollout_step (s_Image (Spec c)) (rollout_state env c h)"
  using Reconcile_works [OF assms] worked_refines [OF assms(1,3)] by blast

subsection \<open>A store\<close>

text \<open>A concrete API server: the StatefulSets are what the writes so far have left of a first store, in which node \<open>a\<close> is missing and node
  \<open>b\<close> runs the image \<open>old\<close>.\<close>

definition merge_annotations :: "gomap \<Rightarrow> gomap \<Rightarrow> gomap \<Rightarrow> gomap" where
  "merge_annotations new old live = (\<lambda>k. if new k = old k then live k else new k)"

fun serve :: "(string \<times> string \<rightharpoonup> StatefulSet) \<Rightarrow> request \<Rightarrow> (string \<times> string \<rightharpoonup> StatefulSet)" where
  "serve st (Apply (ObjStatefulSet d) fo) =
     (let key = (om_Namespace (sts_Meta d), om_Name (sts_Meta d));
          before = (case st key of Some s \<Rightarrow> om_Annotations (sts_Meta s) | None \<Rightarrow> Map.empty)
      in st(key \<mapsto> d\<lparr>sts_Meta := (sts_Meta d)\<lparr>om_Annotations := before ++ om_Annotations (sts_Meta d)\<rparr>\<rparr>))"
| "serve st (PatchStatefulSet new old) =
     (let key = (om_Namespace (sts_Meta new), om_Name (sts_Meta new))
      in case st key of Some s \<Rightarrow> st(key \<mapsto> s\<lparr>sts_Meta := (sts_Meta s)\<lparr>om_Annotations := merge_annotations
           (om_Annotations (sts_Meta new)) (om_Annotations (sts_Meta old)) (om_Annotations (sts_Meta s))\<rparr>\<rparr>) | None \<Rightarrow> st)"
| "serve st e = st"

definition first_store :: "string \<times> string \<rightharpoonup> StatefulSet" where
  "first_store = [(''ravendb'', ''ravendb-b'') \<mapsto> named_sts ''ravendb'' ''ravendb-b'']"

definition store_env :: Env where
  "store_env = (reconcile_env (sample_cluster ''new''))\<lparr>e_GetStatefulSet := \<lambda>h ns name.
     case foldl serve first_store h (ns, name) of Some s \<Rightarrow> Inr s | None \<Rightarrow> Inl (NotFound name)\<rparr>"

lemma stored_named: "foldl serve first_store h (ns, name) = Some s \<Longrightarrow> om_Name (sts_Meta s) = name \<and> om_Namespace (sts_Meta s) = ns"
proof (induction h arbitrary: ns name s rule: rev_induct)
  case Nil
  then show ?case by (auto simp: first_store_def named_sts_def new_meta_def split: if_splits)
next
  case (snoc e h)
  then show ?case by (cases "(foldl serve first_store h, e)" rule: serve.cases) (auto simp: Let_def split: if_splits option.splits)
qed

lemma serve_reads: "\<not> writes_sts e \<Longrightarrow> serve st e = st"
  by (cases "(st, e)" rule: serve.cases) (auto simp: writes_sts_def)

lemma store_env_api: "api_server store_env"
  unfolding api_server_def
proof (intro conjI allI impI)
  fix h d fo ns nm
  show "if ns = om_Namespace (sts_Meta d) \<and> nm = om_Name (sts_Meta d)
      then (\<exists>s. e_GetStatefulSet store_env (h @ [Apply (ObjStatefulSet d) fo]) ns nm = Inr s \<and> currentStsImage s = currentStsImage d \<and>
              (mark_of d \<noteq> None \<or> \<not> in_flight (e_GetStatefulSet store_env h ns nm) \<longrightarrow> mark_of s = mark_of d))
      else e_GetStatefulSet store_env (h @ [Apply (ObjStatefulSet d) fo]) ns nm = e_GetStatefulSet store_env h ns nm"
    by (auto simp: store_env_def Let_def in_flight_def map_add_def split: option.splits)
next
  fix h new old ns nm
  show "if ns = om_Namespace (sts_Meta new) \<and> nm = om_Name (sts_Meta new)
      then (case e_GetStatefulSet store_env h ns nm of
              Inr s \<Rightarrow> (\<exists>s'. e_GetStatefulSet store_env (h @ [PatchStatefulSet new old]) ns nm = Inr s' \<and>
                 (currentStsImage new = currentStsImage old \<longrightarrow> currentStsImage s' = currentStsImage s) \<and>
                 mark_of s' = (if mark_of new = mark_of old then mark_of s else mark_of new))
            | Inl e \<Rightarrow> e_GetStatefulSet store_env (h @ [PatchStatefulSet new old]) ns nm = Inl e)
      else e_GetStatefulSet store_env (h @ [PatchStatefulSet new old]) ns nm = e_GetStatefulSet store_env h ns nm"
    by (auto simp: store_env_def Let_def merge_annotations_def split: option.splits)
qed (simp add: store_env_def serve_reads)

lemma store_env_gates:
  "\<exists>cl hb. BuildHTTPSClientFromCluster store_env (sample_cluster ''new'') h = Some (Inr cl, hb) \<and>
     (\<forall>n \<in> set (s_Nodes (Spec (sample_cluster ''new''))). healthy_gates store_env (NewChecks (Some cl) (sample_cluster ''new'')) (n_Tag n))"
proof -
  note env = store_env_def reconcile_env_def upgrade_env_def sample_env_def
  have "healthy_gates store_env (NewChecks (Some cl) (sample_cluster ''new'')) (n_Tag n)" if "n \<in> set (s_Nodes (Spec (sample_cluster ''new'')))" for cl n
  proof -
    let ?g = "NewChecks (Some cl) (sample_cluster ''new'')"
    have base: "baseURL ?g \<noteq> ''''" and url: "strings_TrimSpace (urlForTag ?g ''a'') \<noteq> ''''" "strings_TrimSpace (urlForTag ?g ''b'') \<noteq> ''''"
      by (simp_all add: NewChecks_def urlForTag_def sample_defs, code_simp+)
    moreover from that have "n_Tag n = ''a'' \<or> n_Tag n = ''b''" by (auto simp: sample_defs)
    ultimately show ?thesis
      by (auto simp: healthy_gates_def env NodeAlive_def ClusterConnectivity_def DatabasesOnline_def clusterURL_def join_def
          httpGET_def http_get_def Let_def summarizeError_blank)
  qed
  moreover have "\<exists>cl hb. BuildHTTPSClientFromCluster store_env (sample_cluster ''new'') h = Some (Inr cl, hb)"
    by (simp add: BuildHTTPSClientFromCluster_def needsCA_def sample_defs loadClientPair_def pfxToTLSCert_def get_secret_def
        env sample_secret_def clientPFXKey_def clientPwdKey_def)
  ultimately show ?thesis by blast
qed

lemma store_env_rollout: "rollout_env store_env (sample_cluster ''new'')"
proof -
  have "owner_ref_ok store_env" "clock_ok store_env" using reconcile_env_ok [of "sample_cluster ''new''"]
    by (simp_all add: store_env_def owner_ref_ok_def clock_ok_def)
  moreover have "names_ok store_env" by (auto simp: names_ok_def store_env_def dest: stored_named split: option.splits)
  moreover have "requests_succeed store_env"
    by (auto simp: requests_succeed_def store_env_def reconcile_env_def upgrade_env_def sample_env_def split: option.splits)
  moreover have "reconcilable (e_parseQuantity store_env) (sample_cluster ''new'')"
    using sample_reconcilable [of "sample_cluster ''new''"] by (simp add: store_env_def)
  moreover have "lower_tags (sample_cluster ''new'')"
    using upgrade_env_pick(4) by (simp add: lower_tags_def sample_defs strings_ToLower_def lower_char_def is_upper_def)
  moreover have "s_Image (Spec (sample_cluster ''new'')) \<noteq> ''''" by (simp add: sample_defs)
  ultimately show ?thesis unfolding rollout_env_def using store_env_api store_env_gates by blast
qed

lemma store_env_cluster: "\<forall>h. \<exists>st. e_GetCluster store_env h ns name = Inr ((sample_cluster ''new'')\<lparr>Status := st\<rparr>)"
  by (auto simp: store_env_def reconcile_env_def intro: exI [of _ "Status (sample_cluster ''new'')"])

lemma store_env_images: "images_known store_env (sample_cluster ''new'') []"
  by (auto simp: images_known_def store_env_def first_store_def named_sts_image split: if_splits option.splits)

theorem rollout_converges_witness:
  "\<exists>r' h'. reconcile_loop main_reconciler store_env ''ravendb'' ''x'' 2 [] = Some (r', h') \<and>
     (\<forall>n \<in> {sample_node ''a'', sample_node ''b''}. \<exists>s. sts_of store_env (sample_cluster ''new'') h' n = Inr s \<and>
        currentStsImage s = ''new'' \<and> mark_of s = None)"
  using rollout_converges [OF store_env_rollout store_env_cluster store_env_images, of "''ravendb''" "''x''" 2]
  by (auto simp: sample_cluster_def sample_spec_def)

theorem Reconcile_refines_witness:
  "\<exists>res r' h'. Reconcile main_reconciler store_env ''ravendb'' ''x'' [] = Some (res, r', h') \<and>
     rollout_state store_env (sample_cluster ''new'') h' = [Runs ''new'', Runs ''old'']"
proof -
  have got: "e_GetCluster store_env [] ''ravendb'' ''x'' = Inr (sample_cluster ''new'')" by (simp add: store_env_def reconcile_env_def)
  have "statefulSetName ''a'' = ''ravendb-a''" "statefulSetName ''b'' = ''ravendb-b''" by code_simp+
  then have "rollout_state store_env (sample_cluster ''new'') [] = [Absent, Runs ''old'']"
    by (simp add: rollout_state_def node_state_of_def store_env_def first_store_def named_sts_image sample_defs)
      (simp add: named_sts_def new_meta_def)
  with Reconcile_refines [OF store_env_rollout got store_env_images] show ?thesis
    by (simp add: rollout_step_def sample_cluster_def sample_spec_def)
qed

end
