(* ===== verification/Exclusion.thy ===== *)
theory Exclusion
  imports RolloutMachine
begin

text \<open>
  Mutual exclusion of upgrades.  Whatever fails on the way (writes, gates, the removal of a mark), at no moment are two nodes of the cluster
  marked for an upgrade: a reconcile that finds a mark works on that node only, and the upgrader marks a node only if it found no mark.
\<close>

subsection \<open>What is asked of the API server\<close>

definition writes_to :: "string \<Rightarrow> string \<Rightarrow> request \<Rightarrow> bool" where
  "writes_to ns nm e \<longleftrightarrow>
     (case e of
        Apply obj fo \<Rightarrow> type_name obj = ''*v1.StatefulSet'' \<and> om_Namespace (obj_meta obj) = ns \<and> om_Name (obj_meta obj) = nm
      | PatchStatefulSet new old \<Rightarrow> om_Namespace (sts_Meta new) = ns \<and> om_Name (sts_Meta new) = nm
      | _ \<Rightarrow> False)"

text \<open>What is read of a StatefulSet changes only if this StatefulSet is written.  Nothing is said about the effect of a write.\<close>

definition sts_frame :: "Env \<Rightarrow> bool" where
  "sts_frame env \<longleftrightarrow> (\<forall>h e ns nm. \<not> writes_to ns nm e \<longrightarrow> e_GetStatefulSet env (h @ [e]) ns nm = e_GetStatefulSet env h ns nm)"

lemma sts_frame_extends:
  assumes "sts_frame env" "extends (\<lambda>e. \<not> writes_to ns nm e) h h'"
  shows "e_GetStatefulSet env h' ns nm = e_GetStatefulSet env h ns nm"
proof -
  from assms(2) obtain es where "h' = h @ es" "list_all (\<lambda>e. \<not> writes_to ns nm e) es" by (auto simp: extends_def)
  moreover have "e_GetStatefulSet env (h @ es) ns nm = e_GetStatefulSet env h ns nm" if "list_all (\<lambda>e. \<not> writes_to ns nm e) es" for es
    using that
  proof (induction es rule: rev_induct)
    case (snoc e es)
    from snoc.prems have "\<not> writes_to ns nm e" by simp
    with assms(1) have "e_GetStatefulSet env ((h @ es) @ [e]) ns nm = e_GetStatefulSet env (h @ es) ns nm" unfolding sts_frame_def by blast
    with snoc show ?case by simp
  qed simp
  ultimately show ?thesis by simp
qed

text \<open>The server of the rollout is such a server.\<close>

lemma api_server_frame: "api_server env \<Longrightarrow> sts_frame env"
proof (unfold sts_frame_def, intro allI impI)
  fix h e ns nm
  assume api: "api_server env" and w: "\<not> writes_to ns nm e"
  show "e_GetStatefulSet env (h @ [e]) ns nm = e_GetStatefulSet env h ns nm"
  proof (cases "writes_sts e")
    case False
    with api show ?thesis by (rule api_quiet)
  next
    case True
    then consider d fo where "e = Apply (ObjStatefulSet d) fo" | new old where "e = PatchStatefulSet new old"
      by (cases e; (cases "case e of Apply obj fo \<Rightarrow> obj | _ \<Rightarrow> undefined")?) (auto simp: writes_sts_def)
    then show ?thesis
    proof cases
      case 1
      with w have "\<not> (ns = om_Namespace (sts_Meta d) \<and> nm = om_Name (sts_Meta d))" by (auto simp: writes_to_def)
      with api show ?thesis unfolding api_server_def 1 by (metis (lifting))
    next
      case 2
      with w have "\<not> (ns = om_Namespace (sts_Meta new) \<and> nm = om_Name (sts_Meta new))" by (auto simp: writes_to_def)
      with api show ?thesis unfolding api_server_def 2 by (metis (lifting))
    qed
  qed
qed

subsection \<open>The marked nodes\<close>

definition marked :: "Env \<Rightarrow> string \<Rightarrow> RavenDBNode list \<Rightarrow> history \<Rightarrow> RavenDBNode list" where
  "marked env ns nodes h = filter (\<lambda>n. in_flight (e_GetStatefulSet env h ns (statefulSetName (n_Tag n)))) nodes"

lemma ToLower_idem: "strings_ToLower (strings_ToLower s) = strings_ToLower s"
  by (simp add: strings_ToLower_def lower_char_def is_upper_def)

lemma node_change_others:
  assumes "tags_ok c" "n \<in> set (s_Nodes (Spec c))" "m \<in> set (s_Nodes (Spec c))" "m \<noteq> n" "node_level e \<longrightarrow> node_change c (n_Tag n) e"
  shows "\<not> writes_to (Namespace c) (statefulSetName (n_Tag m)) e"
proof -
  have "strings_ToLower (n_Tag m) \<noteq> strings_ToLower (n_Tag n)" using assms(1-4) by (auto simp: tags_ok_def distinct_map inj_on_def)
  moreover from this have "n_Tag n \<noteq> strings_ToLower (n_Tag m)" using ToLower_idem by metis
  ultimately show ?thesis
    using assms(5) by (auto simp: writes_to_def node_level_def node_change_def statefulSetName_def split: request.splits)
qed

lemma others_kept:
  assumes "sts_frame env" "tags_ok c" "n \<in> set (s_Nodes (Spec c))" "m \<in> set (s_Nodes (Spec c))" "m \<noteq> n"
    and "extends (\<lambda>e. node_level e \<longrightarrow> node_change c (n_Tag n) e) h h'"
  shows "sts_of env c h' m = sts_of env c h m"
  by (rule sts_frame_extends [OF assms(1) extends_mono [OF assms(6)]]) (rule node_change_others [OF assms(2-5)])

lemma quiet_kept:
  assumes "sts_frame env" "extends (\<lambda>e. \<not> node_level e) h h'"
  shows "e_GetStatefulSet env h' ns nm = e_GetStatefulSet env h ns nm"
  by (rule sts_frame_extends [OF assms(1) extends_mono [OF assms(2)]]) (auto simp: writes_to_def node_level_def split: request.splits)

lemma extends_part: "extends Q h h' \<Longrightarrow> prefix h x \<Longrightarrow> prefix x h' \<Longrightarrow> extends Q h x"
  by (auto simp: extends_def prefix_def)

text \<open>A tick changes nothing, or only the node that the selection picks on what is read at its beginning.\<close>

lemma run_picked:
  assumes "sts_frame env" "names_ok env" "tags_ok c"
    and act: "\<forall>n h e h'. act n h = Some (e, h') \<longrightarrow> extends (node_change c (n_Tag n)) h h'"
    and "Run (operator_upgrader t) env c act h = Some (r, h')"
  shows "reads_only h h' \<or>
    (\<exists>n. pick_spec (\<lambda>nm. e_GetStatefulSet env h (Namespace c) nm) (s_Image (Spec c)) (s_Nodes (Spec c)) = Some n \<and> extends (node_change c (n_Tag n)) h h')"
proof -
  let ?live = "\<lambda>nm. e_GetStatefulSet env h (Namespace c) nm" and ?img = "s_Image (Spec c)" and ?nodes = "s_Nodes (Spec c)"
  obtain sts err where "Run (operator_upgrader t) env c act h = Some ((sts, err), h')" using assms(5) by (cases r) simp
  then show ?thesis
  proof (cases rule: Run_cases)
    case nogates
    then show ?thesis by (auto dest: buildGatesDefault_reads)
  next
    case idle
    then show ?thesis using buildGatesDefault_reads is_get_reads [OF pick_gets] by (blast intro: extends_trans)
  next
    case (tick g h1 h2 tag sts')
    have rb: "reads_only h h1" by (rule buildGatesDefault_reads [OF tick(1)])
    have r: "reads_only h h2" by (rule extends_trans [OF rb is_get_reads [OF pick_gets [OF tick(2)]]])
    have "view_of env (Namespace c) h1 ?live"
      unfolding view_of_def using quiet_kept [OF assms(1) extends_mono [OF extends_trans [OF rb is_get_reads]]] quiet_levels by blast
    from pick_view [OF this tags_ok_trimmed [OF assms(3)], of ?img] tick(2,3) obtain n where
      n: "pick_spec ?live ?img ?nodes = Some n" "tag = node_tag n" by (auto split: option.splits)
    have "m = n" if "m \<in> set ?nodes" "strings_EqualFold (n_Tag m) tag" for m
      using EqualFold_node_tag [OF assms(3) that(1) pick_spec_in [OF n(1)]] that(2) n(2) by simp
    then have "extends (node_change c (n_Tag n)) h2 h'"
      by (intro run_loop_extends [OF _ tick(4)]) (use node_change_allows [OF assms(2)] act in auto)
    with n(1) allows_reads [OF node_change_allows [OF assms(2)] r] show ?thesis by (blast intro: extends_trans)
  qed
qed

text \<open>If at most one node is marked and the selection picks a node, no other node is marked.\<close>

lemma pick_exclusive:
  assumes "pick_spec (\<lambda>nm. e_GetStatefulSet env h ns nm) img nodes = Some n" "length (marked env ns nodes h) \<le> 1"
  shows "set (marked env ns nodes h) \<subseteq> {n}"
proof (cases "find (\<lambda>n. in_flight (e_GetStatefulSet env h ns (statefulSetName (n_Tag n)))) nodes")
  case None
  then show ?thesis by (auto simp: marked_def find_None_iff)
next
  case (Some m)
  with assms(1) have "n \<in> set (marked env ns nodes h)" by (auto simp: pick_spec_def Let_def marked_def find_Some_iff)
  with assms(2) show ?thesis by (cases "marked env ns nodes h") auto
qed

lemma marked_subset:
  assumes "set (marked env ns nodes h) \<subseteq> {n}" "distinct nodes"
  shows "length (marked env ns nodes h) \<le> 1"
proof -
  have "distinct (marked env ns nodes h)" using assms(2) by (simp add: marked_def)
  then have "length (marked env ns nodes h) = card (set (marked env ns nodes h))" by (simp add: distinct_card)
  also have "\<dots> \<le> card {n}" by (rule card_mono [OF _ assms(1)]) simp
  finally show ?thesis by simp
qed

text \<open>What a reconcile writes of the nodes: nothing, or what belongs to the node that is picked.\<close>

lemma reconcile_picked:
  assumes "sts_frame env" "owner_ref_ok env" "names_ok env" "e_GetCluster env h ns name = Inr c" "tags_ok c"
    and "Reconcile main_reconciler env ns name h = Some (r, r', h')"
  shows "extends (\<lambda>e. \<not> node_level e) h h' \<or>
    (\<exists>n. pick_spec (\<lambda>nm. e_GetStatefulSet env h (Namespace c) nm) (s_Image (Spec c)) (s_Nodes (Spec c)) = Some n \<and>
       extends (\<lambda>e. node_level e \<longrightarrow> node_change c (n_Tag n) e) h h')"
  using assms(6,4)
proof (cases rule: Reconcile_split)
  case (tick h1 out h2)
  let ?Q = "\<lambda>n e. node_level e \<longrightarrow> node_change c (n_Tag n) e"
  have q: "extends (?Q n) x y" if "no_node x y" for n x y by (rule extends_mono [OF that]) simp
  have live: "(\<lambda>nm. e_GetStatefulSet env h1 (Namespace c) nm) = (\<lambda>nm. e_GetStatefulSet env h (Namespace c) nm)"
    using quiet_kept [OF assms(1) tick(1)] by blast
  have "\<forall>n h e h'. applyNode (timed_reconciler c) env c n h = Some (e, h') \<longrightarrow> extends (node_change c (n_Tag n)) h h'"
    using applyNode_extends [OF assms(2)] node_request_imp(1) by blast
  from run_picked [OF assms(1,3,5) this tick(2), unfolded live] show ?thesis
  proof (elim disjE exE conjE)
    assume "reads_only h1 h2"
    from extends_trans [OF extends_trans [OF tick(1) quiet_no_node [OF this]] tick(3)] show ?thesis ..
  next
    fix n
    assume p: "pick_spec (\<lambda>nm. e_GetStatefulSet env h (Namespace c) nm) (s_Image (Spec c)) (s_Nodes (Spec c)) = Some n"
      and "extends (node_change c (n_Tag n)) h1 h2"
    then have "extends (?Q n) h1 h2" by (elim extends_mono) simp
    from extends_trans [OF extends_trans [OF q [OF tick(1)] this] q [OF tick(3)]] p show ?thesis by blast
  qed
qed simp

lemma reconcile_exclusive:
  assumes "sts_frame env" "owner_ref_ok env" "names_ok env" "e_GetCluster env h ns name = Inr c" "tags_ok c"
    and "Reconcile main_reconciler env ns name h = Some (r, r', h')" "length (marked env (Namespace c) (s_Nodes (Spec c)) h) \<le> 1"
    and "prefix h x" "prefix x h'"
  shows "length (marked env (Namespace c) (s_Nodes (Spec c)) x) \<le> 1"
  using reconcile_picked [OF assms(1-6)]
proof (elim disjE exE conjE)
  assume "extends (\<lambda>e. \<not> node_level e) h h'"
  from quiet_kept [OF assms(1) extends_part [OF this assms(8,9)]] assms(7) show ?thesis by (simp add: marked_def)
next
  fix n
  let ?nodes = "s_Nodes (Spec c)"
  assume p: "pick_spec (\<lambda>nm. e_GetStatefulSet env h (Namespace c) nm) (s_Image (Spec c)) ?nodes = Some n"
    and e: "extends (\<lambda>e. node_level e \<longrightarrow> node_change c (n_Tag n) e) h h'"
  note kept = others_kept [OF assms(1,5) pick_spec_in [OF p] _ _ extends_part [OF e assms(8,9)]]
  have "set (marked env (Namespace c) ?nodes x) \<subseteq> {n}"
    using pick_exclusive [OF p assms(7)] kept by (auto simp: marked_def)
  then show ?thesis by (rule marked_subset) (use assms(5) in \<open>simp add: tags_ok_def distinct_map\<close>)
qed

subsection \<open>At no moment two\<close>

text \<open>\<open>operator_run env ns name h0 h\<close>: from \<open>h0\<close> the operator gets to \<open>h\<close> by reconciles, each of which may be cut short after any of its
  requests, as when the process is killed; a new process begins with a new reconciler.\<close>

inductive operator_run :: "Env \<Rightarrow> string \<Rightarrow> string \<Rightarrow> history \<Rightarrow> history \<Rightarrow> bool" for env ns name h0 where
  start: "operator_run env ns name h0 h0"
| reconcile: "operator_run env ns name h0 h \<Longrightarrow> Reconcile main_reconciler env ns name h = Some (r, r', h') \<Longrightarrow>
    prefix h x \<Longrightarrow> prefix x h' \<Longrightarrow> operator_run env ns name h0 x"

lemma run_exclusive:
  assumes "sts_frame env" "owner_ref_ok env" "names_ok env"
    and got: "\<forall>h c. e_GetCluster env h ns name = Inr c \<longrightarrow> Namespace c = ns \<and> s_Nodes (Spec c) = nodes \<and> tags_ok c"
    and "operator_run env ns name h0 h" "length (marked env ns nodes h0) \<le> 1"
  shows "length (marked env ns nodes h) \<le> 1"
  using assms(5,6)
proof (induction rule: operator_run.induct)
  case (reconcile h r r' h' x)
  show ?case
  proof (cases "e_GetCluster env h ns name")
    case (Inr c)
    with got have c: "Namespace c = ns" "s_Nodes (Spec c) = nodes" "tags_ok c" by blast+
    from reconcile_exclusive [OF assms(1-3) Inr c(3) reconcile.hyps(2) _ reconcile.hyps(3,4)] reconcile.IH reconcile.prems show ?thesis by (simp add: c)
  next
    case (Inl e)
    with reconcile.hyps(2) have "no_node h h'" by (auto simp: Reconcile_def get_cluster_def extends_def node_level_def)
    from quiet_kept [OF assms(1) extends_part [OF this reconcile.hyps(3,4)]] reconcile.IH reconcile.prems show ?thesis by (simp add: marked_def)
  qed
qed

text \<open>The loop that never is cut short is such a run.\<close>

lemma Reconcile_prefix: "Reconcile main_reconciler env ns name h = Some (r, r', h') \<Longrightarrow> owner_ref_ok env \<Longrightarrow> prefix h h'"
  by (rule extends_prefix [OF Reconcile_extends [where Q = "\<lambda>_. True"]]) simp_all

lemma reconcile_loop_run:
  assumes "reconcile_loop r env ns name k h = Some (r', h')" "operational r" "owner_ref_ok env" "operator_run env ns name h0 h"
  shows "operator_run env ns name h0 h'"
  using assms(1,2,4)
proof (induction k arbitrary: r h)
  case (Suc k)
  from Suc.prems(1) obtain res r1 h1 where
    r: "Reconcile r env ns name h = Some (res, r1, h1)" and l: "reconcile_loop r1 env ns name k h1 = Some (r', h')"
    by (auto split: Option.bind_split_asm)
  from operational_main [OF Suc.prems(2) r] obtain r2 where m: "Reconcile main_reconciler env ns name h = Some (res, r2, h1)" and op: "operational r1" by blast
  have "operator_run env ns name h0 h1" by (rule operator_run.reconcile [OF Suc.prems(3) m Reconcile_prefix [OF m assms(3)]]) simp
  with Suc.IH [OF l op] show ?case .
qed simp

text \<open>C1. At no moment are two nodes marked for an upgrade.  Whatever the writes and the gates answer, whenever the process is killed and started again, and
  however the specification changes as long as the nodes stay: if at most one node is marked at first, at most one is ever after.  (What is read
  of a StatefulSet changes only if this StatefulSet is written.)\<close>

theorem one_upgrade_at_a_time:
  assumes "sts_frame env" "owner_ref_ok env" "names_ok env"
    and "\<forall>h c. e_GetCluster env h ns name = Inr c \<longrightarrow> Namespace c = ns \<and> s_Nodes (Spec c) = nodes \<and> tags_ok c"
    and "operator_run env ns name h0 h" "length (marked env ns nodes h0) \<le> 1"
  shows "length (marked env ns nodes h) \<le> 1"
  using assms by (rule run_exclusive)

theorem one_upgrade_at_a_time_witness:
  "\<exists>r' h'. reconcile_loop main_reconciler store_env ''ravendb'' ''x'' 2 [] = Some (r', h') \<and>
     length (marked store_env ''ravendb'' [sample_node ''a'', sample_node ''b''] h') \<le> 1"
proof -
  let ?c = "sample_cluster ''new''"
  have got: "\<forall>h c. e_GetCluster store_env h ''ravendb'' ''x'' = Inr c \<longrightarrow>
      Namespace c = ''ravendb'' \<and> s_Nodes (Spec c) = [sample_node ''a'', sample_node ''b''] \<and> tags_ok c"
    using upgrade_env_pick(4) by (auto simp: store_env_def reconcile_env_def) (simp_all add: sample_cluster_def sample_spec_def)
  have ok: "owner_ref_ok store_env" "names_ok store_env" using store_env_rollout by (simp_all add: rollout_env_def)
  have none: "length (marked store_env ''ravendb'' [sample_node ''a'', sample_node ''b''] []) \<le> 1"
    by (simp add: marked_def store_env_def first_store_def in_flight_def named_sts_def new_meta_def split: option.splits)
  have "\<exists>r' h'. reconcile_loop main_reconciler store_env ''ravendb'' ''x'' 2 [] = Some (r', h')"
    using rollout_steps [OF store_env_rollout store_env_cluster store_env_images main_operational, where k = 2] by blast
  then obtain r' h' where r: "reconcile_loop main_reconciler store_env ''ravendb'' ''x'' 2 [] = Some (r', h')" by blast
  have "operator_run store_env ''ravendb'' ''x'' [] h'" by (rule reconcile_loop_run [OF r main_operational ok(1) operator_run.start])
  from one_upgrade_at_a_time [OF api_server_frame [OF store_env_api] ok got this none] r show ?thesis by blast
qed

end
