(* ===== verification/Recovery.thy ===== *)
theory Recovery
  imports Exclusion
begin

text \<open>
  Recovery.  The process may be killed between any two of its requests and started again, any number of times.  What the rollout needs of
  the store, that every StatefulSet names an image, is kept by every single request, so that the rollout converges from wherever the
  process was killed.
\<close>

subsection \<open>Invariants of every point of a run\<close>

definition keeps :: "(history \<Rightarrow> bool) \<Rightarrow> history \<Rightarrow> history \<Rightarrow> bool" where
  "keeps P h h' \<longleftrightarrow> prefix h h' \<and> (P h \<longrightarrow> (\<forall>x. prefix h x \<longrightarrow> prefix x h' \<longrightarrow> P x))"

lemma keeps_trans: "keeps P h h1 \<Longrightarrow> keeps P h1 h2 \<Longrightarrow> keeps P h h2"
  unfolding keeps_def by (metis prefix_order.trans prefix_same_cases prefix_order.refl)

lemma keeps_snoc: "(P h \<Longrightarrow> P (h @ [e])) \<Longrightarrow> keeps P h (h @ [e])"
  by (auto simp: keeps_def dest: prefix_order.antisym)

lemma keeps_last: "keeps P h h1 \<Longrightarrow> (P h \<Longrightarrow> P (h1 @ [e])) \<Longrightarrow> keeps P h (h1 @ [e])"
  by (auto simp: keeps_def)

lemma keeps_extends:
  assumes "\<forall>h e. P h \<longrightarrow> Q e \<longrightarrow> P (h @ [e])" "extends Q h h'"
  shows "keeps P h h'"
proof -
  from assms(2) obtain es where "h' = h @ es" "list_all Q es" by (auto simp: extends_def)
  moreover have "keeps P h (h @ es)" if "list_all Q es" for es
    using that
  proof (induction es rule: rev_induct)
    case Nil
    then show ?case by (auto simp: keeps_def dest: prefix_order.antisym)
  next
    case (snoc e es)
    from snoc.prems assms(1) have "P (h @ es) \<Longrightarrow> P ((h @ es) @ [e])" by (simp del: append_assoc)
    then have "keeps P (h @ es) ((h @ es) @ [e])" by (rule keeps_snoc)
    with snoc show ?case using keeps_trans [of P h "h @ es"] by simp
  qed
  ultimately show ?thesis by simp
qed

text \<open>An invariant of the requests that change nothing, of the annotations and of the callback is one of the tick.\<close>

lemma run_node_keeps:
  assumes step: "\<forall>h e. P h \<longrightarrow> Q e \<longrightarrow> P (h @ [e])" and Q: "allows Q env c (n_Tag n)"
    and act: "\<And>h e h'. act n h = Some (e, h') \<Longrightarrow> keeps P h h'"
    and "run_node (operator_upgrader t) env c act g img prev n h = Some (r, h')"
  shows "keeps P h h'"
proof -
  note k = keeps_extends [OF step]
  from assms(4) show ?thesis
  proof (cases rule: run_node_cases)
    case stop
    with k [OF allows_reads [OF Q gets_reads(1)]] show ?thesis by simp
  next
    case early
    from k [OF extends_trans [OF allows_reads [OF Q gets_reads(2)] before_apply_extends [OF Q early]]] show ?thesis .
  next
    case full
    from keeps_trans [OF k [OF extends_trans [OF allows_reads [OF Q gets_reads(2)] before_apply_extends [OF Q full(1)]]]
        keeps_trans [OF act [OF full(2)] k [OF after_apply_extends [OF Q full(3)]]]] show ?thesis .
  qed
qed

lemma Run_keeps:
  assumes step: "\<forall>h e. P h \<longrightarrow> Q e \<longrightarrow> P (h @ [e])" and Q: "\<And>e. \<not> mutating e \<Longrightarrow> Q e" "\<And>n. n \<in> set (s_Nodes (Spec c)) \<Longrightarrow> allows Q env c (n_Tag n)"
    and act: "\<And>n h e h'. n \<in> set (s_Nodes (Spec c)) \<Longrightarrow> act n h = Some (e, h') \<Longrightarrow> keeps P h h'"
    and "Run (operator_upgrader t) env c act h = Some (r, h')"
  shows "keeps P h h'"
  using assms(5)
proof (rule Run_lift)
  show "keeps P x y" if "reads_only x y" for x y by (rule keeps_extends [OF step extends_mono [OF that]]) (simp add: Q(1))
  show "keeps P x z" if "keeps P x y" "keeps P y z" for x y z using that by (rule keeps_trans)
  fix cl n x s y
  assume n: "n \<in> set (s_Nodes (Spec c))"
    and run: "run_node (operator_upgrader t) env c act (NewChecks (Some cl) c) (s_Image (Spec c)) (buildPrevStatusMap (Status c)) n x = Some (s, y)"
  have "keeps P x y" by (rule run_node_keeps [OF step Q(2) [OF n] act [OF n] run])
  then show "keeps P x y \<and> prefix x y" by (simp add: keeps_def)
qed

subsection \<open>Every StatefulSet names an image\<close>

definition quiet_image :: "request \<Rightarrow> bool" where
  "quiet_image e \<longleftrightarrow>
     (case e of
        Apply obj fo \<Rightarrow> type_name obj \<noteq> ''*v1.StatefulSet''
      | PatchStatefulSet new old \<Rightarrow> currentStsImage new = currentStsImage old
      | _ \<Rightarrow> True)"

lemma known_quiet:
  assumes "api_server env" "images_known env c h" "quiet_image e"
  shows "images_known env c (h @ [e])"
proof (cases "writes_sts e")
  case False
  with assms(2) api_quiet [OF assms(1)] show ?thesis by (simp add: images_known_def)
next
  case True
  with assms(3) obtain new old where e: "e = PatchStatefulSet new old" and img: "currentStsImage new = currentStsImage old" by (auto simp: writes_sts_def quiet_image_def split: request.split_asm)
  show ?thesis
    unfolding images_known_def e
  proof (intro ballI allI impI)
    fix n s'
    assume n: "n \<in> set (s_Nodes (Spec c))" and "sts_of env c (h @ [PatchStatefulSet new old]) n = Inr s'"
    with api_patch(3) [OF assms(1) _ img] obtain s where "sts_of env c h n = Inr s" "currentStsImage s' = currentStsImage s" by metis
    with assms(2) n show "currentStsImage s' \<noteq> ''''" by (auto simp: images_known_def)
  qed
qed

lemma known_apply:
  assumes "api_server env" "images_known env c h" "currentStsImage d \<noteq> ''''"
    and "om_Namespace (sts_Meta d) = Namespace c" "om_Name (sts_Meta d) = nm"
  shows "images_known env c (h @ [Apply (ObjStatefulSet d) fo])"
  unfolding images_known_def
proof (intro ballI allI impI)
  fix n s
  assume n: "n \<in> set (s_Nodes (Spec c))" and s: "sts_of env c (h @ [Apply (ObjStatefulSet d) fo]) n = Inr s"
  show "currentStsImage s \<noteq> ''''"
  proof (cases "statefulSetName (n_Tag n) = nm")
    case True
    with api_apply(1) [OF assms(1), of h d fo] assms(3-5) s show ?thesis by auto
  next
    case False
    with api_apply(2) [OF assms(1), of "statefulSetName (n_Tag n)" d h fo "Namespace c"] assms(2,5) n s show ?thesis by (auto simp: images_known_def)
  qed
qed

lemma applyNode_known:
  assumes env: "rollout_env env c" and n: "n \<in> set (s_Nodes (Spec c))" and r: "applyNode (timed_reconciler c') env c n h = Some (e, h')"
  shows "keeps (images_known env c) h h'"
proof -
  let ?P = "images_known env c" and ?get = "GetStatefulSet (Namespace c) (statefulSetName (n_Tag n))" and ?fo = "''ravendb-operator/statefulset''"
  have ok: "api_server env" "requests_succeed env" "owner_ref_ok env" "reconcilable (e_parseQuantity env) c" "lower_tags c" "s_Image (Spec c) \<noteq> ''''"
    using env by (simp_all add: rollout_env_def)
  obtain d m obj where d: "BuildStatefulSet (e_parseQuantity env) c n = Some d" and svc: "type_name obj = ''*v1.Service''"
    and h': "h' = ((h @ [?get]) @ [Apply (ObjStatefulSet ((desired_sts (sts_of env c h n) d)\<lparr>sts_Meta := m\<rparr>)) ?fo]) @ [Apply obj ''ravendb-operator/service'']"
    and m: "om_Name m = statefulSetName (n_Tag n)" "om_Namespace m = Namespace c"
    by (rule applyNode_requests [OF ok(2-5) n, of c' h]) (use r in simp)
  have q: "quiet_image ?get" "quiet_image (Apply obj ''ravendb-operator/service'')" by (simp_all add: quiet_image_def svc)
  have "currentStsImage ((desired_sts (sts_of env c h n) d)\<lparr>sts_Meta := m\<rparr>) \<noteq> ''''" if "?P h"
  proof -
    from that n have "case sts_of env c h n of Inr s \<Rightarrow> currentStsImage s \<noteq> '''' | Inl _ \<Rightarrow> True" by (auto simp: images_known_def split: sum.splits)
    from desired_acted(1) [OF d this] this ok(6) show ?thesis by (auto simp: acted_image_def split: sum.splits)
  qed
  then have a: "?P ((h @ [?get]) @ [Apply (ObjStatefulSet ((desired_sts (sts_of env c h n) d)\<lparr>sts_Meta := m\<rparr>)) ?fo])" if "?P h"
    using that known_apply [OF ok(1) known_quiet [OF ok(1) that q(1)]] m by simp
  note k1 = keeps_snoc [of ?P h ?get, OF known_quiet [OF ok(1) _ q(1)]]
  have "keeps ?P h ((h @ [?get]) @ [Apply (ObjStatefulSet ((desired_sts (sts_of env c h n) d)\<lparr>sts_Meta := m\<rparr>)) ?fo])"
    by (rule keeps_last [OF k1 a])
  then show ?thesis unfolding h' by (rule keeps_trans) (rule keeps_snoc, rule known_quiet [OF ok(1) _ q(2)])
qed

subsection \<open>The rollout resumes\<close>

lemma reconcile_known:
  assumes env: "rollout_env env c" and got: "e_GetCluster env h ns name = Inr c" and "Reconcile main_reconciler env ns name h = Some (r, r', h')"
  shows "keeps (images_known env c) h h'"
proof -
  let ?P = "images_known env c"
  have api: "api_server env" using env by (simp add: rollout_env_def)
  have step: "\<forall>h e. ?P h \<longrightarrow> quiet_image e \<longrightarrow> ?P (h @ [e])" using known_quiet [OF api] by blast
  have quiet: "keeps ?P x y" if "no_node x y" for x y
    by (rule keeps_extends [OF step extends_mono [OF that]]) (auto simp: node_level_def quiet_image_def split: request.splits)
  from assms(3) got show ?thesis
  proof (cases rule: Reconcile_split)
    case none
    then show ?thesis by (intro quiet)
  next
    case (tick h1 out h2)
    have "keeps ?P h1 h2"
    proof (rule Run_keeps [OF step _ _ _ tick(2)])
      show q: "quiet_image e" if "\<not> mutating e" for e using that by (cases e) (auto simp: quiet_image_def)
      show "allows quiet_image env c (n_Tag n)" for n :: RavenDBNode using q by (simp add: allows_def) (simp add: quiet_image_def)
      show "keeps ?P x y" if "n \<in> set (s_Nodes (Spec c))" "applyNode (timed_reconciler c) env c n x = Some (e, y)" for n x e y
        by (rule applyNode_known [OF env that])
    qed
    with quiet [OF tick(1)] quiet [OF tick(3)] show ?thesis by (blast intro: keeps_trans)
  qed
qed

lemma operator_run_known:
  assumes "rollout_env env c" "\<forall>h. \<exists>st. e_GetCluster env h ns name = Inr (c\<lparr>Status := st\<rparr>)" "operator_run env ns name h0 h" "images_known env c h0"
  shows "images_known env c h"
  using assms(3,4)
proof (induction rule: operator_run.induct)
  case (reconcile h r r' h' x)
  obtain st where "e_GetCluster env h ns name = Inr (c\<lparr>Status := st\<rparr>)" using assms(2) by blast
  from reconcile_known [OF _ this reconcile.hyps(2)] assms(1) have "keeps (images_known env c) h h'" by (simp add: rollout_env_status worked_status)
  with reconcile.IH reconcile.prems reconcile.hyps(3,4) show ?case by (simp add: keeps_def)
qed

text \<open>C4. The operator recovers.  Wherever it was killed, and however often, once it is left to run it finishes the rollout: after as many reconciles as the
  cluster has nodes, every node runs the desired image and no mark is left.  (The API server keeps what it is given, the gates are healthy,
  the tags are in lower case and the specification stays.)\<close>

theorem rollout_recovers:
  assumes "rollout_env env c" "\<forall>h. \<exists>st. e_GetCluster env h ns name = Inr (c\<lparr>Status := st\<rparr>)" "images_known env c h0" "operator_run env ns name h0 h"
  shows "\<exists>r' h'. reconcile_loop main_reconciler env ns name (length (s_Nodes (Spec c))) h = Some (r', h') \<and>
    unsettled env c h' = [] \<and> marked env (Namespace c) (s_Nodes (Spec c)) h' = []"
proof -
  have "images_known env c h" by (rule operator_run_known [OF assms(1,2,4,3)])
  from rollout_steps [OF assms(1,2) this main_operational, of "length (s_Nodes (Spec c))"] obtain r' h' where
    r: "reconcile_loop main_reconciler env ns name (length (s_Nodes (Spec c))) h = Some (r', h')"
    and l: "length (unsettled env c h') = length (unsettled env c h) - length (s_Nodes (Spec c))" by blast
  have "length (unsettled env c h) \<le> length (s_Nodes (Spec c))" by (simp add: unsettled_def)
  with l have u: "unsettled env c h' = []" by simp
  then have "marked env (Namespace c) (s_Nodes (Spec c)) h' = []"
    by (auto simp: unsettled_def marked_def node_settled_def in_flight_def filter_empty_conv split: sum.splits)
  with r u show ?thesis by blast
qed

text \<open>A process killed after five requests.\<close>

theorem rollout_recovers_witness:
  "\<exists>r r' h' r'' h''. Reconcile main_reconciler store_env ''ravendb'' ''x'' [] = Some (r, r', h') \<and>
     reconcile_loop main_reconciler store_env ''ravendb'' ''x'' 2 (take 5 h') = Some (r'', h'') \<and> unsettled store_env (sample_cluster ''new'') h'' = []"
proof -
  have got: "e_GetCluster store_env [] ''ravendb'' ''x'' = Inr (sample_cluster ''new'')" by (simp add: store_env_def reconcile_env_def)
  from Reconcile_works [OF store_env_rollout got store_env_images] obtain r r' h' where
    r: "Reconcile main_reconciler store_env ''ravendb'' ''x'' [] = Some (r, r', h')" by auto
  have run: "operator_run store_env ''ravendb'' ''x'' [] (take 5 h')"
    by (rule operator_run.reconcile [OF operator_run.start r]) (simp_all add: take_is_prefix)
  have "length (s_Nodes (Spec (sample_cluster ''new''))) = 2" by (simp add: sample_cluster_def sample_spec_def)
  with rollout_recovers [OF store_env_rollout store_env_cluster store_env_images run] r show ?thesis by auto
qed

end
