(* ===== verification/GoFlag.thy ===== *)
theory GoFlag
  imports Prelude
begin

text \<open>
  Package \<open>flag\<close> of the Go library, as far as \<open>cmd/main.go\<close> uses it: \<open>strconv.ParseBool\<close> and
  \<open>FlagSet.Parse\<close>.  A flag set maps names to flags; a flag knows whether it is boolean (it then
  takes no separate argument) and how it sets the variables it is bound to, the state \<open>'s\<close>.
\<close>

definition strconv_ParseBool :: "string \<Rightarrow> bool option" where
  "strconv_ParseBool s =
     (if s \<in> {''1'', ''t'', ''T'', ''TRUE'', ''true'', ''True''} then Some True
      else if s \<in> {''0'', ''f'', ''F'', ''FALSE'', ''false'', ''False''} then Some False
      else None)"

record 's Flag =
  IsBoolFlag :: bool
  Set :: "string \<Rightarrow> 's \<Rightarrow> string + 's"

type_synonym 's FlagSet = "string \<Rightarrow> 's Flag option"

definition StringVar :: "((string \<Rightarrow> string) \<Rightarrow> 's \<Rightarrow> 's) \<Rightarrow> 's Flag" where
  "StringVar upd = \<lparr>IsBoolFlag = False, Set = (\<lambda>v s. Inr (upd (\<lambda>_. v) s))\<rparr>"

definition BoolVar :: "((bool \<Rightarrow> bool) \<Rightarrow> 's \<Rightarrow> 's) \<Rightarrow> 's Flag" where
  "BoolVar upd =
     \<lparr>IsBoolFlag = True,
      Set = (\<lambda>v s. case strconv_ParseBool v of Some b \<Rightarrow> Inr (upd (\<lambda>_. b) s) | None \<Rightarrow> Inl ''parse error'')\<rparr>"

datatype flag_error = ErrHelp | Failf string

text \<open>A name with its value, cut at the first equals sign after the first character.\<close>

fun cut_value :: "string \<Rightarrow> string \<times> string option" where
  "cut_value [] = ('''', None)"
| "cut_value (c # cs) =
     (if c = CHR ''='' then ('''', Some cs) else let (name, v) = cut_value cs in (c # name, v))"

definition split_flag :: "string \<Rightarrow> string \<times> string option" where
  "split_flag name = (case name of [] \<Rightarrow> ('''', None) | c # cs \<Rightarrow> let (n, v) = cut_value cs in (c # n, v))"

definition set_flag :: "'s Flag \<Rightarrow> string \<Rightarrow> string \<Rightarrow> 's \<Rightarrow> flag_error + 's" where
  "set_flag fl name v s =
     (case Set fl v s of
        Inr s' \<Rightarrow> Inr s'
      | Inl e \<Rightarrow> Inl (Failf (if IsBoolFlag fl
          then ''invalid boolean value '' @ quote v @ '' for -'' @ name @ '': '' @ e
          else ''invalid value '' @ quote v @ '' for flag -'' @ name @ '': '' @ e)))"

text \<open>\<open>FlagSet.Parse\<close>: the state after all flags and the remaining arguments, or the first error.\<close>

fun FlagSet_Parse :: "'s FlagSet \<Rightarrow> string list \<Rightarrow> 's \<Rightarrow> flag_error + ('s \<times> string list)" where
  "FlagSet_Parse formal [] st = Inr (st, [])"
| "FlagSet_Parse formal (s # args) st =
     (if length s < 2 \<or> s ! 0 \<noteq> CHR ''-'' then Inr (st, s # args)
      else if s = ''--'' then Inr (st, args)
      else
        let arg = (if s ! 1 = CHR ''-'' then drop 2 s else drop 1 s)
        in if arg = [] \<or> hd arg = CHR ''-'' \<or> hd arg = CHR ''=''
           then Inl (Failf (''bad flag syntax: '' @ s))
           else
             let (name, value) = split_flag arg
             in case formal name of
                  None \<Rightarrow>
                    Inl (if name = ''help'' \<or> name = ''h'' then ErrHelp
                         else Failf (''flag provided but not defined: -'' @ name))
                | Some fl \<Rightarrow>
                    (case (if IsBoolFlag fl then Some (case value of Some v \<Rightarrow> v | None \<Rightarrow> ''true'') else value) of
                       Some v \<Rightarrow>
                         (case set_flag fl name v st of
                            Inl e \<Rightarrow> Inl e
                          | Inr st' \<Rightarrow> FlagSet_Parse formal args st')
                     | None \<Rightarrow>
                         (case args of
                            [] \<Rightarrow> Inl (Failf (''flag needs an argument: -'' @ name))
                          | v # args' \<Rightarrow>
                              (case set_flag fl name v st of
                                 Inl e \<Rightarrow> Inl e
                               | Inr st' \<Rightarrow> FlagSet_Parse formal args' st'))))"

subsection \<open>Lemmas\<close>

lemma cut_value_eq: "CHR ''='' \<notin> set n \<Longrightarrow> cut_value (n @ CHR ''='' # v) = (n, Some v)"
  by (induction n) (auto simp: Let_def)

lemma cut_value_none: "CHR ''='' \<notin> set n \<Longrightarrow> cut_value n = (n, None)"
  by (induction n) (auto simp: Let_def)

text \<open>An argument \<open>--name=value\<close> sets the flag of that name, whatever the value contains.\<close>

lemma parse_long_flag:
  assumes "formal name = Some fl" and "name \<noteq> ''''" and "hd name \<noteq> CHR ''-''" and "CHR ''='' \<notin> set name"
    and "set_flag fl name v st = Inr st'"
  shows "FlagSet_Parse formal ((''--'' @ name @ ''='' @ v) # args) st = FlagSet_Parse formal args st'"
proof -
  obtain c cs where name: "name = c # cs" using assms(2) by (cases name) auto
  then have "split_flag (name @ ''='' @ v) = (name, Some v)" using assms(4) by (simp add: split_flag_def cut_value_eq)
  with assms show ?thesis by (auto simp: name)
qed

text \<open>An argument \<open>-name\<close> or \<open>--name\<close> of an unknown flag ends the parse.\<close>

lemma parse_unknown_flag:
  assumes "formal name = None" and "name \<noteq> ''''" and "hd name \<noteq> CHR ''-''" and "CHR ''='' \<notin> set name"
    and "name \<notin> {''help'', ''h''}"
  shows "FlagSet_Parse formal ((''--'' @ name) # args) st = Inl (Failf (''flag provided but not defined: -'' @ name))"
proof -
  obtain c cs where name: "name = c # cs" using assms(2) by (cases name) auto
  then have "split_flag name = (name, None)" using assms(4) by (simp add: split_flag_def cut_value_none)
  with assms show ?thesis by (auto simp: name)
qed

end
