(* ===== verification/Process.thy ===== *)
theory Process
  imports Webhook Recovery GoFlag
begin

text \<open>
  The process around the reconciler: the start-up of \<open>cmd/main.go\<close>, the kinds of objects the controller watches, and what a
  reconcile reports to the work queue.  The flags are parsed from the command line by package \<open>flag\<close>; the flags that zap and
  controller-runtime add to it are a parameter, and so is the manager, which answers each set-up call with an error or none.
\<close>

subsection \<open>The flags and the options of the manager\<close>

record Flags =
  metricsAddr :: string
  probeAddr :: string
  enableLeaderElection :: bool
  secureMetrics :: bool
  enableHTTP2 :: bool

definition flag_defaults :: Flags where
  "flag_defaults = \<lparr>metricsAddr = ''0'', probeAddr = '':8081'', enableLeaderElection = False, secureMetrics = True, enableHTTP2 = False\<rparr>"

text \<open>The flags of the command line.  \<open>extra\<close> are those bound by other packages: whether they are boolean, and the
  error of a value.\<close>

definition main_flags :: "(string \<Rightarrow> (bool \<times> (string \<Rightarrow> error)) option) \<Rightarrow> Flags FlagSet" where
  "main_flags extra name =
     (if name = ''metrics-bind-address'' then Some (StringVar metricsAddr_update)
      else if name = ''health-probe-bind-address'' then Some (StringVar probeAddr_update)
      else if name = ''leader-elect'' then Some (BoolVar enableLeaderElection_update)
      else if name = ''metrics-secure'' then Some (BoolVar secureMetrics_update)
      else if name = ''enable-http2'' then Some (BoolVar enableHTTP2_update)
      else map_option (\<lambda>(b, check). \<lparr>IsBoolFlag = b, Set = (\<lambda>v fl. case check v of None \<Rightarrow> Inr fl | Some e \<Rightarrow> Inl e)\<rparr>)
             (extra name))"

record tls_Config =
  NextProtos :: "string list"

definition disableHTTP2 :: "tls_Config \<Rightarrow> tls_Config" where
  "disableHTTP2 c = c\<lparr>NextProtos := [''http/1.1'']\<rparr>"

definition tlsOpts :: "Flags \<Rightarrow> (tls_Config \<Rightarrow> tls_Config) list" where
  "tlsOpts fl = (if \<not> enableHTTP2 fl then [disableHTTP2] else [])"

record webhook_Options =
  wo_TLSOpts :: "(tls_Config \<Rightarrow> tls_Config) list"

record metrics_Options =
  BindAddress :: string
  SecureServing :: bool
  mo_TLSOpts :: "(tls_Config \<Rightarrow> tls_Config) list"
  FilterProvider :: "string option"

definition metricsServerOptions :: "Flags \<Rightarrow> metrics_Options" where
  "metricsServerOptions fl =
     (let opts = \<lparr>BindAddress = metricsAddr fl, SecureServing = secureMetrics fl, mo_TLSOpts = tlsOpts fl, FilterProvider = None\<rparr>
      in if secureMetrics fl then opts\<lparr>FilterProvider := Some ''WithAuthenticationAndAuthorization''\<rparr> else opts)"

record ctrl_Options =
  Metrics :: metrics_Options
  WebhookServer :: webhook_Options
  HealthProbeBindAddress :: string
  LeaderElection :: bool
  LeaderElectionID :: string

definition manager_options :: "Flags \<Rightarrow> ctrl_Options" where
  "manager_options fl =
     \<lparr>Metrics = metricsServerOptions fl, WebhookServer = \<lparr>wo_TLSOpts = tlsOpts fl\<rparr>, HealthProbeBindAddress = probeAddr fl,
      LeaderElection = enableLeaderElection fl, LeaderElectionID = ''291d1372.ravendb.io''\<rparr>"

subsection \<open>The controller and its watches\<close>

text \<open>The kinds of owned objects whose events lead to a reconcile of their owner, as types of the API objects.\<close>

definition owned_kinds :: "string list" where
  "owned_kinds =
     [''*v1.Job'', ''*v1.StatefulSet'', ''*v1.Service'', ''*v1.Ingress'', ''*v1.Pod'', ''*v1.PersistentVolumeClaim'', ''*v1.Secret'']"

subsection \<open>The start of the process\<close>

datatype setup_call =
    GetConfigOrDie
  | NewManager ctrl_Options
  | SetupController RavenDBClusterReconciler "string list"
  | SetupWebhook "Validator list"
  | AddHealthzCheck string
  | AddReadyzCheck string
  | Start

text \<open>A call that fails is logged and ends the process with status 1.\<close>

fun run_setup :: "(setup_call \<Rightarrow> error) \<Rightarrow> (setup_call \<times> string) list \<Rightarrow> nat \<times> setup_call list \<times> string list" where
  "run_setup answer [] = (0, [], [])"
| "run_setup answer ((call, msg) # calls) =
     (case answer call of
        Some err \<Rightarrow> (1, [call], [msg @ '': '' @ err])
      | None \<Rightarrow> (let (status, made, logged) = run_setup answer calls in (status, call # made, logged)))"

definition main_calls :: "(string \<Rightarrow> string) \<Rightarrow> Flags \<Rightarrow> (setup_call \<times> string) list" where
  "main_calls getenv fl =
     [(GetConfigOrDie, ''unable to get kubeconfig''),
      (NewManager (manager_options fl), ''unable to start manager''),
      (SetupController main_reconciler owned_kinds, ''unable to create controller'')] @
     (if getenv ''ENABLE_WEBHOOKS'' \<noteq> ''false'' then [(SetupWebhook validators, ''unable to create webhook'')] else []) @
     [(AddHealthzCheck ''healthz'', ''unable to set up health check''),
      (AddReadyzCheck ''readyz'', ''unable to set up ready check''),
      (Start, ''problem running manager'')]"

definition main_process :: "(setup_call \<Rightarrow> error) \<Rightarrow> (string \<Rightarrow> string) \<Rightarrow> Flags \<Rightarrow> nat \<times> setup_call list \<times> string list" where
  "main_process answer getenv fl = run_setup answer (main_calls getenv fl)"

text \<open>\<open>flag.Parse\<close> ends the process itself: with status 0 if help was asked for, with status 2 on an error.\<close>

definition main_entry ::
  "(string \<Rightarrow> (bool \<times> (string \<Rightarrow> error)) option) \<Rightarrow> (setup_call \<Rightarrow> error) \<Rightarrow> (string \<Rightarrow> string) \<Rightarrow> string list \<Rightarrow>
   nat \<times> setup_call list \<times> string list" where
  "main_entry extra answer getenv args =
     (case FlagSet_Parse (main_flags extra) args flag_defaults of
        Inl ErrHelp \<Rightarrow> (0, [], [])
      | Inl (Failf msg) \<Rightarrow> (2, [], [msg])
      | Inr (fl, rest) \<Rightarrow> main_process answer getenv fl)"

subsection \<open>What the process does\<close>

text \<open>Every configuration can be given on the command line: printing the flags and parsing them is the identity.\<close>

definition bool_arg :: "bool \<Rightarrow> string" where
  "bool_arg b = (if b then ''true'' else ''false'')"

definition flag_args :: "Flags \<Rightarrow> string list" where
  "flag_args fl =
     [''--'' @ ''metrics-bind-address'' @ ''='' @ metricsAddr fl,
      ''--'' @ ''health-probe-bind-address'' @ ''='' @ probeAddr fl,
      ''--'' @ ''leader-elect'' @ ''='' @ bool_arg (enableLeaderElection fl),
      ''--'' @ ''metrics-secure'' @ ''='' @ bool_arg (secureMetrics fl),
      ''--'' @ ''enable-http2'' @ ''='' @ bool_arg (enableHTTP2 fl)]"

lemma set_string_flag: "set_flag (StringVar upd) name v st = Inr (upd (\<lambda>_. v) st)"
  by (simp add: set_flag_def StringVar_def)

lemma set_bool_flag: "set_flag (BoolVar upd) name (bool_arg b) st = Inr (upd (\<lambda>_. b) st)"
  by (simp add: set_flag_def BoolVar_def bool_arg_def strconv_ParseBool_def)

lemma main_flags_simps:
  "main_flags extra ''metrics-bind-address'' = Some (StringVar metricsAddr_update)"
  "main_flags extra ''health-probe-bind-address'' = Some (StringVar probeAddr_update)"
  "main_flags extra ''leader-elect'' = Some (BoolVar enableLeaderElection_update)"
  "main_flags extra ''metrics-secure'' = Some (BoolVar secureMetrics_update)"
  "main_flags extra ''enable-http2'' = Some (BoolVar enableHTTP2_update)"
  by (simp_all add: main_flags_def)

lemma is_bool_flag_simps: "\<not> IsBoolFlag (StringVar upd)" "IsBoolFlag (BoolVar upd')"
  by (simp_all add: StringVar_def BoolVar_def)

lemma flags_roundtrip:
  "FlagSet_Parse (main_flags extra) (flag_args fl @ args) st = FlagSet_Parse (main_flags extra) args fl"
  by (cases fl, cases st) (simp add: flag_args_def main_flags_simps split_flag_def set_string_flag set_bool_flag is_bool_flag_simps)

lemma run_setup_eq:
  "run_setup answer calls =
     (let ok = (\<lambda>(call, msg). answer call = None); failed = take 1 (dropWhile ok calls) in
      (if failed = [] then 0 else 1, map fst (takeWhile ok calls @ failed), map (\<lambda>(call, msg). msg @ '': '' @ the (answer call)) failed))"
  by (induction calls) (force simp: Let_def case_prod_beta split: option.splits)+

text \<open>Every configured server speaks HTTP/2 only if this was asked for, and the metrics are served to authorized clients only, unless they are not
  secured at all.\<close>

lemma manager_options_tls:
  "NextProtos (foldl (\<lambda>c f. f c) cfg (wo_TLSOpts (WebhookServer (manager_options fl)))) =
     (if enableHTTP2 fl then NextProtos cfg else [''http/1.1''])"
  "mo_TLSOpts (Metrics (manager_options fl)) = wo_TLSOpts (WebhookServer (manager_options fl))"
  "FilterProvider (Metrics (manager_options fl)) \<noteq> None \<longleftrightarrow> SecureServing (Metrics (manager_options fl))"
  by (simp_all add: manager_options_def metricsServerOptions_def tlsOpts_def disableHTTP2_def Let_def)

lemma manager_options_eq:
  "manager_options fl =
     \<lparr>Metrics =
        \<lparr>BindAddress = metricsAddr fl, SecureServing = secureMetrics fl,
         mo_TLSOpts = (if enableHTTP2 fl then [] else [\<lambda>c. c\<lparr>NextProtos := [''http/1.1'']\<rparr>]),
         FilterProvider = (if secureMetrics fl then Some ''WithAuthenticationAndAuthorization'' else None)\<rparr>,
      WebhookServer = \<lparr>wo_TLSOpts = (if enableHTTP2 fl then [] else [\<lambda>c. c\<lparr>NextProtos := [''http/1.1'']\<rparr>])\<rparr>,
      HealthProbeBindAddress = probeAddr fl, LeaderElection = enableLeaderElection fl, LeaderElectionID = ''291d1372.ravendb.io''\<rparr>"
  by (simp add: manager_options_def metricsServerOptions_def tlsOpts_def disableHTTP2_def [abs_def] Let_def)

lemma if_neq: "(if x \<noteq> y then a else b) = (if x = y then b else a)"
  by simp

lemma main_reconciler_eq:
  "main_reconciler =
     \<lparr>rc_Director = NewDefaultDirector,
      rc_Upgrader = \<lparr>buildGates = buildGatesDefault, timing = DefaultTiming, emit = Some (NewGateEventEmitter True)\<rparr>,
      rc_Recorder = True, rc_BaseTiming = DefaultTiming\<rparr>"
  by (simp add: main_reconciler_def SetupWithManager_def NewUpgrader_def SetEmitter_def DefaultTiming_def Let_def)

lemma validators_eq:
  "validators = [imageValidator, imageValidator, generalValidator, nodeValidator, eaValidator, storageValidator]"
  by (simp add: validators_def SetupWebhookWithManager_def validators_init_def Register_def)

lemma full_args:
  "FlagSet_Parse (main_flags extra)
     [''--metrics-bind-address='' @ metricsAddr fl, ''--health-probe-bind-address='' @ probeAddr fl,
      ''--leader-elect='' @ bool_arg (enableLeaderElection fl), ''--metrics-secure='' @ bool_arg (secureMetrics fl),
      ''--enable-http2='' @ bool_arg (enableHTTP2 fl)] st = Inr (fl, [])"
  using flags_roundtrip [of extra fl "[]" st] by (simp add: flag_args_def del: FlagSet_Parse.simps(2))

lemma deployment_args:
  "FlagSet_Parse (main_flags extra) [''--leader-elect'', ''--health-probe-bind-address=:8081''] st =
     Inr (st\<lparr>enableLeaderElection := True, probeAddr := '':8081''\<rparr>, [])"
  by (simp add: main_flags_simps split_flag_def StringVar_def BoolVar_def set_flag_def strconv_ParseBool_def)

text \<open>C39. The process from its command line.  The arguments are parsed into five settings with the defaults written here; if they do not
  parse, no set-up step is made and the exit status is 2, or 0 when help was asked for.  Otherwise the steps are those of the list \<open>calls\<close>, in
  this order: the kubeconfig, the manager with its options (HTTP/2 off unless asked for, for both servers; the metrics behind authorization if they are secured; the
  leader election), the controller with its director, upgrader and the seven owned kinds, the webhook with its validators unless the
  environment disables it, the two probes, and the start of the manager.  They are made up to the first that fails, which is logged and
  gives status 1; the status is 0 if all succeed, the run of the manager included.  The last two equations fix the names of the flags: any settings can be given on
  the command line, and the arguments of the deployment turn leader election on.\<close>

theorem main_starts_iff:
  "let calls = (\<lambda>fl.
         [(GetConfigOrDie, ''unable to get kubeconfig''),
          (NewManager
             \<lparr>Metrics =
                \<lparr>BindAddress = metricsAddr fl, SecureServing = secureMetrics fl,
                 mo_TLSOpts = (if enableHTTP2 fl then [] else [\<lambda>c. c\<lparr>NextProtos := [''http/1.1'']\<rparr>]),
                 FilterProvider = (if secureMetrics fl then Some ''WithAuthenticationAndAuthorization'' else None)\<rparr>,
              WebhookServer = \<lparr>wo_TLSOpts = (if enableHTTP2 fl then [] else [\<lambda>c. c\<lparr>NextProtos := [''http/1.1'']\<rparr>])\<rparr>,
              HealthProbeBindAddress = probeAddr fl, LeaderElection = enableLeaderElection fl,
              LeaderElectionID = ''291d1372.ravendb.io''\<rparr>, ''unable to start manager''),
          (SetupController
             \<lparr>rc_Director = NewDefaultDirector,
              rc_Upgrader = \<lparr>buildGates = buildGatesDefault, timing = DefaultTiming, emit = Some (NewGateEventEmitter True)\<rparr>,
              rc_Recorder = True, rc_BaseTiming = DefaultTiming\<rparr>
             [''*v1.Job'', ''*v1.StatefulSet'', ''*v1.Service'', ''*v1.Ingress'', ''*v1.Pod'', ''*v1.PersistentVolumeClaim'', ''*v1.Secret''],
           ''unable to create controller'')] @
         (if getenv ''ENABLE_WEBHOOKS'' = ''false'' then []
          else [(SetupWebhook [imageValidator, imageValidator, generalValidator, nodeValidator, eaValidator, storageValidator],
                 ''unable to create webhook'')]) @
         [(AddHealthzCheck ''healthz'', ''unable to set up health check''), (AddReadyzCheck ''readyz'', ''unable to set up ready check''),
          (Start, ''problem running manager'')]);
       ok = (\<lambda>(call, msg). answer call = None);
       run = (\<lambda>fl. let failed = take 1 (dropWhile ok (calls fl)) in
         (if failed = [] then 0 else 1, map fst (takeWhile ok (calls fl) @ failed),
          map (\<lambda>(call, msg). msg @ '': '' @ the (answer call)) failed))
   in main_entry extra answer getenv args =
        (case FlagSet_Parse (main_flags extra) args
           \<lparr>metricsAddr = ''0'', probeAddr = '':8081'', enableLeaderElection = False, secureMetrics = True, enableHTTP2 = False\<rparr> of
           Inl ErrHelp \<Rightarrow> (0, [], [])
         | Inl (Failf msg) \<Rightarrow> (2, [], [msg])
         | Inr (fl, rest) \<Rightarrow> run fl) \<and>
      main_entry extra answer getenv
        [''--metrics-bind-address='' @ metricsAddr fl, ''--health-probe-bind-address='' @ probeAddr fl,
         ''--leader-elect='' @ bool_arg (enableLeaderElection fl), ''--metrics-secure='' @ bool_arg (secureMetrics fl),
         ''--enable-http2='' @ bool_arg (enableHTTP2 fl)] = run fl \<and>
      main_entry extra answer getenv [''--leader-elect'', ''--health-probe-bind-address=:8081''] =
        run \<lparr>metricsAddr = ''0'', probeAddr = '':8081'', enableLeaderElection = True, secureMetrics = True, enableHTTP2 = False\<rparr>"
  by (simp only: Let_def main_entry_def main_process_def flag_defaults_def full_args deployment_args run_setup_eq main_calls_def
      manager_options_eq owned_kinds_def main_reconciler_eq validators_eq if_neq Flags.simps sum.case prod.case simp_thms)

subsection \<open>What the work queue learns\<close>

text \<open>Every object a reconcile applies is of a watched kind, so that a change to it leads to another reconcile, except the ConfigMaps of the hooks.\<close>

definition watched_apply :: "request \<Rightarrow> bool" where
  "watched_apply e \<longleftrightarrow> (case e of Apply obj fo \<Rightarrow> type_name obj \<in> set owned_kinds \<union> {''*v1.ConfigMap''} | _ \<Rightarrow> True)"

lemma Reconcile_applies_watched:
  assumes "Reconcile main_reconciler env ns name h = Some (r, r', h')" "owner_ref_ok env"
  shows "extends watched_apply h h'"
  by (rule Reconcile_extends [OF assms]) (auto simp: watched_apply_def owned_kinds_def split: request.splits)

text \<open>C38. A failed tick is reported by an event only.  If the rolling upgrade fails, with whatever error, while the status can be written, then the reconcile
  returns neither an error nor a request to run again: it is repeated only when the specification or an owned object changes.\<close>

theorem upgrade_error_not_retried:
  assumes "e_GetCluster env h ns name = Inr c"
    and "ExecutePerCluster NewDefaultDirector env c (h @ [GetCluster ns name]) = Some ((ch, None), h1)"
    and "Run (operator_upgrader (cluster_timing c)) env c (applyNode (timed_reconciler c) env c) h1 = Some ((sts, Some e), h2)"
    and "\<forall>h new old. \<exists>new'. e_PatchStatus env h new old = Inr new'"
  shows "\<exists>r' h'. Reconcile main_reconciler env ns name h = Some ((\<lparr>Requeue = False\<rparr>, None), r', h') \<and>
    Eventf ''RavenDBCluster'' (Name c) EventTypeWarning ''RollingUpgradeFailed'' e \<in> set (drop (length h2) h')"
proof -
  let ?h3 = "h2 @ [Eventf ''RavenDBCluster'' (Name c) EventTypeWarning ''RollingUpgradeFailed'' e]" and ?rt = "timed_reconciler c"
  let ?hf = "?h3 @ [ListAll (Namespace c), Now]"
  obtain res err h' where f: "finish_reconcile ?rt env c (evaluated env c sts ?h3) ?hf = Some ((res, err), h')"
    using finish_total by blast
  have "res = \<lparr>Requeue = False\<rparr> \<and> err = None"
    using f assms(4) by (auto simp: finish_reconcile_def patch_status_def Let_def split: if_split_asm sum.split_asm Option.bind_split_asm) (metis sum.distinct(1))+
  moreover have "extends (\<lambda>_. True) ?hf h'" by (rule finish_extends [OF f]) simp_all
  moreover have "Reconcile main_reconciler env ns name h = Some ((res, err), ?rt, h')"
    using f assms(1-3) by (simp add: Reconcile_def env_ops main_simps Let_def evaluated_def with_nodes_def case_prod_beta)
  ultimately show ?thesis by (auto simp: extends_def)
qed

text \<open>A cluster whose client certificate is missing.\<close>

definition no_secret_env :: Env where
  "no_secret_env = store_env\<lparr>e_GetSecret := \<lambda>h ns name. Inl (NotFound name)\<rparr>"

theorem upgrade_error_not_retried_witness:
  "\<exists>e r' h'. Reconcile main_reconciler no_secret_env ''ravendb'' ''x'' [] = Some ((\<lparr>Requeue = False\<rparr>, None), r', h') \<and>
     Eventf ''RavenDBCluster'' ''ravendbcluster-sample'' EventTypeWarning ''RollingUpgradeFailed'' e \<in> set h'"
proof -
  let ?c = "sample_cluster ''new''"
  have ok: "requests_succeed no_secret_env" "reconcilable (e_parseQuantity no_secret_env) ?c"
    using store_env_rollout by (simp_all add: rollout_env_def no_secret_env_def requests_succeed_def)
  obtain h1 where x: "ExecutePerCluster NewDefaultDirector no_secret_env ?c ([] @ [GetCluster ''ravendb'' ''x'']) = Some ((False, None), h1)"
    using per_cluster_succeeds [OF ok] by blast
  have "\<exists>e h2. BuildHTTPSClientFromCluster no_secret_env ?c h1 = Some (Inl e, h2)"
    by (simp add: BuildHTTPSClientFromCluster_def needsCA_def sample_defs loadClientPair_def get_secret_def no_secret_env_def)
  then obtain e h2 where "buildGatesDefault no_secret_env ?c h1 = Some (Inl e, h2)" by (auto simp: buildGatesDefault_def)
  then have r: "\<exists>e. Run (operator_upgrader (cluster_timing ?c)) no_secret_env ?c (applyNode (timed_reconciler ?c) no_secret_env ?c) h1 =
      Some (([], Some e), h2)" by (auto simp: Run_def operator_upgrader_simps)
  have p: "\<forall>h new old. \<exists>new'. e_PatchStatus no_secret_env h new old = Inr new'"
    by (simp add: no_secret_env_def store_env_def reconcile_env_def upgrade_env_def sample_env_def)
  have g: "e_GetCluster no_secret_env [] ''ravendb'' ''x'' = Inr ?c" by (simp add: no_secret_env_def store_env_def reconcile_env_def)
  from r obtain e' where "Run (operator_upgrader (cluster_timing ?c)) no_secret_env ?c (applyNode (timed_reconciler ?c) no_secret_env ?c) h1 =
      Some (([], Some e'), h2)" by blast
  from upgrade_error_not_retried [OF g x this p] show ?thesis by (auto simp: sample_cluster_def dest: in_set_dropD)
qed

end
