(* ===== verification/GoMemory.thy ===== *)
theory GoMemory
  imports Prelude
begin

text \<open>
  Go's memory, as far as the generated deep copies and the writes through pointers need it.  An
  address holds one object or the backing array of a slice; a map is an object of its own, because
  a Go map value is a reference.  A pointer is an optional address (\<open>None\<close> is nil), a slice
  header names its array, offset, length and capacity.  Following an address that holds nothing, or
  something of another type, is \<open>None\<close>.

  The locale \<open>deep_copier\<close> states what a deep copy promises: it returns a value that reads back as
  the original and that can be read from newly allocated addresses alone, and it changes no
  existing object.  The pointer, list and slice copies are copiers whenever their element
  copy is one (the sublocales of \<open>heap_copier\<close>), and a struct copy is one by the rules for
  \<open>copy_field\<close>.
\<close>

subsection \<open>Memory\<close>

type_synonym addr = nat

datatype 'g cell = One 'g | Many "'g list"

type_synonym 'g heap = "addr \<rightharpoonup> 'g cell"

record 'g memory =
  cells :: "'g heap"
  brk :: addr

record slice =
  sl_array :: addr
  sl_off :: nat
  sl_len :: nat
  sl_cap :: nat

definition wf_memory :: "'g memory \<Rightarrow> bool" where
  "wf_memory m \<longleftrightarrow> dom (cells m) \<subseteq> {..<brk m}"

definition alloc :: "'g cell \<Rightarrow> 'g memory \<Rightarrow> addr \<times> 'g memory" where
  "alloc c m = (brk m, m\<lparr>cells := (cells m)(brk m \<mapsto> c), brk := Suc (brk m)\<rparr>)"

definition load :: "('g \<Rightarrow> 'a option) \<Rightarrow> 'g heap \<Rightarrow> addr \<Rightarrow> 'a option" where
  "load prj h a = (case h a of Some (One g) \<Rightarrow> prj g | _ \<Rightarrow> None)"

definition elems :: "'g heap \<Rightarrow> slice \<Rightarrow> 'g list option" where
  "elems h s =
     (case h (sl_array s) of
        Some (Many gs) \<Rightarrow>
          if sl_len s \<le> sl_cap s \<and> sl_off s + sl_cap s \<le> length gs
          then Some (take (sl_len s) (drop (sl_off s) gs)) else None
      | _ \<Rightarrow> None)"

text \<open>What an address part of the heap holds from some address on: the objects allocated since.\<close>

definition since :: "addr \<Rightarrow> 'g memory \<Rightarrow> 'g heap" where
  "since b m = cells m |` {b..}"

definition grows :: "'g memory \<Rightarrow> 'g memory \<Rightarrow> bool" where
  "grows m m' \<longleftrightarrow> wf_memory m' \<and> cells m \<subseteq>\<^sub>m cells m' \<and> brk m \<le> brk m'"

lemma map_leD: "h \<subseteq>\<^sub>m h' \<Longrightarrow> h a = Some c \<Longrightarrow> h' a = Some c"
  by (force simp: map_le_def)

lemma load_mono: "load prj h a = Some x \<Longrightarrow> h \<subseteq>\<^sub>m h' \<Longrightarrow> load prj h' a = Some x"
  by (auto simp: load_def split: option.splits cell.splits dest: map_leD)

lemma elems_mono: "elems h s = Some gs \<Longrightarrow> h \<subseteq>\<^sub>m h' \<Longrightarrow> elems h' s = Some gs"
  by (auto simp: elems_def split: option.splits cell.splits dest: map_leD)

lemma since_le: "since b m \<subseteq>\<^sub>m cells m"
  by (simp add: since_def map_le_def)

lemma since_grows: "grows m m' \<Longrightarrow> since b m \<subseteq>\<^sub>m since b m'"
  by (auto simp: grows_def since_def map_le_def restrict_map_def dom_def)

lemma grows_refl: "wf_memory m \<Longrightarrow> grows m m"
  by (simp add: grows_def)

lemma grows_trans: "grows m m' \<Longrightarrow> grows m' m'' \<Longrightarrow> grows m m''"
  by (auto simp: grows_def intro: map_le_trans)

lemma grows_wf: "grows m m' \<Longrightarrow> wf_memory m'"
  by (simp add: grows_def)

lemma grows_le: "grows m m' \<Longrightarrow> cells m \<subseteq>\<^sub>m cells m'"
  by (simp add: grows_def)

lemma grows_brk: "grows m m' \<Longrightarrow> brk m \<le> brk m'"
  by (simp add: grows_def)

lemma wf_memory_iff: "wf_memory m \<longleftrightarrow> (\<forall>a c. cells m a = Some c \<longrightarrow> a < brk m)"
  by (auto simp: wf_memory_def)

lemma alloc_grows:
  assumes "wf_memory m" and "alloc c m = (a, m')"
  shows "grows m m'" and "b \<le> brk m \<Longrightarrow> since b m' a = Some c"
proof -
  from assms have m': "a = brk m" "cells m' = (cells m)(brk m \<mapsto> c)" "brk m' = Suc (brk m)"
    by (auto simp: alloc_def)
  from assms(1) have "cells m (brk m) = None"
    by (cases "cells m (brk m)") (auto simp: wf_memory_iff)
  with assms(1) m' show "grows m m'"
    by (auto simp: grows_def wf_memory_iff map_le_def less_Suc_eq)
  show "b \<le> brk m \<Longrightarrow> since b m' a = Some c" by (simp add: since_def m')
qed

subsection \<open>Copies of pointers, lists, slices, maps and fields\<close>

type_synonym ('g, 'a) copier = "'g memory \<Rightarrow> 'a \<Rightarrow> ('a \<times> 'g memory) option"
type_synonym ('g, 'a, 'v) reader = "'g heap \<Rightarrow> 'a \<Rightarrow> 'v option"

definition plain_copy :: "('g, 'a) copier" where
  "plain_copy m x = Some (x, m)"

definition plain :: "('g, 'a, 'a) reader" where
  "plain h x = Some x"

text \<open>\<open>*out = new(T)\<close> filled by the copy of \<open>*in\<close>; nil stays nil.\<close>

definition copy_ptr :: "('a \<Rightarrow> 'g) \<Rightarrow> ('g \<Rightarrow> 'a option) \<Rightarrow> ('g, 'a) copier \<Rightarrow> ('g, addr option) copier" where
  "copy_ptr emb prj cp m p =
     (case p of
        None \<Rightarrow> Some (None, m)
      | Some a \<Rightarrow> do {
          x \<leftarrow> load prj (cells m) a;
          (y, m1) \<leftarrow> cp m x;
          let (b, m2) = alloc (One (emb y)) m1;
          Some (Some b, m2) })"

definition read_ptr :: "('g \<Rightarrow> 'a option) \<Rightarrow> ('g, 'a, 'v) reader \<Rightarrow> ('g, addr option, 'v option) reader" where
  "read_ptr prj rd h p =
     (case p of
        None \<Rightarrow> Some None
      | Some a \<Rightarrow> do { x \<leftarrow> load prj h a; v \<leftarrow> rd h x; Some (Some v) })"

fun copy_list :: "('g, 'a) copier \<Rightarrow> ('g, 'a list) copier" where
  "copy_list cp m [] = Some ([], m)"
| "copy_list cp m (x # xs) = do {
     (y, m1) \<leftarrow> cp m x;
     (ys, m2) \<leftarrow> copy_list cp m1 xs;
     Some (y # ys, m2) }"

fun read_list :: "('g, 'a, 'v) reader \<Rightarrow> ('g, 'a list, 'v list) reader" where
  "read_list rd h [] = Some []"
| "read_list rd h (x # xs) = do { v \<leftarrow> rd h x; vs \<leftarrow> read_list rd h xs; Some (v # vs) }"

text \<open>\<open>*out = make([]T, len(*in))\<close> filled element by element; nil stays nil.  Reading forgets
  whether an empty slice is nil, as the model of the resource does.\<close>

definition copy_slice :: "('a \<Rightarrow> 'g) \<Rightarrow> ('g \<Rightarrow> 'a option) \<Rightarrow> ('g, 'a) copier \<Rightarrow> ('g, slice option) copier" where
  "copy_slice emb prj cp m s =
     (case s of
        None \<Rightarrow> Some (None, m)
      | Some sl \<Rightarrow> do {
          gs \<leftarrow> elems (cells m) sl;
          xs \<leftarrow> read_list (\<lambda>_. prj) (cells m) gs;
          (ys, m1) \<leftarrow> copy_list cp m xs;
          let (b, m2) = alloc (Many (map emb ys)) m1;
          Some (Some \<lparr>sl_array = b, sl_off = 0, sl_len = length ys, sl_cap = length ys\<rparr>, m2) })"

definition read_slice :: "('g \<Rightarrow> 'a option) \<Rightarrow> ('g, 'a, 'v) reader \<Rightarrow> ('g, slice option, 'v list) reader" where
  "read_slice prj rd h s =
     (case s of
        None \<Rightarrow> Some []
      | Some sl \<Rightarrow> do {
          gs \<leftarrow> elems h sl;
          xs \<leftarrow> read_list (\<lambda>_. prj) h gs;
          read_list rd h xs })"

text \<open>The entries of a map object are kept in the order in which the run-time ranges over it; the
  loop \<open>for key, val := range *in { (*out)[key] = val }\<close> assigns them one by one.\<close>

fun map_assign :: "strmap \<Rightarrow> string \<times> string \<Rightarrow> strmap" where
  "map_assign [] kv = [kv]"
| "map_assign (e # es) kv = (if fst e = fst kv then kv # es else e # map_assign es kv)"

definition copy_entries :: "('g, strmap) copier" where
  "copy_entries m es = Some (foldl map_assign [] es, m)"

definition read_entries :: "('g, strmap, strmap) reader" where
  "read_entries h es = (if distinct (map fst es) then Some es else None)"

text \<open>One field of a struct: \<open>in\<close> is the struct that is copied, \<open>out\<close> the partly filled copy.\<close>

definition copy_field ::
  "('s \<Rightarrow> 'a) \<Rightarrow> (('a \<Rightarrow> 'a) \<Rightarrow> 's \<Rightarrow> 's) \<Rightarrow> ('g, 'a) copier \<Rightarrow> 's \<Rightarrow> 's \<times> 'g memory \<Rightarrow> ('s \<times> 'g memory) option" where
  "copy_field get upd cp i = (\<lambda>(out, m). do { (y, m') \<leftarrow> cp m (get i); Some (upd (\<lambda>_. y) out, m') })"

subsection \<open>What a deep copy promises\<close>

definition copied :: "('g, 'a, 'v) reader \<Rightarrow> addr \<Rightarrow> 'g memory \<Rightarrow> 'v \<Rightarrow> ('a \<times> 'g memory) option \<Rightarrow> bool" where
  "copied rd b m v r \<longleftrightarrow> (\<exists>y m'. r = Some (y, m') \<and> grows m m' \<and> rd (since b m') y = Some v)"

text \<open>The same for a postcondition \<open>Q\<close> that survives further allocation, for the steps of a struct copy.\<close>

definition filled :: "('g heap \<Rightarrow> 'a \<Rightarrow> bool) \<Rightarrow> addr \<Rightarrow> 'g memory \<Rightarrow> ('a \<times> 'g memory) option \<Rightarrow> bool" where
  "filled Q b m r \<longleftrightarrow> (\<exists>y m'. r = Some (y, m') \<and> grows m m' \<and> Q (since b m') y)
     \<and> (\<forall>h h' y. Q h y \<longrightarrow> h \<subseteq>\<^sub>m h' \<longrightarrow> Q h' y)"

lemma copiedI: "r = Some (y, m') \<Longrightarrow> grows m m' \<Longrightarrow> rd (since b m') y = Some v \<Longrightarrow> copied rd b m v r"
  by (auto simp: copied_def)

lemma copiedE:
  assumes "copied rd b m v r"
  obtains y m' where "r = Some (y, m')" and "grows m m'" and "rd (since b m') y = Some v"
  using assms by (auto simp: copied_def)

lemma filled_start: "wf_memory m \<Longrightarrow> filled (\<lambda>h y. y = i) b m (Some (i, m))"
  by (simp add: filled_def grows_refl)

lemma filled_copied: "filled Q b m r \<Longrightarrow> (\<And>h y. Q h y \<Longrightarrow> rd h y = Some v) \<Longrightarrow> copied rd b m v r"
  by (auto simp: filled_def copied_def)

locale deep_copier =
  fixes rd :: "'g heap \<Rightarrow> 'a \<Rightarrow> 'v option"
    and cp :: "'g memory \<Rightarrow> 'a \<Rightarrow> ('a \<times> 'g memory) option"
  assumes read_mono: "rd h x = Some v \<Longrightarrow> h \<subseteq>\<^sub>m h' \<Longrightarrow> rd h' x = Some v"
    and copies: "wf_memory m \<Longrightarrow> b \<le> brk m \<Longrightarrow> rd (cells m) x = Some v \<Longrightarrow> copied rd b m v (cp m x)"
begin

lemma read_grows: "rd (cells m) x = Some v \<Longrightarrow> grows m m' \<Longrightarrow> rd (cells m') x = Some v"
  by (blast intro: read_mono grows_le)

lemma read_since_grows: "rd (since b m) x = Some v \<Longrightarrow> grows m m' \<Longrightarrow> rd (since b m') x = Some v"
  by (blast intro: read_mono since_grows)

text \<open>The copy no longer depends on the memory that was there before, nor the original on the new one.\<close>

lemma independent:
  assumes "wf_memory m" and "rd (cells m) x = Some v"
  shows "\<exists>y m'. cp m x = Some (y, m') \<and> grows m m' \<and>
    (\<forall>h. since (brk m) m' \<subseteq>\<^sub>m h \<longrightarrow> rd h y = Some v) \<and> (\<forall>h. cells m \<subseteq>\<^sub>m h \<longrightarrow> rd h x = Some v)"
  using copies [OF assms(1) order_refl assms(2)] assms(2) by (auto elim!: copiedE intro: read_mono)

lemma mapped: "deep_copier (\<lambda>h x. map_option f (rd h x)) cp"
proof (unfold_locales, goal_cases)
  case (1 h x v h')
  then show ?case by (auto dest: read_mono)
next
  case (2 m b x v)
  then obtain w where "rd (cells m) x = Some w" "v = f w" by auto
  with 2 show ?case by (auto intro: copiedI elim!: copiedE [OF copies])
qed

lemma filled_field:
  assumes "rd (cells m) (get i) = Some v" and "b \<le> brk m" and r: "filled Q b m r"
  shows "filled (\<lambda>h y. \<exists>out z. Q h out \<and> rd h z = Some v \<and> y = upd (\<lambda>_. z) out) b m
    (Option.bind r (copy_field get upd cp i))"
proof -
  from r obtain y m1 where 1: "r = Some (y, m1)" "grows m m1" "Q (since b m1) y"
    and mono: "\<forall>h h' y. Q h y \<longrightarrow> h \<subseteq>\<^sub>m h' \<longrightarrow> Q h' y" by (auto simp: filled_def)
  have "copied rd b m1 v (cp m1 (get i))"
    by (rule copies [OF grows_wf [OF 1(2)] order_trans [OF assms(2) grows_brk [OF 1(2)]]
          read_grows [OF assms(1) 1(2)]])
  then obtain z m2 where 2: "cp m1 (get i) = Some (z, m2)" "grows m1 m2" "rd (since b m2) z = Some v"
    by (rule copiedE)
  from 1 2 mono have "Q (since b m2) y" by (blast intro: since_grows)
  with 1 2 mono show ?thesis
    unfolding filled_def copy_field_def
    by (auto intro: grows_trans read_mono)
qed

end

interpretation plain: deep_copier plain plain_copy
  by unfold_locales (auto simp: plain_def plain_copy_def intro!: copiedI grows_refl)

subsection \<open>Lists, pointers and slices of copied things\<close>

lemma read_list_mono:
  assumes "\<And>x v. rd h x = Some v \<Longrightarrow> rd h' x = Some v"
  shows "read_list rd h xs = Some vs \<Longrightarrow> read_list rd h' xs = Some vs"
  by (induction xs arbitrary: vs) (auto simp: bind_eq_Some_conv assms)

lemma read_list_length: "read_list rd h xs = Some vs \<Longrightarrow> length vs = length xs"
  by (induction xs arbitrary: vs) (auto simp: bind_eq_Some_conv)

lemma read_list_map: "(\<And>x. prj (emb x) = Some x) \<Longrightarrow> read_list (\<lambda>_. prj) h (map emb xs) = Some xs"
  by (induction xs) simp_all

context deep_copier
begin

lemma list_copier: "deep_copier (read_list rd) (copy_list cp)"
proof (unfold_locales, goal_cases)
  case (1 h xs vs h')
  then show ?case by (blast intro: read_list_mono read_mono)
next
  case (2 m b xs vs)
  then show ?case
  proof (induction xs arbitrary: m vs)
    case Nil
    then show ?case by (auto intro!: copiedI grows_refl)
  next
    case (Cons x xs)
    then obtain w ws where v: "rd (cells m) x = Some w" "read_list rd (cells m) xs = Some ws" "vs = w # ws"
      by (auto simp: bind_eq_Some_conv)
    from copies [OF Cons.prems(1,2) v(1)] obtain y m1
      where 1: "cp m x = Some (y, m1)" "grows m m1" "rd (since b m1) y = Some w" by (rule copiedE)
    have "read_list rd (cells m1) xs = Some ws"
      using v(2) by (rule read_list_mono [rotated]) (rule read_grows [OF _ 1(2)])
    then have "copied (read_list rd) b m1 ws (copy_list cp m1 xs)"
      using Cons.IH grows_wf [OF 1(2)] grows_brk [OF 1(2)] Cons.prems(2) by simp
    then obtain ys m2 where 2: "copy_list cp m1 xs = Some (ys, m2)" "grows m1 m2"
        "read_list rd (since b m2) ys = Some ws" by (rule copiedE)
    show ?case
      by (rule copiedI [of _ "y # ys" m2])
        (use 1 2 v in \<open>auto intro: grows_trans dest: read_since_grows\<close>)
  qed
qed

end

text \<open>A type that occurs as an object or as an array element of the heap.\<close>

locale heap_copier = deep_copier rd cp
  for rd :: "'g heap \<Rightarrow> 'a \<Rightarrow> 'v option" and cp :: "'g memory \<Rightarrow> 'a \<Rightarrow> ('a \<times> 'g memory) option" +
  fixes emb :: "'a \<Rightarrow> 'g" and prj :: "'g \<Rightarrow> 'a option"
  assumes prj_emb: "prj (emb x) = Some x"

sublocale heap_copier \<subseteq> lists: deep_copier "read_list rd" "copy_list cp"
  by (rule list_copier)

sublocale heap_copier \<subseteq> ptr: deep_copier "read_ptr prj rd" "copy_ptr emb prj cp"
proof (unfold_locales, goal_cases)
  case (1 h p v h')
  then show ?case
    by (auto simp: read_ptr_def bind_eq_Some_conv split: option.splits intro: load_mono read_mono)
next
  case (2 m b p v)
  show ?case
  proof (cases p)
    case None
    with 2 show ?thesis
      by (intro copiedI [of _ p m]) (auto simp: copy_ptr_def read_ptr_def grows_refl)
  next
    case (Some a)
    with 2(3) obtain x w where x: "load prj (cells m) a = Some x" "rd (cells m) x = Some w" "v = Some w"
      by (auto simp: read_ptr_def bind_eq_Some_conv)
    from copies [OF 2(1,2) x(2)] obtain y m1
      where 1: "cp m x = Some (y, m1)" "grows m m1" "rd (since b m1) y = Some w" by (rule copiedE)
    obtain c m2 where a: "alloc (One (emb y)) m1 = (c, m2)" by (cases "alloc (One (emb y)) m1")
    note g = alloc_grows [OF grows_wf [OF 1(2)] a]
    have "since b m2 c = Some (One (emb y))" using 2(2) grows_brk [OF 1(2)] by (intro g) simp
    with 1 x Some a g(1) show ?thesis
      by (intro copiedI [of _ "Some c" m2])
        (auto simp: copy_ptr_def read_ptr_def load_def prj_emb intro: grows_trans dest: read_since_grows)
  qed
qed

sublocale heap_copier \<subseteq> slice: deep_copier "read_slice prj rd" "copy_slice emb prj cp"
proof (unfold_locales, goal_cases)
  case (1 h s v h')
  then show ?case
    by (auto simp: read_slice_def bind_eq_Some_conv split: option.splits
        intro: elems_mono lists.read_mono read_list_mono)
next
  case (2 m b s v)
  show ?case
  proof (cases s)
    case None
    with 2 show ?thesis
      by (intro copiedI [of _ s m]) (auto simp: copy_slice_def read_slice_def grows_refl)
  next
    case (Some sl)
    with 2(3) obtain gs xs where x: "elems (cells m) sl = Some gs"
        "read_list (\<lambda>_. prj) (cells m) gs = Some xs" "read_list rd (cells m) xs = Some v"
      by (auto simp: read_slice_def bind_eq_Some_conv)
    from lists.copies [OF 2(1,2) x(3)] obtain ys m1
      where 1: "copy_list cp m xs = Some (ys, m1)" "grows m m1" "read_list rd (since b m1) ys = Some v"
      by (rule copiedE)
    obtain c m2 where a: "alloc (Many (map emb ys)) m1 = (c, m2)" by (cases "alloc (Many (map emb ys)) m1")
    note g = alloc_grows [OF grows_wf [OF 1(2)] a]
    let ?s = "\<lparr>sl_array = c, sl_off = 0, sl_len = length ys, sl_cap = length ys\<rparr>"
    have "since b m2 c = Some (Many (map emb ys))" using 2(2) grows_brk [OF 1(2)] by (intro g) simp
    then have "elems (since b m2) ?s = Some (map emb ys)" by (simp add: elems_def)
    with 1 x Some a g(1) show ?thesis
      by (intro copiedI [of _ "Some ?s" m2])
        (auto simp: copy_slice_def read_slice_def read_list_map [where prj = prj and emb = emb] prj_emb intro: grows_trans
          dest: lists.read_since_grows)
  qed
qed

subsection \<open>Maps\<close>

lemma map_assign_new: "fst kv \<notin> fst ` set es \<Longrightarrow> map_assign es kv = es @ [kv]"
  by (induction es) auto

lemma fill_map: "distinct (map fst (acc @ es)) \<Longrightarrow> foldl map_assign acc es = acc @ es"
proof (induction es arbitrary: acc)
  case (Cons e es)
  then show ?case using Cons.IH [of "acc @ [e]"] by (simp add: map_assign_new)
qed simp

interpretation entries: deep_copier read_entries copy_entries
  by unfold_locales
    (auto simp: read_entries_def copy_entries_def fill_map [of "[]", simplified] split: if_splits
      intro!: copiedI grows_refl)

end
