(* ===== verification/ApiMemory.thy ===== *)
theory ApiMemory
  imports GoMemory StatusConditions
begin

text \<open>
  The API types as they lie in memory: the structs of \<open>api/v1\<close> with addresses and slice headers
  where the Go types have pointers, maps and slices (the records named \<open>m\<dots>\<close>; a struct without
  such a field is its record of \<^theory_text>\<open>ApiTypes\<close>), the objects an address can hold (\<open>gval\<close>, one
  constructor and one projection per type), and for every type a reader from a heap to the value
  the rest of the development works on.  \<open>corev1\<close> and \<open>metav1\<close> structs have the fields of
  \<^theory_text>\<open>K8sTypes\<close>; \<open>ListMeta\<close>, of which the operator reads nothing, keeps its resource version, its
  continue token and the pointer to the remaining item count.
\<close>

subsection \<open>Structs\<close>

record mTypeMeta =
  tm_Kind :: string
  tm_APIVersion :: string

record mObjectMeta =
  mo_Name :: string
  mo_Namespace :: string
  mo_UID :: string
  mo_Generation :: int
  mo_Annotations :: "addr option"

record mListMeta =
  ml_ResourceVersion :: string
  ml_Continue :: string
  ml_RemainingItemCount :: "addr option"

record mConfigMapVolumeSource =
  mcm_Name :: string
  mcm_Items :: "slice option"
  mcm_DefaultMode :: "addr option"

record mAWSExternalAccessContext =
  maws_NodeMappings :: "slice option"

record mAzureExternalAccessContext =
  maz_NodeMappings :: "slice option"

record mIngressControllerContext =
  mic_IngressClassName :: string
  mic_AdditionalAnnotations :: "addr option"

record mExternalAccessConfiguration =
  mea_Type :: string
  mea_AWSExternalAccess :: "addr option"
  mea_AzureExternalAccess :: "addr option"
  mea_IngressControllerExternalAccess :: "addr option"

record mVolumeSpec =
  mv_Size :: string
  mv_StorageClassName :: "addr option"
  mv_AccessModes :: "addr option"
  mv_VolumeAttributesClassName :: "addr option"

record mLogSettings =
  mls_VolumeSpec :: mVolumeSpec
  mls_Path :: "addr option"

record mLogsSpec =
  ml_RavenDB :: "addr option"
  ml_Audit :: "addr option"

record mVolumeSource =
  mvs_ConfigMap :: "addr option"
  mvs_Secret :: "addr option"
  mvs_PersistentVolumeClaim :: "addr option"

record mAdditionalVolume =
  mav_Name :: string
  mav_MountPath :: string
  mav_SubPath :: "addr option"
  mav_VolumeSource :: mVolumeSource

record mStorageSpec =
  mss_Data :: mVolumeSpec
  mss_Logs :: "addr option"
  mss_AdditionalVolumes :: "addr option"

record mRavenDBNode =
  mn_Tag :: string
  mn_PublicServerUrl :: string
  mn_PublicServerUrlTcp :: string
  mn_CertSecretRef :: "addr option"

record mRavenDBClusterSpec =
  ms_Image :: string
  ms_ImagePullPolicy :: string
  ms_Mode :: string
  ms_Email :: "addr option"
  ms_LicenseSecretRef :: string
  ms_ClusterCertSecretRef :: "addr option"
  ms_Domain :: string
  ms_Nodes :: "slice option"
  ms_Env :: "addr option"
  ms_ExternalAccessConfiguration :: "addr option"
  ms_StorageSpec :: mStorageSpec
  ms_ClientCertSecretRef :: string
  ms_CACertSecretRef :: "addr option"

record mRavenDBClusterStatus =
  mst_Phase :: string
  mst_Message :: string
  mst_ObservedGeneration :: int
  mst_Nodes :: "slice option"
  mst_Conditions :: "slice option"

record mRavenDBCluster =
  mc_TypeMeta :: mTypeMeta
  mc_ObjectMeta :: mObjectMeta
  mc_Spec :: mRavenDBClusterSpec
  mc_Status :: mRavenDBClusterStatus

record mRavenDBClusterList =
  mcl_TypeMeta :: mTypeMeta
  mcl_ListMeta :: mListMeta
  mcl_Items :: "slice option"

subsection \<open>Objects\<close>

datatype gval =
    GString string
  | GInt32 int32
  | GInt64 int
  | GSlice "slice option"
  | GMap strmap
  | GKeyToPath KeyToPath
  | GConfigMapVolumeSource mConfigMapVolumeSource
  | GSecretVolumeSource SecretVolumeSource
  | GPersistentVolumeClaimVolumeSource PersistentVolumeClaimVolumeSource
  | GCondition Condition
  | GAWSNodeMapping AWSNodeMapping
  | GAWSExternalAccessContext mAWSExternalAccessContext
  | GAzureNodeMapping AzureNodeMapping
  | GAzureExternalAccessContext mAzureExternalAccessContext
  | GIngressControllerContext mIngressControllerContext
  | GExternalAccessConfiguration mExternalAccessConfiguration
  | GVolumeSpec mVolumeSpec
  | GLogSettings mLogSettings
  | GLogsSpec mLogsSpec
  | GVolumeSource mVolumeSource
  | GAdditionalVolume mAdditionalVolume
  | GStorageSpec mStorageSpec
  | GRavenDBNode mRavenDBNode
  | GRavenDBNodeStatus RavenDBNodeStatus
  | GRavenDBClusterSpec mRavenDBClusterSpec
  | GRavenDBClusterStatus mRavenDBClusterStatus
  | GRavenDBCluster mRavenDBCluster
  | GRavenDBClusterList mRavenDBClusterList

type_synonym mem = "gval memory"
type_synonym gheap = "gval heap"

definition prj_String :: "gval \<Rightarrow> string option" where
  "prj_String g = (case g of GString x \<Rightarrow> Some x | _ \<Rightarrow> None)"

definition prj_Int32 :: "gval \<Rightarrow> int32 option" where
  "prj_Int32 g = (case g of GInt32 x \<Rightarrow> Some x | _ \<Rightarrow> None)"

definition prj_Int64 :: "gval \<Rightarrow> int option" where
  "prj_Int64 g = (case g of GInt64 x \<Rightarrow> Some x | _ \<Rightarrow> None)"

definition prj_Slice :: "gval \<Rightarrow> (slice option) option" where
  "prj_Slice g = (case g of GSlice x \<Rightarrow> Some x | _ \<Rightarrow> None)"

definition prj_Map :: "gval \<Rightarrow> strmap option" where
  "prj_Map g = (case g of GMap x \<Rightarrow> Some x | _ \<Rightarrow> None)"

definition prj_KeyToPath :: "gval \<Rightarrow> KeyToPath option" where
  "prj_KeyToPath g = (case g of GKeyToPath x \<Rightarrow> Some x | _ \<Rightarrow> None)"

definition prj_ConfigMapVolumeSource :: "gval \<Rightarrow> mConfigMapVolumeSource option" where
  "prj_ConfigMapVolumeSource g = (case g of GConfigMapVolumeSource x \<Rightarrow> Some x | _ \<Rightarrow> None)"

definition prj_SecretVolumeSource :: "gval \<Rightarrow> SecretVolumeSource option" where
  "prj_SecretVolumeSource g = (case g of GSecretVolumeSource x \<Rightarrow> Some x | _ \<Rightarrow> None)"

definition prj_PersistentVolumeClaimVolumeSource :: "gval \<Rightarrow> PersistentVolumeClaimVolumeSource option" where
  "prj_PersistentVolumeClaimVolumeSource g = (case g of GPersistentVolumeClaimVolumeSource x \<Rightarrow> Some x | _ \<Rightarrow> None)"

definition prj_Condition :: "gval \<Rightarrow> Condition option" where
  "prj_Condition g = (case g of GCondition x \<Rightarrow> Some x | _ \<Rightarrow> None)"

definition prj_AWSNodeMapping :: "gval \<Rightarrow> AWSNodeMapping option" where
  "prj_AWSNodeMapping g = (case g of GAWSNodeMapping x \<Rightarrow> Some x | _ \<Rightarrow> None)"

definition prj_AWSExternalAccessContext :: "gval \<Rightarrow> mAWSExternalAccessContext option" where
  "prj_AWSExternalAccessContext g = (case g of GAWSExternalAccessContext x \<Rightarrow> Some x | _ \<Rightarrow> None)"

definition prj_AzureNodeMapping :: "gval \<Rightarrow> AzureNodeMapping option" where
  "prj_AzureNodeMapping g = (case g of GAzureNodeMapping x \<Rightarrow> Some x | _ \<Rightarrow> None)"

definition prj_AzureExternalAccessContext :: "gval \<Rightarrow> mAzureExternalAccessContext option" where
  "prj_AzureExternalAccessContext g = (case g of GAzureExternalAccessContext x \<Rightarrow> Some x | _ \<Rightarrow> None)"

definition prj_IngressControllerContext :: "gval \<Rightarrow> mIngressControllerContext option" where
  "prj_IngressControllerContext g = (case g of GIngressControllerContext x \<Rightarrow> Some x | _ \<Rightarrow> None)"

definition prj_ExternalAccessConfiguration :: "gval \<Rightarrow> mExternalAccessConfiguration option" where
  "prj_ExternalAccessConfiguration g = (case g of GExternalAccessConfiguration x \<Rightarrow> Some x | _ \<Rightarrow> None)"

definition prj_VolumeSpec :: "gval \<Rightarrow> mVolumeSpec option" where
  "prj_VolumeSpec g = (case g of GVolumeSpec x \<Rightarrow> Some x | _ \<Rightarrow> None)"

definition prj_LogSettings :: "gval \<Rightarrow> mLogSettings option" where
  "prj_LogSettings g = (case g of GLogSettings x \<Rightarrow> Some x | _ \<Rightarrow> None)"

definition prj_LogsSpec :: "gval \<Rightarrow> mLogsSpec option" where
  "prj_LogsSpec g = (case g of GLogsSpec x \<Rightarrow> Some x | _ \<Rightarrow> None)"

definition prj_VolumeSource :: "gval \<Rightarrow> mVolumeSource option" where
  "prj_VolumeSource g = (case g of GVolumeSource x \<Rightarrow> Some x | _ \<Rightarrow> None)"

definition prj_AdditionalVolume :: "gval \<Rightarrow> mAdditionalVolume option" where
  "prj_AdditionalVolume g = (case g of GAdditionalVolume x \<Rightarrow> Some x | _ \<Rightarrow> None)"

definition prj_StorageSpec :: "gval \<Rightarrow> mStorageSpec option" where
  "prj_StorageSpec g = (case g of GStorageSpec x \<Rightarrow> Some x | _ \<Rightarrow> None)"

definition prj_RavenDBNode :: "gval \<Rightarrow> mRavenDBNode option" where
  "prj_RavenDBNode g = (case g of GRavenDBNode x \<Rightarrow> Some x | _ \<Rightarrow> None)"

definition prj_RavenDBNodeStatus :: "gval \<Rightarrow> RavenDBNodeStatus option" where
  "prj_RavenDBNodeStatus g = (case g of GRavenDBNodeStatus x \<Rightarrow> Some x | _ \<Rightarrow> None)"

definition prj_RavenDBClusterSpec :: "gval \<Rightarrow> mRavenDBClusterSpec option" where
  "prj_RavenDBClusterSpec g = (case g of GRavenDBClusterSpec x \<Rightarrow> Some x | _ \<Rightarrow> None)"

definition prj_RavenDBClusterStatus :: "gval \<Rightarrow> mRavenDBClusterStatus option" where
  "prj_RavenDBClusterStatus g = (case g of GRavenDBClusterStatus x \<Rightarrow> Some x | _ \<Rightarrow> None)"

definition prj_RavenDBCluster :: "gval \<Rightarrow> mRavenDBCluster option" where
  "prj_RavenDBCluster g = (case g of GRavenDBCluster x \<Rightarrow> Some x | _ \<Rightarrow> None)"

definition prj_RavenDBClusterList :: "gval \<Rightarrow> mRavenDBClusterList option" where
  "prj_RavenDBClusterList g = (case g of GRavenDBClusterList x \<Rightarrow> Some x | _ \<Rightarrow> None)"

lemma prj_emb [simp]:
  "prj_String (GString x0) = Some x0"
  "prj_Int32 (GInt32 x1) = Some x1"
  "prj_Int64 (GInt64 x2) = Some x2"
  "prj_Slice (GSlice x3) = Some x3"
  "prj_Map (GMap x4) = Some x4"
  "prj_KeyToPath (GKeyToPath x5) = Some x5"
  "prj_ConfigMapVolumeSource (GConfigMapVolumeSource x6) = Some x6"
  "prj_SecretVolumeSource (GSecretVolumeSource x7) = Some x7"
  "prj_PersistentVolumeClaimVolumeSource (GPersistentVolumeClaimVolumeSource x8) = Some x8"
  "prj_Condition (GCondition x9) = Some x9"
  "prj_AWSNodeMapping (GAWSNodeMapping x10) = Some x10"
  "prj_AWSExternalAccessContext (GAWSExternalAccessContext x11) = Some x11"
  "prj_AzureNodeMapping (GAzureNodeMapping x12) = Some x12"
  "prj_AzureExternalAccessContext (GAzureExternalAccessContext x13) = Some x13"
  "prj_IngressControllerContext (GIngressControllerContext x14) = Some x14"
  "prj_ExternalAccessConfiguration (GExternalAccessConfiguration x15) = Some x15"
  "prj_VolumeSpec (GVolumeSpec x16) = Some x16"
  "prj_LogSettings (GLogSettings x17) = Some x17"
  "prj_LogsSpec (GLogsSpec x18) = Some x18"
  "prj_VolumeSource (GVolumeSource x19) = Some x19"
  "prj_AdditionalVolume (GAdditionalVolume x20) = Some x20"
  "prj_StorageSpec (GStorageSpec x21) = Some x21"
  "prj_RavenDBNode (GRavenDBNode x22) = Some x22"
  "prj_RavenDBNodeStatus (GRavenDBNodeStatus x23) = Some x23"
  "prj_RavenDBClusterSpec (GRavenDBClusterSpec x24) = Some x24"
  "prj_RavenDBClusterStatus (GRavenDBClusterStatus x25) = Some x25"
  "prj_RavenDBCluster (GRavenDBCluster x26) = Some x26"
  "prj_RavenDBClusterList (GRavenDBClusterList x27) = Some x27"
  by (simp_all add: prj_String_def prj_Int32_def prj_Int64_def prj_Slice_def prj_Map_def
      prj_KeyToPath_def prj_ConfigMapVolumeSource_def prj_SecretVolumeSource_def
      prj_PersistentVolumeClaimVolumeSource_def prj_Condition_def prj_AWSNodeMapping_def
      prj_AWSExternalAccessContext_def prj_AzureNodeMapping_def
      prj_AzureExternalAccessContext_def prj_IngressControllerContext_def
      prj_ExternalAccessConfiguration_def prj_VolumeSpec_def prj_LogSettings_def
      prj_LogsSpec_def prj_VolumeSource_def prj_AdditionalVolume_def prj_StorageSpec_def
      prj_RavenDBNode_def prj_RavenDBNodeStatus_def prj_RavenDBClusterSpec_def
      prj_RavenDBClusterStatus_def prj_RavenDBCluster_def prj_RavenDBClusterList_def)

subsection \<open>Readers\<close>

abbreviation read_string_ptr :: "gheap \<Rightarrow> addr option \<Rightarrow> string option option" where
  "read_string_ptr \<equiv> read_ptr prj_String plain"

abbreviation read_string_slice :: "gheap \<Rightarrow> slice option \<Rightarrow> string list option" where
  "read_string_slice \<equiv> read_slice prj_String plain"

text \<open>A nil map reads as the empty map.\<close>

definition read_map :: "gheap \<Rightarrow> addr option \<Rightarrow> strmap option" where
  "read_map h p = map_option (case_option [] id) (read_ptr prj_Map read_entries h p)"

definition read_gomap :: "gheap \<Rightarrow> addr option \<Rightarrow> gomap option" where
  "read_gomap h p = map_option map_of (read_map h p)"

record meta_view =
  vw_Name :: string
  vw_Namespace :: string
  vw_UID :: string
  vw_Generation :: int
  vw_Annotations :: gomap

definition read_ObjectMeta :: "gheap \<Rightarrow> mObjectMeta \<Rightarrow> meta_view option" where
  "read_ObjectMeta h x = do {
     ann \<leftarrow> read_gomap h (mo_Annotations x);
     Some \<lparr>vw_Name = mo_Name x, vw_Namespace = mo_Namespace x, vw_UID = mo_UID x,
       vw_Generation = mo_Generation x, vw_Annotations = ann\<rparr> }"

definition read_ListMeta :: "gheap \<Rightarrow> mListMeta \<Rightarrow> (string \<times> string \<times> int option) option" where
  "read_ListMeta h x = do {
     n \<leftarrow> read_ptr prj_Int64 plain h (ml_RemainingItemCount x);
     Some (ml_ResourceVersion x, ml_Continue x, n) }"

definition read_ConfigMapVolumeSource :: "gheap \<Rightarrow> mConfigMapVolumeSource \<Rightarrow> ConfigMapVolumeSource option" where
  "read_ConfigMapVolumeSource h x = do {
     items \<leftarrow> read_slice prj_KeyToPath plain h (mcm_Items x);
     mode \<leftarrow> read_ptr prj_Int32 plain h (mcm_DefaultMode x);
     Some \<lparr>cmvs_Name = mcm_Name x, cmvs_Items = items, cmvs_DefaultMode = mode\<rparr> }"

definition read_AWSExternalAccessContext ::
  "gheap \<Rightarrow> mAWSExternalAccessContext \<Rightarrow> AWSExternalAccessContext option" where
  "read_AWSExternalAccessContext h x = read_slice prj_AWSNodeMapping plain h (maws_NodeMappings x)"

definition read_AzureExternalAccessContext ::
  "gheap \<Rightarrow> mAzureExternalAccessContext \<Rightarrow> AzureExternalAccessContext option" where
  "read_AzureExternalAccessContext h x = read_slice prj_AzureNodeMapping plain h (maz_NodeMappings x)"

definition read_IngressControllerContext ::
  "gheap \<Rightarrow> mIngressControllerContext \<Rightarrow> IngressControllerContext option" where
  "read_IngressControllerContext h x = do {
     ann \<leftarrow> read_map h (mic_AdditionalAnnotations x);
     Some \<lparr>ic_IngressClassName = mic_IngressClassName x, ic_AdditionalAnnotations = ann\<rparr> }"

definition read_ExternalAccessConfiguration ::
  "gheap \<Rightarrow> mExternalAccessConfiguration \<Rightarrow> ExternalAccessConfiguration option" where
  "read_ExternalAccessConfiguration h x = do {
     aws \<leftarrow> read_ptr prj_AWSExternalAccessContext read_AWSExternalAccessContext h (mea_AWSExternalAccess x);
     az \<leftarrow> read_ptr prj_AzureExternalAccessContext read_AzureExternalAccessContext h
       (mea_AzureExternalAccess x);
     ic \<leftarrow> read_ptr prj_IngressControllerContext read_IngressControllerContext h
       (mea_IngressControllerExternalAccess x);
     Some \<lparr>ea_Type = mea_Type x, ea_AWSExternalAccess = aws, ea_AzureExternalAccess = az,
       ea_IngressControllerExternalAccess = ic\<rparr> }"

definition read_VolumeSpec :: "gheap \<Rightarrow> mVolumeSpec \<Rightarrow> VolumeSpec option" where
  "read_VolumeSpec h x = do {
     sc \<leftarrow> read_string_ptr h (mv_StorageClassName x);
     am \<leftarrow> read_ptr prj_Slice read_string_slice h (mv_AccessModes x);
     vac \<leftarrow> read_string_ptr h (mv_VolumeAttributesClassName x);
     Some \<lparr>v_Size = mv_Size x, v_StorageClassName = sc, v_AccessModes = am,
       v_VolumeAttributesClassName = vac\<rparr> }"

definition read_LogSettings :: "gheap \<Rightarrow> mLogSettings \<Rightarrow> LogSettings option" where
  "read_LogSettings h x = do {
     v \<leftarrow> read_VolumeSpec h (mls_VolumeSpec x);
     p \<leftarrow> read_string_ptr h (mls_Path x);
     Some \<lparr>ls_VolumeSpec = v, ls_Path = p\<rparr> }"

definition read_LogsSpec :: "gheap \<Rightarrow> mLogsSpec \<Rightarrow> LogsSpec option" where
  "read_LogsSpec h x = do {
     r \<leftarrow> read_ptr prj_LogSettings read_LogSettings h (ml_RavenDB x);
     a \<leftarrow> read_ptr prj_LogSettings read_LogSettings h (ml_Audit x);
     Some \<lparr>l_RavenDB = r, l_Audit = a\<rparr> }"

definition read_VolumeSource :: "gheap \<Rightarrow> mVolumeSource \<Rightarrow> VolumeSource option" where
  "read_VolumeSource h x = do {
     cm \<leftarrow> read_ptr prj_ConfigMapVolumeSource read_ConfigMapVolumeSource h (mvs_ConfigMap x);
     sec \<leftarrow> read_ptr prj_SecretVolumeSource plain h (mvs_Secret x);
     pvc \<leftarrow> read_ptr prj_PersistentVolumeClaimVolumeSource plain h (mvs_PersistentVolumeClaim x);
     Some \<lparr>vs_ConfigMap = cm, vs_Secret = sec, vs_PersistentVolumeClaim = pvc\<rparr> }"

definition read_AdditionalVolume :: "gheap \<Rightarrow> mAdditionalVolume \<Rightarrow> AdditionalVolume option" where
  "read_AdditionalVolume h x = do {
     sp \<leftarrow> read_string_ptr h (mav_SubPath x);
     vs \<leftarrow> read_VolumeSource h (mav_VolumeSource x);
     Some \<lparr>av_Name = mav_Name x, av_MountPath = mav_MountPath x, av_SubPath = sp, av_VolumeSource = vs\<rparr> }"

definition read_StorageSpec :: "gheap \<Rightarrow> mStorageSpec \<Rightarrow> StorageSpec option" where
  "read_StorageSpec h x = do {
     d \<leftarrow> read_VolumeSpec h (mss_Data x);
     l \<leftarrow> read_ptr prj_LogsSpec read_LogsSpec h (mss_Logs x);
     avs \<leftarrow> read_ptr prj_Slice (read_slice prj_AdditionalVolume read_AdditionalVolume) h
       (mss_AdditionalVolumes x);
     Some \<lparr>ss_Data = d, ss_Logs = l, ss_AdditionalVolumes = avs\<rparr> }"

definition read_RavenDBNode :: "gheap \<Rightarrow> mRavenDBNode \<Rightarrow> RavenDBNode option" where
  "read_RavenDBNode h x = do {
     cert \<leftarrow> read_string_ptr h (mn_CertSecretRef x);
     Some \<lparr>n_Tag = mn_Tag x, n_PublicServerUrl = mn_PublicServerUrl x,
       n_PublicServerUrlTcp = mn_PublicServerUrlTcp x, n_CertSecretRef = cert\<rparr> }"

definition read_RavenDBClusterSpec :: "gheap \<Rightarrow> mRavenDBClusterSpec \<Rightarrow> RavenDBClusterSpec option" where
  "read_RavenDBClusterSpec h x = do {
     email \<leftarrow> read_string_ptr h (ms_Email x);
     cert \<leftarrow> read_string_ptr h (ms_ClusterCertSecretRef x);
     nodes \<leftarrow> read_slice prj_RavenDBNode read_RavenDBNode h (ms_Nodes x);
     env \<leftarrow> read_map h (ms_Env x);
     ea \<leftarrow> read_ptr prj_ExternalAccessConfiguration read_ExternalAccessConfiguration h
       (ms_ExternalAccessConfiguration x);
     sto \<leftarrow> read_StorageSpec h (ms_StorageSpec x);
     ca \<leftarrow> read_string_ptr h (ms_CACertSecretRef x);
     Some \<lparr>s_Image = ms_Image x, s_ImagePullPolicy = ms_ImagePullPolicy x, s_Mode = ms_Mode x,
       s_Email = email, s_LicenseSecretRef = ms_LicenseSecretRef x, s_ClusterCertSecretRef = cert,
       s_Domain = ms_Domain x, s_Nodes = nodes, s_Env = env, s_ExternalAccessConfiguration = ea,
       s_StorageSpec = sto, s_ClientCertSecretRef = ms_ClientCertSecretRef x, s_CACertSecretRef = ca\<rparr> }"

definition read_RavenDBClusterStatus :: "gheap \<Rightarrow> mRavenDBClusterStatus \<Rightarrow> RavenDBClusterStatus option" where
  "read_RavenDBClusterStatus h x = do {
     nodes \<leftarrow> read_slice prj_RavenDBNodeStatus plain h (mst_Nodes x);
     cs \<leftarrow> read_slice prj_Condition plain h (mst_Conditions x);
     Some \<lparr>st_Phase = mst_Phase x, st_Message = mst_Message x,
       st_ObservedGeneration = mst_ObservedGeneration x, st_Nodes = nodes, st_Conditions = cs\<rparr> }"

text \<open>An object's value: its type meta and the resource.\<close>

definition read_RavenDBCluster :: "gheap \<Rightarrow> mRavenDBCluster \<Rightarrow> (mTypeMeta \<times> RavenDBCluster) option" where
  "read_RavenDBCluster h x = do {
     tm \<leftarrow> plain h (mc_TypeMeta x);
     om \<leftarrow> read_ObjectMeta h (mc_ObjectMeta x);
     sp \<leftarrow> read_RavenDBClusterSpec h (mc_Spec x);
     st \<leftarrow> read_RavenDBClusterStatus h (mc_Status x);
     Some (tm, \<lparr>Name = vw_Name om, Namespace = vw_Namespace om, UID = vw_UID om,
       Generation = vw_Generation om, Annotations = vw_Annotations om, Spec = sp, Status = st\<rparr>) }"

definition read_RavenDBClusterList ::
  "gheap \<Rightarrow> mRavenDBClusterList \<Rightarrow>
   (mTypeMeta \<times> (string \<times> string \<times> int option) \<times> (mTypeMeta \<times> RavenDBCluster) list) option" where
  "read_RavenDBClusterList h x = do {
     tm \<leftarrow> plain h (mcl_TypeMeta x);
     lm \<leftarrow> read_ListMeta h (mcl_ListMeta x);
     items \<leftarrow> read_slice prj_RavenDBCluster read_RavenDBCluster h (mcl_Items x);
     Some (tm, lm, items) }"

lemmas reader_defs =
  read_AWSExternalAccessContext_def read_AzureExternalAccessContext_def read_IngressControllerContext_def
  read_ExternalAccessConfiguration_def read_VolumeSpec_def read_LogSettings_def read_LogsSpec_def
  read_VolumeSource_def read_AdditionalVolume_def read_StorageSpec_def read_RavenDBNode_def
  read_RavenDBClusterSpec_def read_RavenDBClusterStatus_def read_RavenDBCluster_def
  read_RavenDBClusterList_def read_ObjectMeta_def read_ListMeta_def read_ConfigMapVolumeSource_def

end
