(* ===== verification/DeepCopy.thy ===== *)
theory DeepCopy
  imports ApiMemory
begin

text \<open>
  The generated deep copies (\<open>api/v1/zz_generated.deepcopy.go\<close>): \<open>DeepCopyInto\<close> of every API
  type, as the value it leaves in \<open>*out\<close> and the memory after it, and \<open>DeepCopy\<close> of a pointer.
  Each is shown to be a \<open>deep_copier\<close>.  The \<open>DeepCopyInto\<close> methods of \<open>metav1\<close> and \<open>corev1\<close>
  structs are a parameter; the locale \<open>third_party_copiers\<close> says that they are deep copies, as
  their documentation does, and is interpreted on copies of the same form.
\<close>

subsection \<open>Copies from other packages\<close>

record third_party =
  Time_DeepCopyInto :: "(gval, time) copier"
  Condition_DeepCopyInto :: "(gval, Condition) copier"
  ObjectMeta_DeepCopyInto :: "(gval, mObjectMeta) copier"
  ListMeta_DeepCopyInto :: "(gval, mListMeta) copier"
  ConfigMapVolumeSource_DeepCopyInto :: "(gval, mConfigMapVolumeSource) copier"
  SecretVolumeSource_DeepCopyInto :: "(gval, SecretVolumeSource) copier"

subsection \<open>DeepCopyInto\<close>

abbreviation copy_string_ptr :: "(gval, addr option) copier" where
  "copy_string_ptr \<equiv> copy_ptr GString prj_String plain_copy"

abbreviation copy_map :: "(gval, addr option) copier" where
  "copy_map \<equiv> copy_ptr GMap prj_Map copy_entries"

definition DeepCopyInto_AWSExternalAccessContext :: "(gval, mAWSExternalAccessContext) copier" where
  "DeepCopyInto_AWSExternalAccessContext m i = Some (i, m)
     \<bind> copy_field maws_NodeMappings maws_NodeMappings_update
           (copy_slice GAWSNodeMapping prj_AWSNodeMapping plain_copy) i"

definition DeepCopyInto_AWSNodeMapping :: "(gval, AWSNodeMapping) copier" where
  "DeepCopyInto_AWSNodeMapping m i = Some (i, m)"

definition DeepCopyInto_VolumeSource :: "third_party \<Rightarrow> (gval, mVolumeSource) copier" where
  "DeepCopyInto_VolumeSource tp m i = Some (i, m)
     \<bind> copy_field mvs_ConfigMap mvs_ConfigMap_update
           (copy_ptr GConfigMapVolumeSource prj_ConfigMapVolumeSource (ConfigMapVolumeSource_DeepCopyInto tp)) i
     \<bind> copy_field mvs_Secret mvs_Secret_update
           (copy_ptr GSecretVolumeSource prj_SecretVolumeSource (SecretVolumeSource_DeepCopyInto tp)) i
     \<bind> copy_field mvs_PersistentVolumeClaim mvs_PersistentVolumeClaim_update
           (copy_ptr GPersistentVolumeClaimVolumeSource prj_PersistentVolumeClaimVolumeSource plain_copy) i"

definition DeepCopyInto_AdditionalVolume :: "third_party \<Rightarrow> (gval, mAdditionalVolume) copier" where
  "DeepCopyInto_AdditionalVolume tp m i = Some (i, m)
     \<bind> copy_field mav_SubPath mav_SubPath_update copy_string_ptr i
     \<bind> copy_field mav_VolumeSource mav_VolumeSource_update (DeepCopyInto_VolumeSource tp) i"

definition DeepCopyInto_AzureExternalAccessContext :: "(gval, mAzureExternalAccessContext) copier" where
  "DeepCopyInto_AzureExternalAccessContext m i = Some (i, m)
     \<bind> copy_field maz_NodeMappings maz_NodeMappings_update
           (copy_slice GAzureNodeMapping prj_AzureNodeMapping plain_copy) i"

definition DeepCopyInto_AzureNodeMapping :: "(gval, AzureNodeMapping) copier" where
  "DeepCopyInto_AzureNodeMapping m i = Some (i, m)"

definition DeepCopyInto_IngressControllerContext :: "(gval, mIngressControllerContext) copier" where
  "DeepCopyInto_IngressControllerContext m i = Some (i, m)
     \<bind> copy_field mic_AdditionalAnnotations mic_AdditionalAnnotations_update copy_map i"

definition DeepCopyInto_ExternalAccessConfiguration :: "(gval, mExternalAccessConfiguration) copier" where
  "DeepCopyInto_ExternalAccessConfiguration m i = Some (i, m)
     \<bind> copy_field mea_AWSExternalAccess mea_AWSExternalAccess_update
           (copy_ptr GAWSExternalAccessContext prj_AWSExternalAccessContext
              DeepCopyInto_AWSExternalAccessContext) i
     \<bind> copy_field mea_AzureExternalAccess mea_AzureExternalAccess_update
           (copy_ptr GAzureExternalAccessContext prj_AzureExternalAccessContext
              DeepCopyInto_AzureExternalAccessContext) i
     \<bind> copy_field mea_IngressControllerExternalAccess mea_IngressControllerExternalAccess_update
           (copy_ptr GIngressControllerContext prj_IngressControllerContext
              DeepCopyInto_IngressControllerContext) i"

definition DeepCopyInto_VolumeSpec :: "(gval, mVolumeSpec) copier" where
  "DeepCopyInto_VolumeSpec m i = Some (i, m)
     \<bind> copy_field mv_StorageClassName mv_StorageClassName_update copy_string_ptr i
     \<bind> copy_field mv_AccessModes mv_AccessModes_update
           (copy_ptr GSlice prj_Slice (copy_slice GString prj_String plain_copy)) i
     \<bind> copy_field mv_VolumeAttributesClassName mv_VolumeAttributesClassName_update copy_string_ptr i"

definition DeepCopyInto_LogSettings :: "(gval, mLogSettings) copier" where
  "DeepCopyInto_LogSettings m i = Some (i, m)
     \<bind> copy_field mls_VolumeSpec mls_VolumeSpec_update DeepCopyInto_VolumeSpec i
     \<bind> copy_field mls_Path mls_Path_update copy_string_ptr i"

definition DeepCopyInto_LogsSpec :: "(gval, mLogsSpec) copier" where
  "DeepCopyInto_LogsSpec m i = Some (i, m)
     \<bind> copy_field ml_RavenDB ml_RavenDB_update
           (copy_ptr GLogSettings prj_LogSettings DeepCopyInto_LogSettings) i
     \<bind> copy_field ml_Audit ml_Audit_update
           (copy_ptr GLogSettings prj_LogSettings DeepCopyInto_LogSettings) i"

definition DeepCopyInto_StorageSpec :: "third_party \<Rightarrow> (gval, mStorageSpec) copier" where
  "DeepCopyInto_StorageSpec tp m i = Some (i, m)
     \<bind> copy_field mss_Data mss_Data_update DeepCopyInto_VolumeSpec i
     \<bind> copy_field mss_Logs mss_Logs_update (copy_ptr GLogsSpec prj_LogsSpec DeepCopyInto_LogsSpec) i
     \<bind> copy_field mss_AdditionalVolumes mss_AdditionalVolumes_update
           (copy_ptr GSlice prj_Slice
              (copy_slice GAdditionalVolume prj_AdditionalVolume (DeepCopyInto_AdditionalVolume tp))) i"

definition DeepCopyInto_RavenDBNode :: "(gval, mRavenDBNode) copier" where
  "DeepCopyInto_RavenDBNode m i = Some (i, m)
     \<bind> copy_field mn_CertSecretRef mn_CertSecretRef_update copy_string_ptr i"

definition DeepCopyInto_RavenDBNodeStatus :: "third_party \<Rightarrow> (gval, RavenDBNodeStatus) copier" where
  "DeepCopyInto_RavenDBNodeStatus tp m i = Some (i, m)
     \<bind> copy_field ns_LastAttemptTime ns_LastAttemptTime_update (Time_DeepCopyInto tp) i"

definition DeepCopyInto_RavenDBClusterSpec :: "third_party \<Rightarrow> (gval, mRavenDBClusterSpec) copier" where
  "DeepCopyInto_RavenDBClusterSpec tp m i = Some (i, m)
     \<bind> copy_field ms_Email ms_Email_update copy_string_ptr i
     \<bind> copy_field ms_ClusterCertSecretRef ms_ClusterCertSecretRef_update copy_string_ptr i
     \<bind> copy_field ms_Nodes ms_Nodes_update
           (copy_slice GRavenDBNode prj_RavenDBNode DeepCopyInto_RavenDBNode) i
     \<bind> copy_field ms_Env ms_Env_update copy_map i
     \<bind> copy_field ms_ExternalAccessConfiguration ms_ExternalAccessConfiguration_update
           (copy_ptr GExternalAccessConfiguration prj_ExternalAccessConfiguration
              DeepCopyInto_ExternalAccessConfiguration) i
     \<bind> copy_field ms_StorageSpec ms_StorageSpec_update (DeepCopyInto_StorageSpec tp) i
     \<bind> copy_field ms_CACertSecretRef ms_CACertSecretRef_update copy_string_ptr i"

definition DeepCopyInto_RavenDBClusterStatus :: "third_party \<Rightarrow> (gval, mRavenDBClusterStatus) copier" where
  "DeepCopyInto_RavenDBClusterStatus tp m i = Some (i, m)
     \<bind> copy_field mst_Nodes mst_Nodes_update
           (copy_slice GRavenDBNodeStatus prj_RavenDBNodeStatus (DeepCopyInto_RavenDBNodeStatus tp)) i
     \<bind> copy_field mst_Conditions mst_Conditions_update
           (copy_slice GCondition prj_Condition (Condition_DeepCopyInto tp)) i"

definition DeepCopyInto_RavenDBCluster :: "third_party \<Rightarrow> (gval, mRavenDBCluster) copier" where
  "DeepCopyInto_RavenDBCluster tp m i = Some (i, m)
     \<bind> copy_field mc_TypeMeta mc_TypeMeta_update plain_copy i
     \<bind> copy_field mc_ObjectMeta mc_ObjectMeta_update (ObjectMeta_DeepCopyInto tp) i
     \<bind> copy_field mc_Spec mc_Spec_update (DeepCopyInto_RavenDBClusterSpec tp) i
     \<bind> copy_field mc_Status mc_Status_update (DeepCopyInto_RavenDBClusterStatus tp) i"

definition DeepCopyInto_RavenDBClusterList :: "third_party \<Rightarrow> (gval, mRavenDBClusterList) copier" where
  "DeepCopyInto_RavenDBClusterList tp m i = Some (i, m)
     \<bind> copy_field mcl_TypeMeta mcl_TypeMeta_update plain_copy i
     \<bind> copy_field mcl_ListMeta mcl_ListMeta_update (ListMeta_DeepCopyInto tp) i
     \<bind> copy_field mcl_Items mcl_Items_update
           (copy_slice GRavenDBCluster prj_RavenDBCluster (DeepCopyInto_RavenDBCluster tp)) i"

subsection \<open>They are deep copies\<close>

named_theorems copier_field "the step rule of every copied field type"
named_theorems copier_mono "reads survive an extension of the heap"

interpretation str: heap_copier plain plain_copy GString prj_String
  by unfold_locales simp

interpretation strings: heap_copier read_string_slice "copy_slice GString prj_String plain_copy" GSlice prj_Slice
  by unfold_locales (simp_all add: str.slice.read_mono str.slice.copies)

interpretation mapobj: heap_copier read_entries copy_entries GMap prj_Map
  by unfold_locales simp

interpretation maps: deep_copier read_map copy_map
  unfolding read_map_def [abs_def] by (rule mapobj.ptr.mapped)

interpretation pvc: heap_copier plain plain_copy GPersistentVolumeClaimVolumeSource
  prj_PersistentVolumeClaimVolumeSource
  by unfold_locales simp

interpretation aws_elem: heap_copier plain plain_copy GAWSNodeMapping prj_AWSNodeMapping
  by unfold_locales simp

interpretation az_elem: heap_copier plain plain_copy GAzureNodeMapping prj_AzureNodeMapping
  by unfold_locales simp

declare plain.filled_field [copier_field] plain.read_mono [copier_mono]
  str.ptr.filled_field [copier_field] str.ptr.read_mono [copier_mono]
  strings.ptr.filled_field [copier_field] strings.ptr.read_mono [copier_mono]
  maps.filled_field [copier_field] maps.read_mono [copier_mono]
  pvc.ptr.filled_field [copier_field] pvc.ptr.read_mono [copier_mono]
  aws_elem.slice.filled_field [copier_field] aws_elem.slice.read_mono [copier_mono]
  az_elem.slice.filled_field [copier_field] az_elem.slice.read_mono [copier_mono]

lemma copies_as_is: "deep_copier plain (\<lambda>m i. Some (i, m))"
  by unfold_locales (auto simp: plain_def intro!: copiedI grows_refl)

interpretation aws_mapping: heap_copier plain DeepCopyInto_AWSNodeMapping GAWSNodeMapping prj_AWSNodeMapping
  unfolding DeepCopyInto_AWSNodeMapping_def [abs_def]
  by (intro heap_copier.intro copies_as_is) (unfold_locales, simp)

interpretation az_mapping: heap_copier plain DeepCopyInto_AzureNodeMapping GAzureNodeMapping prj_AzureNodeMapping
  unfolding DeepCopyInto_AzureNodeMapping_def [abs_def]
  by (intro heap_copier.intro copies_as_is) (unfold_locales, simp)

interpretation aws: heap_copier read_AWSExternalAccessContext DeepCopyInto_AWSExternalAccessContext
  GAWSExternalAccessContext prj_AWSExternalAccessContext
proof (unfold_locales, goal_cases)
  case (1 h x v h')
  then show ?case by (auto simp: read_AWSExternalAccessContext_def bind_eq_Some_conv intro: copier_mono)
next
  case (2 m b x v)
  then show ?case
    unfolding read_AWSExternalAccessContext_def bind_eq_Some_conv DeepCopyInto_AWSExternalAccessContext_def
    by - ((elim exE conjE)?, rule filled_copied, (rule copier_field, assumption, assumption)+,
        rule filled_start, assumption, auto simp: read_AWSExternalAccessContext_def)
qed simp

declare aws.ptr.filled_field [copier_field] aws.ptr.read_mono [copier_mono]

interpretation azure: heap_copier read_AzureExternalAccessContext DeepCopyInto_AzureExternalAccessContext
  GAzureExternalAccessContext prj_AzureExternalAccessContext
proof (unfold_locales, goal_cases)
  case (1 h x v h')
  then show ?case by (auto simp: read_AzureExternalAccessContext_def bind_eq_Some_conv intro: copier_mono)
next
  case (2 m b x v)
  then show ?case
    unfolding read_AzureExternalAccessContext_def bind_eq_Some_conv DeepCopyInto_AzureExternalAccessContext_def
    by - ((elim exE conjE)?, rule filled_copied, (rule copier_field, assumption, assumption)+,
        rule filled_start, assumption, auto simp: read_AzureExternalAccessContext_def)
qed simp

declare azure.ptr.filled_field [copier_field] azure.ptr.read_mono [copier_mono]

interpretation ingress: heap_copier read_IngressControllerContext DeepCopyInto_IngressControllerContext
  GIngressControllerContext prj_IngressControllerContext
proof (unfold_locales, goal_cases)
  case (1 h x v h')
  then show ?case by (auto simp: read_IngressControllerContext_def bind_eq_Some_conv intro: copier_mono)
next
  case (2 m b x v)
  then show ?case
    unfolding read_IngressControllerContext_def bind_eq_Some_conv DeepCopyInto_IngressControllerContext_def
    by - ((elim exE conjE)?, rule filled_copied, (rule copier_field, assumption, assumption)+,
        rule filled_start, assumption, auto simp: read_IngressControllerContext_def)
qed simp

declare ingress.ptr.filled_field [copier_field] ingress.ptr.read_mono [copier_mono]

interpretation external: heap_copier read_ExternalAccessConfiguration DeepCopyInto_ExternalAccessConfiguration
  GExternalAccessConfiguration prj_ExternalAccessConfiguration
proof (unfold_locales, goal_cases)
  case (1 h x v h')
  then show ?case by (auto simp: read_ExternalAccessConfiguration_def bind_eq_Some_conv intro: copier_mono)
next
  case (2 m b x v)
  then show ?case
    unfolding read_ExternalAccessConfiguration_def bind_eq_Some_conv DeepCopyInto_ExternalAccessConfiguration_def
    by - ((elim exE conjE)?, rule filled_copied, (rule copier_field, assumption, assumption)+,
        rule filled_start, assumption, auto simp: read_ExternalAccessConfiguration_def)
qed simp

declare external.ptr.filled_field [copier_field] external.ptr.read_mono [copier_mono]

interpretation volume: heap_copier read_VolumeSpec DeepCopyInto_VolumeSpec
  GVolumeSpec prj_VolumeSpec
proof (unfold_locales, goal_cases)
  case (1 h x v h')
  then show ?case by (auto simp: read_VolumeSpec_def bind_eq_Some_conv intro: copier_mono)
next
  case (2 m b x v)
  then show ?case
    unfolding read_VolumeSpec_def bind_eq_Some_conv DeepCopyInto_VolumeSpec_def
    by - ((elim exE conjE)?, rule filled_copied, (rule copier_field, assumption, assumption)+,
        rule filled_start, assumption, auto simp: read_VolumeSpec_def)
qed simp

declare volume.filled_field [copier_field] volume.read_mono [copier_mono]

interpretation log: heap_copier read_LogSettings DeepCopyInto_LogSettings
  GLogSettings prj_LogSettings
proof (unfold_locales, goal_cases)
  case (1 h x v h')
  then show ?case by (auto simp: read_LogSettings_def bind_eq_Some_conv intro: copier_mono)
next
  case (2 m b x v)
  then show ?case
    unfolding read_LogSettings_def bind_eq_Some_conv DeepCopyInto_LogSettings_def
    by - ((elim exE conjE)?, rule filled_copied, (rule copier_field, assumption, assumption)+,
        rule filled_start, assumption, auto simp: read_LogSettings_def)
qed simp

declare log.ptr.filled_field [copier_field] log.ptr.read_mono [copier_mono]

interpretation logs: heap_copier read_LogsSpec DeepCopyInto_LogsSpec
  GLogsSpec prj_LogsSpec
proof (unfold_locales, goal_cases)
  case (1 h x v h')
  then show ?case by (auto simp: read_LogsSpec_def bind_eq_Some_conv intro: copier_mono)
next
  case (2 m b x v)
  then show ?case
    unfolding read_LogsSpec_def bind_eq_Some_conv DeepCopyInto_LogsSpec_def
    by - ((elim exE conjE)?, rule filled_copied, (rule copier_field, assumption, assumption)+,
        rule filled_start, assumption, auto simp: read_LogsSpec_def)
qed simp

declare logs.ptr.filled_field [copier_field] logs.ptr.read_mono [copier_mono]

interpretation node: heap_copier read_RavenDBNode DeepCopyInto_RavenDBNode
  GRavenDBNode prj_RavenDBNode
proof (unfold_locales, goal_cases)
  case (1 h x v h')
  then show ?case by (auto simp: read_RavenDBNode_def bind_eq_Some_conv intro: copier_mono)
next
  case (2 m b x v)
  then show ?case
    unfolding read_RavenDBNode_def bind_eq_Some_conv DeepCopyInto_RavenDBNode_def
    by - ((elim exE conjE)?, rule filled_copied, (rule copier_field, assumption, assumption)+,
        rule filled_start, assumption, auto simp: read_RavenDBNode_def)
qed simp

declare node.slice.filled_field [copier_field] node.slice.read_mono [copier_mono]

locale third_party_copiers =
  fixes tp :: third_party
  assumes Time_copies: "deep_copier plain (Time_DeepCopyInto tp)"
    and Condition_copies: "deep_copier plain (Condition_DeepCopyInto tp)"
    and ObjectMeta_copies: "deep_copier read_ObjectMeta (ObjectMeta_DeepCopyInto tp)"
    and ListMeta_copies: "deep_copier read_ListMeta (ListMeta_DeepCopyInto tp)"
    and ConfigMapVolumeSource_copies:
      "deep_copier read_ConfigMapVolumeSource (ConfigMapVolumeSource_DeepCopyInto tp)"
    and SecretVolumeSource_copies: "deep_copier plain (SecretVolumeSource_DeepCopyInto tp)"

sublocale third_party_copiers \<subseteq> time: deep_copier plain "Time_DeepCopyInto tp"
  by (rule Time_copies)

sublocale third_party_copiers \<subseteq> object_meta: deep_copier read_ObjectMeta "ObjectMeta_DeepCopyInto tp"
  by (rule ObjectMeta_copies)

sublocale third_party_copiers \<subseteq> list_meta: deep_copier read_ListMeta "ListMeta_DeepCopyInto tp"
  by (rule ListMeta_copies)

sublocale third_party_copiers \<subseteq> condition: heap_copier plain "Condition_DeepCopyInto tp" GCondition prj_Condition
  by (rule heap_copier.intro [OF Condition_copies]) (unfold_locales, simp)

sublocale third_party_copiers \<subseteq> config_map: heap_copier read_ConfigMapVolumeSource
  "ConfigMapVolumeSource_DeepCopyInto tp" GConfigMapVolumeSource prj_ConfigMapVolumeSource
  by (rule heap_copier.intro [OF ConfigMapVolumeSource_copies]) (unfold_locales, simp)

sublocale third_party_copiers \<subseteq> secret: heap_copier plain "SecretVolumeSource_DeepCopyInto tp"
  GSecretVolumeSource prj_SecretVolumeSource
  by (rule heap_copier.intro [OF SecretVolumeSource_copies]) (unfold_locales, simp)

context third_party_copiers
begin

declare time.filled_field [copier_field] time.read_mono [copier_mono]
  object_meta.filled_field [copier_field] object_meta.read_mono [copier_mono]
  list_meta.filled_field [copier_field] list_meta.read_mono [copier_mono]
  condition.slice.filled_field [copier_field] condition.slice.read_mono [copier_mono]
  config_map.ptr.filled_field [copier_field] config_map.ptr.read_mono [copier_mono]
  secret.ptr.filled_field [copier_field] secret.ptr.read_mono [copier_mono]

end

sublocale third_party_copiers \<subseteq> source: heap_copier read_VolumeSource "DeepCopyInto_VolumeSource tp"
  GVolumeSource prj_VolumeSource
proof (unfold_locales, goal_cases)
  case (1 h x v h')
  then show ?case by (auto simp: read_VolumeSource_def bind_eq_Some_conv intro: copier_mono)
next
  case (2 m b x v)
  then show ?case
    unfolding read_VolumeSource_def bind_eq_Some_conv DeepCopyInto_VolumeSource_def
    by - ((elim exE conjE)?, rule filled_copied, (rule copier_field, assumption, assumption)+,
        rule filled_start, assumption, auto simp: read_VolumeSource_def)
qed simp

context third_party_copiers
begin

declare source.filled_field [copier_field] source.read_mono [copier_mono]

end

sublocale third_party_copiers \<subseteq> additional: heap_copier read_AdditionalVolume "DeepCopyInto_AdditionalVolume tp"
  GAdditionalVolume prj_AdditionalVolume
proof (unfold_locales, goal_cases)
  case (1 h x v h')
  then show ?case by (auto simp: read_AdditionalVolume_def bind_eq_Some_conv intro: copier_mono)
next
  case (2 m b x v)
  then show ?case
    unfolding read_AdditionalVolume_def bind_eq_Some_conv DeepCopyInto_AdditionalVolume_def
    by - ((elim exE conjE)?, rule filled_copied, (rule copier_field, assumption, assumption)+,
        rule filled_start, assumption, auto simp: read_AdditionalVolume_def)
qed simp

sublocale third_party_copiers \<subseteq> additionals: heap_copier "read_slice prj_AdditionalVolume read_AdditionalVolume"
  "copy_slice GAdditionalVolume prj_AdditionalVolume (DeepCopyInto_AdditionalVolume tp)" GSlice prj_Slice
  by unfold_locales (simp_all add: additional.slice.read_mono additional.slice.copies)

context third_party_copiers
begin

declare additionals.ptr.filled_field [copier_field] additionals.ptr.read_mono [copier_mono]

end

sublocale third_party_copiers \<subseteq> storage: heap_copier read_StorageSpec "DeepCopyInto_StorageSpec tp"
  GStorageSpec prj_StorageSpec
proof (unfold_locales, goal_cases)
  case (1 h x v h')
  then show ?case by (auto simp: read_StorageSpec_def bind_eq_Some_conv intro: copier_mono)
next
  case (2 m b x v)
  then show ?case
    unfolding read_StorageSpec_def bind_eq_Some_conv DeepCopyInto_StorageSpec_def
    by - ((elim exE conjE)?, rule filled_copied, (rule copier_field, assumption, assumption)+,
        rule filled_start, assumption, auto simp: read_StorageSpec_def)
qed simp

sublocale third_party_copiers \<subseteq> node_status: heap_copier plain "DeepCopyInto_RavenDBNodeStatus tp"
  GRavenDBNodeStatus prj_RavenDBNodeStatus
proof (unfold_locales, goal_cases)
  case (1 h x v h')
  then show ?case by (auto simp: plain_def bind_eq_Some_conv intro: copier_mono)
next
  case (2 m b x v)
  then show ?case
    unfolding DeepCopyInto_RavenDBNodeStatus_def
    by (intro filled_copied [OF time.filled_field [OF _ _ filled_start], of m _ _ "ns_LastAttemptTime x"])
      (auto simp: plain_def)
qed simp

context third_party_copiers
begin

declare storage.filled_field [copier_field] storage.read_mono [copier_mono]
  node_status.slice.filled_field [copier_field] node_status.slice.read_mono [copier_mono]

end

sublocale third_party_copiers \<subseteq> spec: heap_copier read_RavenDBClusterSpec "DeepCopyInto_RavenDBClusterSpec tp"
  GRavenDBClusterSpec prj_RavenDBClusterSpec
proof (unfold_locales, goal_cases)
  case (1 h x v h')
  then show ?case by (auto simp: read_RavenDBClusterSpec_def bind_eq_Some_conv intro: copier_mono)
next
  case (2 m b x v)
  then show ?case
    unfolding read_RavenDBClusterSpec_def bind_eq_Some_conv DeepCopyInto_RavenDBClusterSpec_def
    by - ((elim exE conjE)?, rule filled_copied, (rule copier_field, assumption, assumption)+,
        rule filled_start, assumption, auto simp: read_RavenDBClusterSpec_def)
qed simp

sublocale third_party_copiers \<subseteq> status: heap_copier read_RavenDBClusterStatus "DeepCopyInto_RavenDBClusterStatus tp"
  GRavenDBClusterStatus prj_RavenDBClusterStatus
proof (unfold_locales, goal_cases)
  case (1 h x v h')
  then show ?case by (auto simp: read_RavenDBClusterStatus_def bind_eq_Some_conv intro: copier_mono)
next
  case (2 m b x v)
  then show ?case
    unfolding read_RavenDBClusterStatus_def bind_eq_Some_conv DeepCopyInto_RavenDBClusterStatus_def
    by - ((elim exE conjE)?, rule filled_copied, (rule copier_field, assumption, assumption)+,
        rule filled_start, assumption, auto simp: read_RavenDBClusterStatus_def)
qed simp

context third_party_copiers
begin

declare spec.filled_field [copier_field] spec.read_mono [copier_mono]
  status.filled_field [copier_field] status.read_mono [copier_mono]

end

sublocale third_party_copiers \<subseteq> cluster: heap_copier read_RavenDBCluster "DeepCopyInto_RavenDBCluster tp"
  GRavenDBCluster prj_RavenDBCluster
proof (unfold_locales, goal_cases)
  case (1 h x v h')
  then show ?case
    by (auto simp: read_RavenDBCluster_def bind_eq_Some_conv plain_def intro: spec.read_mono
        status.read_mono dest: object_meta.read_mono)
next
  case (2 m b x v)
  then show ?case
    unfolding read_RavenDBCluster_def bind_eq_Some_conv DeepCopyInto_RavenDBCluster_def
    by - ((elim exE conjE)?, rule filled_copied, (rule copier_field, assumption, assumption)+,
        rule filled_start, assumption, auto simp: read_RavenDBCluster_def)
qed simp

context third_party_copiers
begin

declare cluster.slice.filled_field [copier_field] cluster.slice.read_mono [copier_mono]

end

sublocale third_party_copiers \<subseteq> cluster_list: heap_copier read_RavenDBClusterList "DeepCopyInto_RavenDBClusterList tp"
  GRavenDBClusterList prj_RavenDBClusterList
proof (unfold_locales, goal_cases)
  case (1 h x v h')
  then show ?case by (auto simp: read_RavenDBClusterList_def bind_eq_Some_conv intro: copier_mono)
next
  case (2 m b x v)
  then show ?case
    unfolding read_RavenDBClusterList_def bind_eq_Some_conv DeepCopyInto_RavenDBClusterList_def
    by - ((elim exE conjE)?, rule filled_copied, (rule copier_field, assumption, assumption)+,
        rule filled_start, assumption, auto simp: read_RavenDBClusterList_def)
qed simp

subsection \<open>Copies of the same form for the types of other packages\<close>

definition copy_ObjectMeta :: "(gval, mObjectMeta) copier" where
  "copy_ObjectMeta m i = Some (i, m) \<bind> copy_field mo_Annotations mo_Annotations_update copy_map i"

definition copy_ListMeta :: "(gval, mListMeta) copier" where
  "copy_ListMeta m i = Some (i, m)
     \<bind> copy_field ml_RemainingItemCount ml_RemainingItemCount_update
           (copy_ptr GInt64 prj_Int64 plain_copy) i"

definition copy_ConfigMapVolumeSource :: "(gval, mConfigMapVolumeSource) copier" where
  "copy_ConfigMapVolumeSource m i = Some (i, m)
     \<bind> copy_field mcm_Items mcm_Items_update (copy_slice GKeyToPath prj_KeyToPath plain_copy) i
     \<bind> copy_field mcm_DefaultMode mcm_DefaultMode_update (copy_ptr GInt32 prj_Int32 plain_copy) i"

definition k8s_copiers :: third_party where
  "k8s_copiers =
     \<lparr>Time_DeepCopyInto = plain_copy, Condition_DeepCopyInto = plain_copy,
      ObjectMeta_DeepCopyInto = copy_ObjectMeta, ListMeta_DeepCopyInto = copy_ListMeta,
      ConfigMapVolumeSource_DeepCopyInto = copy_ConfigMapVolumeSource,
      SecretVolumeSource_DeepCopyInto = plain_copy\<rparr>"

interpretation gomaps: deep_copier read_gomap copy_map
  unfolding read_gomap_def [abs_def] by (rule maps.mapped)

interpretation int64_elem: heap_copier plain plain_copy GInt64 prj_Int64
  by unfold_locales simp

interpretation int32_elem: heap_copier plain plain_copy GInt32 prj_Int32
  by unfold_locales simp

interpretation ktp_elem: heap_copier plain plain_copy GKeyToPath prj_KeyToPath
  by unfold_locales simp

declare gomaps.filled_field [copier_field] gomaps.read_mono [copier_mono]
  int64_elem.ptr.filled_field [copier_field] int64_elem.ptr.read_mono [copier_mono]
  int32_elem.ptr.filled_field [copier_field] int32_elem.ptr.read_mono [copier_mono]
  ktp_elem.slice.filled_field [copier_field] ktp_elem.slice.read_mono [copier_mono]

lemma copy_ObjectMeta_copies: "deep_copier read_ObjectMeta copy_ObjectMeta"
proof (unfold_locales, goal_cases)
  case (1 h x v h')
  then show ?case by (auto simp: read_ObjectMeta_def bind_eq_Some_conv intro: copier_mono)
next
  case (2 m b x v)
  then show ?case
    unfolding read_ObjectMeta_def bind_eq_Some_conv copy_ObjectMeta_def
    by - ((elim exE conjE)?, rule filled_copied, (rule copier_field, assumption, assumption)+,
        rule filled_start, assumption, auto simp: read_ObjectMeta_def)
qed

lemma copy_ListMeta_copies: "deep_copier read_ListMeta copy_ListMeta"
proof (unfold_locales, goal_cases)
  case (1 h x v h')
  then show ?case by (auto simp: read_ListMeta_def bind_eq_Some_conv intro: copier_mono)
next
  case (2 m b x v)
  then show ?case
    unfolding read_ListMeta_def bind_eq_Some_conv copy_ListMeta_def
    by - ((elim exE conjE)?, rule filled_copied, (rule copier_field, assumption, assumption)+,
        rule filled_start, assumption, auto simp: read_ListMeta_def)
qed

lemma copy_ConfigMapVolumeSource_copies: "deep_copier read_ConfigMapVolumeSource copy_ConfigMapVolumeSource"
proof (unfold_locales, goal_cases)
  case (1 h x v h')
  then show ?case by (auto simp: read_ConfigMapVolumeSource_def bind_eq_Some_conv intro: copier_mono)
next
  case (2 m b x v)
  then show ?case
    unfolding read_ConfigMapVolumeSource_def bind_eq_Some_conv copy_ConfigMapVolumeSource_def
    by - ((elim exE conjE)?, rule filled_copied, (rule copier_field, assumption, assumption)+,
        rule filled_start, assumption, auto simp: read_ConfigMapVolumeSource_def)
qed

interpretation k8s: third_party_copiers k8s_copiers
  by (rule third_party_copiers.intro)
    (simp_all add: k8s_copiers_def plain.deep_copier_axioms copy_ObjectMeta_copies copy_ListMeta_copies
      copy_ConfigMapVolumeSource_copies)

subsection \<open>DeepCopy\<close>

definition DeepCopy_AWSExternalAccessContext :: "(gval, addr option) copier" where
  "DeepCopy_AWSExternalAccessContext = copy_ptr GAWSExternalAccessContext prj_AWSExternalAccessContext DeepCopyInto_AWSExternalAccessContext"

definition DeepCopy_AWSNodeMapping :: "(gval, addr option) copier" where
  "DeepCopy_AWSNodeMapping = copy_ptr GAWSNodeMapping prj_AWSNodeMapping DeepCopyInto_AWSNodeMapping"

definition DeepCopy_AdditionalVolume :: "third_party \<Rightarrow> (gval, addr option) copier" where
  "DeepCopy_AdditionalVolume tp = copy_ptr GAdditionalVolume prj_AdditionalVolume (DeepCopyInto_AdditionalVolume tp)"

definition DeepCopy_AzureExternalAccessContext :: "(gval, addr option) copier" where
  "DeepCopy_AzureExternalAccessContext = copy_ptr GAzureExternalAccessContext prj_AzureExternalAccessContext DeepCopyInto_AzureExternalAccessContext"

definition DeepCopy_AzureNodeMapping :: "(gval, addr option) copier" where
  "DeepCopy_AzureNodeMapping = copy_ptr GAzureNodeMapping prj_AzureNodeMapping DeepCopyInto_AzureNodeMapping"

definition DeepCopy_ExternalAccessConfiguration :: "(gval, addr option) copier" where
  "DeepCopy_ExternalAccessConfiguration = copy_ptr GExternalAccessConfiguration prj_ExternalAccessConfiguration DeepCopyInto_ExternalAccessConfiguration"

definition DeepCopy_IngressControllerContext :: "(gval, addr option) copier" where
  "DeepCopy_IngressControllerContext = copy_ptr GIngressControllerContext prj_IngressControllerContext DeepCopyInto_IngressControllerContext"

definition DeepCopy_LogSettings :: "(gval, addr option) copier" where
  "DeepCopy_LogSettings = copy_ptr GLogSettings prj_LogSettings DeepCopyInto_LogSettings"

definition DeepCopy_LogsSpec :: "(gval, addr option) copier" where
  "DeepCopy_LogsSpec = copy_ptr GLogsSpec prj_LogsSpec DeepCopyInto_LogsSpec"

definition DeepCopy_RavenDBCluster :: "third_party \<Rightarrow> (gval, addr option) copier" where
  "DeepCopy_RavenDBCluster tp = copy_ptr GRavenDBCluster prj_RavenDBCluster (DeepCopyInto_RavenDBCluster tp)"

definition DeepCopy_RavenDBClusterList :: "third_party \<Rightarrow> (gval, addr option) copier" where
  "DeepCopy_RavenDBClusterList tp = copy_ptr GRavenDBClusterList prj_RavenDBClusterList (DeepCopyInto_RavenDBClusterList tp)"

definition DeepCopy_RavenDBClusterSpec :: "third_party \<Rightarrow> (gval, addr option) copier" where
  "DeepCopy_RavenDBClusterSpec tp = copy_ptr GRavenDBClusterSpec prj_RavenDBClusterSpec (DeepCopyInto_RavenDBClusterSpec tp)"

definition DeepCopy_RavenDBClusterStatus :: "third_party \<Rightarrow> (gval, addr option) copier" where
  "DeepCopy_RavenDBClusterStatus tp = copy_ptr GRavenDBClusterStatus prj_RavenDBClusterStatus (DeepCopyInto_RavenDBClusterStatus tp)"

definition DeepCopy_RavenDBNode :: "(gval, addr option) copier" where
  "DeepCopy_RavenDBNode = copy_ptr GRavenDBNode prj_RavenDBNode DeepCopyInto_RavenDBNode"

definition DeepCopy_RavenDBNodeStatus :: "third_party \<Rightarrow> (gval, addr option) copier" where
  "DeepCopy_RavenDBNodeStatus tp = copy_ptr GRavenDBNodeStatus prj_RavenDBNodeStatus (DeepCopyInto_RavenDBNodeStatus tp)"

definition DeepCopy_StorageSpec :: "third_party \<Rightarrow> (gval, addr option) copier" where
  "DeepCopy_StorageSpec tp = copy_ptr GStorageSpec prj_StorageSpec (DeepCopyInto_StorageSpec tp)"

definition DeepCopy_VolumeSource :: "third_party \<Rightarrow> (gval, addr option) copier" where
  "DeepCopy_VolumeSource tp = copy_ptr GVolumeSource prj_VolumeSource (DeepCopyInto_VolumeSource tp)"

definition DeepCopy_VolumeSpec :: "(gval, addr option) copier" where
  "DeepCopy_VolumeSpec = copy_ptr GVolumeSpec prj_VolumeSpec DeepCopyInto_VolumeSpec"

text \<open>\<open>DeepCopyObject\<close> returns an interface value: the nil interface for a nil pointer, and never
  an interface that holds a nil pointer.\<close>

datatype object_iface = NilObject | ClusterObject addr | ClusterListObject addr

definition DeepCopyObject_RavenDBCluster ::
  "third_party \<Rightarrow> mem \<Rightarrow> addr option \<Rightarrow> (object_iface \<times> mem) option" where
  "DeepCopyObject_RavenDBCluster tp m p = do {
     (c, m') \<leftarrow> DeepCopy_RavenDBCluster tp m p;
     Some (case c of Some a \<Rightarrow> ClusterObject a | None \<Rightarrow> NilObject, m') }"

definition DeepCopyObject_RavenDBClusterList ::
  "third_party \<Rightarrow> mem \<Rightarrow> addr option \<Rightarrow> (object_iface \<times> mem) option" where
  "DeepCopyObject_RavenDBClusterList tp m p = do {
     (c, m') \<leftarrow> DeepCopy_RavenDBClusterList tp m p;
     Some (case c of Some a \<Rightarrow> ClusterListObject a | None \<Rightarrow> NilObject, m') }"

end
