(* ===== verification/StatusMemory.thy ===== *)
theory StatusMemory
  imports DeepCopy
begin

text \<open>
  The status helpers (\<open>api/v1/status_helpers.go\<close>) on memory.  \<open>GetCondition\<close> returns a pointer to
  an element of the conditions array, \<open>setCondition\<close> writes through it or appends to the slice
  (in place while the capacity lasts, otherwise into a new array), and \<open>ComputeReady\<close> keeps such a
  pointer across a call of \<open>setCondition\<close>.  The lemmas show that every helper does to the object
  what the function of \<^theory_text>\<open>StatusConditions\<close> does to its value, and that it touches no
  address outside the object's own cell, its conditions array and fresh memory.
\<close>

subsection \<open>Definitions\<close>

type_synonym elem_ptr = "addr \<times> nat"

definition zero_condition :: Condition where
  "zero_condition = \<lparr>c_Type = '''', c_Status = '''', c_Reason = '''', c_Message = '''', c_LastTransitionTime = 0\<rparr>"

definition load_condition :: "mem \<Rightarrow> elem_ptr \<Rightarrow> Condition option" where
  "load_condition m p =
     (case cells m (fst p) of
        Some (Many gs) \<Rightarrow> if snd p < length gs then prj_Condition (gs ! snd p) else None
      | _ \<Rightarrow> None)"

definition store_condition :: "mem \<Rightarrow> elem_ptr \<Rightarrow> Condition \<Rightarrow> mem option" where
  "store_condition m p c =
     (case cells m (fst p) of
        Some (Many gs) \<Rightarrow>
          if snd p < length gs
          then Some (m\<lparr>cells := (cells m)(fst p \<mapsto> Many (gs[snd p := GCondition c]))\<rparr>) else None
      | _ \<Rightarrow> None)"

definition store_cluster :: "mem \<Rightarrow> addr \<Rightarrow> mRavenDBCluster \<Rightarrow> mem" where
  "store_cluster m r c = m\<lparr>cells := (cells m)(r \<mapsto> One (GRavenDBCluster c))\<rparr>"

definition mem_update_status ::
  "mem \<Rightarrow> addr \<Rightarrow> (mRavenDBClusterStatus \<Rightarrow> mRavenDBClusterStatus) \<Rightarrow> mem option" where
  "mem_update_status m r f = do {
     c \<leftarrow> load prj_RavenDBCluster (cells m) r;
     Some (store_cluster m r (c\<lparr>mc_Status := f (mc_Status c)\<rparr>)) }"

fun cond_index :: "Condition list \<Rightarrow> string \<Rightarrow> nat option" where
  "cond_index [] t = None"
| "cond_index (c # cs) t = (if c_Type c = t then Some 0 else map_option Suc (cond_index cs t))"

abbreviation read_conditions :: "gheap \<Rightarrow> slice option \<Rightarrow> Condition list option" where
  "read_conditions \<equiv> read_slice prj_Condition plain"

definition mem_GetCondition :: "mem \<Rightarrow> addr \<Rightarrow> string \<Rightarrow> elem_ptr option option" where
  "mem_GetCondition m r t = do {
     c \<leftarrow> load prj_RavenDBCluster (cells m) r;
     cs \<leftarrow> read_conditions (cells m) (mst_Conditions (mc_Status c));
     Some (do {
       sl \<leftarrow> mst_Conditions (mc_Status c);
       i \<leftarrow> cond_index cs t;
       Some (sl_array sl, sl_off sl + i) }) }"

text \<open>The built-in \<open>append\<close> of one element.  The run-time chooses how much capacity a new array has
  to spare (\<open>grow\<close>); the spare elements are zero values.\<close>

definition new_array :: "(nat \<Rightarrow> nat) \<Rightarrow> mem \<Rightarrow> gval list \<Rightarrow> Condition \<Rightarrow> slice option \<times> mem" where
  "new_array grow m gs c =
     (let n = Suc (length gs); k = grow (length gs);
          (a, m') = alloc (Many (gs @ GCondition c # replicate k (GCondition zero_condition))) m
      in (Some \<lparr>sl_array = a, sl_off = 0, sl_len = n, sl_cap = n + k\<rparr>, m'))"

definition append_condition ::
  "(nat \<Rightarrow> nat) \<Rightarrow> mem \<Rightarrow> slice option \<Rightarrow> Condition \<Rightarrow> (slice option \<times> mem) option" where
  "append_condition grow m s c =
     (case s of
        Some sl \<Rightarrow>
          if sl_len sl < sl_cap sl
          then do { m' \<leftarrow> store_condition m (sl_array sl, sl_off sl + sl_len sl) c;
                    Some (Some (sl\<lparr>sl_len := Suc (sl_len sl)\<rparr>), m') }
          else do { gs \<leftarrow> elems (cells m) sl; Some (new_array grow m gs c) }
      | None \<Rightarrow> Some (new_array grow m [] c))"

definition mem_setCondition ::
  "(nat \<Rightarrow> nat) \<Rightarrow> mem \<Rightarrow> addr \<Rightarrow> string \<Rightarrow> string \<Rightarrow> string \<Rightarrow> string \<Rightarrow> time \<Rightarrow> mem option" where
  "mem_setCondition grow m r t status reason msg now = do {
     p \<leftarrow> mem_GetCondition m r t;
     case p of
       Some p \<Rightarrow> do {
         c \<leftarrow> load_condition m p;
         store_condition m p (overwrite status reason msg now c) }
     | None \<Rightarrow> do {
         c \<leftarrow> load prj_RavenDBCluster (cells m) r;
         (s, m') \<leftarrow> append_condition grow m (mst_Conditions (mc_Status c))
           \<lparr>c_Type = t, c_Status = status, c_Reason = reasonsanitize reason, c_Message = msg,
            c_LastTransitionTime = now\<rparr>;
         mem_update_status m' r (mst_Conditions_update (\<lambda>_. s)) } }"

definition mem_SetObservedGeneration :: "mem \<Rightarrow> addr \<Rightarrow> int \<Rightarrow> mem option" where
  "mem_SetObservedGeneration m r gen = mem_update_status m r (mst_ObservedGeneration_update (\<lambda>_. gen))"

definition mem_set_message :: "mem \<Rightarrow> addr \<Rightarrow> string \<Rightarrow> mem option" where
  "mem_set_message m r msg = mem_update_status m r (mst_Message_update (\<lambda>_. msg))"

definition mem_HasConditionTrue :: "mem \<Rightarrow> addr \<Rightarrow> string \<Rightarrow> bool option" where
  "mem_HasConditionTrue m r t = do {
     p \<leftarrow> mem_GetCondition m r t;
     case p of
       None \<Rightarrow> Some False
     | Some p \<Rightarrow> do { c \<leftarrow> load_condition m p; Some (c_Status c = ConditionTrue) } }"

definition mem_UpdatePhaseFromConditions :: "mem \<Rightarrow> addr \<Rightarrow> mem option" where
  "mem_UpdatePhaseFromConditions m r = do {
     ready \<leftarrow> mem_HasConditionTrue m r ConditionReady;
     degraded \<leftarrow> mem_HasConditionTrue m r ConditionDegraded;
     progressing \<leftarrow> mem_HasConditionTrue m r ConditionProgressing;
     mem_update_status m r (mst_Phase_update (\<lambda>_.
       if ready then PhaseRunning else if degraded then PhaseError
       else if progressing then PhaseDeploying else PhaseDeploying)) }"

text \<open>The pointer \<open>condition\<close> is read again after \<open>setCondition\<close> has written.\<close>

fun mem_compute_ready_loop :: "(nat \<Rightarrow> nat) \<Rightarrow> mem \<Rightarrow> addr \<Rightarrow> string list \<Rightarrow> time \<Rightarrow> mem option" where
  "mem_compute_ready_loop grow m r [] now = do {
     m \<leftarrow> mem_setCondition grow m r ConditionReady ConditionTrue ReasonCompleted ''Cluster is ready'' now;
     mem_set_message m r ''Cluster is ready'' }"
| "mem_compute_ready_loop grow m r (t # ts) now = do {
     p \<leftarrow> mem_GetCondition m r t;
     case p of
       None \<Rightarrow> do {
         m \<leftarrow> mem_setCondition grow m r ConditionReady ConditionFalse t '''' now;
         mem_set_message m r (t @ '' not satisfied'') }
     | Some condition \<Rightarrow> do {
         c \<leftarrow> load_condition m condition;
         if c_Status c \<noteq> ConditionTrue
         then do {
           m \<leftarrow> mem_setCondition grow m r ConditionReady ConditionFalse t (c_Message c) now;
           c \<leftarrow> load_condition m condition;
           mem_set_message m r
             (if c_Reason c \<noteq> '''' then c_Reason c @ '': '' @ c_Message c else t @ '' not satisfied'') }
         else mem_compute_ready_loop grow m r ts now } }"

definition mem_ComputeReady :: "(nat \<Rightarrow> nat) \<Rightarrow> mem \<Rightarrow> addr \<Rightarrow> time \<Rightarrow> mem option" where
  "mem_ComputeReady grow m r now = do {
     c \<leftarrow> load prj_RavenDBCluster (cells m) r;
     mem_compute_ready_loop grow m r
       ([ConditionCertificatesReady, ConditionLicensesValid, ConditionStorageReady,
         ConditionNodesHealthy, ConditionBootstrapCompleted] @
        (if ms_ExternalAccessConfiguration (mc_Spec c) \<noteq> None then [ConditionExternalAccessReady] else [])) now }"

subsection \<open>An object and its private memory\<close>

text \<open>The addresses a status helper may write: the object's cell and its conditions array.  The rest
  of the object is read without them.\<close>

definition footprint :: "addr \<Rightarrow> mRavenDBCluster \<Rightarrow> addr set" where
  "footprint r c = insert r (case mst_Conditions (mc_Status c) of None \<Rightarrow> {} | Some sl \<Rightarrow> {sl_array sl})"

definition no_conditions :: "mRavenDBCluster \<Rightarrow> mRavenDBCluster" where
  "no_conditions c = c\<lparr>mc_Status := mc_Status c\<lparr>mst_Conditions := None\<rparr>\<rparr>"

definition bare :: "RavenDBCluster \<Rightarrow> RavenDBCluster" where
  "bare v = set_status v (st_Conditions_update (\<lambda>_. []))"

definition object_at :: "mem \<Rightarrow> addr \<Rightarrow> mRavenDBCluster \<Rightarrow> mTypeMeta \<Rightarrow> RavenDBCluster \<Rightarrow> bool" where
  "object_at m r c tm v \<longleftrightarrow>
     cells m r = Some (One (GRavenDBCluster c)) \<and>
     read_RavenDBCluster (cells m |` (- footprint r c)) (no_conditions c) = Some (tm, bare v) \<and>
     read_conditions (cells m) (mst_Conditions (mc_Status c)) = Some (conds v)"

lemma read_with_conditions:
  assumes "read_RavenDBCluster h (no_conditions c) = Some (tm, bare v)"
    and "read_conditions h (mst_Conditions (mc_Status c)) = Some (conds v)"
  shows "read_RavenDBCluster h c = Some (tm, v)"
  using assms
  by (cases v, cases "Status v")
    (auto simp: read_RavenDBCluster_def read_RavenDBClusterStatus_def no_conditions_def bare_def
      set_status_def bind_eq_Some_conv)

lemma object_at_read: "object_at m r c tm v \<Longrightarrow> read_RavenDBCluster (cells m) c = Some (tm, v)"
  unfolding object_at_def
  by (elim conjE, rule read_with_conditions, rule k8s.cluster.read_mono, assumption)
    (auto simp: map_le_def)

text \<open>\<open>owned P\<close>: the object at \<open>r\<close> has this value and may be written without touching the
  addresses \<open>P\<close>; \<open>turns_into\<close>: a helper succeeds, leaves the object with the new value, and has not
  written to \<open>P\<close>.\<close>

definition owned :: "addr set \<Rightarrow> mem \<Rightarrow> addr \<Rightarrow> mTypeMeta \<Rightarrow> RavenDBCluster \<Rightarrow> bool" where
  "owned P m r tm v \<longleftrightarrow> wf_memory m \<and> P \<subseteq> {..<brk m} \<and>
     (\<exists>c. object_at m r c tm v \<and> footprint r c \<inter> P = {})"

definition turns_into ::
  "addr set \<Rightarrow> mem \<Rightarrow> addr \<Rightarrow> mTypeMeta \<Rightarrow> RavenDBCluster \<Rightarrow> mem option \<Rightarrow> bool" where
  "turns_into P m r tm w res \<longleftrightarrow>
     (\<exists>m'. res = Some m' \<and> owned P m' r tm w \<and> (\<forall>x \<in> P. cells m' x = cells m x))"

lemma turns_into_bind:
  assumes "turns_into P m r tm v res" and "\<And>m'. owned P m' r tm v \<Longrightarrow> turns_into P m' r tm w (f m')"
  shows "turns_into P m r tm w (Option.bind res f)"
  using assms by (fastforce simp: turns_into_def)

lemma ownedE:
  assumes "owned P m r tm v"
  obtains c where "wf_memory m" and "P \<subseteq> {..<brk m}" and "object_at m r c tm v" and "footprint r c \<inter> P = {}"
  using assms by (auto simp: owned_def)

text \<open>Any write inside the footprint and to fresh memory keeps the parts of the object outside it.\<close>

lemma owned_after_write:
  assumes o: "object_at m r c tm v" and wf: "wf_memory m" and P: "P \<subseteq> {..<brk m}" "footprint r c \<inter> P = {}"
    and m': "wf_memory m'" "brk m \<le> brk m'" "cells m' r = Some (One (GRavenDBCluster c'))"
    and fp: "footprint r c' \<subseteq> footprint r c \<union> {brk m..}"
    and same: "\<And>x. x \<notin> footprint r c \<Longrightarrow> x < brk m \<Longrightarrow> cells m' x = cells m x"
    and rest: "\<And>h. cells m |` (- footprint r c) \<subseteq>\<^sub>m h \<Longrightarrow> h \<subseteq>\<^sub>m cells m' |` (- footprint r c') \<Longrightarrow>
       read_RavenDBCluster h (no_conditions c) = Some (tm, bare v) \<Longrightarrow>
       \<exists>h'. h' \<subseteq>\<^sub>m cells m' |` (- footprint r c') \<and>
         read_RavenDBCluster h' (no_conditions c') = Some (tm, bare w)"
    and cs: "read_conditions (cells m') (mst_Conditions (mc_Status c')) = Some (conds w)"
  shows "turns_into P m r tm w (Some m')"
proof -
  have le: "cells m |` (- footprint r c) \<subseteq>\<^sub>m cells m' |` (- footprint r c')"
  proof (unfold map_le_def, intro ballI)
    fix x assume "x \<in> dom (cells m |` (- footprint r c))"
    then have "x \<notin> footprint r c" "x < brk m"
      using wf by (auto simp: wf_memory_iff restrict_map_def split: if_splits)
    with fp same show "(cells m |` (- footprint r c)) x = (cells m' |` (- footprint r c')) x"
      by (auto simp: restrict_map_def)
  qed
  from o have "read_RavenDBCluster (cells m |` (- footprint r c)) (no_conditions c) = Some (tm, bare v)"
    by (simp add: object_at_def)
  then obtain h' where "h' \<subseteq>\<^sub>m cells m' |` (- footprint r c')"
      "read_RavenDBCluster h' (no_conditions c') = Some (tm, bare w)"
    using rest [OF map_le_refl le] by blast
  then have "read_RavenDBCluster (cells m' |` (- footprint r c')) (no_conditions c') = Some (tm, bare w)"
    by (blast intro: k8s.cluster.read_mono)
  with m' cs have "object_at m' r c' tm w" by (simp add: object_at_def)
  moreover have "footprint r c' \<inter> P = {}" using fp P by fastforce
  ultimately show ?thesis using m' P same by (fastforce simp: turns_into_def owned_def)
qed

subsection \<open>Reading and writing the conditions array\<close>

lemma prj_Condition_eq [simp]: "prj_Condition g = Some c \<longleftrightarrow> g = GCondition c"
  by (cases g) (simp_all add: prj_Condition_def)

lemma read_gconditions: "read_list (\<lambda>_. prj_Condition) h gs = Some cs \<longleftrightarrow> gs = map GCondition cs"
  by (induction gs arbitrary: cs) (auto simp: bind_eq_Some_conv)

lemma read_list_plain [simp]: "read_list plain h xs = Some xs"
  by (induction xs) (simp_all add: plain_def)

lemma read_conditions_Some:
  "read_conditions h (Some sl) = Some cs \<longleftrightarrow>
   (\<exists>gs. h (sl_array sl) = Some (Many gs) \<and> sl_len sl \<le> sl_cap sl \<and> sl_off sl + sl_cap sl \<le> length gs \<and>
         take (sl_len sl) (drop (sl_off sl) gs) = map GCondition cs)"
  by (auto simp: read_slice_def bind_eq_Some_conv read_gconditions elems_def split: option.splits cell.splits)

lemma read_conditions_None: "read_conditions h None = Some cs \<longleftrightarrow> cs = []"
  by (auto simp: read_slice_def)

lemma cond_index_None: "cond_index cs t = None \<longleftrightarrow> find_condition cs t = None"
  by (induction cs) auto

lemma cond_index_Some:
  "cond_index cs t = Some i \<Longrightarrow>
   i < length cs \<and> c_Type (cs ! i) = t \<and> find_condition cs t = Some (cs ! i) \<and>
   write_first t f cs = cs[i := f (cs ! i)]"
  by (induction cs arbitrary: i) (auto split: if_splits)

lemma nth_of_slice:
  assumes "take n (drop k gs) = map GCondition cs" and "i < length cs"
  shows "k + i < length gs" and "gs ! (k + i) = GCondition (cs ! i)"
proof -
  have l: "length cs = min n (length gs - k)"
    using arg_cong [OF assms(1), of length] by simp
  with assms(2) show lt: "k + i < length gs" by linarith
  have "gs ! (k + i) = take n (drop k gs) ! i" using assms(2) l lt by simp
  then show "gs ! (k + i) = GCondition (cs ! i)" using assms by simp
qed

lemma slice_update: "take n (drop k (gs[k + i := g])) = (take n (drop k gs))[i := g]"
  by (simp add: drop_update_swap take_update_swap)

lemma slice_append:
  "k + n < length gs \<Longrightarrow> take (Suc n) (drop k (gs[k + n := g])) = take n (drop k gs) @ [g]"
  by (simp add: drop_update_swap take_Suc_conv_app_nth take_update_swap list_update_append)

lemma bare_setCondition [simp]: "bare (setCondition v t status reason msg now) = bare v"
  by (simp add: bare_def setCondition_def set_status_def split: option.split)

lemma conds_setCondition:
  "conds (setCondition v t status reason msg now) =
     (case cond_index (conds v) t of
        Some i \<Rightarrow> (conds v)[i := overwrite status reason msg now (conds v ! i)]
      | None \<Rightarrow> conds v @ [\<lparr>c_Type = t, c_Status = status, c_Reason = reasonsanitize reason,
                          c_Message = msg, c_LastTransitionTime = now\<rparr>])"
  by (auto simp: setCondition_def GetCondition_def set_status_def cond_index_None
      dest: cond_index_Some split: option.split)

lemma load_cluster_at: "object_at m r c tm v \<Longrightarrow> load prj_RavenDBCluster (cells m) r = Some c"
  by (simp add: object_at_def load_def)

lemma mem_GetCondition_at:
  assumes "object_at m r c tm v"
  shows "mem_GetCondition m r t =
    Some (do { sl \<leftarrow> mst_Conditions (mc_Status c); i \<leftarrow> cond_index (conds v) t;
               Some (sl_array sl, sl_off sl + i) })"
  using assms by (simp add: mem_GetCondition_def load_cluster_at object_at_def load_def)

lemma load_condition_at:
  assumes "object_at m r c tm v" and "mst_Conditions (mc_Status c) = Some sl" and "i < length (conds v)"
  shows "load_condition m (sl_array sl, sl_off sl + i) = Some (conds v ! i)"
  using assms by (auto simp: object_at_def read_conditions_Some load_condition_def dest: nth_of_slice)

lemma no_slice_no_conditions:
  "object_at m r c tm v \<Longrightarrow> mst_Conditions (mc_Status c) = None \<Longrightarrow> conds v = []"
  by (simp add: object_at_def read_slice_def)

lemma object_not_array:
  "object_at m r c tm v \<Longrightarrow> mst_Conditions (mc_Status c) = Some sl \<Longrightarrow> sl_array sl \<noteq> r"
  by (auto simp: object_at_def read_conditions_Some)

lemma wf_memory_update: "wf_memory m \<Longrightarrow> a < brk m \<Longrightarrow> wf_memory (m\<lparr>cells := (cells m)(a \<mapsto> x)\<rparr>)"
  by (simp add: wf_memory_def)

lemma wf_memory_lt: "wf_memory m \<Longrightarrow> cells m a = Some x \<Longrightarrow> a < brk m"
  by (simp add: wf_memory_iff)

lemma overwrite_in_place:
  assumes "owned P m r tm v" and i: "cond_index (conds v) t = Some i"
  shows "turns_into P m r tm (setCondition v t status reason msg now)
    (mem_setCondition grow m r t status reason msg now)"
proof -
  from assms(1) obtain c where o: "wf_memory m" "P \<subseteq> {..<brk m}" "object_at m r c tm v" "footprint r c \<inter> P = {}"
    by (rule ownedE)
  from cond_index_Some [OF i] have lt: "i < length (conds v)" by simp
  then obtain sl where sl: "mst_Conditions (mc_Status c) = Some sl"
    using no_slice_no_conditions [OF o(3)] by fastforce
  from o(3) sl obtain gs where gs: "cells m (sl_array sl) = Some (Many gs)" "sl_len sl \<le> sl_cap sl"
      "sl_off sl + sl_cap sl \<le> length gs" "take (sl_len sl) (drop (sl_off sl) gs) = map GCondition (conds v)"
    by (auto simp: object_at_def read_conditions_Some)
  let ?c = "overwrite status reason msg now (conds v ! i)"
  let ?m = "m\<lparr>cells := (cells m)(sl_array sl \<mapsto> Many (gs[sl_off sl + i := GCondition ?c]))\<rparr>"
  from nth_of_slice [OF gs(4) lt] gs(1) have "mem_setCondition grow m r t status reason msg now = Some ?m"
    by (simp add: mem_setCondition_def mem_GetCondition_at [OF o(3)] sl i load_condition_at [OF o(3) sl lt]
        store_condition_def)
  moreover have "turns_into P m r tm (setCondition v t status reason msg now) (Some ?m)"
  proof (rule owned_after_write [OF o(3,1,2,4), of _ c])
    show "cells ?m r = Some (One (GRavenDBCluster c))"
      using o(3) object_not_array [OF o(3) sl] by (simp add: object_at_def)
    show "read_conditions (cells ?m) (mst_Conditions (mc_Status c)) = Some (conds (setCondition v t status reason msg now))"
      using gs by (simp add: sl read_conditions_Some conds_setCondition i slice_update map_update)
  qed (use o gs sl in \<open>auto simp: footprint_def intro: wf_memory_update wf_memory_lt\<close>)
  ultimately show ?thesis by simp
qed

text \<open>What \<open>append\<close> does to the memory: the slice it returns reads as the old conditions and the new
  one, and it has written only to the old array or to a new one.\<close>

lemma append_condition_spec:
  assumes "wf_memory m" and "read_conditions (cells m) s = Some cs"
  obtains sl m' where "append_condition grow m s c = Some (Some sl, m')" and "wf_memory m'" and "brk m \<le> brk m'"
    and "read_conditions (cells m') (Some sl) = Some (cs @ [c])"
    and "\<And>x. x < brk m \<Longrightarrow> (\<And>old. s = Some old \<Longrightarrow> x \<noteq> sl_array old) \<Longrightarrow> cells m' x = cells m x"
    and "(\<exists>old. s = Some old \<and> sl_array sl = sl_array old) \<or> brk m \<le> sl_array sl"
    and "\<And>old i. s = Some old \<Longrightarrow> i < length cs \<Longrightarrow>
      load_condition m' (sl_array old, sl_off old + i) = Some (cs ! i)"
proof -
  note result = that
  let ?a = "Many (map GCondition cs @ GCondition c # replicate (grow (length cs)) (GCondition zero_condition))"
  let ?m = "m\<lparr>cells := (cells m)(brk m \<mapsto> ?a), brk := Suc (brk m)\<rparr>"
  have realloc: thesis
    if e: "append_condition grow m s c = Some (new_array grow m (map GCondition cs) c)"
  proof (rule result)
    show "append_condition grow m s c = Some (Some \<lparr>sl_array = brk m, sl_off = 0,
        sl_len = Suc (length cs), sl_cap = Suc (length cs) + grow (length cs)\<rparr>, ?m)"
      by (simp add: e new_array_def alloc_def Let_def)
    show "wf_memory ?m" using assms(1) by (auto simp: wf_memory_iff less_Suc_eq)
    show "load_condition ?m (sl_array old, sl_off old + i) = Some (cs ! i)"
      if "s = Some old" "i < length cs" for old i
      using that assms by (auto simp: read_conditions_Some load_condition_def dest: nth_of_slice wf_memory_lt)
  qed (auto simp: read_conditions_Some)
  show thesis
  proof (cases s)
    case None
    with assms(2) show thesis by (intro realloc) (simp add: append_condition_def read_slice_def)
  next
    case (Some sl)
    with assms(2) obtain gs where gs: "cells m (sl_array sl) = Some (Many gs)" "sl_len sl \<le> sl_cap sl"
        "sl_off sl + sl_cap sl \<le> length gs" "take (sl_len sl) (drop (sl_off sl) gs) = map GCondition cs"
      by (auto simp: read_conditions_Some)
    show thesis
    proof (cases "sl_len sl < sl_cap sl")
      case False
      with Some gs show thesis by (intro realloc) (simp add: append_condition_def elems_def)
    next
      case True
      from arg_cong [OF gs(4), of length] gs(3) True have l: "length cs = sl_len sl" by simp
      show thesis
        by (rule result [of "sl\<lparr>sl_len := Suc (sl_len sl)\<rparr>"
              "m\<lparr>cells := (cells m)(sl_array sl \<mapsto> Many (gs[sl_off sl + sl_len sl := GCondition c]))\<rparr>"])
          (use True Some gs assms l nth_of_slice [OF gs(4)] in \<open>auto simp: append_condition_def store_condition_def
            read_conditions_Some slice_append load_condition_def intro: wf_memory_update wf_memory_lt\<close>)
    qed
  qed
qed

lemma append_in_memory:
  assumes "owned P m r tm v" and i: "cond_index (conds v) t = None"
  shows "turns_into P m r tm (setCondition v t status reason msg now)
      (mem_setCondition grow m r t status reason msg now)"
    and "\<And>m' c sl j. mem_setCondition grow m r t status reason msg now = Some m' \<Longrightarrow> object_at m r c tm v \<Longrightarrow>
      mst_Conditions (mc_Status c) = Some sl \<Longrightarrow> j < length (conds v) \<Longrightarrow>
      load_condition m' (sl_array sl, sl_off sl + j) = Some (conds v ! j)"
proof -
  let ?n = "\<lparr>c_Type = t, c_Status = status, c_Reason = reasonsanitize reason, c_Message = msg,
    c_LastTransitionTime = now\<rparr>"
  from assms(1) obtain c where o: "wf_memory m" "P \<subseteq> {..<brk m}" "object_at m r c tm v" "footprint r c \<inter> P = {}"
    by (rule ownedE)
  from o(3) have r: "cells m r = Some (One (GRavenDBCluster c))"
    and cs: "read_conditions (cells m) (mst_Conditions (mc_Status c)) = Some (conds v)"
    by (auto simp: object_at_def)
  obtain sl m1 where ap: "append_condition grow m (mst_Conditions (mc_Status c)) ?n = Some (Some sl, m1)"
      "wf_memory m1" "brk m \<le> brk m1" "read_conditions (cells m1) (Some sl) = Some (conds v @ [?n])"
    and same: "\<And>x. x < brk m \<Longrightarrow> (\<And>old. mst_Conditions (mc_Status c) = Some old \<Longrightarrow> x \<noteq> sl_array old) \<Longrightarrow>
      cells m1 x = cells m x"
    and arr: "(\<exists>old. mst_Conditions (mc_Status c) = Some old \<and> sl_array sl = sl_array old) \<or> brk m \<le> sl_array sl"
    and old: "\<And>old j. mst_Conditions (mc_Status c) = Some old \<Longrightarrow> j < length (conds v) \<Longrightarrow>
      load_condition m1 (sl_array old, sl_off old + j) = Some (conds v ! j)"
    using append_condition_spec [OF o(1) cs, of grow ?n] by blast
  from wf_memory_lt [OF o(1) r] have r_lt: "r < brk m" .
  have r1: "cells m1 r = Some (One (GRavenDBCluster c))"
    using r same [OF r_lt] object_not_array [OF o(3)] by fastforce
  let ?c = "c\<lparr>mc_Status := mc_Status c\<lparr>mst_Conditions := Some sl\<rparr>\<rparr>"
  have eq: "mem_setCondition grow m r t status reason msg now = Some (store_cluster m1 r ?c)"
    by (cases "mst_Conditions (mc_Status c)")
      (use ap(1) r r1 in \<open>simp_all add: mem_setCondition_def mem_GetCondition_at [OF o(3)] i
        mem_update_status_def load_def\<close>)
  have ne: "sl_array sl \<noteq> r" using ap(4) r1 by (auto simp: read_conditions_Some)
  have "turns_into P m r tm (setCondition v t status reason msg now) (Some (store_cluster m1 r ?c))"
  proof (rule owned_after_write [OF o(3,1,2,4)])
    show "cells (store_cluster m1 r ?c) r = Some (One (GRavenDBCluster ?c))" by (simp add: store_cluster_def)
    show "footprint r ?c \<subseteq> footprint r c \<union> {brk m..}" using arr by (auto simp: footprint_def)
    show "read_conditions (cells (store_cluster m1 r ?c)) (mst_Conditions (mc_Status ?c)) =
        Some (conds (setCondition v t status reason msg now))"
      using ap(4) ne by (auto simp: store_cluster_def conds_setCondition i read_conditions_Some)
    show "wf_memory (store_cluster m1 r ?c)"
      unfolding store_cluster_def using ap(2,3) r_lt by (intro wf_memory_update) simp_all
    show "cells (store_cluster m1 r ?c) x = cells m x" if "x \<notin> footprint r c" "x < brk m" for x
      using that same [of x] by (auto simp: store_cluster_def footprint_def split: option.splits)
  qed (use ap(3) in \<open>auto simp: store_cluster_def no_conditions_def\<close>)
  then show "turns_into P m r tm (setCondition v t status reason msg now)
      (mem_setCondition grow m r t status reason msg now)" by (simp add: eq)
  show "load_condition m' (sl_array sl', sl_off sl' + j) = Some (conds v ! j)"
    if "mem_setCondition grow m r t status reason msg now = Some m'" "object_at m r c' tm v"
      "mst_Conditions (mc_Status c') = Some sl'" "j < length (conds v)" for m' c' sl' j
  proof -
    from that(2) r have "c' = c" by (simp add: object_at_def)
    with that old [of sl' j] object_not_array [OF that(2,3)] show ?thesis
      by (auto simp: eq store_cluster_def load_condition_def)
  qed
qed

lemma mem_setCondition_turns:
  "owned P m r tm v \<Longrightarrow>
   turns_into P m r tm (setCondition v t status reason msg now) (mem_setCondition grow m r t status reason msg now)"
  by (cases "cond_index (conds v) t") (auto intro: overwrite_in_place append_in_memory)

lemma pointer_survives_setCondition:
  assumes "owned P m r tm v" and o: "object_at m r c tm v" and sl: "mst_Conditions (mc_Status c) = Some sl"
    and j: "j < length (conds v)" "c_Type (conds v ! j) \<noteq> t"
    and m': "mem_setCondition grow m r t status reason msg now = Some m'"
  shows "load_condition m' (sl_array sl, sl_off sl + j) = Some (conds v ! j)"
proof (cases "cond_index (conds v) t")
  case None
  from append_in_memory(2) [OF assms(1) None m' o sl j(1)] show ?thesis .
next
  case (Some i)
  with cond_index_Some [OF Some] j have i: "i < length (conds v)" "i \<noteq> j" by auto
  from m' have "store_condition m (sl_array sl, sl_off sl + i) (overwrite status reason msg now (conds v ! i)) = Some m'"
    by (simp add: mem_setCondition_def mem_GetCondition_at [OF o] sl Some load_condition_at [OF o sl i(1)])
  with load_condition_at [OF o sl j(1)] i(2) show ?thesis
    by (auto simp: store_condition_def load_condition_def split: option.splits cell.splits if_splits)
qed

subsection \<open>The other helpers\<close>

text \<open>A status update \<open>f\<close> of the struct that does to its value what \<open>g\<close> does, and leaves the
  conditions alone.\<close>

lemma update_status_turns:
  assumes "owned P m r tm v"
    and f: "\<And>h s s'. read_RavenDBClusterStatus h s = Some s' \<Longrightarrow> read_RavenDBClusterStatus h (f s) = Some (g s')"
      "\<And>s. mst_Conditions (f s) = mst_Conditions s"
      "\<And>s. f (s\<lparr>mst_Conditions := None\<rparr>) = (f s)\<lparr>mst_Conditions := None\<rparr>"
    and g: "\<And>s. st_Conditions (g s) = st_Conditions s"
      "\<And>s. g (s\<lparr>st_Conditions := []\<rparr>) = (g s)\<lparr>st_Conditions := []\<rparr>"
  shows "turns_into P m r tm (set_status v g) (mem_update_status m r f)"
proof -
  from assms(1) obtain c where o: "wf_memory m" "P \<subseteq> {..<brk m}" "object_at m r c tm v" "footprint r c \<inter> P = {}"
    by (rule ownedE)
  let ?c = "c\<lparr>mc_Status := f (mc_Status c)\<rparr>"
  from o(3) have r: "cells m r = Some (One (GRavenDBCluster c))"
    and cs: "read_conditions (cells m) (mst_Conditions (mc_Status c)) = Some (conds v)"
    by (auto simp: object_at_def)
  have "turns_into P m r tm (set_status v g) (Some (store_cluster m r ?c))"
  proof (rule owned_after_write [OF o(3,1,2,4)])
    show "cells (store_cluster m r ?c) r = Some (One (GRavenDBCluster ?c))" by (simp add: store_cluster_def)
    show "wf_memory (store_cluster m r ?c)"
      unfolding store_cluster_def using o(1) wf_memory_lt [OF o(1) r] by (rule wf_memory_update)
    show "read_conditions (cells (store_cluster m r ?c)) (mst_Conditions (mc_Status ?c)) =
        Some (conds (set_status v g))"
      using cs object_not_array [OF o(3)]
      by (cases "mst_Conditions (mc_Status c)")
        (auto simp: f g set_status_def store_cluster_def read_conditions_Some read_conditions_None)
    fix h assume "h \<subseteq>\<^sub>m cells (store_cluster m r ?c) |` (- footprint r ?c)"
      and "read_RavenDBCluster h (no_conditions c) = Some (tm, bare v)"
    then show "\<exists>h'. h' \<subseteq>\<^sub>m cells (store_cluster m r ?c) |` (- footprint r ?c) \<and>
        read_RavenDBCluster h' (no_conditions ?c) = Some (tm, bare (set_status v g))"
      by (intro exI [of _ h], cases v)
        (auto simp: read_RavenDBCluster_def bind_eq_Some_conv no_conditions_def bare_def set_status_def
          f(3) [symmetric] g(2) [symmetric] intro: f(1))
  qed (auto simp: footprint_def store_cluster_def f)
  then show ?thesis by (simp add: mem_update_status_def load_cluster_at [OF o(3)])
qed

lemma mem_SetObservedGeneration_turns:
  "owned P m r tm v \<Longrightarrow> turns_into P m r tm (SetObservedGeneration v gen) (mem_SetObservedGeneration m r gen)"
  unfolding SetObservedGeneration_def mem_SetObservedGeneration_def
  by (rule update_status_turns) (auto simp: read_RavenDBClusterStatus_def bind_eq_Some_conv)

lemma mem_set_message_turns:
  "owned P m r tm v \<Longrightarrow> turns_into P m r tm (set_message v msg) (mem_set_message m r msg)"
  unfolding set_message_def mem_set_message_def
  by (rule update_status_turns) (auto simp: read_RavenDBClusterStatus_def bind_eq_Some_conv)

lemma mem_condition_found:
  assumes "object_at m r c tm v"
  shows "case GetCondition v t of
      None \<Rightarrow> mem_GetCondition m r t = Some None
    | Some cd \<Rightarrow> \<exists>sl i. mst_Conditions (mc_Status c) = Some sl \<and> i < length (conds v) \<and> conds v ! i = cd \<and>
        mem_GetCondition m r t = Some (Some (sl_array sl, sl_off sl + i)) \<and>
        load_condition m (sl_array sl, sl_off sl + i) = Some cd"
proof (cases "cond_index (conds v) t")
  case None
  then show ?thesis
    by (cases "mst_Conditions (mc_Status c)")
      (simp_all add: mem_GetCondition_at [OF assms] GetCondition_def cond_index_None [THEN iffD1])
next
  case (Some i)
  note i = cond_index_Some [OF Some]
  then obtain sl where sl: "mst_Conditions (mc_Status c) = Some sl"
    using no_slice_no_conditions [OF assms] by fastforce
  with Some i load_condition_at [OF assms sl] show ?thesis
    by (auto simp: mem_GetCondition_at [OF assms] GetCondition_def)
qed

lemma mem_HasConditionTrue_at:
  "object_at m r c tm v \<Longrightarrow> mem_HasConditionTrue m r t = Some (HasConditionTrue v t)"
  using mem_condition_found [of m r c tm v t]
  by (auto simp: mem_HasConditionTrue_def HasConditionTrue_def split: option.splits)

lemma mem_UpdatePhaseFromConditions_turns:
  assumes "owned P m r tm v"
  shows "turns_into P m r tm (UpdatePhaseFromConditions v) (mem_UpdatePhaseFromConditions m r)"
proof -
  from assms obtain c where "object_at m r c tm v" by (rule ownedE)
  with assms show ?thesis
    unfolding UpdatePhaseFromConditions_def mem_UpdatePhaseFromConditions_def
    by (auto simp: mem_HasConditionTrue_at read_RavenDBClusterStatus_def bind_eq_Some_conv
        intro!: update_status_turns)
qed

lemma mem_compute_ready_loop_turns:
  "owned P m r tm v \<Longrightarrow> ConditionReady \<notin> set ts \<Longrightarrow>
   turns_into P m r tm (compute_ready_loop v ts now) (mem_compute_ready_loop grow m r ts now)"
proof (induction ts)
  case Nil
  then show ?case by (auto intro!: turns_into_bind [OF mem_setCondition_turns] mem_set_message_turns)
next
  case (Cons t ts)
  from Cons.prems(1) obtain c where o: "object_at m r c tm v" by (rule ownedE)
  note found = mem_condition_found [OF o, of t]
  show ?case
  proof (cases "GetCondition v t")
    case None
    with found Cons.prems show ?thesis
      by (auto intro!: turns_into_bind [OF mem_setCondition_turns] mem_set_message_turns)
  next
    case (Some cd)
    with found obtain sl i where p: "mst_Conditions (mc_Status c) = Some sl" "i < length (conds v)"
        "conds v ! i = cd" "mem_GetCondition m r t = Some (Some (sl_array sl, sl_off sl + i))"
        "load_condition m (sl_array sl, sl_off sl + i) = Some cd"
      by auto
    have ty: "c_Type cd \<noteq> ConditionReady"
      using find_condition_type [of "conds v" t cd] Some Cons.prems(2) by (auto simp: GetCondition_def)
    let ?set = "mem_setCondition grow m r ConditionReady ConditionFalse t (c_Message cd) now"
    have kept: "load_condition m' (sl_array sl, sl_off sl + i) = Some cd" if "?set = Some m'" for m'
      using pointer_survives_setCondition [OF Cons.prems(1) o p(1,2) _ that] ty p(3) by simp
    obtain m' where m': "?set = Some m'" "owned P m' r tm (setCondition v ConditionReady ConditionFalse t (c_Message cd) now)"
        "\<forall>x \<in> P. cells m' x = cells m x"
      using mem_setCondition_turns [OF Cons.prems(1)] by (force simp: turns_into_def)
    have "turns_into P m r tm (set_message (setCondition v ConditionReady ConditionFalse t (c_Message cd) now) msg)
        (mem_set_message m' r msg)" for msg
      using mem_set_message_turns [OF m'(2)] m'(3) by (fastforce simp: turns_into_def)
    with Some p Cons kept [OF m'(1)] m'(1) show ?thesis by simp
  qed
qed

lemma external_access_configured:
  "object_at m r c tm v \<Longrightarrow>
   ms_ExternalAccessConfiguration (mc_Spec c) = None \<longleftrightarrow> s_ExternalAccessConfiguration (Spec v) = None"
  by (drule object_at_read)
    (auto simp: read_RavenDBCluster_def read_RavenDBClusterSpec_def bind_eq_Some_conv read_ptr_def
      split: option.splits)

lemma mem_ComputeReady_turns:
  assumes "owned P m r tm v"
  shows "turns_into P m r tm (ComputeReady v now) (mem_ComputeReady grow m r now)"
proof -
  from assms obtain c where o: "object_at m r c tm v" by (rule ownedE)
  have "ConditionReady \<notin> set (required_conditions v)" by (simp add: required_conditions_def)
  moreover have "mem_ComputeReady grow m r now = mem_compute_ready_loop grow m r (required_conditions v) now"
    by (cases "s_ExternalAccessConfiguration (Spec v)")
      (use external_access_configured [OF o] in \<open>auto simp add: mem_ComputeReady_def load_cluster_at [OF o]
        required_conditions_def simp del: mem_compute_ready_loop.simps\<close>)
  ultimately show ?thesis
    using mem_compute_ready_loop_turns [OF assms] by (simp add: ComputeReady_def)
qed

subsection \<open>Assigning the node statuses\<close>

text \<open>\<open>instance.Status.Nodes = nodeStatuses\<close>, a slice the upgrader has built.\<close>

definition mem_assign_nodes :: "mem \<Rightarrow> addr \<Rightarrow> RavenDBNodeStatus list \<Rightarrow> mem option" where
  "mem_assign_nodes m r ns =
     (let (a, m') = alloc (Many (map GRavenDBNodeStatus ns)) m
      in mem_update_status m' r (mst_Nodes_update (\<lambda>_. Some
           \<lparr>sl_array = a, sl_off = 0, sl_len = length ns, sl_cap = length ns\<rparr>)))"

lemma mem_assign_nodes_turns:
  assumes "owned P m r tm v"
  shows "turns_into P m r tm (set_status v (\<lambda>s. s\<lparr>st_Nodes := ns\<rparr>)) (mem_assign_nodes m r ns)"
proof -
  from assms obtain c where o: "wf_memory m" "P \<subseteq> {..<brk m}" "object_at m r c tm v" "footprint r c \<inter> P = {}"
    by (rule ownedE)
  let ?s = "\<lparr>sl_array = brk m, sl_off = 0, sl_len = length ns, sl_cap = length ns\<rparr>"
  let ?c = "c\<lparr>mc_Status := mc_Status c\<lparr>mst_Nodes := Some ?s\<rparr>\<rparr>"
  let ?m1 = "m\<lparr>cells := (cells m)(brk m \<mapsto> Many (map GRavenDBNodeStatus ns)), brk := Suc (brk m)\<rparr>"
  let ?m = "store_cluster ?m1 r ?c"
  from o(3) have r: "cells m r = Some (One (GRavenDBCluster c))"
    and cs: "read_conditions (cells m) (mst_Conditions (mc_Status c)) = Some (conds v)"
    by (auto simp: object_at_def)
  have lt: "x < brk m" if "x \<in> footprint r c" for x
    using that wf_memory_lt [OF o(1)] r cs
    by (auto simp: footprint_def read_conditions_Some split: option.splits)
  have fp: "footprint r ?c = footprint r c" by (simp add: footprint_def)
  have r_lt: "r < brk m" by (rule lt) (simp add: footprint_def)
  have nodes: "read_slice prj_RavenDBNodeStatus plain (cells ?m |` (- footprint r c)) (Some ?s) = Some ns"
    using lt [of "brk m"] r_lt
    by (auto simp: read_slice_def elems_def store_cluster_def read_list_map [where prj = prj_RavenDBNodeStatus])
  have "turns_into P m r tm (set_status v (\<lambda>s. s\<lparr>st_Nodes := ns\<rparr>)) (Some ?m)"
  proof (rule owned_after_write [OF o(3,1,2,4)])
    show "cells ?m r = Some (One (GRavenDBCluster ?c))" by (simp add: store_cluster_def)
    show "wf_memory ?m" using o(1) r_lt by (auto simp: store_cluster_def wf_memory_iff less_Suc_eq)
    show "read_conditions (cells ?m) (mst_Conditions (mc_Status ?c)) =
        Some (conds (set_status v (\<lambda>s. s\<lparr>st_Nodes := ns\<rparr>)))"
      using cs object_not_array [OF o(3)] wf_memory_lt [OF o(1), of "brk m"]
      by (cases "mst_Conditions (mc_Status c)")
        (auto simp: set_status_def store_cluster_def read_conditions_Some read_conditions_None)
    fix h assume h: "h \<subseteq>\<^sub>m cells ?m |` (- footprint r ?c)"
      and "read_RavenDBCluster h (no_conditions c) = Some (tm, bare v)"
    then have "read_RavenDBCluster (cells ?m |` (- footprint r c)) (no_conditions c) = Some (tm, bare v)"
      by (auto simp: fp intro: k8s.cluster.read_mono)
    with nodes have "read_RavenDBCluster (cells ?m |` (- footprint r c)) (no_conditions ?c) =
        Some (tm, bare (set_status v (\<lambda>s. s\<lparr>st_Nodes := ns\<rparr>)))"
      by (cases v, cases "Status v") (auto simp: read_RavenDBCluster_def read_RavenDBClusterStatus_def
          bind_eq_Some_conv no_conditions_def bare_def set_status_def)
    then show "\<exists>h'. h' \<subseteq>\<^sub>m cells ?m |` (- footprint r ?c) \<and>
        read_RavenDBCluster h' (no_conditions ?c) = Some (tm, bare (set_status v (\<lambda>s. s\<lparr>st_Nodes := ns\<rparr>)))"
      by (intro exI [of _ "cells ?m |` (- footprint r c)"]) (simp add: fp)
  qed (auto simp: store_cluster_def footprint_def)
  moreover have "mem_assign_nodes m r ns = Some ?m"
    using r r_lt by (simp add: mem_assign_nodes_def alloc_def mem_update_status_def load_def)
  ultimately show ?thesis by simp
qed

end
