(* ===== verification/Snapshot.thy ===== *)
theory Snapshot
  imports StatusMemory Evaluator
begin

text \<open>
  The snapshot \<open>Reconcile\<close> takes before it evaluates (\<open>original := instance.DeepCopy()\<close>): the health
  evaluator (\<open>pkg/health/evaluator.go\<close>) on memory, and the theorems that join the generated deep
  copies with the status helpers that write through pointers.  They are what allows the rest of
  the development to treat the object as a value and \<open>DeepCopy\<close> as the identity.
\<close>

subsection \<open>The evaluator on memory\<close>

text \<open>The value of the object an address points to.\<close>

definition object_value :: "mem \<Rightarrow> addr \<Rightarrow> (mTypeMeta \<times> RavenDBCluster) option" where
  "object_value m r = do { c \<leftarrow> load prj_RavenDBCluster (cells m) r; read_RavenDBCluster (cells m) c }"

definition mem_apply_result ::
  "(nat \<Rightarrow> nat) \<Rightarrow> mem \<Rightarrow> addr \<Rightarrow> string \<Rightarrow> conditionResult \<Rightarrow> time \<Rightarrow> mem option" where
  "mem_apply_result grow m r condType res now =
     (if cr_skip res then Some m
      else if cr_status res = ConditionTrue
      then mem_setCondition grow m r condType ConditionTrue (cr_reason res) (cr_message res) now
      else mem_setCondition grow m r condType ConditionFalse (cr_reason res) (cr_message res) now)"

text \<open>\<open>e.apply(cluster, condType, e.evalX(cluster, res), now)\<close>: the \<open>eval\<close> functions only read.\<close>

definition mem_apply ::
  "(nat \<Rightarrow> nat) \<Rightarrow> addr \<Rightarrow> string \<Rightarrow> (RavenDBCluster \<Rightarrow> ResourceFacts option \<Rightarrow> conditionResult) \<Rightarrow>
   ResourceFacts option \<Rightarrow> time \<Rightarrow> mem \<Rightarrow> mem option" where
  "mem_apply grow r condType eval res now m = do {
     (tm, v) \<leftarrow> object_value m r;
     mem_apply_result grow m r condType (eval v res) now }"

definition mem_Evaluate :: "(nat \<Rightarrow> nat) \<Rightarrow> mem \<Rightarrow> addr \<Rightarrow> ResourceFacts option \<Rightarrow> time \<Rightarrow> mem option" where
  "mem_Evaluate grow m r res now = do {
     m \<leftarrow> mem_apply grow r ConditionStorageReady evalStorage res now m;
     m \<leftarrow> mem_apply grow r ConditionCertificatesReady evalCertificates res now m;
     m \<leftarrow> mem_apply grow r ConditionLicensesValid evalLicense res now m;
     m \<leftarrow> mem_apply grow r ConditionNodesHealthy evalNodesHealthy res now m;
     m \<leftarrow> mem_apply grow r ConditionExternalAccessReady evalExternalAccessReady res now m;
     m \<leftarrow> mem_apply grow r ConditionBootstrapCompleted evalBootstrap res now m;
     m \<leftarrow> mem_apply grow r ConditionProgressing evalProgressingCase res now m;
     m \<leftarrow> mem_apply grow r ConditionDegraded evalDegradingCase res now m;
     c \<leftarrow> load prj_RavenDBCluster (cells m) r;
     m \<leftarrow> mem_SetObservedGeneration m r (mo_Generation (mc_ObjectMeta c));
     m \<leftarrow> mem_ComputeReady grow m r now;
     mem_UpdatePhaseFromConditions m r }"

lemma object_value_at: "object_at m r c tm v \<Longrightarrow> object_value m r = Some (tm, v)"
  by (simp add: object_value_def load_cluster_at object_at_read)

lemma owned_value: "owned P m r tm v \<Longrightarrow> object_value m r = Some (tm, v)"
  by (auto simp: owned_def object_value_at)

lemma turns_into_same: "owned P m r tm v \<Longrightarrow> turns_into P m r tm v (Some m)"
  by (simp add: turns_into_def)

lemma mem_apply_turns:
  assumes "owned P m r tm v"
  shows "turns_into P m r tm (apply_result v condType (eval v res) now) (mem_apply grow r condType eval res now m)"
  using assms
  by (simp add: mem_apply_def owned_value mem_apply_result_def apply_result_def SetConditionTrue_def
      SetConditionFalse_def turns_into_same mem_setCondition_turns)

lemma generation_in_memory:
  "object_at m r c tm v \<Longrightarrow> mo_Generation (mc_ObjectMeta c) = Generation v"
  by (drule object_at_read) (auto simp: read_RavenDBCluster_def read_ObjectMeta_def bind_eq_Some_conv)

lemma mem_observe_then:
  assumes "owned P m r tm v"
    and "\<And>m'. owned P m' r tm (SetObservedGeneration v (Generation v)) \<Longrightarrow> turns_into P m' r tm w (k m')"
  shows "turns_into P m r tm w
    (do { c \<leftarrow> load prj_RavenDBCluster (cells m) r;
          m' \<leftarrow> mem_SetObservedGeneration m r (mo_Generation (mc_ObjectMeta c));
          k m' })"
proof -
  from assms(1) obtain c where o: "object_at m r c tm v" by (rule ownedE)
  show ?thesis
    unfolding load_cluster_at [OF o] bind.bind_lunit generation_in_memory [OF o]
    by (rule turns_into_bind [OF mem_SetObservedGeneration_turns [OF assms(1)]]) (rule assms(2))
qed

lemma mem_Evaluate_turns:
  "owned P m r tm v \<Longrightarrow> turns_into P m r tm (Evaluate v res now) (mem_Evaluate grow m r res now)"
  unfolding mem_Evaluate_def Evaluate_def apply_conditions_def Let_def
  by (intro turns_into_bind [OF mem_apply_turns] mem_observe_then turns_into_bind [OF mem_ComputeReady_turns]
      mem_UpdatePhaseFromConditions_turns)

subsection \<open>The snapshot\<close>

text \<open>The writes of \<open>Reconcile\<close> to the instance between the snapshot and the comparison.\<close>

definition mem_status_writes ::
  "(nat \<Rightarrow> nat) \<Rightarrow> mem \<Rightarrow> addr \<Rightarrow> RavenDBNodeStatus list \<Rightarrow> ResourceFacts option \<Rightarrow> time \<Rightarrow> mem option" where
  "mem_status_writes grow m r nodeStatuses res now = do {
     m \<leftarrow> mem_assign_nodes m r nodeStatuses;
     mem_Evaluate grow m r res now }"

lemma mem_status_writes_turns:
  "owned P m r tm v \<Longrightarrow>
   turns_into P m r tm (Evaluate (set_status v (\<lambda>s. s\<lparr>st_Nodes := ns\<rparr>)) res now)
     (mem_status_writes grow m r ns res now)"
  unfolding mem_status_writes_def by (intro turns_into_bind [OF mem_assign_nodes_turns] mem_Evaluate_turns)

text \<open>The addresses a copy occupies, and the copy of a pointer to an object.\<close>

definition allocated :: "mem \<Rightarrow> mem \<Rightarrow> addr set" where
  "allocated m m' = {brk m..<brk m'}"

lemma since_allocated:
  assumes "wf_memory m'" and "\<And>x. x \<in> allocated m m' \<Longrightarrow> h x = cells m' x"
  shows "since (brk m) m' \<subseteq>\<^sub>m h"
  using assms by (auto simp: map_le_def since_def restrict_map_def allocated_def wf_memory_iff dest!: assms(2))

lemma object_at_wf: "wf_memory m \<Longrightarrow> object_at m r c tm v \<Longrightarrow> x \<in> footprint r c \<Longrightarrow> x < brk m"
  by (auto simp: object_at_def footprint_def read_conditions_Some split: option.splits dest: wf_memory_lt)

lemma object_at_grows:
  assumes "wf_memory m" and "object_at m r c tm v" and "grows m m'"
  shows "object_at m' r c tm v"
proof -
  from assms(3) have le: "cells m \<subseteq>\<^sub>m cells m'" by (rule grows_le)
  then have "cells m |` (- footprint r c) \<subseteq>\<^sub>m cells m' |` (- footprint r c)"
    by (auto simp: map_le_def restrict_map_def dom_def)
  with assms(2) le show ?thesis
    by (auto simp: object_at_def intro: k8s.cluster.read_mono k8s.condition.slice.read_mono map_leD)
qed

lemma object_value_ptr:
  "object_value m r = Some v \<longleftrightarrow> read_ptr prj_RavenDBCluster read_RavenDBCluster (cells m) (Some r) = Some (Some v)"
  by (cases v) (auto simp: object_value_def read_ptr_def bind_eq_Some_conv)

lemma copy_ptr_Some: "copy_ptr emb prj cp m (Some a) = Some (q, m') \<Longrightarrow> \<exists>b. q = Some b"
  by (auto simp: copy_ptr_def bind_eq_Some_conv alloc_def)

lemma copy_ptr_None: "copy_ptr emb prj cp m None = Some (None, m)"
  by (simp add: copy_ptr_def)

context third_party_copiers
begin

lemma copy_of_cluster:
  assumes "wf_memory m" and "object_value m r = Some v"
  obtains b m' where "DeepCopy_RavenDBCluster tp m (Some r) = Some (Some b, m')" and "grows m m'"
    and "\<forall>m2. since (brk m) m' \<subseteq>\<^sub>m cells m2 \<longrightarrow> object_value m2 b = Some v"
    and "\<forall>m2. cells m \<subseteq>\<^sub>m cells m2 \<longrightarrow> object_value m2 r = Some v"
proof -
  from assms(2) have "read_ptr prj_RavenDBCluster read_RavenDBCluster (cells m) (Some r) = Some (Some v)"
    by (simp add: object_value_ptr)
  from cluster.ptr.independent [OF assms(1) this] obtain q m' where
    q: "copy_ptr GRavenDBCluster prj_RavenDBCluster (DeepCopyInto_RavenDBCluster tp) m (Some r) = Some (q, m')"
      "grows m m'"
      "\<forall>h. since (brk m) m' \<subseteq>\<^sub>m h \<longrightarrow> read_ptr prj_RavenDBCluster read_RavenDBCluster h q = Some (Some v)"
      "\<forall>h. cells m \<subseteq>\<^sub>m h \<longrightarrow> read_ptr prj_RavenDBCluster read_RavenDBCluster h (Some r) = Some (Some v)"
    by blast
  with copy_ptr_Some [OF q(1)] show thesis
    by (auto simp: object_value_ptr DeepCopy_RavenDBCluster_def intro: that)
qed

lemmas list_ptr_independent = cluster_list.ptr.independent

end

lemma copy_slice_nil: "copy_slice emb prj cp m s = Some (s', m') \<Longrightarrow> s' = None \<longleftrightarrow> s = None"
  by (cases s) (auto simp: copy_slice_def bind_eq_Some_conv alloc_def)

text \<open>\<open>reflect.DeepEqual\<close> tells a nil slice from an empty one; the copy of a status keeps the difference.\<close>

lemma status_nil_kept:
  assumes "DeepCopyInto_RavenDBClusterStatus tp m s = Some (s', m')"
  shows "(mst_Nodes s' = None \<longleftrightarrow> mst_Nodes s = None) \<and> (mst_Conditions s' = None \<longleftrightarrow> mst_Conditions s = None)"
  using assms
  by (auto simp: DeepCopyInto_RavenDBClusterStatus_def copy_field_def bind_eq_Some_conv dest: copy_slice_nil)

subsection \<open>Properties\<close>

text \<open>C11. The generated deep copy of a cluster object.  For every well-formed memory and every object that
  can be read in it, \<open>DeepCopy\<close> follows no bad pointer and returns a new object; no existing cell
  changes; the new object has the same value; it keeps that value whatever is later
  written to memory other than the cells the copy allocated; and the original keeps its value
  whatever is later written to those cells.\<close>

theorem DeepCopy_independent:
  assumes "third_party_copiers tp" and "wf_memory m" and "object_value m r = Some v"
  shows "\<exists>b m'. DeepCopy_RavenDBCluster tp m (Some r) = Some (Some b, m') \<and> wf_memory m' \<and>
    cells m \<subseteq>\<^sub>m cells m' \<and> b \<in> allocated m m' \<and>
    (\<forall>m2. (\<forall>x \<in> allocated m m'. cells m2 x = cells m' x) \<longrightarrow> object_value m2 b = Some v) \<and>
    (\<forall>m2. (\<forall>x < brk m. cells m2 x = cells m x) \<longrightarrow> object_value m2 r = Some v)"
proof -
  obtain b m' where b: "DeepCopy_RavenDBCluster tp m (Some r) = Some (Some b, m')" "grows m m'"
    and new: "\<forall>m2. since (brk m) m' \<subseteq>\<^sub>m cells m2 \<longrightarrow> object_value m2 b = Some v"
    and old: "\<forall>m2. cells m \<subseteq>\<^sub>m cells m2 \<longrightarrow> object_value m2 r = Some v"
    by (rule third_party_copiers.copy_of_cluster [OF assms])
  have "object_value m2 b = Some v" if "\<forall>x \<in> allocated m m'. cells m2 x = cells m' x" for m2
    using that by (intro new [rule_format] since_allocated grows_wf [OF b(2)]) simp
  moreover have "object_value m2 r = Some v" if "\<forall>x < brk m. cells m2 x = cells m x" for m2
    using that assms(2) by (intro old [rule_format]) (auto simp: map_le_def wf_memory_iff)
  moreover have "object_value \<lparr>cells = since (brk m) m', brk = brk m'\<rparr> b = Some v" by (intro new [rule_format]) simp
  then have "b \<in> allocated m m'"
    using grows_wf [OF b(2)]
    by (auto simp: object_value_def load_def bind_eq_Some_conv since_def restrict_map_def allocated_def wf_memory_iff
        split: option.splits if_splits)
  ultimately show ?thesis using b grows_wf [OF b(2)] grows_le [OF b(2)] by blast
qed

text \<open>C10. The snapshot of \<open>Reconcile\<close>.  \<open>original := instance.DeepCopy()\<close> succeeds; afterwards the
  assignment of the node statuses and the evaluator, whose helpers write conditions
  through pointers into the slice or append to it in place, succeed, leave the instance with
  exactly the value that \<open>Evaluate\<close> computes on values, and leave the snapshot with the value the
  instance had before.\<close>

theorem reconcile_snapshot:
  assumes "third_party_copiers tp" and "wf_memory m" and "object_at m r c tm v"
  shows "\<exists>original m1 m2. DeepCopy_RavenDBCluster tp m (Some r) = Some (Some original, m1) \<and>
    mem_status_writes grow m1 r nodeStatuses res now = Some m2 \<and>
    object_value m2 r = Some (tm, Evaluate (set_status v (\<lambda>s. s\<lparr>st_Nodes := nodeStatuses\<rparr>)) res now) \<and>
    object_value m2 original = Some (tm, v)"
proof -
  obtain b m1 where b: "DeepCopy_RavenDBCluster tp m (Some r) = Some (Some b, m1)" "grows m m1"
    and new: "\<forall>m2. since (brk m) m1 \<subseteq>\<^sub>m cells m2 \<longrightarrow> object_value m2 b = Some (tm, v)"
    by (rule third_party_copiers.copy_of_cluster [OF assms(1,2) object_value_at [OF assms(3)]])
  have "owned (allocated m m1) m1 r tm v"
    using object_at_grows [OF assms(2,3) b(2)] object_at_wf [OF assms(2,3)] grows_wf [OF b(2)]
    by (fastforce simp: owned_def allocated_def)
  from mem_status_writes_turns [OF this] obtain m2
    where m2: "mem_status_writes grow m1 r nodeStatuses res now = Some m2"
      "owned (allocated m m1) m2 r tm (Evaluate (set_status v (\<lambda>s. s\<lparr>st_Nodes := nodeStatuses\<rparr>)) res now)"
      "\<forall>x \<in> allocated m m1. cells m2 x = cells m1 x"
    unfolding turns_into_def by blast
  have "object_value m2 b = Some (tm, v)"
    using m2(3) by (intro new [rule_format] since_allocated grows_wf [OF b(2)]) simp
  with b(1) m2(1) owned_value [OF m2(2)] show ?thesis by blast
qed

text \<open>C40. \<open>DeepCopyObject\<close> of a list of clusters.  A nil receiver gives the nil interface, never an interface
  that holds a nil pointer; any other receiver gives an object of the list's own type whose value,
  items included, is that of the receiver and rests on newly allocated cells alone.\<close>

theorem DeepCopyObject_typed:
  assumes "third_party_copiers tp" and "wf_memory m"
    and "read_ptr prj_RavenDBClusterList read_RavenDBClusterList (cells m) p = Some w"
  shows "\<exists>ob m'. DeepCopyObject_RavenDBClusterList tp m p = Some (ob, m') \<and> wf_memory m' \<and>
    cells m \<subseteq>\<^sub>m cells m' \<and>
    (case p of
       None \<Rightarrow> ob = NilObject \<and> m' = m
     | Some _ \<Rightarrow> \<exists>b. ob = ClusterListObject b \<and> b \<in> allocated m m' \<and>
         (\<forall>h. (\<forall>x \<in> allocated m m'. h x = cells m' x) \<longrightarrow>
           read_ptr prj_RavenDBClusterList read_RavenDBClusterList h (Some b) = Some w))"
proof (cases p)
  case None
  with assms(2) show ?thesis
    by (simp add: DeepCopyObject_RavenDBClusterList_def DeepCopy_RavenDBClusterList_def copy_ptr_None)
next
  case (Some r)
  obtain q m' where q: "copy_ptr GRavenDBClusterList prj_RavenDBClusterList (DeepCopyInto_RavenDBClusterList tp) m p
        = Some (q, m')" "grows m m'"
      "\<forall>h. since (brk m) m' \<subseteq>\<^sub>m h \<longrightarrow> read_ptr prj_RavenDBClusterList read_RavenDBClusterList h q = Some w"
    using third_party_copiers.list_ptr_independent [OF assms] by blast
  with Some copy_ptr_Some [of _ _ _ m r q m'] obtain b where b: "q = Some b" by blast
  have "read_ptr prj_RavenDBClusterList read_RavenDBClusterList h q = Some w"
    if "\<forall>x \<in> allocated m m'. h x = cells m' x" for h
    using that by (intro q(3) [rule_format] since_allocated grows_wf [OF q(2)]) simp
  moreover have "read_ptr prj_RavenDBClusterList read_RavenDBClusterList (since (brk m) m') q = Some w"
    by (intro q(3) [rule_format]) simp
  then have "b \<in> allocated m m'"
    using grows_wf [OF q(2)]
    by (auto simp: b read_ptr_def load_def bind_eq_Some_conv since_def restrict_map_def allocated_def wf_memory_iff
        split: option.splits if_splits)
  ultimately show ?thesis
    using q b Some grows_wf [OF q(2)] grows_le [OF q(2)]
    by (simp add: DeepCopyObject_RavenDBClusterList_def DeepCopy_RavenDBClusterList_def)
qed

subsection \<open>Witnesses\<close>

definition sample_object :: mRavenDBCluster where
  "sample_object =
     \<lparr>mc_TypeMeta = \<lparr>tm_Kind = ''RavenDBCluster'', tm_APIVersion = ''ravendb.ravendb.io/v1''\<rparr>,
      mc_ObjectMeta = \<lparr>mo_Name = ''sample'', mo_Namespace = ''ravendb'', mo_UID = ''uid-1'', mo_Generation = 1,
        mo_Annotations = None\<rparr>,
      mc_Spec = \<lparr>ms_Image = ''img'', ms_ImagePullPolicy = ''IfNotPresent'', ms_Mode = ModeLetsEncrypt,
        ms_Email = Some 3, ms_LicenseSecretRef = ''license'', ms_ClusterCertSecretRef = None,
        ms_Domain = ''domain'', ms_Nodes = Some \<lparr>sl_array = 1, sl_off = 0, sl_len = 2, sl_cap = 2\<rparr>,
        ms_Env = Some 4, ms_ExternalAccessConfiguration = None,
        ms_StorageSpec = \<lparr>mss_Data = \<lparr>mv_Size = ''10Gi'', mv_StorageClassName = None, mv_AccessModes = None,
          mv_VolumeAttributesClassName = None\<rparr>, mss_Logs = None, mss_AdditionalVolumes = None\<rparr>,
        ms_ClientCertSecretRef = ''client'', ms_CACertSecretRef = None\<rparr>,
      mc_Status = \<lparr>mst_Phase = '''', mst_Message = '''', mst_ObservedGeneration = 0, mst_Nodes = None,
        mst_Conditions = Some \<lparr>sl_array = 5, sl_off = 0, sl_len = 1, sl_cap = 2\<rparr>\<rparr>\<rparr>"

definition sample_ready :: Condition where
  "sample_ready = \<lparr>c_Type = ConditionReady, c_Status = ConditionFalse, c_Reason = ReasonCompleted,
     c_Message = '''', c_LastTransitionTime = 7\<rparr>"

definition sample_memory :: mem where
  "sample_memory =
     \<lparr>cells = [0 \<mapsto> One (GRavenDBCluster sample_object),
        1 \<mapsto> Many [GRavenDBNode \<lparr>mn_Tag = ''a'', mn_PublicServerUrl = ''u'', mn_PublicServerUrlTcp = ''t'',
                    mn_CertSecretRef = Some 2\<rparr>,
                  GRavenDBNode \<lparr>mn_Tag = ''b'', mn_PublicServerUrl = ''u'', mn_PublicServerUrlTcp = ''t'',
                    mn_CertSecretRef = None\<rparr>],
        2 \<mapsto> One (GString ''cert-a''), 3 \<mapsto> One (GString ''user@ravendb.net''), 4 \<mapsto> One (GMap [(''k'', ''v'')]),
        5 \<mapsto> Many [GCondition sample_ready, GCondition zero_condition],
        6 \<mapsto> One (GRavenDBClusterList \<lparr>mcl_TypeMeta = \<lparr>tm_Kind = ''RavenDBClusterList'', tm_APIVersion = ''v1''\<rparr>,
          mcl_ListMeta = \<lparr>ml_ResourceVersion = ''1'', ml_Continue = '''', ml_RemainingItemCount = None\<rparr>,
          mcl_Items = Some \<lparr>sl_array = 7, sl_off = 0, sl_len = 1, sl_cap = 1\<rparr>\<rparr>),
        7 \<mapsto> Many [GRavenDBCluster sample_object]],
      brk = 8\<rparr>"

definition sample_value :: RavenDBCluster where
  "sample_value = \<lparr>Name = ''sample'', Namespace = ''ravendb'', UID = ''uid-1'', Generation = 1,
     Annotations = Map.empty,
     Spec = \<lparr>s_Image = ''img'', s_ImagePullPolicy = ''IfNotPresent'', s_Mode = ModeLetsEncrypt,
       s_Email = Some ''user@ravendb.net'', s_LicenseSecretRef = ''license'', s_ClusterCertSecretRef = None,
       s_Domain = ''domain'',
       s_Nodes = [\<lparr>n_Tag = ''a'', n_PublicServerUrl = ''u'', n_PublicServerUrlTcp = ''t'', n_CertSecretRef = Some ''cert-a''\<rparr>,
                  \<lparr>n_Tag = ''b'', n_PublicServerUrl = ''u'', n_PublicServerUrlTcp = ''t'', n_CertSecretRef = None\<rparr>],
       s_Env = [(''k'', ''v'')], s_ExternalAccessConfiguration = None,
       s_StorageSpec = \<lparr>ss_Data = \<lparr>v_Size = ''10Gi'', v_StorageClassName = None, v_AccessModes = None,
         v_VolumeAttributesClassName = None\<rparr>, ss_Logs = None, ss_AdditionalVolumes = None\<rparr>,
       s_ClientCertSecretRef = ''client'', s_CACertSecretRef = None\<rparr>,
     Status = \<lparr>st_Phase = '''', st_Message = '''', st_ObservedGeneration = 0, st_Nodes = [],
       st_Conditions = [sample_ready]\<rparr>\<rparr>"

lemmas heap_readers = reader_defs read_map_def read_gomap_def read_ptr_def read_slice_def load_def elems_def
  read_entries_def plain_def

lemma sample_memory_wf: "wf_memory sample_memory"
  by (simp add: wf_memory_def sample_memory_def)

lemma sample_object_at:
  "object_at sample_memory 0 sample_object (mc_TypeMeta sample_object) sample_value"
  by (simp add: object_at_def sample_memory_def sample_object_def sample_value_def footprint_def no_conditions_def
      bare_def set_status_def heap_readers)

lemma sample_list_read:
  "read_ptr prj_RavenDBClusterList read_RavenDBClusterList (cells sample_memory) (Some 6) =
     Some (Some (\<lparr>tm_Kind = ''RavenDBClusterList'', tm_APIVersion = ''v1''\<rparr>, (''1'', '''', None),
       [(mc_TypeMeta sample_object, sample_value)]))"
  using object_at_read [OF sample_object_at]
  by (simp add: read_ptr_def load_def read_RavenDBClusterList_def read_slice_def elems_def plain_def read_ListMeta_def)
    (simp add: sample_memory_def read_ptr_def elems_def)

theorem DeepCopy_independent_witness:
  "\<exists>b m'. DeepCopy_RavenDBCluster k8s_copiers sample_memory (Some 0) = Some (Some b, m') \<and> 8 \<le> b \<and>
     object_value m' b = Some (mc_TypeMeta sample_object, sample_value) \<and>
     object_value \<lparr>cells = (cells m')(0 := None, 2 := None, 5 := None), brk = brk m'\<rparr> b =
       Some (mc_TypeMeta sample_object, sample_value)"
proof -
  obtain b m' where d: "DeepCopy_RavenDBCluster k8s_copiers sample_memory (Some 0) = Some (Some b, m')"
      "b \<in> allocated sample_memory m'"
      "\<forall>m2. (\<forall>x \<in> allocated sample_memory m'. cells m2 x = cells m' x) \<longrightarrow>
         object_value m2 b = Some (mc_TypeMeta sample_object, sample_value)"
    using DeepCopy_independent [OF k8s.third_party_copiers_axioms sample_memory_wf object_value_at [OF sample_object_at]]
    by blast
  have "brk sample_memory = 8" by (simp add: sample_memory_def)
  with d show ?thesis by (auto simp: allocated_def)
qed

theorem reconcile_snapshot_witness:
  "\<exists>original m1 m2. DeepCopy_RavenDBCluster k8s_copiers sample_memory (Some 0) = Some (Some original, m1) \<and>
     mem_status_writes (\<lambda>n. n) m1 0 [] None 9 = Some m2 \<and>
     object_value m2 0 = Some (mc_TypeMeta sample_object,
       Evaluate (set_status sample_value (\<lambda>s. s\<lparr>st_Nodes := []\<rparr>)) None 9) \<and>
     object_value m2 original = Some (mc_TypeMeta sample_object, sample_value)"
  by (rule reconcile_snapshot [OF k8s.third_party_copiers_axioms sample_memory_wf sample_object_at])

theorem DeepCopyObject_typed_witness:
  "(\<exists>b m'. DeepCopyObject_RavenDBClusterList k8s_copiers sample_memory (Some 6) = Some (ClusterListObject b, m')) \<and>
   DeepCopyObject_RavenDBClusterList k8s_copiers sample_memory None = Some (NilObject, sample_memory)"
  using DeepCopyObject_typed [OF k8s.third_party_copiers_axioms sample_memory_wf sample_list_read]
    DeepCopyObject_typed [OF k8s.third_party_copiers_axioms sample_memory_wf, of None None]
  by (auto simp: read_ptr_def)

end
