(* ===== verification/Spec2Isabelle.thy ===== *)
theory Spec2Isabelle
  imports Process Snapshot
begin

text \<open>
  Verification of the RavenDB Kubernetes operator (\<open>ravendb-operator\<close>, written in Go).

  \<^bold>\<open>The program.\<close>  A user describes a RavenDB cluster as a resource of kind \<open>RavenDBCluster\<close>.  An admission webhook checks every created or
  updated resource.  A controller reconciles it: actors, ordered by a director, build the Kubernetes objects of the cluster and send them to the API server
  by server-side apply; an upgrader selects one node per reconcile, guards a change of its image by health gates asked over HTTPS, and marks the node by an
  annotation while its upgrade is in flight; a collector lists what exists, and an evaluator turns it into conditions, a phase and a message, which
  the controller writes to the status of the resource and reports as events.

  \<^bold>\<open>Theories, in the order of the imports, and the code they model\<close> (paths under \<open>src/\<close>).
  \<^item> \<open>Prelude\<close>: strings, \<open>strconv\<close> and quoting as the Go library defines them, 32-bit integers; \<open>GoNet\<close>: \<open>net/url\<close>, \<open>net.SplitHostPort\<close>, IP addresses;
    \<open>GoTime\<close>: durations of 64 bits with their parser and printer, UTF-8; \<open>GoFlag\<close>: the parser of command lines.  \<open>K8sTypes\<close>: the API objects, restricted to the fields the operator uses.
  \<^item> \<open>ApiTypes\<close>, \<open>StatusConditions\<close>, \<open>Getters\<close>: \<open>api/v1\<close> (types, constants, status helpers, getters of the webhook).  \<open>SampleCluster\<close>: a cluster for the witnesses.
  \<^item> \<open>Collector\<close>, \<open>Evaluator\<close>: \<open>pkg/health\<close>.
  \<^item> \<open>GoMemory\<close>, \<open>ApiMemory\<close>, \<open>DeepCopy\<close>: Go's memory with pointers, slices and maps, the API types in it, and the generated \<open>api/v1/zz_generated.deepcopy.go\<close>;
    \<open>StatusMemory\<close>, \<open>Snapshot\<close>: the status helpers and the evaluator as they write through pointers, and the snapshot of \<open>Reconcile\<close>.
  \<^item> \<open>Validators\<close>, \<open>GeneralValidator\<close>, \<open>NodeValidator\<close>, \<open>NodeUrls\<close>, \<open>ImageValidator\<close>, \<open>EaStorageValidators\<close>: \<open>pkg/webhook/validator\<close>; \<open>Webhook\<close>: the registries,
    the dispatcher and the mutators of \<open>pkg/webhook\<close> and the entry points of \<open>api/v1/webhook.go\<close>.
  \<^item> \<open>Common\<close>, \<open>StatefulSetBuilder\<close>, \<open>NetworkBuilders\<close>, \<open>JobBuilder\<close>: \<open>pkg/common\<close> and \<open>pkg/resource\<close>.
  \<^item> \<open>Env\<close>: what is outside of the process, as parameters.  \<open>Actors\<close>: \<open>pkg/actor\<close>, \<open>pkg/director\<close>, \<open>pkg/scripts\<close>.
  \<^item> \<open>Gates\<close>, \<open>Wait\<close>, \<open>HttpClient\<close>, \<open>Upgrader\<close>: \<open>pkg/upgrade\<close>; \<open>UpgradeSafety\<close> and \<open>UpgradeProgress\<close> prove what a tick of the upgrader does.
  \<^item> \<open>Controller\<close>: \<open>internal/controller\<close>; \<open>Rollout\<close>, \<open>RolloutMachine\<close>, \<open>Exclusion\<close> and \<open>Recovery\<close> prove what sequences of reconciles do.  \<open>Process\<close>: \<open>cmd/main.go\<close> and the watches.
  \<^item> This theory: properties that span the webhook and the controller.

  \<^bold>\<open>State and effects.\<close>  A Go struct is a record, an enumeration of strings a set of string constants, a pointer that may be nil an option, a map whose order
  matters an association list.  Code that returns an error returns an option or a sum; a nil dereference or an index out of range is \<open>None\<close> of an
  outer option (\<open>Panic\<close>).  Code that talks to the outside takes and returns a \<open>history\<close>, the list of its requests so far (\<open>Env.request\<close>: reads, applies, patches,
  HTTP requests, sleeps, readings of the clock, events), and \<open>Env\<close> answers every request as a function of the history before it.  So a statement that holds
  for all environments holds for every behaviour of the API server, the network, the clock and the nodes; the order of the effects is the order of the history.
  Repeated reconciles thread the history (\<open>Rollout.reconcile_loop\<close>), reconciles that may be cut short by the end of the process are a step relation
  (\<open>Exclusion.operator_run\<close>), versions of a resource form a step relation (\<open>Webhook.admitted\<close>, where the objects the webhook reads may differ from one request to the next), the retries of a wait another
  (\<open>Wait.retries\<close>).  All of this works on values: a resource is a record and \<open>DeepCopy\<close> the identity.  The theories on memory justify it: there an object is a cell with
  addresses and slice headers, \<open>read_RavenDBCluster\<close> gives its value, the deep copies return a copy with the same value in fresh cells, and a helper that
  writes the instance in place does to its value what the function on values does.

  \<^bold>\<open>Loops.\<close>  Loops over lists are structural recursions.  The wait loop of the gates has no bound in the code; it is a \<open>partial_function\<close> into option, and
  \<open>wait_gates_return\<close> proves that it returns, with the number of polls bounded by the maximal wait over the shortest sleep, because the clock advances by every sleep
  (\<open>clock_ok\<close>).  No definition uses fuel.

  \<^bold>\<open>What the lemmas show.\<close>
  \<^item> Admission: when each validator accepts, in terms of predicates on the specification; what every version of an admitted resource satisfies; updates of the image
    are accepted exactly if the version does not go back, in the numeric order of its three parts; which panics are possible.
  \<^item> Builders: when they are total, and that the names, labels, ports, volumes and hosts of the built objects agree with each other.
  \<^item> Status: a condition store (locale \<open>condition_store\<close>) with its laws; readiness and phase as functions of the facts; evaluation is idempotent.
  \<^item> Memory: every generated copy is a \<open>deep_copier\<close> (locales \<open>deep_copier\<close>, \<open>heap_copier\<close>, interpreted on each type); a copy is equal and independent
    (\<open>DeepCopy_independent\<close>, \<open>DeepCopyObject_typed\<close>); the evaluator in memory refines the one on values and leaves the snapshot alone (\<open>reconcile_snapshot\<close>).
  \<^item> Actors: an actor of a node changes only the objects of this node (locale \<open>node_actor\<close>); an actor of the cluster is the application of a list of
    objects, in order and up to the first failure (locale \<open>cluster_actor\<close>, \<open>ExecutePerCluster_order\<close>); the image of a running node is kept unless it is
    marked.
  \<^item> Gates: exactly when each passes; the wait around them (locale \<open>gate_poll\<close>) is sound, polls only, and ends.
  \<^item> Upgrader: the selection refines its specification \<open>pick_spec\<close>; a tick works on one node, marks it only after its gates passed, removes every mark it sets,
    returns, and with healthy gates finishes the upgrade.
  \<^item> Controller: a reconcile changes at most one node and writes the status at most once; a settled cluster is left alone; at no moment are two nodes marked
    (\<open>one_upgrade_at_a_time\<close>); a reconcile refines one step of an abstract machine on the states of the
    nodes (\<open>Reconcile_refines\<close>, \<open>rollout_step\<close>); a rollout converges (\<open>rollout_converges\<close>), also after the process was killed (\<open>rollout_recovers\<close>); whatever the webhook admits at creation can be reconciled.
  \<^item> Process: the start-up from the command line (\<open>main_starts_iff\<close>) and what the work queue learns of a failed tick.

  \<^bold>\<open>Hypotheses\<close> on the parameters, each with an environment that satisfies it: \<open>clock_ok\<close> (the clock does not run backwards and advances by every sleep), \<open>names_ok\<close> (a read returns
  the object it asks for), \<open>owner_ref_ok\<close> (\<open>SetControllerReference\<close> keeps names, labels and annotations), \<open>view_of\<close> and \<open>sts_frame\<close> (an object changes only if it is
  written), \<open>api_server\<close> (an apply and a merge patch, which carries the difference of two versions, have their documented effect on the image and the mark), \<open>requests_succeed\<close>, \<open>healthy_gates\<close>, \<open>quantities_ok\<close> (the quantity
  parser accepts what the schema of the resource allows), \<open>third_party_copiers\<close> (the \<open>DeepCopyInto\<close> methods of \<open>metav1\<close> and \<open>corev1\<close> are deep copies).  \<open>tags_ok\<close> and \<open>lower_tags\<close> ask for node tags that differ in more than case, or are lower case: the webhook
  does not check this.  Implicit in \<open>Env\<close>: every request is answered, with a value or an error.  The HTTPS client of the gates has no timeout in the code, so a node that
  accepts a connection and never answers is outside of what the statements on termination cover.

  \<^bold>\<open>Not modelled, and why.\<close>  JSON, PKCS 12, X.509 and TLS, the HTTP transport, the quantity parser and the Kubernetes client are libraries and are parameters; the lists of one
  collection are taken from one state of the API server.  Case folding is that of ASCII.  Nil and empty slices or maps are identified, except where the code
  tells them apart.  The range order of a map is part of the map object, and a copy keeps it.  The registration of types in a scheme, logging, the flags of zap and controller-runtime, the work queue
  and the manager are libraries.  The embedded shell scripts are opaque texts.  \<open>sidecar.go\<close> is a commented-out type, and \<open>test/utils\<close>
  supports the end-to-end tests.
\<close>

subsection \<open>From admission to reconciliation\<close>

text \<open>What the schema of the resource (the markers of \<open>api/v1\<close>) asks for beyond the webhook, as far as the operator relies on
  it: one of the two modes, and sizes that match \<open>^\d+(Ei|Pi|Ti|Gi|Mi|Ki)$\<close>.\<close>

definition size_pattern :: "string \<Rightarrow> bool" where
  "size_pattern s \<longleftrightarrow>
     (let k = length s - 2
      in 0 < k \<and> list_all is_digit (take k s) \<and> drop k s \<in> {''Ei'', ''Pi'', ''Ti'', ''Gi'', ''Mi'', ''Ki''})"

definition schema_ok :: "RavenDBCluster \<Rightarrow> bool" where
  "schema_ok c \<longleftrightarrow> s_Mode (Spec c) \<in> {ModeLetsEncrypt, ModeNone} \<and> list_all (\<lambda>(n, v). size_pattern (v_Size v)) (claim_specs c)"

text \<open>The quantity parser accepts such sizes.\<close>

definition quantities_ok :: "(string \<Rightarrow> string option) \<Rightarrow> bool" where
  "quantities_ok pq \<longleftrightarrow> (\<forall>s. size_pattern s \<longrightarrow> pq s \<noteq> None)"

lemma checked_reconcilable:
  assumes "general_ok rd c" "node_ok rd c" "ea_ok c" "schema_ok c" "quantities_ok pq"
  shows "reconcilable pq c"
proof -
  have "list_all (\<lambda>(n, v). pq (v_Size v) \<noteq> None) (claim_specs c)"
    using assms(4,5) by (fastforce simp: schema_ok_def quantities_ok_def list_all_iff)
  moreover have "list_all (\<lambda>n. n_CertSecretRef n \<noteq> None) (s_Nodes (Spec c))" if "s_Mode (Spec c) = ModeLetsEncrypt"
    using assms(2) that by (fastforce simp: node_ok_def node_cert_ok_def GetMode_def list_all_iff)
  moreover have "s_Email (Spec c) \<noteq> None" if "s_Mode (Spec c) = ModeLetsEncrypt"
    using assms(1) that by (auto simp: general_ok_def GetEmail_def GetMode_def split: option.splits)
  moreover have "s_ClusterCertSecretRef (Spec c) \<noteq> None \<and> s_CACertSecretRef (Spec c) \<noteq> None" if "s_Mode (Spec c) = ModeNone"
    using assms(1) that by (auto simp: general_ok_def GetClusterCertsSecretRef_def GetCACertSecretRef_def GetMode_def ModeNone_def ModeLetsEncrypt_def split: option.splits)
  moreover have "s_Nodes (Spec c) \<noteq> []" using assms(2) by (simp add: node_ok_def)
  moreover have "case s_ExternalAccessConfiguration (Spec c) of None \<Rightarrow> True
      | Some ea \<Rightarrow> (ea_Type ea = ExternalAccessTypeAWS \<longrightarrow> ea_AWSExternalAccess ea \<noteq> None) \<and>
          (ea_Type ea = ExternalAccessTypeIngressController \<longrightarrow> ea_IngressControllerExternalAccess ea \<noteq> None)"
    using assms(3)
    by (auto simp: ea_ok_def ExternalAccessTypeAWS_def ExternalAccessTypeAzure_def ExternalAccessTypeIngressController_def split: option.splits)
  ultimately show ?thesis using assms(4) by (auto simp: reconcilable_def schema_ok_def)
qed

text \<open>C7. What the webhook admits at creation, the operator can run.  If the creation of a cluster is accepted, every reconcile of
  that specification returns, with a result or an error: no builder follows a nil pointer, no quantity fails to parse and no wait
  goes on for ever, whatever the API server and the nodes answer.\<close>

theorem created_cluster_reconciles:
  assumes "webhook_ValidateCreate rd c = Some []" "distinct (map fst (GetEnv c))" "schema_ok c"
    and "quantities_ok (e_parseQuantity env)" "clock_ok env"
    and "\<forall>c'. e_GetCluster env h ns name = Inr c' \<longrightarrow> Spec c' = Spec c"
  shows "\<exists>res err r' h'. Reconcile main_reconciler env ns name h = Some ((res, err), r', h')"
proof (rule Reconcile_total [OF assms(5)])
  fix c'
  assume "e_GetCluster env h ns name = Inr c'"
  with assms(6) have "Spec c' = Spec c" by simp
  have "general_ok rd c" "node_ok rd c" "ea_ok c"
    using assms(1) by (simp_all add: webhook_create_parts general_accept [OF assms(2)] node_accept ea_accept)
  from checked_reconcilable [OF this assms(3,4)] show "reconcilable (e_parseQuantity env) c'"
    using reconcilable_spec [OF \<open>Spec c' = Spec c\<close>] by simp
qed

text \<open>C26. What the webhook admits on an update, the operator may not be able to run: the checks of the email, the cluster
  certificate and the CA certificate are made only at creation.  Dropping the email of a Let's Encrypt cluster is accepted, and
  then no StatefulSet can be built: the callback of the upgrader panics on every node.\<close>

theorem update_may_drop_email:
  "\<exists>c c'. admitted {sample_reader} c c' \<and> s_Mode (Spec c') = ModeLetsEncrypt \<and> s_Email (Spec c') = None \<and>
     (\<forall>env n h. ExecutePerNode NewDefaultDirector env c' n h = None)"
proof -
  let ?c = "sample_cluster image_713" and ?c' = "(sample_cluster image_713)\<lparr>Spec := (sample_spec image_713)\<lparr>s_Email := None\<rparr>\<rparr>"
  have "webhook_ValidateUpdate sample_reader ?c' ?c = Some []" by code_simp
  moreover have "distinct (map fst (GetEnv ?c'))" by (simp add: GetEnv_def sample_defs)
  ultimately have "admitted {sample_reader} ?c ?c'"
    by (intro admitted_updated [OF admitted_created [OF sample_created _ sample_env]]) simp_all
  moreover have "BuildStatefulSet pq ?c' n = None" for pq n
    using BuildStatefulSet_total [of pq ?c' n] by (simp add: sample_defs ModeLetsEncrypt_def ModeNone_def)
  then have "ExecutePerNode NewDefaultDirector env ?c' n h = None" for env n h
    by (simp add: ExecutePerNode_def NewDefaultDirector_def StatefulSetActor_Act_def)
  ultimately show ?thesis by (intro exI conjI allI) (auto simp: sample_defs)
qed

text \<open>Of the client secrets the webhook admits, those with one entry of any name that ends in \<open>.pfx\<close>, the HTTPS client can use only
  the ones whose entry is called \<open>client.pfx\<close>, and it opens them with the empty password: a secret that holds a password is not admitted.\<close>

lemma client_secret_contract:
  assumes "general_ok rd c" "GetSecretObj rd ''ravendb'' (GetClientCertSecretRef c) = Inr s"
    and "e_GetSecret env h (Namespace c) (s_ClientCertSecretRef (Spec c)) = Inr s"
    and "BuildHTTPSClientFromCluster env c h = Some (Inr cl, h')"
  shows "\<exists>pfx blocks. sec_Data s = [(clientPFXKey, pfx)] \<and> e_ToPEM env pfx '''' = Inr blocks"
proof -
  from assms(1,2) obtain k v where d: "sec_Data s = [(k, v)]" by (auto simp: general_ok_def single_key_secret_def)
  from assms(4) obtain pair where "loadClientPair env s = Inr pair"
    by (auto simp: BuildHTTPSClientFromCluster_def Let_def get_secret_def assms(3) split: sum.split_asm)
  then show ?thesis by (auto simp: loadClientPair_cert d clientPFXKey_def clientPwdKey_def split: if_split_asm)
qed

subsection \<open>Witnesses\<close>

theorem created_cluster_reconciles_witness:
  "\<exists>res err r' h'. Reconcile main_reconciler
     ((reconcile_env (sample_cluster image_713))\<lparr>e_parseQuantity := \<lambda>s. if size_pattern s then Some s else None\<rparr>) ''ravendb'' ''x'' [] =
       Some ((res, err), r', h')"
proof (rule created_cluster_reconciles [OF sample_created sample_env])
  let ?env = "(reconcile_env (sample_cluster image_713))\<lparr>e_parseQuantity := \<lambda>s. if size_pattern s then Some s else None\<rparr>"
  show "schema_ok (sample_cluster image_713)"
    by (simp add: schema_ok_def claim_specs_def logs_raven_def logs_audit_def sample_defs size_pattern_def is_digit_def)
  show "quantities_ok (e_parseQuantity ?env)" by (simp add: quantities_ok_def)
  show "clock_ok ?env" using reconcile_env_ok(1) [of "sample_cluster image_713"] by (simp add: clock_ok_def)
  show "\<forall>c'. e_GetCluster ?env [] ''ravendb'' ''x'' = Inr c' \<longrightarrow> Spec c' = Spec (sample_cluster image_713)"
    by (simp add: reconcile_env_def)
qed

end
